(* ===== verification/Prelude.thy ===== *)
theory Prelude
  imports Main "HOL-Library.Word" "HOL-Library.Signed_Division"
begin

text \<open>
  Shared vocabulary of the development: the effect type of a Go function, the errors
  it returns, 64-bit integers with Go's truncating division, and the lemmas that carry
  the component proofs.

  A Go function that talks to the outside is a value of type \<open>('w, 'a) go\<close>: it takes
  the state \<open>'w\<close> of everything it can reach and either does not return (\<open>None\<close>) or
  ends, by returning a value (\<open>Ret\<close>) or by a run-time panic (\<open>Panic\<close>), in a new
  state. A Go result \<open>(T, error)\<close> is the sum \<open>error + 'a\<close> with the error on the left.
\<close>

named_theorems go_simps \<open>evaluation of the effect combinators\<close>
named_theorems go_ret \<open>inversion of a call that returned a value\<close>

section \<open>Errors\<close>

text \<open>The status codes of google.golang.org/grpc/codes that the program uses.\<close>

datatype code = Canceled | Unknown | InvalidArgument | DeadlineExceeded | NotFound
  | AlreadyExists | Aborted | FailedPrecondition | Unimplemented | Internal | Unavailable

fun code_name :: "code \<Rightarrow> string" where
  "code_name Canceled = ''Canceled''"
| "code_name Unknown = ''Unknown''"
| "code_name InvalidArgument = ''InvalidArgument''"
| "code_name DeadlineExceeded = ''DeadlineExceeded''"
| "code_name NotFound = ''NotFound''"
| "code_name AlreadyExists = ''AlreadyExists''"
| "code_name Aborted = ''Aborted''"
| "code_name FailedPrecondition = ''FailedPrecondition''"
| "code_name Unimplemented = ''Unimplemented''"
| "code_name Internal = ''Internal''"
| "code_name Unavailable = ''Unavailable''"

text \<open>
  \<open>StatusError\<close> is \<open>status.Error(code, msg)\<close>, \<open>PlainError\<close> is \<open>errors.New\<close> or
  \<open>fmt.Errorf\<close> without a wrapped cause, \<open>WrapError\<close> is \<open>fmt.Errorf("...%w", err)\<close>. A
  message is the text the code writes; where the code also prints a whole request or
  response structure into it, that print-out is left out.
\<close>

datatype error = StatusError code string | PlainError string | WrapError string error

fun error_text :: "error \<Rightarrow> string" where
  "error_text (StatusError c m) = ''rpc error: code = '' @ code_name c @ '' desc = '' @ m"
| "error_text (PlainError m) = m"
| "error_text (WrapError m e) = m @ error_text e"

text \<open>The code a client sees: gRPC reports an error that is no status as \<open>Unknown\<close>.\<close>

fun error_code :: "error \<Rightarrow> code" where
  "error_code (StatusError c m) = c"
| "error_code (PlainError m) = Unknown"
| "error_code (WrapError m e) = Unknown"

section \<open>Effects\<close>

datatype 'a outcome = Ret 'a | Panic

type_synonym ('w, 'a) go = "'w \<Rightarrow> ('a outcome \<times> 'w) option"

definition ret :: "'a \<Rightarrow> ('w, 'a) go" where
  "ret x w = Some (Ret x, w)"

definition panic :: "('w, 'a) go" where
  "panic w = Some (Panic, w)"

text \<open>An external call: it always ends, with a value and a new state.\<close>

definition call :: "('w \<Rightarrow> 'a \<times> 'w) \<Rightarrow> ('w, 'a) go" where
  "call f w = Some (Ret (fst (f w)), snd (f w))"

definition bnd :: "('w, 'a) go \<Rightarrow> ('a \<Rightarrow> ('w, 'b) go) \<Rightarrow> ('w, 'b) go" where
  "bnd m f w = (case m w of
      None \<Rightarrow> None
    | Some (Panic, w') \<Rightarrow> Some (Panic, w')
    | Some (Ret x, w') \<Rightarrow> f x w')"

text \<open>\<open>x, err := m; if err != nil { return nil, h err }\<close>, then \<open>f x\<close>.\<close>

definition bndE :: "('w, error + 'a) go \<Rightarrow> (error \<Rightarrow> error) \<Rightarrow> ('a \<Rightarrow> ('w, error + 'b) go)
    \<Rightarrow> ('w, error + 'b) go" where
  "bndE m h f = bnd m (\<lambda>r. case r of Inl e \<Rightarrow> ret (Inl (h e)) | Inr x \<Rightarrow> f x)"

text \<open>Reading through a pointer: a nil pointer panics.\<close>

definition deref :: "'a option \<Rightarrow> ('w, 'a) go" where
  "deref p = (case p of None \<Rightarrow> panic | Some x \<Rightarrow> ret x)"

text \<open>\<open>return nil, status.Error(c, m)\<close>.\<close>

definition fails :: "code \<Rightarrow> string \<Rightarrow> ('w, error + 'a) go" where
  "fails c m = ret (Inl (StatusError c m))"

lemma ret_app [simp, go_simps]: "ret x w = Some (Ret x, w)"
  by (simp add: ret_def)

lemma panic_app [simp, go_simps]: "panic w = Some (Panic, w)"
  by (simp add: panic_def)

lemma call_app [simp, go_simps]: "call f w = Some (Ret (fst (f w)), snd (f w))"
  by (simp add: call_def)

lemma fails_app [simp, go_simps]: "fails c m w = Some (Ret (Inl (StatusError c m)), w)"
  by (simp add: fails_def)

lemma deref_Some [simp, go_simps]: "deref (Some x) = ret x"
  by (simp add: deref_def)

lemma deref_None [simp, go_simps]: "deref None = panic"
  by (simp add: deref_def)

lemma bnd_None [go_simps]: "m w = None \<Longrightarrow> bnd m f w = None"
  by (simp add: bnd_def)

lemma bnd_Panic [go_simps]: "m w = Some (Panic, w') \<Longrightarrow> bnd m f w = Some (Panic, w')"
  by (simp add: bnd_def)

lemma bnd_Ret [go_simps]: "m w = Some (Ret x, w') \<Longrightarrow> bnd m f w = f x w'"
  by (simp add: bnd_def)

lemma bndE_Inl [go_simps]: "m w = Some (Ret (Inl e), w') \<Longrightarrow> bndE m h f w = Some (Ret (Inl (h e)), w')"
  by (simp add: bndE_def bnd_def)

lemma bndE_Inr [go_simps]: "m w = Some (Ret (Inr x), w') \<Longrightarrow> bndE m h f w = f x w'"
  by (simp add: bndE_def bnd_def)

lemma bndE_None [go_simps]: "m w = None \<Longrightarrow> bndE m h f w = None"
  by (simp add: bndE_def bnd_def)

lemma bndE_Panic [go_simps]: "m w = Some (Panic, w') \<Longrightarrow> bndE m h f w = Some (Panic, w')"
  by (simp add: bndE_def bnd_def)

text \<open>
  Inversion: a sequence that returned a value has returned from each of its parts.
  These are equivalences, so they take a handler apart from the outside in.
\<close>

lemma bnd_Ret_iff [go_ret]:
  "bnd m f w = Some (Ret y, w') \<longleftrightarrow> (\<exists>x w1. m w = Some (Ret x, w1) \<and> f x w1 = Some (Ret y, w'))"
  by (auto simp: bnd_def split: option.splits outcome.splits)

lemma bndE_Inr_iff [go_ret]:
  "bndE m h f w = Some (Ret (Inr y), w') \<longleftrightarrow>
     (\<exists>x w1. m w = Some (Ret (Inr x), w1) \<and> f x w1 = Some (Ret (Inr y), w'))"
  by (auto simp: bndE_def bnd_Ret_iff split: sum.splits) (metis Inl_Inr_False sum.exhaust_sel)+

lemma bndE_Inl_iff [go_ret]:
  "bndE m h f w = Some (Ret (Inl e), w') \<longleftrightarrow>
     (\<exists>d. m w = Some (Ret (Inl d), w') \<and> e = h d) \<or>
     (\<exists>x w1. m w = Some (Ret (Inr x), w1) \<and> f x w1 = Some (Ret (Inl e), w'))"
  by (auto simp: bndE_def bnd_def split: option.splits outcome.splits sum.splits)

lemma deref_Ret_iff [go_ret]: "deref p w = Some (Ret x, w') \<longleftrightarrow> p = Some x \<and> w' = w"
  by (cases p) auto

text \<open>A call that comes back, and so does a sequence of such calls.\<close>

definition returns :: "('w, 'a) go \<Rightarrow> 'w \<Rightarrow> bool" where
  "returns m w \<longleftrightarrow> (\<exists>r w'. m w = Some (r, w'))"

lemma returns_bnd: "returns m w \<Longrightarrow> (\<And>x w1. returns (f x) w1) \<Longrightarrow> returns (bnd m f) w"
  by (auto simp: returns_def bnd_def split: outcome.split)

lemma returns_bndE: "returns m w \<Longrightarrow> (\<And>x w1. returns (f x) w1) \<Longrightarrow> returns (bndE m h f) w"
  unfolding bndE_def by (rule returns_bnd) (auto simp: returns_def split: sum.split)

lemma returns_basic: "returns (ret x) w" "returns panic w" "returns (call f) w" "returns (fails c m) w"
  by (simp_all add: returns_def)

lemma returns_deref: "returns (deref p) w"
  by (cases p) (simp_all add: returns_def)

lemmas returnsI = returns_bnd returns_bndE returns_basic returns_deref

text \<open>The ways a call that returns \<open>(*T, error)\<close> can end.\<close>

lemma go_opt_cases:
  fixes res :: "((error + 'a option) outcome \<times> 'w) option"
  obtains (forever) "res = None" | (panics) u where "res = Some (Panic, u)"
  | (err) e u where "res = Some (Ret (Inl e), u)" | (nil) u where "res = Some (Ret (Inr None), u)"
  | (found) y u where "res = Some (Ret (Inr (Some y)), u)"
proof (cases res)
  case (Some p)
  then obtain out u where p: "res = Some (out, u)" by (cases p) simp
  show thesis
  proof (cases out)
    case (Ret r)
    with p that show thesis by (cases r) (metis option.exhaust)+
  qed (use p that in simp)
qed (use that in simp)

text \<open>A computation that leaves part of the state alone.\<close>

definition keeps :: "('w \<Rightarrow> 'v) \<Rightarrow> ('w, 'a) go \<Rightarrow> bool" where
  "keeps v m \<longleftrightarrow> (\<forall>w r w'. m w = Some (r, w') \<longrightarrow> v w' = v w)"

lemma keeps_ret [intro, simp]: "keeps v (ret x)"
  by (simp add: keeps_def)

lemma keeps_end [intro, simp]: "keeps v (\<lambda>w. Some (r, w))"
  by (simp add: keeps_def)

lemma keeps_panic [intro, simp]: "keeps v panic"
  by (simp add: keeps_def)

lemma keeps_fails [intro, simp]: "keeps v (fails c m)"
  by (simp add: keeps_def)

lemma keeps_deref [intro, simp]: "keeps v (deref p)"
  by (cases p) auto

lemma keeps_bnd [intro]:
  assumes "keeps v m" and "\<And>x. keeps v (f x)"
  shows "keeps v (bnd m f)"
  using assms unfolding keeps_def bnd_def
  by (fastforce split: option.splits outcome.splits)

lemma keeps_bndE [intro]:
  assumes "keeps v m" and "\<And>x. keeps v (f x)"
  shows "keeps v (bndE m h f)"
  unfolding bndE_def using assms by (auto intro!: keeps_bnd split: sum.splits)

section \<open>64-bit integers\<close>

type_synonym int64 = "64 word"

text \<open>Go's \<open>/\<close> on int64 truncates towards zero and wraps at the width.\<close>

definition i64_div :: "int64 \<Rightarrow> int64 \<Rightarrow> int64" where
  "i64_div a b = word_of_int (sint a sdiv sint b)"

abbreviation i64_less :: "int64 \<Rightarrow> int64 \<Rightarrow> bool" where
  "i64_less a b \<equiv> sint a < sint b"

lemma sint_i64_ge: "- (2 ^ 63) \<le> sint (a :: int64)"
  using sint_ge [of a] by simp

lemma sint_i64_lt: "sint (a :: int64) < 2 ^ 63"
  using sint_lt [of a] by simp

lemma sint_of_int_i64:
  assumes "- (2 ^ 63) \<le> i" and "i < 2 ^ 63"
  shows "sint (word_of_int i :: int64) = i"
  using assms by (simp add: signed_of_int signed_take_bit_int_eq_self)

lemma sint_add_i64:
  assumes "- (2 ^ 63) \<le> sint a + sint b" and "sint a + sint b < 2 ^ 63"
  shows "sint (a + b :: int64) = sint a + sint b"
proof -
  have "a + b = word_of_int (sint a + sint b)" by simp
  then show ?thesis using sint_of_int_i64 [OF assms] by metis
qed

lemma sint_mult_i64:
  assumes "- (2 ^ 63) \<le> sint a * sint b" and "sint a * sint b < 2 ^ 63"
  shows "sint (a * b :: int64) = sint a * sint b"
proof -
  have "a * b = word_of_int (sint a * sint b)" by simp
  then show ?thesis using sint_of_int_i64 [OF assms] by metis
qed

lemma sint_diff_i64:
  assumes "- (2 ^ 63) \<le> sint a - sint b" and "sint a - sint b < 2 ^ 63"
  shows "sint (a - b :: int64) = sint a - sint b"
proof -
  have "a - b = word_of_int (sint a - sint b)" by simp
  then show ?thesis using sint_of_int_i64 [OF assms] by metis
qed

lemma sint_i64_div_pos:
  assumes "0 \<le> sint a" and "0 < sint b"
  shows "sint (i64_div a b) = sint a div sint b"
proof -
  have q: "sint a sdiv sint b = sint a div sint b"
    using assms by (cases "sint a = 0") (simp_all add: signed_divide_int_def)
  have "0 \<le> sint a div sint b" using assms by (simp add: pos_imp_zdiv_nonneg_iff)
  moreover have "sint a div sint b \<le> sint a"
    using assms zdiv_mono2 [of "sint a" 1 "sint b"] by simp
  ultimately show ?thesis
    using sint_i64_lt [of a] by (simp add: i64_div_def q sint_of_int_i64)
qed

end
