(* ===== verification/Go_Strings.thy ===== *)
theory Go_Strings
  imports Prelude "HOL-Library.Sublist"
begin

text \<open>
  What the program uses of Go's standard library on strings: the functions of
  \<open>strings\<close>, \<open>strconv\<close> and \<open>path/filepath\<close> that its own logic calls. A Go string is a list
  of bytes, here a HOL \<open>string\<close>; \<open>ToLower\<close> and \<open>TrimSpace\<close> are exact on ASCII text.
\<close>

section \<open>Prefixes, suffixes, substrings\<close>

definition HasPrefix :: "string \<Rightarrow> string \<Rightarrow> bool" where
  "HasPrefix s p \<longleftrightarrow> take (length p) s = p"

definition HasSuffix :: "string \<Rightarrow> string \<Rightarrow> bool" where
  "HasSuffix s p \<longleftrightarrow> length p \<le> length s \<and> drop (length s - length p) s = p"

definition TrimPrefix :: "string \<Rightarrow> string \<Rightarrow> string" where
  "TrimPrefix s p = (if HasPrefix s p then drop (length p) s else s)"

definition TrimSuffix :: "string \<Rightarrow> string \<Rightarrow> string" where
  "TrimSuffix s p = (if HasSuffix s p then take (length s - length p) s else s)"

text \<open>\<open>strings.Index\<close>: the position of the first occurrence, -1 if there is none.\<close>

fun Index :: "string \<Rightarrow> string \<Rightarrow> int" where
  "Index [] sub = (if sub = [] then 0 else -1)"
| "Index (c # s) sub =
     (if HasPrefix (c # s) sub then 0
      else (let i = Index s sub in if i < 0 then -1 else i + 1))"

definition Contains :: "string \<Rightarrow> string \<Rightarrow> bool" where
  "Contains s sub \<longleftrightarrow> 0 \<le> Index s sub"

text \<open>\<open>strings.LastIndex\<close> for a one-byte separator.\<close>

fun LastIndexChar :: "string \<Rightarrow> char \<Rightarrow> int" where
  "LastIndexChar [] c = -1"
| "LastIndexChar (d # s) c =
     (let i = LastIndexChar s c in if 0 \<le> i then i + 1 else if d = c then 0 else -1)"

lemma HasPrefix_prefix: "HasPrefix s p \<longleftrightarrow> prefix p s"
  by (auto simp: HasPrefix_def prefix_def dest: sym [where s = "take _ _"])
    (metis append_take_drop_id)

lemma HasPrefix_Nil [simp]: "HasPrefix s []"
  by (simp add: HasPrefix_def)

lemma HasPrefix_append [simp]: "HasPrefix (p @ s) p"
  by (simp add: HasPrefix_def)

lemma HasSuffix_suffix: "HasSuffix s p \<longleftrightarrow> suffix p s"
  unfolding HasSuffix_def suffix_def
  by (metis append_take_drop_id diff_diff_cancel drop_append append_eq_conv_conj
      diff_le_self drop_all length_append length_drop le_add2 add_diff_cancel_right'
      append_Nil dual_order.refl)

lemma HasSuffix_Nil [simp]: "HasSuffix s []"
  by (simp add: HasSuffix_def)

lemma HasSuffix_single: "HasSuffix s [c] \<longleftrightarrow> s \<noteq> [] \<and> last s = c"
  by (cases s rule: rev_cases) (auto simp: HasSuffix_def)

lemma TrimSuffix_single: "TrimSuffix s [c] = (if s \<noteq> [] \<and> last s = c then butlast s else s)"
  by (simp add: TrimSuffix_def HasSuffix_single butlast_conv_take)

lemma Index_nonneg_iff: "0 \<le> Index s sub \<longleftrightarrow> sublist sub s"
proof (induction s)
  case Nil
  show ?case by simp
next
  case (Cons c s)
  then show ?case
    by (auto simp: Let_def HasPrefix_prefix sublist_Cons_right)
qed

lemma Contains_sublist: "Contains s sub \<longleftrightarrow> sublist sub s"
  by (simp add: Contains_def Index_nonneg_iff)

lemma Contains_char: "Contains s [c] \<longleftrightarrow> c \<in> set s"
  by (auto simp: Contains_sublist sublist_def in_set_conv_decomp)

lemma LastIndexChar_neg: "LastIndexChar s c < 0 \<longleftrightarrow> c \<notin> set s"
  by (induction s) (auto simp: Let_def)

lemma LastIndexChar_append: "c \<notin> set t \<Longrightarrow> LastIndexChar (s @ c # t) c = int (length s)"
proof (induction s)
  case Nil
  then show ?case using LastIndexChar_neg [of t c] by (simp add: Let_def)
next
  case (Cons d s)
  then show ?case by (simp add: Let_def)
qed

section \<open>Split and Join\<close>

text \<open>\<open>strings.Split(s, sep)\<close> for a one-byte separator, and \<open>strings.Join\<close>.\<close>

fun split_char :: "char \<Rightarrow> string \<Rightarrow> string list" where
  "split_char c [] = [[]]"
| "split_char c (d # s) =
     (if d = c then [] # split_char c s
      else (case split_char c s of x # xs \<Rightarrow> (d # x) # xs | [] \<Rightarrow> [[d]]))"

fun join :: "string \<Rightarrow> string list \<Rightarrow> string" where
  "join sep [] = []"
| "join sep [x] = x"
| "join sep (x # y # xs) = x @ sep @ join sep (y # xs)"

lemma split_char_not_Nil [simp]: "split_char c s \<noteq> []"
  by (cases s) (auto split: list.splits)

lemma join_Cons: "join sep (x # xs) = (if xs = [] then x else x @ sep @ join sep xs)"
  by (cases xs) auto

lemma join_split_char [simp]: "join [c] (split_char c s) = s"
proof (induction s)
  case Nil
  show ?case by simp
next
  case (Cons d s)
  obtain x xs where "split_char c s = x # xs"
    by (cases "split_char c s") auto
  with Cons show ?case by (auto simp: join_Cons)
qed

lemma split_char_no_sep: "x \<in> set (split_char c s) \<Longrightarrow> c \<notin> set x"
  by (induction s arbitrary: x) (auto split: if_splits list.splits)

lemma split_char_nosep [simp]: "c \<notin> set s \<Longrightarrow> split_char c s = [s]"
  by (induction s) auto

lemma split_char_append: "c \<notin> set s \<Longrightarrow> split_char c (s @ c # t) = s # split_char c t"
  by (induction s) auto

lemma split_char_join:
  assumes "xs \<noteq> []" and "\<forall>x\<in>set xs. c \<notin> set x"
  shows "split_char c (join [c] xs) = xs"
  using assms
proof (induction xs rule: induct_list012)
  case (3 x y zs)
  then show ?case by (simp add: split_char_append)
qed auto

lemma split_char_snoc: "split_char c (s @ [c]) = split_char c s @ [[]]"
proof (induction s)
  case Nil
  show ?case by simp
next
  case (Cons d s)
  obtain x xs where "split_char c s = x # xs"
    by (cases "split_char c s") auto
  with Cons show ?case by auto
qed

lemma split_char_join_concat:
  assumes "xs \<noteq> []"
  shows "split_char c (join [c] xs) = concat (map (split_char c) xs)"
proof -
  have app: "split_char c (s @ c # t) = split_char c s @ split_char c t" for s t
  proof (induction s)
    case Nil
    show ?case by simp
  next
    case (Cons d s)
    obtain x xs where "split_char c s = x # xs"
      by (cases "split_char c s") auto
    with Cons show ?case by auto
  qed
  show ?thesis using assms
    by (induction xs rule: induct_list012) (auto simp: app)
qed

section \<open>Case and white space\<close>

definition to_lower_char :: "char \<Rightarrow> char" where
  "to_lower_char c = (let n = (of_char c :: nat) in if 65 \<le> n \<and> n \<le> 90 then char_of (n + 32) else c)"

definition ToLower :: "string \<Rightarrow> string" where
  "ToLower s = map to_lower_char s"

definition is_space :: "char \<Rightarrow> bool" where
  "is_space c \<longleftrightarrow> (let n = (of_char c :: nat) in n = 32 \<or> 9 \<le> n \<and> n \<le> 13)"

definition TrimSpace :: "string \<Rightarrow> string" where
  "TrimSpace s = rev (dropWhile is_space (rev (dropWhile is_space s)))"

lemma length_ToLower [simp]: "length (ToLower s) = length s"
  by (simp add: ToLower_def)

section \<open>Decimal numbers\<close>

text \<open>\<open>strconv.FormatInt(n, 10)\<close> and \<open>strconv.ParseInt(s, 10, 64)\<close>.\<close>

definition digit_char :: "nat \<Rightarrow> char" where
  "digit_char n = char_of (48 + n)"

fun format_nat :: "nat \<Rightarrow> string" where
  "format_nat n = (if n < 10 then [digit_char n] else format_nat (n div 10) @ [digit_char (n mod 10)])"

declare format_nat.simps [simp del]

definition FormatInt :: "int \<Rightarrow> string" where
  "FormatInt i = (if i < 0 then CHR ''-'' # format_nat (nat (- i)) else format_nat (nat i))"

definition digit_value :: "char \<Rightarrow> nat option" where
  "digit_value c = (let n = (of_char c :: nat) in if 48 \<le> n \<and> n \<le> 57 then Some (n - 48) else None)"

fun parse_nat :: "nat \<Rightarrow> string \<Rightarrow> nat option" where
  "parse_nat acc [] = Some acc"
| "parse_nat acc (c # s) =
     (case digit_value c of None \<Rightarrow> None | Some d \<Rightarrow> parse_nat (10 * acc + d) s)"

definition parse_digits :: "string \<Rightarrow> nat option" where
  "parse_digits s = (if s = [] then None else parse_nat 0 s)"

definition ParseInt64 :: "string \<Rightarrow> int64 option" where
  "ParseInt64 s =
     (let neg = HasPrefix s ''-'';
          body = (if neg \<or> HasPrefix s ''+'' then drop 1 s else s)
      in case parse_digits body of
           None \<Rightarrow> None
         | Some n \<Rightarrow>
             (let i = (if neg then - int n else int n)
              in if - (2 ^ 63) \<le> i \<and> i < 2 ^ 63 then Some (word_of_int i) else None))"

lemma digit_value_digit_char [simp]: "n < 10 \<Longrightarrow> digit_value (digit_char n) = Some n"
  by (simp add: digit_value_def digit_char_def Let_def)

lemma digit_char_not_sign: "n < 10 \<Longrightarrow> digit_char n \<noteq> CHR ''-'' \<and> digit_char n \<noteq> CHR ''+''"
  by (auto simp: digit_char_def dest: arg_cong [where f = "of_char :: char \<Rightarrow> nat"])

lemma format_nat_not_Nil [simp]: "format_nat n \<noteq> []"
  by (subst format_nat.simps) simp

lemma parse_nat_append:
  "parse_nat acc (s @ t) = (case parse_nat acc s of None \<Rightarrow> None | Some a \<Rightarrow> parse_nat a t)"
  by (induction s arbitrary: acc) (auto split: option.splits)

lemma parse_nat_format: "parse_nat 0 (format_nat n) = Some n"
proof (induction n rule: format_nat.induct)
  case (1 n)
  show ?case
  proof (cases "n < 10")
    case True
    then show ?thesis by (subst format_nat.simps) simp
  next
    case False
    with 1 have "parse_nat 0 (format_nat (n div 10)) = Some (n div 10)" by simp
    with False show ?thesis
      by (subst format_nat.simps) (simp add: parse_nat_append)
  qed
qed

lemma format_nat_head: "\<exists>d s. d < 10 \<and> format_nat n = digit_char d # s"
proof (induction n rule: format_nat.induct)
  case (1 n)
  show ?case
  proof (cases "n < 10")
    case True
    then show ?thesis by (subst format_nat.simps) auto
  next
    case False
    then obtain d s where "d < 10" "format_nat (n div 10) = digit_char d # s"
      using 1 by blast
    with False show ?thesis by (subst format_nat.simps) auto
  qed
qed

lemma ParseInt64_FormatInt:
  assumes "- (2 ^ 63) \<le> i" and "i < 2 ^ 63"
  shows "ParseInt64 (FormatInt i) = Some (word_of_int i)"
proof -
  obtain d s where d: "d < 10" "format_nat (nat \<bar>i\<bar>) = digit_char d # s"
    using format_nat_head by blast
  have p: "parse_digits (digit_char d # s) = Some (nat \<bar>i\<bar>)"
    using parse_nat_format [of "nat \<bar>i\<bar>"] by (simp add: parse_digits_def d)
  show ?thesis
  proof (cases "i < 0")
    case True
    with assms d(2) p show ?thesis
      by (simp add: ParseInt64_def FormatInt_def HasPrefix_def Let_def)
  next
    case False
    with assms d p digit_char_not_sign [OF d(1)] show ?thesis
      by (simp add: ParseInt64_def FormatInt_def HasPrefix_def Let_def)
  qed
qed

end
