(* ===== verification/Go_Path.thy ===== *)
theory Go_Path
  imports Go_Strings
begin

text \<open>
  Go's \<open>path/filepath\<close> on Unix (and \<open>path\<close>, which is the same there): \<open>Clean\<close> as the
  lexical normalisation its documentation defines, \<open>Join\<close> and \<open>Base\<close>; and the lemmas
  that let the NAS proofs compute with paths as lists of components.
\<close>

section \<open>Clean, Join and Base\<close>

text \<open>
  One component of the path, on the stack of those kept (innermost first): empty and
  \<open>.\<close> components are dropped, \<open>..\<close> removes the component before it, is dropped at
  the root and kept at the start of a relative path.
\<close>

fun clean_step :: "bool \<Rightarrow> string list \<Rightarrow> string \<Rightarrow> string list" where
  "clean_step rooted st x =
     (if x = [] \<or> x = ''.'' then st
      else if x = ''..'' then
        (case st of
           [] \<Rightarrow> (if rooted then [] else [x])
         | y # ys \<Rightarrow> (if y = ''..'' then x # st else ys))
      else x # st)"

definition clean_parts :: "bool \<Rightarrow> string list \<Rightarrow> string list" where
  "clean_parts rooted xs = rev (foldl (clean_step rooted) [] xs)"

definition Clean :: "string \<Rightarrow> string" where
  "Clean p =
     (if p = [] then ''.''
      else let rooted = (hd p = CHR ''/'');
               out = (if rooted then ''/'' else []) @ join ''/'' (clean_parts rooted (split_char CHR ''/'' p))
           in if out = [] then ''.'' else out)"

definition path_join :: "string list \<Rightarrow> string" where
  "path_join elems =
     (case dropWhile (\<lambda>e. e = []) elems of
        [] \<Rightarrow> []
      | es \<Rightarrow> Clean (join ''/'' es))"

definition Base :: "string \<Rightarrow> string" where
  "Base p =
     (if p = [] then ''.''
      else let q = rev (dropWhile (\<lambda>c. c = CHR ''/'') (rev p));
               b = rev (takeWhile (\<lambda>c. c \<noteq> CHR ''/'') (rev q))
           in if b = [] then ''/'' else b)"

section \<open>Plain components\<close>

text \<open>A component a path keeps as it is.\<close>

definition plain :: "string \<Rightarrow> bool" where
  "plain x \<longleftrightarrow> x \<noteq> [] \<and> x \<noteq> ''.'' \<and> x \<noteq> ''..'' \<and> CHR ''/'' \<notin> set x"

text \<open>The absolute path with the given components.\<close>

definition abs_path :: "string list \<Rightarrow> string" where
  "abs_path xs = CHR ''/'' # join ''/'' xs"

lemma clean_step_plain [simp]: "plain x \<Longrightarrow> clean_step r st x = x # st"
  by (simp add: plain_def)

lemma clean_step_Nil [simp]: "clean_step r st [] = st"
  by simp

declare clean_step.simps [simp del]

lemma foldl_clean_plain: "\<forall>x\<in>set xs. plain x \<Longrightarrow> foldl (clean_step r) st xs = rev xs @ st"
  by (induction xs arbitrary: st) auto

lemma clean_parts_plain [simp]: "\<forall>x\<in>set xs. plain x \<Longrightarrow> clean_parts r xs = xs"
  by (simp add: clean_parts_def foldl_clean_plain)

lemma clean_parts_Cons_Nil [simp]: "clean_parts r ([] # xs) = clean_parts r xs"
  by (simp add: clean_parts_def)

lemma clean_parts_snoc_Nil [simp]: "clean_parts r (xs @ [[]]) = clean_parts r xs"
  by (simp add: clean_parts_def)

lemma clean_parts_plain_append:
  "\<forall>x\<in>set ys. plain x \<Longrightarrow> clean_parts r (xs @ ys) = clean_parts r xs @ ys"
  by (simp add: clean_parts_def foldl_clean_plain)

lemma split_join_plain:
  "xs \<noteq> [] \<Longrightarrow> \<forall>x\<in>set xs. plain x \<Longrightarrow> split_char CHR ''/'' (join ''/'' xs) = xs"
  by (rule split_char_join) (auto simp: plain_def)

lemma split_abs_path:
  "\<forall>x\<in>set xs. plain x \<Longrightarrow>
     split_char CHR ''/'' (abs_path xs) = [] # (if xs = [] then [[]] else xs)"
  by (simp add: abs_path_def split_join_plain)

text \<open>A rooted path cleans to the absolute path of its cleaned components.\<close>

lemma Clean_rooted:
  "Clean (CHR ''/'' # p) = abs_path (clean_parts True (split_char CHR ''/'' p))"
  by (simp add: Clean_def abs_path_def Let_def)

lemma Clean_abs_path: "\<forall>x\<in>set xs. plain x \<Longrightarrow> Clean (abs_path xs) = abs_path xs"
  by (cases "xs = []")
    (simp_all add: Clean_rooted split_join_plain abs_path_def)

lemma clean_step_keeps_plain:
  assumes "\<forall>y\<in>set st. plain y" and "CHR ''/'' \<notin> set x"
  shows "\<forall>y\<in>set (clean_step True st x). plain y"
proof (cases st)
  case Nil
  then show ?thesis using assms(2) by (simp add: clean_step.simps plain_def)
next
  case (Cons z zs)
  then have "plain z" "\<forall>y\<in>set zs. plain y" using assms(1) by auto
  moreover have "plain x \<or> x = [] \<or> x = ''.'' \<or> x = ''..''"
    using assms(2) by (auto simp: plain_def)
  ultimately show ?thesis using Cons by (auto simp: clean_step.simps)
qed

lemma clean_stack_plain:
  "\<forall>x\<in>set st. plain x \<Longrightarrow> \<forall>x\<in>set xs. CHR ''/'' \<notin> set x \<Longrightarrow>
     \<forall>x\<in>set (foldl (clean_step True) st xs). plain x"
proof (induction xs arbitrary: st)
  case (Cons x xs)
  have "\<forall>y\<in>set (clean_step True st x). plain y"
    by (rule clean_step_keeps_plain) (use Cons.prems in simp_all)
  moreover have "\<forall>x\<in>set xs. CHR ''/'' \<notin> set x" using Cons.prems by simp
  ultimately show ?case using Cons.IH by (simp only: foldl_Cons)
qed simp

lemma clean_parts_rooted_plain:
  "\<forall>x\<in>set xs. CHR ''/'' \<notin> set x \<Longrightarrow> \<forall>x\<in>set (clean_parts True xs). plain x"
  using clean_stack_plain [of "[]" xs] by (simp add: clean_parts_def)

lemma clean_parts_split_plain: "\<forall>x\<in>set (clean_parts True (split_char CHR ''/'' p)). plain x"
  using split_char_no_sep [of _ "CHR ''/''" p] by (intro clean_parts_rooted_plain) blast

lemma Clean_rooted_components:
  obtains xs where "\<forall>x\<in>set xs. plain x" "Clean (CHR ''/'' # p) = abs_path xs"
  using that [OF clean_parts_split_plain Clean_rooted] .

section \<open>Join\<close>

lemma path_join_Cons: "p \<noteq> [] \<Longrightarrow> path_join (p # es) = Clean (join ''/'' (p # es))"
  by (simp add: path_join_def)

lemma join_nonempty_snoc: "p \<noteq> [] \<Longrightarrow> join sep [p, q] = p @ sep @ q"
  by simp

lemma abs_path_append: "xs \<noteq> [] \<Longrightarrow> ys \<noteq> [] \<Longrightarrow> abs_path (xs @ ys) = abs_path xs @ ''/'' @ join ''/'' ys"
proof (induction xs)
  case (Cons x xs)
  then show ?case by (cases "xs = []") (auto simp: abs_path_def join_Cons)
qed simp

lemma split_char_append_sep:
  "split_char c (s @ c # t) = split_char c s @ split_char c t"
  using split_char_join_concat [of "[s, t]" c] by simp

text \<open>
  Joining a clean absolute path with a further element: its components, followed by
  those the element adds.
\<close>

lemma path_join_abs:
  assumes "\<forall>x\<in>set xs. plain x"
  shows "path_join [abs_path xs, q] = abs_path (clean_parts True (xs @ split_char CHR ''/'' q))"
proof (cases "xs = []")
  case True
  then show ?thesis by (simp add: path_join_Cons abs_path_def Clean_rooted)
next
  case False
  have "path_join [abs_path xs, q] = Clean (CHR ''/'' # (join ''/'' xs @ CHR ''/'' # q))"
    by (simp add: path_join_Cons abs_path_def)
  also have "\<dots> = abs_path (clean_parts True (split_char CHR ''/'' (join ''/'' xs @ CHR ''/'' # q)))"
    by (rule Clean_rooted)
  also have "split_char CHR ''/'' (join ''/'' xs @ CHR ''/'' # q) = xs @ split_char CHR ''/'' q"
    by (simp add: split_char_append_sep split_join_plain False assms)
  finally show ?thesis .
qed

lemma path_join_abs_plain:
  assumes "\<forall>x\<in>set xs. plain x" and "plain q"
  shows "path_join [abs_path xs, q] = abs_path (xs @ [q])"
proof -
  have "split_char CHR ''/'' q = [q]" using assms(2) by (simp add: plain_def)
  then show ?thesis using assms by (simp add: path_join_abs)
qed

lemma path_join_abs_Nil:
  "\<forall>x\<in>set xs. plain x \<Longrightarrow> path_join [abs_path xs, []] = abs_path xs"
  by (simp add: path_join_abs)

section \<open>Base\<close>

lemma abs_path_snoc: "abs_path (xs @ [x]) = (if xs = [] then CHR ''/'' # x else abs_path xs @ CHR ''/'' # x)"
  using abs_path_append [of xs "[x]"] by (simp add: abs_path_def)

lemma takeWhile_notin: "c \<notin> set x \<Longrightarrow> takeWhile (\<lambda>d. d \<noteq> c) (x @ c # y) = x"
  by (induction x) auto

lemma Base_append_slash:
  assumes "x \<noteq> []" and "CHR ''/'' \<notin> set x"
  shows "Base (p @ CHR ''/'' # x) = x"
proof -
  have "dropWhile (\<lambda>c. c = CHR ''/'') (rev (p @ CHR ''/'' # x)) = rev (p @ CHR ''/'' # x)"
    using assms by (cases x rule: rev_cases) auto
  moreover have "takeWhile (\<lambda>c. c \<noteq> CHR ''/'') (rev x @ CHR ''/'' # rev p) = rev x"
    using assms by (simp add: takeWhile_notin)
  ultimately show ?thesis using assms by (simp add: Base_def Let_def)
qed

lemma Base_abs_path: "plain x \<Longrightarrow> Base (abs_path (xs @ [x])) = x"
  using Base_append_slash [of x "[]"] Base_append_slash [of x "abs_path xs"]
  by (auto simp: abs_path_snoc plain_def)

end
