(* ===== verification/CSI_Types.thy ===== *)
theory CSI_Types
  imports Go_Path
begin

text \<open>
  The messages of the Container Storage Interface (v1.4.0) that the handlers read and
  build: plain data, with the fields the program uses. Protobuf getters are nil-safe: on an
  absent message they give the zero value, which is what the \<open>get_\<close> functions below do;
  a field selected directly is read through \<open>deref\<close> in the model.
\<close>

section \<open>Capabilities and topology\<close>

datatype access_mode = UNKNOWN_MODE | SINGLE_NODE_WRITER | SINGLE_NODE_READER_ONLY
  | MULTI_NODE_READER_ONLY | MULTI_NODE_SINGLE_WRITER | MULTI_NODE_MULTI_WRITER

record mount_volume =
  FsType :: string
  MountFlags :: "string list"

datatype access_type = BlockAccess | MountAccess mount_volume

record volume_capability =
  AccessType :: "access_type option"
  AccessMode :: "access_mode option"

text \<open>\<open>GetMode()\<close> on an absent access mode is 0, \<open>UNKNOWN\<close>.\<close>

definition get_mode :: "volume_capability \<Rightarrow> access_mode" where
  "get_mode c = (case AccessMode c of None \<Rightarrow> UNKNOWN_MODE | Some m \<Rightarrow> m)"

definition is_block :: "volume_capability \<Rightarrow> bool" where
  "is_block c \<longleftrightarrow> AccessType c = Some BlockAccess"

definition get_mount :: "volume_capability \<Rightarrow> mount_volume option" where
  "get_mount c = (case AccessType c of Some (MountAccess m) \<Rightarrow> Some m | _ \<Rightarrow> None)"

definition get_mount_flags :: "mount_volume option \<Rightarrow> string list" where
  "get_mount_flags m = (case m of None \<Rightarrow> [] | Some v \<Rightarrow> MountFlags v)"

type_synonym attributes = "string \<rightharpoonup> string"

text \<open>Indexing a Go map of strings: a missing key gives the empty string.\<close>

definition attr :: "attributes \<Rightarrow> string \<Rightarrow> string" where
  "attr m k = (case m k of None \<Rightarrow> [] | Some v \<Rightarrow> v)"

record csi_topology =
  Segments :: attributes

record topology_requirement =
  Requisite :: "csi_topology list"
  Preferred :: "csi_topology list"

record capacity_range =
  RequiredBytes :: int64
  LimitBytes :: int64

definition get_required_bytes :: "capacity_range option \<Rightarrow> int64" where
  "get_required_bytes r = (case r of None \<Rightarrow> 0 | Some c \<Rightarrow> RequiredBytes c)"

datatype content_source = SnapshotSource "string option" | VolumeSource "string option"

section \<open>Controller requests and responses\<close>

record create_volume_request =
  cv_Name :: string
  cv_CapacityRange :: "capacity_range option"
  cv_VolumeCapabilities :: "volume_capability list"
  cv_Parameters :: attributes
  cv_ContentSource :: "content_source option option"
  cv_Accessibility :: "topology_requirement option"

text \<open>
  \<open>cv_ContentSource\<close> is the message pointer; inside, the \<open>oneof Type\<close>, which may be
  unset, and in each alternative the pointer to its message (here, the id it carries).
\<close>

record csi_volume =
  VolumeId :: string
  CapacityBytes :: int64
  VolumeContext :: attributes
  ContentSource :: "content_source option option"
  AccessibleTopology :: "csi_topology list"

record volume_publish_request =
  vp_VolumeId :: string
  vp_NodeId :: string
  vp_VolumeCapability :: "volume_capability option"

record volume_unpublish_request =
  vu_VolumeId :: string
  vu_NodeId :: string

record validate_request =
  vc_VolumeId :: string
  vc_VolumeContext :: attributes
  vc_VolumeCapabilities :: "volume_capability list"
  vc_Parameters :: attributes

record confirmed =
  cf_VolumeContext :: attributes
  cf_VolumeCapabilities :: "volume_capability list"
  cf_Parameters :: attributes

record expand_request =
  ex_VolumeId :: string
  ex_CapacityRange :: "capacity_range option"

record expand_response =
  er_CapacityBytes :: int64
  er_NodeExpansionRequired :: bool

record create_snapshot_request =
  cs_Name :: string
  cs_SourceVolumeId :: string

text \<open>A time stamp is kept as seconds since the epoch; Go's zero time is its own value.\<close>

datatype go_time = ZeroTime | TimeAt int

record csi_snapshot =
  cn_SnapshotId :: string
  cn_SourceVolumeId :: string
  cn_SizeBytes :: int64
  cn_CreationTime :: go_time
  cn_ReadyToUse :: bool

section \<open>Node requests\<close>

record node_stage_request =
  st_VolumeId :: string
  st_StagingTargetPath :: string
  st_VolumeCapability :: "volume_capability option"
  st_VolumeContext :: attributes

record node_publish_request =
  np_VolumeId :: string
  np_StagingTargetPath :: string
  np_TargetPath :: string
  np_VolumeCapability :: "volume_capability option"
  np_Readonly :: bool
  np_VolumeContext :: attributes
  np_Secrets :: attributes

record node_expand_request =
  ne_VolumeId :: string
  ne_VolumePath :: string
  ne_CapacityRange :: "capacity_range option"
  ne_VolumeCapability :: "volume_capability option"

section \<open>Service capabilities\<close>

datatype controller_rpc = CS_UNKNOWN | CREATE_DELETE_VOLUME | PUBLISH_UNPUBLISH_VOLUME
  | LIST_VOLUMES | GET_CAPACITY | CREATE_DELETE_SNAPSHOT | LIST_SNAPSHOTS | CLONE_VOLUME
  | PUBLISH_READONLY | CS_EXPAND_VOLUME

datatype node_rpc = NS_UNKNOWN | STAGE_UNSTAGE_VOLUME | GET_VOLUME_STATS | NS_EXPAND_VOLUME

datatype plugin_service = PS_UNKNOWN | CONTROLLER_SERVICE | VOLUME_ACCESSIBILITY_CONSTRAINTS

lemma get_mount_block [simp]: "is_block c \<Longrightarrow> get_mount c = None"
  by (simp add: get_mount_def is_block_def)

lemma attr_empty [simp]: "attr Map.empty k = []"
  by (simp add: attr_def)

lemma attr_upd [simp]: "attr (m(k \<mapsto> v)) j = (if j = k then v else attr m j)"
  by (simp add: attr_def)

end
