(* ===== verification/CSI_Common.thy ===== *)
theory CSI_Common
  imports CSI_Types
begin

text \<open>
  \<open>pkg/csi-common\<close>: the driver record every plugin embeds (\<open>driver.go\<close>), the endpoint
  parser and capability constructors (\<open>utils.go\<close>), and the start-up of the gRPC server
  (\<open>server.go\<close>) up to the listening socket. The three plugins share one identity service.
\<close>

section \<open>driver.go\<close>

record CSIDriver =
  Name :: string
  NodeID :: string
  Version :: string
  Cap :: "access_mode list"
  CSCap :: "controller_rpc list"
  NSCap :: "node_rpc list"

definition zero_CSIDriver :: CSIDriver where
  "zero_CSIDriver = \<lparr>Name = [], NodeID = [], Version = [], Cap = [], CSCap = [], NSCap = []\<rparr>"

text \<open>A capability message carries its one RPC type, so it is modelled by it.\<close>

definition NewControllerServiceCapability :: "controller_rpc \<Rightarrow> controller_rpc" where
  "NewControllerServiceCapability cap = cap"

definition NewNodeServiceCapability :: "node_rpc \<Rightarrow> node_rpc" where
  "NewNodeServiceCapability cap = cap"

definition AddVolumeCapabilityAccessModes :: "access_mode list \<Rightarrow> CSIDriver \<Rightarrow> CSIDriver" where
  "AddVolumeCapabilityAccessModes vc d = d\<lparr>Cap := foldl (\<lambda>vca c. vca @ [c]) [] vc\<rparr>"

definition AddControllerServiceCapabilities :: "controller_rpc list \<Rightarrow> CSIDriver \<Rightarrow> CSIDriver" where
  "AddControllerServiceCapabilities cl d =
     d\<lparr>CSCap := foldl (\<lambda>csc c. csc @ [NewControllerServiceCapability c]) [] cl\<rparr>"

definition AddNodeServiceCapabilities :: "node_rpc list \<Rightarrow> CSIDriver \<Rightarrow> CSIDriver" where
  "AddNodeServiceCapabilities nl d =
     d\<lparr>NSCap := foldl (\<lambda>nsc n. nsc @ [NewNodeServiceCapability n]) [] nl\<rparr>"

lemma foldl_snoc: "foldl (\<lambda>acc c. acc @ [f c]) xs ys = xs @ map f ys"
  by (induction ys arbitrary: xs) auto

lemma Cap_Add [simp]: "Cap (AddVolumeCapabilityAccessModes vc d) = vc"
  using foldl_snoc [of "\<lambda>c. c" "[]" vc] by (simp add: AddVolumeCapabilityAccessModes_def)

lemma CSCap_Add [simp]: "CSCap (AddControllerServiceCapabilities cl d) = cl"
  by (simp add: AddControllerServiceCapabilities_def foldl_snoc NewControllerServiceCapability_def [abs_def])

lemma NSCap_Add [simp]: "NSCap (AddNodeServiceCapabilities nl d) = nl"
  by (simp add: AddNodeServiceCapabilities_def foldl_snoc NewNodeServiceCapability_def [abs_def])

lemma Add_other [simp]:
  "Name (AddVolumeCapabilityAccessModes vc d) = Name d"
  "Name (AddControllerServiceCapabilities cl d) = Name d"
  "Name (AddNodeServiceCapabilities nl d) = Name d"
  "NodeID (AddVolumeCapabilityAccessModes vc d) = NodeID d"
  "NodeID (AddControllerServiceCapabilities cl d) = NodeID d"
  "NodeID (AddNodeServiceCapabilities nl d) = NodeID d"
  "Version (AddVolumeCapabilityAccessModes vc d) = Version d"
  "Version (AddControllerServiceCapabilities cl d) = Version d"
  "Version (AddNodeServiceCapabilities nl d) = Version d"
  "Cap (AddControllerServiceCapabilities cl d) = Cap d"
  "Cap (AddNodeServiceCapabilities nl d) = Cap d"
  "CSCap (AddVolumeCapabilityAccessModes vc d) = CSCap d"
  "CSCap (AddNodeServiceCapabilities nl d) = CSCap d"
  by (simp_all add: AddVolumeCapabilityAccessModes_def AddControllerServiceCapabilities_def
      AddNodeServiceCapabilities_def)

section \<open>utils.go\<close>

text \<open>
  \<open>strings.SplitN(ep, "://", 2)\<close> cuts at the first occurrence; without one it gives the
  whole string only, and \<open>s[1]\<close> would be out of range.
\<close>

definition split2 :: "string \<Rightarrow> string \<Rightarrow> string list" where
  "split2 s sep =
     (let i = Index s sep
      in if i < 0 then [s] else [take (nat i) s, drop (nat i + length sep) s])"

definition ParseEndpoint :: "string \<Rightarrow> (error + string \<times> string) outcome" where
  "ParseEndpoint ep =
     (if HasPrefix (ToLower ep) ''unix://'' \<or> HasPrefix (ToLower ep) ''tcp://'' then
        (case split2 ep ''://'' of
           [s0, s1] \<Rightarrow>
             if s1 \<noteq> [] then Ret (Inr (s0, s1))
             else Ret (Inl (PlainError (''Invalid endpoint: '' @ ep)))
         | _ \<Rightarrow> Panic)
      else Ret (Inl (PlainError (''Invalid endpoint: '' @ ep))))"

section \<open>server.go\<close>

text \<open>
  \<open>serve\<close> up to \<open>net.Listen\<close>: the network and address it listens on. \<open>klog.Fatal\<close> ends
  the process; \<open>remove\<close> is \<open>os.Remove\<close> on the socket, whose failure is fatal too unless
  the file did not exist.
\<close>

datatype serve_result = Listen string string | Fatal

definition serve_address :: "bool \<Rightarrow> (string \<Rightarrow> bool) \<Rightarrow> string \<Rightarrow> serve_result outcome" where
  "serve_address windows removed_or_absent endpoint =
     (case ParseEndpoint endpoint of
        Panic \<Rightarrow> Panic
      | Ret (Inl e) \<Rightarrow> Ret Fatal
      | Ret (Inr (proto, addr)) \<Rightarrow>
          if proto = ''unix'' then
            (let a = (if windows then addr else CHR ''/'' # addr)
             in if removed_or_absent a then Ret (Listen proto a) else Ret Fatal)
          else Ret (Listen proto addr))"

lemma ToLower_append: "ToLower (s @ t) = ToLower s @ ToLower t"
  by (simp add: ToLower_def)

lemma to_lower_colon: "to_lower_char c = CHR '':'' \<longleftrightarrow> c = CHR '':''"
  and to_lower_slash: "to_lower_char c = CHR ''/'' \<longleftrightarrow> c = CHR ''/''"
proof -
  have upper: "x = char_of (of_char c + 32 :: nat) \<longleftrightarrow> False"
    if "65 \<le> (of_char c :: nat)" "(of_char c :: nat) \<le> 90" "(of_char x :: nat) < 97" for x
  proof
    assume "x = char_of (of_char c + 32 :: nat)"
    then have "(of_char x :: nat) = of_char c + 32" using that by simp
    then show False using that by simp
  qed simp
  show "to_lower_char c = CHR '':'' \<longleftrightarrow> c = CHR '':''"
    using upper [of "CHR '':''"] by (auto simp: to_lower_char_def Let_def)
  show "to_lower_char c = CHR ''/'' \<longleftrightarrow> c = CHR ''/''"
    using upper [of "CHR ''/''"] by (auto simp: to_lower_char_def Let_def)
qed

text \<open>The scheme test of \<open>ParseEndpoint\<close>, undone: a scheme in any case, then \<open>://\<close>.\<close>

lemma HasPrefix_scheme:
  assumes "HasPrefix (ToLower ep) (p @ ''://'')"
  obtains s t where "ep = s @ ''://'' @ t" "ToLower s = p"
proof -
  let ?n = "length p"
  have tk: "map to_lower_char (take (?n + 3) ep) = p @ ''://''"
    using assms by (simp add: HasPrefix_def ToLower_def take_map numeral_3_eq_3)
  have len: "?n + 3 \<le> length ep"
    using arg_cong [OF tk, of length] by (simp add: min_def split: if_splits)
  let ?m = "take 3 (drop ?n ep)"
  have split: "take (?n + 3) ep = take ?n ep @ ?m" by (simp add: take_add)
  have eq: "map to_lower_char (take ?n ep) = p" "map to_lower_char ?m = ''://''"
    using tk len unfolding split by (simp_all add: append_eq_append_conv)
  from eq(2) have "?m = ''://''"
    by (auto simp: map_eq_Cons_conv to_lower_colon to_lower_slash)
  then have "ep = take ?n ep @ ''://'' @ drop (?n + 3) ep"
    by (metis append_take_drop_id append.assoc split)
  then show thesis using that eq(1) by (simp add: ToLower_def)
qed

lemma Index_first:
  "\<not> sublist [c] s \<Longrightarrow> Index (s @ (c # u) @ t) (c # u) = int (length s)"
proof (induction s)
  case Nil
  then show ?case by (simp add: HasPrefix_def)
next
  case (Cons d s)
  then have "d \<noteq> c" "\<not> sublist [c] s"
    by (auto simp: sublist_Cons_right)
  with Cons.IH show ?case by (simp add: HasPrefix_def)
qed

lemma split2_scheme:
  assumes "CHR '':'' \<notin> set s"
  shows "split2 (s @ ''://'' @ t) ''://'' = [s, t]"
proof -
  have "\<not> sublist '':'' s" using assms Contains_char [of s "CHR '':''"] by (simp add: Contains_sublist)
  from Index_first [OF this, of "''//''" t] have "Index (s @ ''://'' @ t) ''://'' = int (length s)"
    by simp
  then show ?thesis by (simp add: split2_def)
qed

section \<open>The identity service (identitysvc.go, identityserver.go)\<close>

definition GetPluginInfo :: "CSIDriver \<Rightarrow> error + string \<times> string" where
  "GetPluginInfo d =
     (if Name d = [] then Inl (StatusError Unavailable ''Plugin name is not configured'')
      else if Version d = [] then Inl (StatusError Unavailable ''Plugin version is not configured'')
      else Inr (Name d, Version d))"

definition Probe :: "error + bool" where
  "Probe = Inr True"

section \<open>Properties\<close>

lemma scheme_no_colon: "ToLower s = ''unix'' \<or> ToLower s = ''tcp'' \<Longrightarrow> CHR '':'' \<notin> set s"
proof
  assume s: "ToLower s = ''unix'' \<or> ToLower s = ''tcp''" and "CHR '':'' \<in> set s"
  then have "CHR '':'' \<in> set (ToLower s)"
    using to_lower_colon [of "CHR '':''"] by (force simp: ToLower_def)
  with s show False by auto
qed

lemma has_scheme:
  "HasPrefix (ToLower (s @ ''://'' @ t)) ''unix://'' \<or> HasPrefix (ToLower (s @ ''://'' @ t)) ''tcp://''"
  if "ToLower s = ''unix'' \<or> ToLower s = ''tcp''"
proof -
  have "ToLower ''://'' = ''://''" by (simp add: ToLower_def to_lower_char_def)
  then have "ToLower (s @ ''://'' @ t) = (ToLower s @ ''://'') @ ToLower t"
    by (simp add: ToLower_append del: append_Cons)
  then show ?thesis using that HasPrefix_append [of "ToLower s @ ''://''" "ToLower t"] by auto
qed

text \<open>C33: ParseEndpoint accepts exactly the addresses whose scheme is \<open>unix\<close> or \<open>tcp\<close> in any
  letter case with something after \<open>://\<close>, and gives back the scheme as it was written and
  the rest; it never panics.\<close>

theorem ParseEndpoint_spec:
  "(ParseEndpoint ep = Ret (Inr (s, t)) \<longleftrightarrow>
      ep = s @ ''://'' @ t \<and> (ToLower s = ''unix'' \<or> ToLower s = ''tcp'') \<and> t \<noteq> []) \<and>
   ParseEndpoint ep \<noteq> Panic"
proof (cases "HasPrefix (ToLower ep) ''unix://'' \<or> HasPrefix (ToLower ep) ''tcp://''")
  case True
  then obtain a b where ep: "ep = a @ ''://'' @ b" and a: "ToLower a = ''unix'' \<or> ToLower a = ''tcp''"
    using HasPrefix_scheme [of ep "''unix''"] HasPrefix_scheme [of ep "''tcp''"] by (metis append_Cons append_Nil)
  have sp: "split2 ep ''://'' = [a, b]" using split2_scheme [OF scheme_no_colon [OF a]] ep by simp
  have "ep = s @ ''://'' @ t \<and> (ToLower s = ''unix'' \<or> ToLower s = ''tcp'') \<longleftrightarrow> s = a \<and> t = b"
  proof
    assume st: "ep = s @ ''://'' @ t \<and> (ToLower s = ''unix'' \<or> ToLower s = ''tcp'')"
    then have "split2 ep ''://'' = [s, t]" using split2_scheme [OF scheme_no_colon, of s t] by blast
    with sp show "s = a \<and> t = b" by simp
  qed (use ep a in blast)
  with sp True show ?thesis by (auto simp: ParseEndpoint_def)
next
  case False
  with has_scheme [of s t] show ?thesis by (auto simp: ParseEndpoint_def)
qed

end
