(* ===== verification/EBS_API.thy ===== *)
theory EBS_API
  imports Go_Strings
begin

text \<open>
  \<open>pkg/ebs/types\<close>: the request and response structures of the storage and compute APIs,
  field by field. A pointer field is an option (\<open>None\<close> for nil), a slice of pointers a
  list of options; a \<open>json.Number\<close> is its text. Each structure has the zero value that a
  Go literal starts from. \<open>ResponseMetadata\<close> is the SDK's, with the fields the code reads.
\<close>

record ResponseMetadata =
  HTTPCode :: int
  MetadataError :: "string option"

record TagForCreateVolumeInput =
  TagForCreateVolumeInput_Key :: "string option"
  TagForCreateVolumeInput_Value :: "string option"

record CreateVolumeInput =
  CreateVolumeInput_AccountId :: "string option"
  CreateVolumeInput_AutoRenew :: "bool option"
  CreateVolumeInput_ClientToken :: "string option"
  CreateVolumeInput_Description :: "string option"
  CreateVolumeInput_InstanceId :: "string option"
  CreateVolumeInput_Kind :: "string option"
  CreateVolumeInput_Period :: "string option"
  CreateVolumeInput_ProjectName :: "string option"
  CreateVolumeInput_RenewCycle :: "32 word option"
  CreateVolumeInput_RenewTimes :: "32 word option"
  CreateVolumeInput_Size :: "string option"
  CreateVolumeInput_SnapshotId :: "string option"
  CreateVolumeInput_StoragePoolId :: "string option"
  CreateVolumeInput_Tags :: "TagForCreateVolumeInput option list"
  CreateVolumeInput_Times :: "32 word option"
  CreateVolumeInput_VolumeChargeType :: "string option"
  CreateVolumeInput_VolumeName :: "string option"
  CreateVolumeInput_VolumeType :: "string option"
  CreateVolumeInput_ZoneId :: "string option"

definition zero_CreateVolumeInput :: CreateVolumeInput where
  "zero_CreateVolumeInput = \<lparr>CreateVolumeInput_AccountId = None,
     CreateVolumeInput_AutoRenew = None,
     CreateVolumeInput_ClientToken = None,
     CreateVolumeInput_Description = None,
     CreateVolumeInput_InstanceId = None,
     CreateVolumeInput_Kind = None,
     CreateVolumeInput_Period = None,
     CreateVolumeInput_ProjectName = None,
     CreateVolumeInput_RenewCycle = None,
     CreateVolumeInput_RenewTimes = None,
     CreateVolumeInput_Size = None,
     CreateVolumeInput_SnapshotId = None,
     CreateVolumeInput_StoragePoolId = None,
     CreateVolumeInput_Tags = [],
     CreateVolumeInput_Times = None,
     CreateVolumeInput_VolumeChargeType = None,
     CreateVolumeInput_VolumeName = None,
     CreateVolumeInput_VolumeType = None,
     CreateVolumeInput_ZoneId = None\<rparr>"

record CreateVolumeOutput =
  CreateVolumeOutput_Metadata :: "ResponseMetadata option"
  CreateVolumeOutput_VolumeId :: "string option"

definition zero_CreateVolumeOutput :: CreateVolumeOutput where
  "zero_CreateVolumeOutput = \<lparr>CreateVolumeOutput_Metadata = None,
     CreateVolumeOutput_VolumeId = None\<rparr>"

record FieldMaskForDescribeVolumesInput =
  FieldMaskForDescribeVolumesInput_Paths :: "string option"

record TagFilterForDescribeVolumesInput =
  TagFilterForDescribeVolumesInput_Key :: "string option"
  TagFilterForDescribeVolumesInput_Values :: "string option list"

record DescribeVolumesInput =
  DescribeVolumesInput_AccountId :: "string option"
  DescribeVolumesInput_AutoSnapshotPolicyId :: "string option"
  DescribeVolumesInput_Encrypted :: "bool option"
  DescribeVolumesInput_FieldMask :: "FieldMaskForDescribeVolumesInput option"
  DescribeVolumesInput_InstanceId :: "string option"
  DescribeVolumesInput_KMSKeyId :: "string option"
  DescribeVolumesInput_Kind :: "string option"
  DescribeVolumesInput_PageNumber :: "32 word option"
  DescribeVolumesInput_PageSize :: "32 word option"
  DescribeVolumesInput_ProjectName :: "string option"
  DescribeVolumesInput_SysTagVisible :: "bool option"
  DescribeVolumesInput_TagFilters :: "TagFilterForDescribeVolumesInput option list"
  DescribeVolumesInput_VolumeIds :: "string option list"
  DescribeVolumesInput_VolumeName :: "string option"
  DescribeVolumesInput_VolumeStatus :: "string option"
  DescribeVolumesInput_VolumeType :: "string option"
  DescribeVolumesInput_ZoneId :: "string option"

definition zero_DescribeVolumesInput :: DescribeVolumesInput where
  "zero_DescribeVolumesInput = \<lparr>DescribeVolumesInput_AccountId = None,
     DescribeVolumesInput_AutoSnapshotPolicyId = None,
     DescribeVolumesInput_Encrypted = None,
     DescribeVolumesInput_FieldMask = None,
     DescribeVolumesInput_InstanceId = None,
     DescribeVolumesInput_KMSKeyId = None,
     DescribeVolumesInput_Kind = None,
     DescribeVolumesInput_PageNumber = None,
     DescribeVolumesInput_PageSize = None,
     DescribeVolumesInput_ProjectName = None,
     DescribeVolumesInput_SysTagVisible = None,
     DescribeVolumesInput_TagFilters = [],
     DescribeVolumesInput_VolumeIds = [],
     DescribeVolumesInput_VolumeName = None,
     DescribeVolumesInput_VolumeStatus = None,
     DescribeVolumesInput_VolumeType = None,
     DescribeVolumesInput_ZoneId = None\<rparr>"

record TagForDescribeVolumesOutput =
  TagForDescribeVolumesOutput_Key :: "string option"
  TagForDescribeVolumesOutput_Value :: "string option"

record VolumeForDescribeVolumesOutput =
  VolumeForDescribeVolumesOutput_AutoSnapshotPolicyId :: "string option"
  VolumeForDescribeVolumesOutput_AutoSnapshotPolicyName :: "string option"
  VolumeForDescribeVolumesOutput_BillingType :: "32 word option"
  VolumeForDescribeVolumesOutput_CreatedAt :: "string option"
  VolumeForDescribeVolumesOutput_DeleteWithInstance :: "bool option"
  VolumeForDescribeVolumesOutput_Description :: "string option"
  VolumeForDescribeVolumesOutput_DeviceName :: "string option"
  VolumeForDescribeVolumesOutput_Encrypted :: "bool option"
  VolumeForDescribeVolumesOutput_ErrorDetail :: "string option"
  VolumeForDescribeVolumesOutput_ExpiredTime :: "string option"
  VolumeForDescribeVolumesOutput_ImageId :: "string option"
  VolumeForDescribeVolumesOutput_InstanceId :: "string option"
  VolumeForDescribeVolumesOutput_KMSKeyId :: "string option"
  VolumeForDescribeVolumesOutput_Kind :: "string option"
  VolumeForDescribeVolumesOutput_OverdueReclaimTime :: "string option"
  VolumeForDescribeVolumesOutput_OverdueTime :: "string option"
  VolumeForDescribeVolumesOutput_PayType :: "string option"
  VolumeForDescribeVolumesOutput_ProjectName :: "string option"
  VolumeForDescribeVolumesOutput_RenewType :: "32 word option"
  VolumeForDescribeVolumesOutput_Size :: "string option"
  VolumeForDescribeVolumesOutput_SnapshotCount :: "32 word option"
  VolumeForDescribeVolumesOutput_SourceSnapshotId :: "string option"
  VolumeForDescribeVolumesOutput_Status :: "string option"
  VolumeForDescribeVolumesOutput_Tags :: "TagForDescribeVolumesOutput option list"
  VolumeForDescribeVolumesOutput_TradeStatus :: "32 word option"
  VolumeForDescribeVolumesOutput_UpdatedAt :: "string option"
  VolumeForDescribeVolumesOutput_VolumeId :: "string option"
  VolumeForDescribeVolumesOutput_VolumeName :: "string option"
  VolumeForDescribeVolumesOutput_VolumeType :: "string option"
  VolumeForDescribeVolumesOutput_ZoneId :: "string option"

definition zero_VolumeForDescribeVolumesOutput :: VolumeForDescribeVolumesOutput where
  "zero_VolumeForDescribeVolumesOutput = \<lparr>VolumeForDescribeVolumesOutput_AutoSnapshotPolicyId = None,
     VolumeForDescribeVolumesOutput_AutoSnapshotPolicyName = None,
     VolumeForDescribeVolumesOutput_BillingType = None,
     VolumeForDescribeVolumesOutput_CreatedAt = None,
     VolumeForDescribeVolumesOutput_DeleteWithInstance = None,
     VolumeForDescribeVolumesOutput_Description = None,
     VolumeForDescribeVolumesOutput_DeviceName = None,
     VolumeForDescribeVolumesOutput_Encrypted = None,
     VolumeForDescribeVolumesOutput_ErrorDetail = None,
     VolumeForDescribeVolumesOutput_ExpiredTime = None,
     VolumeForDescribeVolumesOutput_ImageId = None,
     VolumeForDescribeVolumesOutput_InstanceId = None,
     VolumeForDescribeVolumesOutput_KMSKeyId = None,
     VolumeForDescribeVolumesOutput_Kind = None,
     VolumeForDescribeVolumesOutput_OverdueReclaimTime = None,
     VolumeForDescribeVolumesOutput_OverdueTime = None,
     VolumeForDescribeVolumesOutput_PayType = None,
     VolumeForDescribeVolumesOutput_ProjectName = None,
     VolumeForDescribeVolumesOutput_RenewType = None,
     VolumeForDescribeVolumesOutput_Size = None,
     VolumeForDescribeVolumesOutput_SnapshotCount = None,
     VolumeForDescribeVolumesOutput_SourceSnapshotId = None,
     VolumeForDescribeVolumesOutput_Status = None,
     VolumeForDescribeVolumesOutput_Tags = [],
     VolumeForDescribeVolumesOutput_TradeStatus = None,
     VolumeForDescribeVolumesOutput_UpdatedAt = None,
     VolumeForDescribeVolumesOutput_VolumeId = None,
     VolumeForDescribeVolumesOutput_VolumeName = None,
     VolumeForDescribeVolumesOutput_VolumeType = None,
     VolumeForDescribeVolumesOutput_ZoneId = None\<rparr>"

record DescribeVolumesOutput =
  DescribeVolumesOutput_Metadata :: "ResponseMetadata option"
  DescribeVolumesOutput_PageNumber :: "32 word option"
  DescribeVolumesOutput_PageSize :: "32 word option"
  DescribeVolumesOutput_TotalCount :: "32 word option"
  DescribeVolumesOutput_Volumes :: "VolumeForDescribeVolumesOutput option list"

definition zero_DescribeVolumesOutput :: DescribeVolumesOutput where
  "zero_DescribeVolumesOutput = \<lparr>DescribeVolumesOutput_Metadata = None,
     DescribeVolumesOutput_PageNumber = None,
     DescribeVolumesOutput_PageSize = None,
     DescribeVolumesOutput_TotalCount = None,
     DescribeVolumesOutput_Volumes = []\<rparr>"

record DescribeInstanceTypesInput =
  DescribeInstanceTypesInput_InstanceTypeIds :: "string option list"
  DescribeInstanceTypesInput_InstanceTypes :: "string option list"
  DescribeInstanceTypesInput_MaxResults :: "32 word option"
  DescribeInstanceTypesInput_NextToken :: "string option"

definition zero_DescribeInstanceTypesInput :: DescribeInstanceTypesInput where
  "zero_DescribeInstanceTypesInput = \<lparr>DescribeInstanceTypesInput_InstanceTypeIds = [],
     DescribeInstanceTypesInput_InstanceTypes = [],
     DescribeInstanceTypesInput_MaxResults = None,
     DescribeInstanceTypesInput_NextToken = None\<rparr>"

record LocalVolumeForDescribeInstanceTypesOutput =
  LocalVolumeForDescribeInstanceTypesOutput_Count :: "32 word option"
  LocalVolumeForDescribeInstanceTypesOutput_Size :: "32 word option"
  LocalVolumeForDescribeInstanceTypesOutput_VolumeType :: "string option"

record VolumeForDescribeInstanceTypesOutput =
  VolumeForDescribeInstanceTypesOutput_MaximumCount :: "32 word option"
  VolumeForDescribeInstanceTypesOutput_SupportedVolumeTypes :: "string option list"

definition zero_VolumeForDescribeInstanceTypesOutput :: VolumeForDescribeInstanceTypesOutput where
  "zero_VolumeForDescribeInstanceTypesOutput = \<lparr>VolumeForDescribeInstanceTypesOutput_MaximumCount = None,
     VolumeForDescribeInstanceTypesOutput_SupportedVolumeTypes = []\<rparr>"

record InstanceTypeForDescribeInstanceTypesOutput =
  InstanceTypeForDescribeInstanceTypesOutput_InstanceTypeFamily :: "string option"
  InstanceTypeForDescribeInstanceTypesOutput_InstanceTypeId :: "string option"
  InstanceTypeForDescribeInstanceTypesOutput_LocalVolumes :: "LocalVolumeForDescribeInstanceTypesOutput option list"
  InstanceTypeForDescribeInstanceTypesOutput_Volume :: "VolumeForDescribeInstanceTypesOutput option"

definition zero_InstanceTypeForDescribeInstanceTypesOutput :: InstanceTypeForDescribeInstanceTypesOutput where
  "zero_InstanceTypeForDescribeInstanceTypesOutput = \<lparr>InstanceTypeForDescribeInstanceTypesOutput_InstanceTypeFamily = None,
     InstanceTypeForDescribeInstanceTypesOutput_InstanceTypeId = None,
     InstanceTypeForDescribeInstanceTypesOutput_LocalVolumes = [],
     InstanceTypeForDescribeInstanceTypesOutput_Volume = None\<rparr>"

record DescribeInstanceTypesOutput =
  DescribeInstanceTypesOutput_Metadata :: "ResponseMetadata option"
  DescribeInstanceTypesOutput_InstanceTypes :: "InstanceTypeForDescribeInstanceTypesOutput option list"
  DescribeInstanceTypesOutput_NextToken :: "string option"
  DescribeInstanceTypesOutput_TotalCount :: "32 word option"

definition zero_DescribeInstanceTypesOutput :: DescribeInstanceTypesOutput where
  "zero_DescribeInstanceTypesOutput = \<lparr>DescribeInstanceTypesOutput_Metadata = None,
     DescribeInstanceTypesOutput_InstanceTypes = [],
     DescribeInstanceTypesOutput_NextToken = None,
     DescribeInstanceTypesOutput_TotalCount = None\<rparr>"

record DescribeInstanceReqOptionForDescribeInstancesInput =
  DescribeInstanceReqOptionForDescribeInstancesInput_NeedEipInfo :: "bool option"
  DescribeInstanceReqOptionForDescribeInstancesInput_NeedInstanceTypeInfo :: "bool option"
  DescribeInstanceReqOptionForDescribeInstancesInput_NeedNetworkInfo :: "bool option"
  DescribeInstanceReqOptionForDescribeInstancesInput_NeedTradeInfo :: "bool option"
  DescribeInstanceReqOptionForDescribeInstancesInput_NeedVolumeInfo :: "bool option"

record FieldMaskForDescribeInstancesInput =
  FieldMaskForDescribeInstancesInput_Paths :: "string option"

record TagFilterForDescribeInstancesInput =
  TagFilterForDescribeInstancesInput_Key :: "string option"
  TagFilterForDescribeInstancesInput_Values :: "string option list"

record DescribeInstancesInput =
  DescribeInstancesInput_AccountId :: "string option"
  DescribeInstancesInput_DeploymentSetGroupNumbers :: "int64 option list"
  DescribeInstancesInput_DeploymentSetIds :: "string option list"
  DescribeInstancesInput_DescribeInstanceReqOption :: "DescribeInstanceReqOptionForDescribeInstancesInput option"
  DescribeInstancesInput_FieldMask :: "FieldMaskForDescribeInstancesInput option"
  DescribeInstancesInput_HpcClusterId :: "string option"
  DescribeInstancesInput_InstanceChargeType :: "string option"
  DescribeInstancesInput_InstanceIds :: "string option list"
  DescribeInstancesInput_InstanceName :: "string option"
  DescribeInstancesInput_InstanceType :: "string option"
  DescribeInstancesInput_InstanceTypeFamilies :: "string option list"
  DescribeInstancesInput_InstanceTypeId :: "string option"
  DescribeInstancesInput_InstanceTypeIds :: "string option list"
  DescribeInstancesInput_InstanceTypes :: "string option list"
  DescribeInstancesInput_KeyPairName :: "string option"
  DescribeInstancesInput_MaxResults :: "32 word option"
  DescribeInstancesInput_NetworkInterfaceType :: "string option"
  DescribeInstancesInput_NextToken :: "string option"
  DescribeInstancesInput_NotInDeploymentSet :: "bool option"
  DescribeInstancesInput_PageNumber :: "32 word option"
  DescribeInstancesInput_PageSize :: "32 word option"
  DescribeInstancesInput_PrimaryIpAddress :: "string option"
  DescribeInstancesInput_ProjectName :: "string option"
  DescribeInstancesInput_Status :: "string option"
  DescribeInstancesInput_SubnetId :: "string option"
  DescribeInstancesInput_TagFilters :: "TagFilterForDescribeInstancesInput option list"
  DescribeInstancesInput_VpcId :: "string option"
  DescribeInstancesInput_ZoneId :: "string option"

definition zero_DescribeInstancesInput :: DescribeInstancesInput where
  "zero_DescribeInstancesInput = \<lparr>DescribeInstancesInput_AccountId = None,
     DescribeInstancesInput_DeploymentSetGroupNumbers = [],
     DescribeInstancesInput_DeploymentSetIds = [],
     DescribeInstancesInput_DescribeInstanceReqOption = None,
     DescribeInstancesInput_FieldMask = None,
     DescribeInstancesInput_HpcClusterId = None,
     DescribeInstancesInput_InstanceChargeType = None,
     DescribeInstancesInput_InstanceIds = [],
     DescribeInstancesInput_InstanceName = None,
     DescribeInstancesInput_InstanceType = None,
     DescribeInstancesInput_InstanceTypeFamilies = [],
     DescribeInstancesInput_InstanceTypeId = None,
     DescribeInstancesInput_InstanceTypeIds = [],
     DescribeInstancesInput_InstanceTypes = [],
     DescribeInstancesInput_KeyPairName = None,
     DescribeInstancesInput_MaxResults = None,
     DescribeInstancesInput_NetworkInterfaceType = None,
     DescribeInstancesInput_NextToken = None,
     DescribeInstancesInput_NotInDeploymentSet = None,
     DescribeInstancesInput_PageNumber = None,
     DescribeInstancesInput_PageSize = None,
     DescribeInstancesInput_PrimaryIpAddress = None,
     DescribeInstancesInput_ProjectName = None,
     DescribeInstancesInput_Status = None,
     DescribeInstancesInput_SubnetId = None,
     DescribeInstancesInput_TagFilters = [],
     DescribeInstancesInput_VpcId = None,
     DescribeInstancesInput_ZoneId = None\<rparr>"

record CpuOptionsForDescribeInstancesOutput =
  CpuOptionsForDescribeInstancesOutput_CoreCount :: "32 word option"
  CpuOptionsForDescribeInstancesOutput_ThreadsPerCore :: "32 word option"

record EipAddressForDescribeInstancesOutput =
  EipAddressForDescribeInstancesOutput_AllocationId :: "string option"
  EipAddressForDescribeInstancesOutput_Bandwidth :: "32 word option"
  EipAddressForDescribeInstancesOutput_IpAddress :: "string option"

record InstanceTypeForDescribeInstancesOutput =
  InstanceTypeForDescribeInstancesOutput_Architecture :: "string option"
  InstanceTypeForDescribeInstancesOutput_Cpu :: "32 word option"
  InstanceTypeForDescribeInstancesOutput_Id :: "string option"
  InstanceTypeForDescribeInstancesOutput_InstanceTypeFamily :: "string option"
  InstanceTypeForDescribeInstancesOutput_Mem :: "32 word option"
  InstanceTypeForDescribeInstancesOutput_NetKppsQuota :: "32 word option"
  InstanceTypeForDescribeInstancesOutput_NetMbpsQuota :: "32 word option"
  InstanceTypeForDescribeInstancesOutput_NetSessionQuota :: "32 word option"
  InstanceTypeForDescribeInstancesOutput_NetworkInterfaceNumQuota :: "32 word option"
  InstanceTypeForDescribeInstancesOutput_PrivateIpQuota :: "32 word option"
  InstanceTypeForDescribeInstancesOutput_VolumeTypes :: "string option list"

definition zero_InstanceTypeForDescribeInstancesOutput :: InstanceTypeForDescribeInstancesOutput where
  "zero_InstanceTypeForDescribeInstancesOutput = \<lparr>InstanceTypeForDescribeInstancesOutput_Architecture = None,
     InstanceTypeForDescribeInstancesOutput_Cpu = None,
     InstanceTypeForDescribeInstancesOutput_Id = None,
     InstanceTypeForDescribeInstancesOutput_InstanceTypeFamily = None,
     InstanceTypeForDescribeInstancesOutput_Mem = None,
     InstanceTypeForDescribeInstancesOutput_NetKppsQuota = None,
     InstanceTypeForDescribeInstancesOutput_NetMbpsQuota = None,
     InstanceTypeForDescribeInstancesOutput_NetSessionQuota = None,
     InstanceTypeForDescribeInstancesOutput_NetworkInterfaceNumQuota = None,
     InstanceTypeForDescribeInstancesOutput_PrivateIpQuota = None,
     InstanceTypeForDescribeInstancesOutput_VolumeTypes = []\<rparr>"

record LocalVolumeForDescribeInstancesOutput =
  LocalVolumeForDescribeInstancesOutput_Count :: "32 word option"
  LocalVolumeForDescribeInstancesOutput_Size :: "32 word option"
  LocalVolumeForDescribeInstancesOutput_VolumeType :: "string option"

record NetworkInterfaceForDescribeInstancesOutput =
  NetworkInterfaceForDescribeInstancesOutput_Ipv6Addresses :: "string option list"
  NetworkInterfaceForDescribeInstancesOutput_MacAddress :: "string option"
  NetworkInterfaceForDescribeInstancesOutput_NetworkInterfaceId :: "string option"
  NetworkInterfaceForDescribeInstancesOutput_PrimaryIpAddress :: "string option"
  NetworkInterfaceForDescribeInstancesOutput_PrivateIpAddresses :: "string option list"
  NetworkInterfaceForDescribeInstancesOutput_SubnetId :: "string option"
  NetworkInterfaceForDescribeInstancesOutput_Type :: "string option"
  NetworkInterfaceForDescribeInstancesOutput_VpcId :: "string option"

record TagForDescribeInstancesOutput =
  TagForDescribeInstancesOutput_Key :: "string option"
  TagForDescribeInstancesOutput_Value :: "string option"

record VolumeForDescribeInstancesOutput =
  VolumeForDescribeInstancesOutput_DeleteWithInstance :: "bool option"
  VolumeForDescribeInstancesOutput_ImageId :: "string option"
  VolumeForDescribeInstancesOutput_Kind :: "string option"
  VolumeForDescribeInstancesOutput_Size :: "string option"
  VolumeForDescribeInstancesOutput_Status :: "string option"
  VolumeForDescribeInstancesOutput_VolumeId :: "string option"
  VolumeForDescribeInstancesOutput_VolumeName :: "string option"
  VolumeForDescribeInstancesOutput_VolumeType :: "string option"

definition zero_VolumeForDescribeInstancesOutput :: VolumeForDescribeInstancesOutput where
  "zero_VolumeForDescribeInstancesOutput = \<lparr>VolumeForDescribeInstancesOutput_DeleteWithInstance = None,
     VolumeForDescribeInstancesOutput_ImageId = None,
     VolumeForDescribeInstancesOutput_Kind = None,
     VolumeForDescribeInstancesOutput_Size = None,
     VolumeForDescribeInstancesOutput_Status = None,
     VolumeForDescribeInstancesOutput_VolumeId = None,
     VolumeForDescribeInstancesOutput_VolumeName = None,
     VolumeForDescribeInstancesOutput_VolumeType = None\<rparr>"

record InstanceForDescribeInstancesOutput =
  InstanceForDescribeInstancesOutput_AccountId :: "string option"
  InstanceForDescribeInstancesOutput_CpuOptions :: "CpuOptionsForDescribeInstancesOutput option"
  InstanceForDescribeInstancesOutput_Cpus :: "32 word option"
  InstanceForDescribeInstancesOutput_CreatedAt :: "string option"
  InstanceForDescribeInstancesOutput_DeploymentSetGroupNumber :: "32 word option"
  InstanceForDescribeInstancesOutput_DeploymentSetId :: "string option"
  InstanceForDescribeInstancesOutput_Description :: "string option"
  InstanceForDescribeInstancesOutput_EipAddress :: "EipAddressForDescribeInstancesOutput option"
  InstanceForDescribeInstancesOutput_ExpiredAt :: "string option"
  InstanceForDescribeInstancesOutput_HostName :: "string option"
  InstanceForDescribeInstancesOutput_Hostname :: "string option"
  InstanceForDescribeInstancesOutput_HpcClusterId :: "string option"
  InstanceForDescribeInstancesOutput_Id :: "string option"
  InstanceForDescribeInstancesOutput_ImageId :: "string option"
  InstanceForDescribeInstancesOutput_InstanceChargeType :: "string option"
  InstanceForDescribeInstancesOutput_InstanceId :: "string option"
  InstanceForDescribeInstancesOutput_InstanceName :: "string option"
  InstanceForDescribeInstancesOutput_InstanceType :: "InstanceTypeForDescribeInstancesOutput option"
  InstanceForDescribeInstancesOutput_InstanceTypeId :: "string option"
  InstanceForDescribeInstancesOutput_KeyPairId :: "string option"
  InstanceForDescribeInstancesOutput_KeyPairName :: "string option"
  InstanceForDescribeInstancesOutput_LocalVolumes :: "LocalVolumeForDescribeInstancesOutput option list"
  InstanceForDescribeInstancesOutput_MemorySize :: "32 word option"
  InstanceForDescribeInstancesOutput_NetworkInterfaces :: "NetworkInterfaceForDescribeInstancesOutput option list"
  InstanceForDescribeInstancesOutput_OsName :: "string option"
  InstanceForDescribeInstancesOutput_OsType :: "string option"
  InstanceForDescribeInstancesOutput_OverdueAt :: "string option"
  InstanceForDescribeInstancesOutput_OverdueReclaimedAt :: "string option"
  InstanceForDescribeInstancesOutput_ProjectName :: "string option"
  InstanceForDescribeInstancesOutput_RdmaIpAddresses :: "string option list"
  InstanceForDescribeInstancesOutput_ReclaimedAt :: "string option"
  InstanceForDescribeInstancesOutput_RenewType :: "32 word option"
  InstanceForDescribeInstancesOutput_SpotStrategy :: "string option"
  InstanceForDescribeInstancesOutput_Status :: "string option"
  InstanceForDescribeInstancesOutput_StoppedMode :: "string option"
  InstanceForDescribeInstancesOutput_Tags :: "TagForDescribeInstancesOutput option list"
  InstanceForDescribeInstancesOutput_TradeStatus :: "32 word option"
  InstanceForDescribeInstancesOutput_UpdatedAt :: "string option"
  InstanceForDescribeInstancesOutput_UserData :: "string option"
  InstanceForDescribeInstancesOutput_Uuid :: "string option"
  InstanceForDescribeInstancesOutput_Volumes :: "VolumeForDescribeInstancesOutput option list"
  InstanceForDescribeInstancesOutput_VpcId :: "string option"
  InstanceForDescribeInstancesOutput_ZoneId :: "string option"

definition zero_InstanceForDescribeInstancesOutput :: InstanceForDescribeInstancesOutput where
  "zero_InstanceForDescribeInstancesOutput = \<lparr>InstanceForDescribeInstancesOutput_AccountId = None,
     InstanceForDescribeInstancesOutput_CpuOptions = None,
     InstanceForDescribeInstancesOutput_Cpus = None,
     InstanceForDescribeInstancesOutput_CreatedAt = None,
     InstanceForDescribeInstancesOutput_DeploymentSetGroupNumber = None,
     InstanceForDescribeInstancesOutput_DeploymentSetId = None,
     InstanceForDescribeInstancesOutput_Description = None,
     InstanceForDescribeInstancesOutput_EipAddress = None,
     InstanceForDescribeInstancesOutput_ExpiredAt = None,
     InstanceForDescribeInstancesOutput_HostName = None,
     InstanceForDescribeInstancesOutput_Hostname = None,
     InstanceForDescribeInstancesOutput_HpcClusterId = None,
     InstanceForDescribeInstancesOutput_Id = None,
     InstanceForDescribeInstancesOutput_ImageId = None,
     InstanceForDescribeInstancesOutput_InstanceChargeType = None,
     InstanceForDescribeInstancesOutput_InstanceId = None,
     InstanceForDescribeInstancesOutput_InstanceName = None,
     InstanceForDescribeInstancesOutput_InstanceType = None,
     InstanceForDescribeInstancesOutput_InstanceTypeId = None,
     InstanceForDescribeInstancesOutput_KeyPairId = None,
     InstanceForDescribeInstancesOutput_KeyPairName = None,
     InstanceForDescribeInstancesOutput_LocalVolumes = [],
     InstanceForDescribeInstancesOutput_MemorySize = None,
     InstanceForDescribeInstancesOutput_NetworkInterfaces = [],
     InstanceForDescribeInstancesOutput_OsName = None,
     InstanceForDescribeInstancesOutput_OsType = None,
     InstanceForDescribeInstancesOutput_OverdueAt = None,
     InstanceForDescribeInstancesOutput_OverdueReclaimedAt = None,
     InstanceForDescribeInstancesOutput_ProjectName = None,
     InstanceForDescribeInstancesOutput_RdmaIpAddresses = [],
     InstanceForDescribeInstancesOutput_ReclaimedAt = None,
     InstanceForDescribeInstancesOutput_RenewType = None,
     InstanceForDescribeInstancesOutput_SpotStrategy = None,
     InstanceForDescribeInstancesOutput_Status = None,
     InstanceForDescribeInstancesOutput_StoppedMode = None,
     InstanceForDescribeInstancesOutput_Tags = [],
     InstanceForDescribeInstancesOutput_TradeStatus = None,
     InstanceForDescribeInstancesOutput_UpdatedAt = None,
     InstanceForDescribeInstancesOutput_UserData = None,
     InstanceForDescribeInstancesOutput_Uuid = None,
     InstanceForDescribeInstancesOutput_Volumes = [],
     InstanceForDescribeInstancesOutput_VpcId = None,
     InstanceForDescribeInstancesOutput_ZoneId = None\<rparr>"

record DescribeInstancesOutput =
  DescribeInstancesOutput_Metadata :: "ResponseMetadata option"
  DescribeInstancesOutput_Instances :: "InstanceForDescribeInstancesOutput option list"
  DescribeInstancesOutput_NextToken :: "string option"
  DescribeInstancesOutput_PageNumber :: "32 word option"
  DescribeInstancesOutput_PageSize :: "32 word option"
  DescribeInstancesOutput_TotalCount :: "32 word option"

definition zero_DescribeInstancesOutput :: DescribeInstancesOutput where
  "zero_DescribeInstancesOutput = \<lparr>DescribeInstancesOutput_Metadata = None,
     DescribeInstancesOutput_Instances = [],
     DescribeInstancesOutput_NextToken = None,
     DescribeInstancesOutput_PageNumber = None,
     DescribeInstancesOutput_PageSize = None,
     DescribeInstancesOutput_TotalCount = None\<rparr>"

record DeleteSnapshotInput =
  DeleteSnapshotInput_ClientToken :: "string option"
  DeleteSnapshotInput_SnapshotId :: "string option"

definition zero_DeleteSnapshotInput :: DeleteSnapshotInput where
  "zero_DeleteSnapshotInput = \<lparr>DeleteSnapshotInput_ClientToken = None,
     DeleteSnapshotInput_SnapshotId = None\<rparr>"

record TagForCreateSnapshotInput =
  TagForCreateSnapshotInput_Key :: "string option"
  TagForCreateSnapshotInput_Value :: "string option"

record CreateSnapshotInput =
  CreateSnapshotInput_ClientToken :: "string option"
  CreateSnapshotInput_Description :: "string option"
  CreateSnapshotInput_InstantAccess :: "bool option"
  CreateSnapshotInput_IsAuto :: "bool option"
  CreateSnapshotInput_ProjectName :: "string option"
  CreateSnapshotInput_RetentionDays :: "32 word option"
  CreateSnapshotInput_SnapshotName :: "string option"
  CreateSnapshotInput_Tags :: "TagForCreateSnapshotInput option list"
  CreateSnapshotInput_VolumeId :: "string option"

definition zero_CreateSnapshotInput :: CreateSnapshotInput where
  "zero_CreateSnapshotInput = \<lparr>CreateSnapshotInput_ClientToken = None,
     CreateSnapshotInput_Description = None,
     CreateSnapshotInput_InstantAccess = None,
     CreateSnapshotInput_IsAuto = None,
     CreateSnapshotInput_ProjectName = None,
     CreateSnapshotInput_RetentionDays = None,
     CreateSnapshotInput_SnapshotName = None,
     CreateSnapshotInput_Tags = [],
     CreateSnapshotInput_VolumeId = None\<rparr>"

record FilterForDescribeSnapshotsInput =
  FilterForDescribeSnapshotsInput_Key :: "string option"
  FilterForDescribeSnapshotsInput_Value :: "string option"

record TagFilterForDescribeSnapshotsInput =
  TagFilterForDescribeSnapshotsInput_Key :: "string option"
  TagFilterForDescribeSnapshotsInput_Values :: "string option list"

record DescribeSnapshotsInput =
  DescribeSnapshotsInput_Encrypted :: "bool option"
  DescribeSnapshotsInput_Filter :: "FilterForDescribeSnapshotsInput option list"
  DescribeSnapshotsInput_KMSKeyId :: "string option"
  DescribeSnapshotsInput_PageNumber :: "32 word option"
  DescribeSnapshotsInput_PageSize :: "32 word option"
  DescribeSnapshotsInput_ProjectName :: "string option"
  DescribeSnapshotsInput_SnapshotIds :: "string option list"
  DescribeSnapshotsInput_SnapshotName :: "string option"
  DescribeSnapshotsInput_SnapshotStatus :: "string option list"
  DescribeSnapshotsInput_SysTagVisible :: "bool option"
  DescribeSnapshotsInput_TagFilters :: "TagFilterForDescribeSnapshotsInput option list"
  DescribeSnapshotsInput_VolumeId :: "string option"
  DescribeSnapshotsInput_ZoneId :: "string option"

definition zero_DescribeSnapshotsInput :: DescribeSnapshotsInput where
  "zero_DescribeSnapshotsInput = \<lparr>DescribeSnapshotsInput_Encrypted = None,
     DescribeSnapshotsInput_Filter = [],
     DescribeSnapshotsInput_KMSKeyId = None,
     DescribeSnapshotsInput_PageNumber = None,
     DescribeSnapshotsInput_PageSize = None,
     DescribeSnapshotsInput_ProjectName = None,
     DescribeSnapshotsInput_SnapshotIds = [],
     DescribeSnapshotsInput_SnapshotName = None,
     DescribeSnapshotsInput_SnapshotStatus = [],
     DescribeSnapshotsInput_SysTagVisible = None,
     DescribeSnapshotsInput_TagFilters = [],
     DescribeSnapshotsInput_VolumeId = None,
     DescribeSnapshotsInput_ZoneId = None\<rparr>"

record CreateSnapshotOutput =
  CreateSnapshotOutput_Metadata :: "ResponseMetadata option"
  CreateSnapshotOutput_SnapshotId :: "string option"

definition zero_CreateSnapshotOutput :: CreateSnapshotOutput where
  "zero_CreateSnapshotOutput = \<lparr>CreateSnapshotOutput_Metadata = None,
     CreateSnapshotOutput_SnapshotId = None\<rparr>"

record DeleteSnapshotOutput =
  DeleteSnapshotOutput_Metadata :: "ResponseMetadata option"

definition zero_DeleteSnapshotOutput :: DeleteSnapshotOutput where
  "zero_DeleteSnapshotOutput = \<lparr>DeleteSnapshotOutput_Metadata = None\<rparr>"

record TagForDescribeSnapshotsOutput =
  TagForDescribeSnapshotsOutput_Key :: "string option"
  TagForDescribeSnapshotsOutput_Value :: "string option"

record SnapshotForDescribeSnapshotsOutput =
  SnapshotForDescribeSnapshotsOutput_CreationTime :: "string option"
  SnapshotForDescribeSnapshotsOutput_Description :: "string option"
  SnapshotForDescribeSnapshotsOutput_Encrypted :: "bool option"
  SnapshotForDescribeSnapshotsOutput_KMSKeyId :: "string option"
  SnapshotForDescribeSnapshotsOutput_ProjectName :: "string option"
  SnapshotForDescribeSnapshotsOutput_RetentionDays :: "32 word option"
  SnapshotForDescribeSnapshotsOutput_SnapshotId :: "string option"
  SnapshotForDescribeSnapshotsOutput_SnapshotName :: "string option"
  SnapshotForDescribeSnapshotsOutput_SnapshotType :: "string option"
  SnapshotForDescribeSnapshotsOutput_Status :: "string option"
  SnapshotForDescribeSnapshotsOutput_Tags :: "TagForDescribeSnapshotsOutput option list"
  SnapshotForDescribeSnapshotsOutput_VolumeId :: "string option"
  SnapshotForDescribeSnapshotsOutput_VolumeKind :: "string option"
  SnapshotForDescribeSnapshotsOutput_VolumeName :: "string option"
  SnapshotForDescribeSnapshotsOutput_VolumeSize :: "int64 option"
  SnapshotForDescribeSnapshotsOutput_VolumeStatus :: "string option"
  SnapshotForDescribeSnapshotsOutput_VolumeType :: "string option"
  SnapshotForDescribeSnapshotsOutput_ZoneId :: "string option"

definition zero_SnapshotForDescribeSnapshotsOutput :: SnapshotForDescribeSnapshotsOutput where
  "zero_SnapshotForDescribeSnapshotsOutput = \<lparr>SnapshotForDescribeSnapshotsOutput_CreationTime = None,
     SnapshotForDescribeSnapshotsOutput_Description = None,
     SnapshotForDescribeSnapshotsOutput_Encrypted = None,
     SnapshotForDescribeSnapshotsOutput_KMSKeyId = None,
     SnapshotForDescribeSnapshotsOutput_ProjectName = None,
     SnapshotForDescribeSnapshotsOutput_RetentionDays = None,
     SnapshotForDescribeSnapshotsOutput_SnapshotId = None,
     SnapshotForDescribeSnapshotsOutput_SnapshotName = None,
     SnapshotForDescribeSnapshotsOutput_SnapshotType = None,
     SnapshotForDescribeSnapshotsOutput_Status = None,
     SnapshotForDescribeSnapshotsOutput_Tags = [],
     SnapshotForDescribeSnapshotsOutput_VolumeId = None,
     SnapshotForDescribeSnapshotsOutput_VolumeKind = None,
     SnapshotForDescribeSnapshotsOutput_VolumeName = None,
     SnapshotForDescribeSnapshotsOutput_VolumeSize = None,
     SnapshotForDescribeSnapshotsOutput_VolumeStatus = None,
     SnapshotForDescribeSnapshotsOutput_VolumeType = None,
     SnapshotForDescribeSnapshotsOutput_ZoneId = None\<rparr>"

record DescribeSnapshotsOutput =
  DescribeSnapshotsOutput_Metadata :: "ResponseMetadata option"
  DescribeSnapshotsOutput_PageNumber :: "32 word option"
  DescribeSnapshotsOutput_PageSize :: "32 word option"
  DescribeSnapshotsOutput_RequestId :: "string option"
  DescribeSnapshotsOutput_Snapshots :: "SnapshotForDescribeSnapshotsOutput option list"
  DescribeSnapshotsOutput_TotalCount :: "32 word option"

definition zero_DescribeSnapshotsOutput :: DescribeSnapshotsOutput where
  "zero_DescribeSnapshotsOutput = \<lparr>DescribeSnapshotsOutput_Metadata = None,
     DescribeSnapshotsOutput_PageNumber = None,
     DescribeSnapshotsOutput_PageSize = None,
     DescribeSnapshotsOutput_RequestId = None,
     DescribeSnapshotsOutput_Snapshots = [],
     DescribeSnapshotsOutput_TotalCount = None\<rparr>"

end
