(* ===== verification/EBS_Types.thy ===== *)
theory EBS_Types
  imports EBS_API CSI_Types
begin

text \<open>
  \<open>pkg/ebs/types/volume.go\<close> and \<open>snapshot.go\<close>: the driver's own view of a volume and a
  snapshot, the volume states, and the size arithmetic in GB that the controller, the cloud
  client and the node service share; \<open>pkg/ebs/consts\<close>.
\<close>

section \<open>Sizes\<close>

definition GB :: int64 where
  "GB = 1073741824"

text \<open>\<open>(n + types.GB - 1) / types.GB // round up\<close>, in int64.\<close>

definition roundGB :: "int64 \<Rightarrow> int64" where
  "roundGB n = i64_div (n + GB - 1) GB"

lemma sint_GB [simp]: "sint GB = 2 ^ 30"
  by (simp add: GB_def)

text \<open>The range in which neither the addition nor the product back overflows.\<close>

definition size_ok :: "int64 \<Rightarrow> bool" where
  "size_ok n \<longleftrightarrow> 0 \<le> sint n \<and> sint n \<le> 2 ^ 63 - 2 ^ 30"

lemma sint_roundGB: "size_ok n \<Longrightarrow> sint (roundGB n) = (sint n + 2 ^ 30 - 1) div 2 ^ 30"
proof -
  assume n: "size_ok n"
  have a: "sint (n + GB) = sint n + 2 ^ 30 \<or> sint n = 2 ^ 63 - 2 ^ 30"
    using n by (cases "sint n = 2 ^ 63 - 2 ^ 30") (simp_all add: size_ok_def sint_add_i64)
  have g: "sint (GB - 1) = 2 ^ 30 - 1" by (simp add: GB_def)
  have "n + GB - 1 = n + (GB - 1)" by simp
  also have "sint \<dots> = sint n + (2 ^ 30 - 1)"
    using n g by (subst sint_add_i64) (simp_all add: size_ok_def)
  finally have s: "sint (n + GB - 1) = sint n + (2 ^ 30 - 1)" .
  have "0 \<le> sint n" using n by (simp add: size_ok_def)
  with s show ?thesis
    by (simp add: roundGB_def sint_i64_div_pos)
qed

lemma roundGB_bounds:
  assumes "size_ok n"
  shows "sint n \<le> sint (roundGB n) * 2 ^ 30" and "sint (roundGB n) * 2 ^ 30 < sint n + 2 ^ 30"
    and "0 \<le> sint (roundGB n)"
proof -
  have n: "0 \<le> sint n" using assms by (simp add: size_ok_def)
  show "sint n \<le> sint (roundGB n) * 2 ^ 30" "sint (roundGB n) * 2 ^ 30 < sint n + 2 ^ 30"
    using n unfolding sint_roundGB [OF assms] by simp_all
  show "0 \<le> sint (roundGB n)"
    using n unfolding sint_roundGB [OF assms] by (simp add: pos_imp_zdiv_nonneg_iff)
qed

lemma roundGB_le:
  assumes "size_ok n"
  shows "sint (roundGB n) \<le> 2 ^ 33 - 1"
proof -
  have "sint n + 2 ^ 30 - 1 \<le> 2 ^ 63 - 1" using assms by (simp add: size_ok_def)
  then have "(sint n + 2 ^ 30 - 1) div 2 ^ 30 \<le> (2 ^ 63 - 1) div 2 ^ 30"
    by (rule zdiv_mono1) simp
  then show ?thesis by (simp add: sint_roundGB [OF assms])
qed

lemma sint_roundGB_GB: "size_ok n \<Longrightarrow> sint (roundGB n * GB) = sint (roundGB n) * 2 ^ 30"
  using roundGB_bounds [of n] roundGB_le [of n] by (subst sint_mult_i64) simp_all

section \<open>Volumes\<close>

definition EBSStatusAvailable :: string where "EBSStatusAvailable = ''available''"

definition EBSStatusAttached :: string where "EBSStatusAttached = ''attached''"

definition EBSStatusDeleted :: string where "EBSStatusDeleted = ''deleted''"

definition EBSStatusDetaching :: string where "EBSStatusDetaching = ''detaching''"

definition EBSStatusExtending :: string where "EBSStatusExtending = ''extending''"

definition EBSStatusUnknown :: string where "EBSStatusUnknown = ''unknown''"

lemmas EBSStatus_defs = EBSStatusAvailable_def EBSStatusAttached_def EBSStatusDeleted_def
  EBSStatusDetaching_def EBSStatusExtending_def EBSStatusUnknown_def

datatype Status = StatusAvailable | StatusAttached | StatusDeleted | StatusDetaching
  | StatusExtending | StatusUnknown

text \<open>The constants are \<open>uint32\<close> values in the order of \<open>iota\<close>, and ordered as such.\<close>

primrec status_iota :: "Status \<Rightarrow> 32 word" where
  "status_iota StatusAvailable = 0"
| "status_iota StatusAttached = 1"
| "status_iota StatusDeleted = 2"
| "status_iota StatusDetaching = 3"
| "status_iota StatusExtending = 4"
| "status_iota StatusUnknown = 5"

lemma status_iota_inject: "status_iota s = status_iota t \<longleftrightarrow> s = t"
  by (cases s; cases t) simp_all

instantiation Status :: linorder
begin

definition "s \<le> t \<longleftrightarrow> status_iota s \<le> status_iota t"

definition "s < t \<longleftrightarrow> status_iota s < status_iota t" for s t :: Status

instance
  by standard (auto simp: less_eq_Status_def less_Status_def simp flip: status_iota_inject)

end

record Volume =
  Volume_Id :: string
  Volume_Name :: string
  Volume_Status :: Status
  Volume_Capacity :: int64
  Volume_NodeId :: string
  Volume_ZoneId :: string
  Volume_VolumeType :: string

text \<open>The methods take a pointer receiver and answer false on nil.\<close>

fun Attached :: "Volume option \<Rightarrow> bool" where
  "Attached None = False"
| "Attached (Some v) = (Volume_Status v = StatusAttached)"

fun Available :: "Volume option \<Rightarrow> bool" where
  "Available None = False"
| "Available (Some v) = (Volume_Status v = StatusAvailable)"

fun Deleted :: "Volume option \<Rightarrow> bool" where
  "Deleted None = False"
| "Deleted (Some v) = (Volume_Status v = StatusDeleted)"

fun Detaching :: "Volume option \<Rightarrow> bool" where
  "Detaching None = False"
| "Detaching (Some v) = (Volume_Status v = StatusDetaching)"

definition StatusFromString :: "string \<Rightarrow> Status" where
  "StatusFromString st =
     (if st = EBSStatusAvailable then StatusAvailable
      else if st = EBSStatusAttached then StatusAttached
      else if st = EBSStatusDeleted then StatusDeleted
      else if st = EBSStatusDetaching then StatusDetaching
      else if st = EBSStatusExtending then StatusExtending
      else StatusUnknown)"

fun StatusToString :: "Status \<Rightarrow> string" where
  "StatusToString StatusAvailable = EBSStatusAvailable"
| "StatusToString StatusAttached = EBSStatusAttached"
| "StatusToString StatusDeleted = EBSStatusDeleted"
| "StatusToString _ = EBSStatusUnknown"

lemma StatusToString_iff:
  "StatusToString s = EBSStatusAvailable \<longleftrightarrow> s = StatusAvailable"
  "StatusToString s = EBSStatusAttached \<longleftrightarrow> s = StatusAttached"
  "StatusToString s = EBSStatusDeleted \<longleftrightarrow> s = StatusDeleted"
  by (cases s; simp add: EBSStatus_defs)+

lemma StatusFromString_simps [simp]:
  "StatusFromString EBSStatusAvailable = StatusAvailable"
  "StatusFromString EBSStatusAttached = StatusAttached"
  "StatusFromString EBSStatusDeleted = StatusDeleted"
  "StatusFromString EBSStatusDetaching = StatusDetaching"
  "StatusFromString EBSStatusExtending = StatusExtending"
  "StatusFromString EBSStatusUnknown = StatusUnknown"
  by (simp_all add: StatusFromString_def EBSStatus_defs)

section \<open>Snapshots\<close>

record Snapshot =
  Snapshot_SnapshotID :: string
  Snapshot_SourceVolumeID :: string
  Snapshot_Size :: int64
  Snapshot_CreationTime :: go_time
  Snapshot_ReadyToUse :: bool

section \<open>consts/const.go\<close>

definition ebs_DriverName :: string where
  "ebs_DriverName = ''ebs.csi.volcengine.com''"

definition SnapshotID :: string where
  "SnapshotID = ''snapshotID''"

text \<open>The topology keys are variables that command-line flags may change.\<close>

record topology_keys =
  TopologyRegionKey :: string
  TopologyZoneKey :: string

definition default_topology_keys :: topology_keys where
  "default_topology_keys =
     \<lparr>TopologyRegionKey = ''topology.kubernetes.io/region'',
      TopologyZoneKey = ''topology.kubernetes.io/zone''\<rparr>"

end
