(* ===== verification/EBS_Cloud.thy ===== *)
theory EBS_Cloud
  imports EBS_Types
begin

text \<open>
  \<open>pkg/ebs/cloud_interface.go\<close> and \<open>cloud.go\<close>: the interface \<open>Cloud\<close> that the controller
  and node services call, as a record of operations on an outside state \<open>'w\<close>, and its
  implementation \<open>VolcEngin\<close> over the SDK clients. The SDK and the service behind it are
  not part of the program: \<open>sdk\<close> is a parameter, one field per remote action, of which
  nothing is assumed. The state \<open>'w\<close> holds the service, the clock and the request context.
\<close>

section \<open>The interface\<close>

record 'w Cloud =
  cloud_CreateVolume :: "string \<Rightarrow> string \<Rightarrow> string \<Rightarrow> string \<Rightarrow> int64 \<Rightarrow> ('w, error + string) go"
  cloud_ExtendVolume :: "string \<Rightarrow> int64 \<Rightarrow> ('w, error + unit) go"
  cloud_DeleteVolume :: "string \<Rightarrow> ('w, error + unit) go"
  cloud_DevicePathByVolId :: "string \<Rightarrow> ('w, string) go"
  cloud_AttachVolume :: "string \<Rightarrow> string \<Rightarrow> ('w, error + unit) go"
  cloud_DetachVolume :: "string \<Rightarrow> string \<Rightarrow> ('w, error + unit) go"
  cloud_NodeById :: "string \<Rightarrow> ('w, error + InstanceForDescribeInstancesOutput option) go"
  cloud_DescribeInstanceTypes ::
    "string \<Rightarrow> ('w, error + InstanceTypeForDescribeInstanceTypesOutput option) go"
  cloud_VolumeById :: "string \<Rightarrow> ('w, error + Volume option) go"
  cloud_VolumeByName :: "string \<Rightarrow> ('w, error + Volume option) go"
  cloud_CreateSnapshot :: "string \<Rightarrow> string \<Rightarrow> ('w, error + Snapshot option) go"
  cloud_DeleteSnapshot :: "string \<Rightarrow> ('w, error + unit) go"
  cloud_GetSnapshotByName :: "string \<Rightarrow> ('w, error + Snapshot option) go"
  cloud_GetSnapshotByID :: "string \<Rightarrow> ('w, error + Snapshot option) go"
  cloud_Region :: string
  cloud_Zone :: string
  cloud_Topology :: attributes

section \<open>The SDK\<close>

text \<open>
  A universal call fills the response structure it is given and returns an error or nil;
  a call of the typed client returns a response pointer and an error. For the typed
  client's responses only their metadata pointer is read.
\<close>

record 'w sdk =
  sdk_CreateVolume :: "CreateVolumeInput \<Rightarrow> 'w \<Rightarrow> (error option \<times> CreateVolumeOutput) \<times> 'w"
  sdk_DescribeVolumes :: "DescribeVolumesInput \<Rightarrow> 'w \<Rightarrow> (error option \<times> DescribeVolumesOutput) \<times> 'w"
  sdk_CreateSnapshot :: "CreateSnapshotInput \<Rightarrow> 'w \<Rightarrow> (error option \<times> CreateSnapshotOutput) \<times> 'w"
  sdk_DeleteSnapshot :: "DeleteSnapshotInput \<Rightarrow> 'w \<Rightarrow> (error option \<times> DeleteSnapshotOutput) \<times> 'w"
  sdk_DescribeSnapshots ::
    "DescribeSnapshotsInput \<Rightarrow> 'w \<Rightarrow> (error option \<times> DescribeSnapshotsOutput) \<times> 'w"
  sdk_DescribeInstances ::
    "DescribeInstancesInput \<Rightarrow> 'w \<Rightarrow> (error option \<times> DescribeInstancesOutput) \<times> 'w"
  sdk_DescribeInstanceTypes ::
    "DescribeInstanceTypesInput \<Rightarrow> 'w \<Rightarrow> (error option \<times> DescribeInstanceTypesOutput) \<times> 'w"
  sdk_ExtendVolume ::
    "string \<Rightarrow> string \<Rightarrow> 'w \<Rightarrow> (error option \<times> ResponseMetadata option option) \<times> 'w"
  sdk_DeleteVolume :: "string \<Rightarrow> 'w \<Rightarrow> (error option \<times> ResponseMetadata option option) \<times> 'w"
  sdk_AttachVolume ::
    "string \<Rightarrow> string \<Rightarrow> 'w \<Rightarrow> (error option \<times> ResponseMetadata option option) \<times> 'w"
  sdk_DetachVolume ::
    "string \<Rightarrow> string \<Rightarrow> 'w \<Rightarrow> (error option \<times> ResponseMetadata option option) \<times> 'w"
  ctx_err :: "'w \<Rightarrow> error option"  \<comment> \<open>\<open>ctx.Done()\<close> is closed, with this \<open>ctx.Err()\<close>\<close>
  sleep_ms :: "nat \<Rightarrow> 'w \<Rightarrow> 'w"  \<comment> \<open>\<open>time.Sleep\<close>, during which the world moves on\<close>
  device_by_volume_id :: "string \<Rightarrow> ('w, error + string) go"  \<comment> \<open>\<open>util.GetDeviceByVolumeID\<close>\<close>
  parse_time :: "string \<Rightarrow> go_time option"  \<comment> \<open>\<open>time.Parse(time.RFC3339, s)\<close>\<close>

record 'w VolcEngin =
  svcClients :: "'w sdk"
  region :: string
  zone :: string

section \<open>Reading volumes\<close>

text \<open>
  The literal that \<open>VolumeById\<close> and \<open>VolumeByName\<close> build from the first volume of the
  answer, with its pointers read in the order of the source.
\<close>

definition volume_of_output :: "VolumeForDescribeVolumesOutput \<Rightarrow> int64 \<Rightarrow> ('w, error + Volume option) go" where
  "volume_of_output v sizeGB =
     bnd (deref (VolumeForDescribeVolumesOutput_VolumeId v)) (\<lambda>vid.
     bnd (deref (VolumeForDescribeVolumesOutput_VolumeName v)) (\<lambda>name.
     bnd (deref (VolumeForDescribeVolumesOutput_Status v)) (\<lambda>status.
     bnd (deref (VolumeForDescribeVolumesOutput_InstanceId v)) (\<lambda>node.
     bnd (deref (VolumeForDescribeVolumesOutput_ZoneId v)) (\<lambda>zn.
     bnd (deref (VolumeForDescribeVolumesOutput_VolumeType v)) (\<lambda>ty.
     ret (Inr (Some \<lparr>Volume_Id = vid, Volume_Name = name,
       Volume_Status = StatusFromString status, Volume_Capacity = sizeGB * GB,
       Volume_NodeId = node, Volume_ZoneId = zn, Volume_VolumeType = ty\<rparr>))))))))"

definition first_volume :: "string \<Rightarrow> VolumeForDescribeVolumesOutput option list \<Rightarrow> ('w, error + Volume option) go" where
  "first_volume what vols =
     (case vols of
        [] \<Rightarrow> ret (Inr None)
      | p # _ \<Rightarrow>
          bnd (deref p) (\<lambda>v.
          bnd (deref (VolumeForDescribeVolumesOutput_ErrorDetail v)) (\<lambda>detail.
          if detail \<noteq> [] then ret (Inl (PlainError (''volume create failed with '' @ what @ '': '' @ detail)))
          else
            bnd (deref (VolumeForDescribeVolumesOutput_Size v)) (\<lambda>size.
            case ParseInt64 size of
              None \<Rightarrow> ret (Inl (PlainError ''parse ebs volume size to int failed''))
            | Some sizeGB \<Rightarrow> volume_of_output v sizeGB))))"

definition VolcEngin_VolumeById :: "'w VolcEngin \<Rightarrow> string \<Rightarrow> ('w, error + Volume option) go" where
  "VolcEngin_VolumeById volc volId =
     bnd (call (sdk_DescribeVolumes (svcClients volc)
            (zero_DescribeVolumesInput\<lparr>DescribeVolumesInput_VolumeIds := [Some volId]\<rparr>))) (\<lambda>(err, resp).
     case err of
       Some e \<Rightarrow> ret (Inl (WrapError (''get volume by id '' @ volId @ '' failed: '') e))
     | None \<Rightarrow>
       (case DescribeVolumesOutput_Metadata resp of
          None \<Rightarrow> ret (Inl (PlainError ''response from volc stack is nil''))
        | Some md \<Rightarrow>
          (case MetadataError md of
             Some e \<Rightarrow> ret (Inl (PlainError (''get volume by id '' @ volId @ '' error: '' @ e)))
           | None \<Rightarrow> first_volume (''id '' @ volId) (DescribeVolumesOutput_Volumes resp))))"

definition VolcEngin_VolumeByName :: "'w VolcEngin \<Rightarrow> string \<Rightarrow> ('w, error + Volume option) go" where
  "VolcEngin_VolumeByName volc name =
     bnd (call (sdk_DescribeVolumes (svcClients volc)
            (zero_DescribeVolumesInput\<lparr>DescribeVolumesInput_VolumeName := Some name,
               DescribeVolumesInput_PageNumber := Some 1,
               DescribeVolumesInput_PageSize := Some 10\<rparr>))) (\<lambda>(err, resp).
     case err of
       Some e \<Rightarrow> ret (Inl (WrapError (''get volume by name '' @ name @ '' failed: '') e))
     | None \<Rightarrow>
       (case DescribeVolumesOutput_Metadata resp of
          None \<Rightarrow> ret (Inl (PlainError ''response from volc stack is nil''))
        | Some md \<Rightarrow>
          (case MetadataError md of
             Some e \<Rightarrow> ret (Inl (PlainError (''get volume by name '' @ name @ '' error: '' @ e)))
           | None \<Rightarrow> first_volume (''name '' @ name) (DescribeVolumesOutput_Volumes resp))))"

section \<open>Waiting\<close>

text \<open>
  The three wait functions are the same loop, \<open>for { select { case <-ctx.Done(): return
  ctx.Err(); default: ... time.Sleep(500 * time.Millisecond) } }\<close>, around a different round.
  A round ends the loop with a result or asks for another one. The loop may go on forever
  if the context never ends: then its value is \<open>None\<close>.
\<close>

datatype 'a round = Stop 'a | Again

partial_function (option) poll ::
  "'w sdk \<Rightarrow> ('w, (error + unit) round) go \<Rightarrow> 'w \<Rightarrow> ((error + unit) outcome \<times> 'w) option" where
  "poll sdk rnd w =
     (case ctx_err sdk w of
        Some e \<Rightarrow> Some (Ret (Inl e), w)
      | None \<Rightarrow>
        (case rnd w of
           None \<Rightarrow> None
         | Some (Panic, w1) \<Rightarrow> Some (Panic, w1)
         | Some (Ret (Stop r), w1) \<Rightarrow> Some (Ret r, w1)
         | Some (Ret Again, w1) \<Rightarrow> poll sdk rnd (sleep_ms sdk 500 w1)))"

declare poll.simps [code]

definition status_round :: "'w VolcEngin \<Rightarrow> string \<Rightarrow> string \<Rightarrow> ('w, (error + unit) round) go" where
  "status_round volc volId status =
     bnd (VolcEngin_VolumeById volc volId) (\<lambda>r.
     case r of
       Inl e \<Rightarrow> ret (Stop (Inl e))
     | Inr None \<Rightarrow>
         (if status = ''deleted'' then ret (Stop (Inr ()))
          else ret (Stop (Inl (PlainError ''volume cannot be found''))))
     | Inr (Some vol) \<Rightarrow>
         (if StatusToString (Volume_Status vol) = status then ret (Stop (Inr ())) else ret Again))"

definition WaitVolumeBeStatus :: "'w VolcEngin \<Rightarrow> string \<Rightarrow> string \<Rightarrow> ('w, error + unit) go" where
  "WaitVolumeBeStatus volc volId status = poll (svcClients volc) (status_round volc volId status)"

definition created_round :: "'w VolcEngin \<Rightarrow> string \<Rightarrow> ('w, (error + unit) round) go" where
  "created_round volc volId =
     bnd (VolcEngin_VolumeById volc volId) (\<lambda>r.
     case r of
       Inr (Some vol) \<Rightarrow> ret (Stop (Inr ()))
     | _ \<Rightarrow> ret Again)"

definition WaitVolumeBeCreated :: "'w VolcEngin \<Rightarrow> string \<Rightarrow> ('w, error + unit) go" where
  "WaitVolumeBeCreated volc volId = poll (svcClients volc) (created_round volc volId)"

text \<open>
  In \<open>err == nil && vol.Capacity == sizeBytes && ...\<close> the volume may be nil: reading its
  field panics.
\<close>

definition extended_round :: "'w VolcEngin \<Rightarrow> string \<Rightarrow> int64 \<Rightarrow> ('w, (error + unit) round) go" where
  "extended_round volc volId sizeBytes =
     bnd (VolcEngin_VolumeById volc volId) (\<lambda>r.
     case r of
       Inl e \<Rightarrow> ret Again
     | Inr volp \<Rightarrow>
         bnd (deref volp) (\<lambda>vol.
         if Volume_Capacity vol = sizeBytes \<and> Volume_Status vol \<noteq> StatusExtending
         then ret (Stop (Inr ())) else ret Again))"

definition WaitVolumeBeExtended :: "'w VolcEngin \<Rightarrow> string \<Rightarrow> int64 \<Rightarrow> ('w, error + unit) go" where
  "WaitVolumeBeExtended volc volId sizeBytes = poll (svcClients volc) (extended_round volc volId sizeBytes)"

section \<open>Changing volumes\<close>

definition VolcEngin_CreateVolume ::
  "'w VolcEngin \<Rightarrow> string \<Rightarrow> string \<Rightarrow> string \<Rightarrow> string \<Rightarrow> int64 \<Rightarrow> ('w, error + string) go" where
  "VolcEngin_CreateVolume volc name volumeType zoneId snapshotId capacity =
     bnd (call (sdk_CreateVolume (svcClients volc)
            (zero_CreateVolumeInput\<lparr>CreateVolumeInput_VolumeName := Some name,
               CreateVolumeInput_VolumeType := Some volumeType,
               CreateVolumeInput_Kind := Some ''data'',
               CreateVolumeInput_Size := Some (FormatInt (sint (roundGB capacity))),
               CreateVolumeInput_ZoneId := Some zoneId,
               CreateVolumeInput_SnapshotId := Some snapshotId\<rparr>))) (\<lambda>(err, resp).
     case err of
       Some e \<Rightarrow> ret (Inl (WrapError ''create volume error: '' e))
     | None \<Rightarrow>
       (case CreateVolumeOutput_VolumeId resp of
          None \<Rightarrow> ret (Inl (PlainError ''created volume failed from ebs with nil VolumeId''))
        | Some volId \<Rightarrow>
          bnd (deref (CreateVolumeOutput_Metadata resp)) (\<lambda>md.
          case MetadataError md of
            Some e \<Rightarrow> ret (Inl (PlainError (''created volume error: '' @ e)))
          | None \<Rightarrow>
            bndE (WaitVolumeBeCreated volc volId) (WrapError ''poll volume to be created timeout: '') (\<lambda>_.
            bndE (WaitVolumeBeStatus volc volId EBSStatusAvailable)
              (WrapError ''poll volume status to be available failed: '') (\<lambda>_.
            ret (Inr volId))))))"

definition VolcEngin_ExtendVolume :: "'w VolcEngin \<Rightarrow> string \<Rightarrow> int64 \<Rightarrow> ('w, error + unit) go" where
  "VolcEngin_ExtendVolume volc volId newSize =
     bnd (call (sdk_ExtendVolume (svcClients volc) volId (FormatInt (sint (roundGB newSize))))) (\<lambda>(err, resp).
     case err of
       Some e \<Rightarrow> ret (Inl (WrapError ''extend volume error: '' e))
     | None \<Rightarrow>
       (case resp of
          None \<Rightarrow> ret (Inl (PlainError ''extend volume failed from ebs with nil resp''))
        | Some mdp \<Rightarrow>
          bnd (deref mdp) (\<lambda>md.
          case MetadataError md of
            Some e \<Rightarrow> ret (Inl (PlainError (''extend volume error: '' @ e)))
          | None \<Rightarrow>
            bndE (WaitVolumeBeExtended volc volId (roundGB newSize * GB))
              (WrapError ''check extend volume failed: '') (\<lambda>_. ret (Inr ())))))"

text \<open>\<open>if resp != nil && resp.Metadata.Error != nil\<close>: the metadata pointer is not tested.\<close>

definition metadata_error :: "ResponseMetadata option option \<Rightarrow> ('w, string option) go" where
  "metadata_error resp =
     (case resp of
        None \<Rightarrow> ret None
      | Some mdp \<Rightarrow> bnd (deref mdp) (\<lambda>md. ret (MetadataError md)))"

definition is_not_found :: "ResponseMetadata option option \<Rightarrow> bool" where
  "is_not_found resp \<longleftrightarrow> (case resp of Some (Some md) \<Rightarrow> HTTPCode md = 404 | _ \<Rightarrow> False)"

definition VolcEngin_DeleteVolume :: "'w VolcEngin \<Rightarrow> string \<Rightarrow> ('w, error + unit) go" where
  "VolcEngin_DeleteVolume volc volId =
     bnd (call (sdk_DeleteVolume (svcClients volc) volId)) (\<lambda>(err, resp).
     case err of
       Some e \<Rightarrow>
         (if is_not_found resp then ret (Inr ())
          else ret (Inl (WrapError (''delete volume by id '' @ volId @ '' failed: '') e)))
     | None \<Rightarrow>
       bnd (metadata_error resp) (\<lambda>merr.
       case merr of
         Some e \<Rightarrow> ret (Inl (PlainError (''delete volume error: '' @ e @ '', id: '' @ volId)))
       | None \<Rightarrow>
         bndE (WaitVolumeBeStatus volc volId EBSStatusDeleted)
           (WrapError ''poll volume status to be deleted failed: '') (\<lambda>_. ret (Inr ()))))"

definition VolcEngin_AttachVolume :: "'w VolcEngin \<Rightarrow> string \<Rightarrow> string \<Rightarrow> ('w, error + unit) go" where
  "VolcEngin_AttachVolume volc nodeId volId =
     bnd (call (sdk_AttachVolume (svcClients volc) nodeId volId)) (\<lambda>(err, resp).
     case err of
       Some e \<Rightarrow> ret (Inl (WrapError (''attach volume '' @ volId @ '' to instance '' @ nodeId @ '' error: '') e))
     | None \<Rightarrow>
       bnd (metadata_error resp) (\<lambda>merr.
       case merr of
         Some e \<Rightarrow> ret (Inl (PlainError (''attach volume '' @ volId @ '' to instance '' @ nodeId @ '' error: '' @ e)))
       | None \<Rightarrow>
         bndE (WaitVolumeBeStatus volc volId EBSStatusAttached)
           (WrapError ''poll volume status to be attached failed: '') (\<lambda>_. ret (Inr ()))))"

definition VolcEngin_DetachVolume :: "'w VolcEngin \<Rightarrow> string \<Rightarrow> string \<Rightarrow> ('w, error + unit) go" where
  "VolcEngin_DetachVolume volc nodeId volId =
     bnd (call (sdk_DetachVolume (svcClients volc) nodeId volId)) (\<lambda>(err, resp).
     case err of
       Some e \<Rightarrow> ret (Inl (WrapError (''detach volume '' @ volId @ '' to instance '' @ nodeId @ '' error: '') e))
     | None \<Rightarrow>
       bnd (metadata_error resp) (\<lambda>merr.
       case merr of
         Some e \<Rightarrow> ret (Inl (PlainError (''detach volume '' @ volId @ '' to instance '' @ nodeId @ '' error: '' @ e)))
       | None \<Rightarrow>
         bndE (WaitVolumeBeStatus volc volId EBSStatusAvailable)
           (WrapError ''poll volume status to be available failed: '') (\<lambda>_. ret (Inr ()))))"

definition VolcEngin_DevicePathByVolId :: "'w VolcEngin \<Rightarrow> string \<Rightarrow> ('w, string) go" where
  "VolcEngin_DevicePathByVolId volc volId =
     bnd (device_by_volume_id (svcClients volc) volId) (\<lambda>r.
     case r of Inl e \<Rightarrow> ret [] | Inr devicePath \<Rightarrow> ret devicePath)"

section \<open>Snapshots\<close>

definition VolcEngin_CreateSnapshot ::
  "'w VolcEngin \<Rightarrow> string \<Rightarrow> string \<Rightarrow> ('w, error + Snapshot option) go" where
  "VolcEngin_CreateSnapshot volc volumeID snapshotName =
     bnd (call (sdk_CreateSnapshot (svcClients volc)
            (zero_CreateSnapshotInput\<lparr>CreateSnapshotInput_VolumeId := Some volumeID,
               CreateSnapshotInput_SnapshotName := Some snapshotName\<rparr>))) (\<lambda>(err, resp).
     case err of
       Some e \<Rightarrow> ret (Inl (WrapError ''CreateSnapshot error: '' e))
     | None \<Rightarrow>
       bnd (deref (CreateSnapshotOutput_Metadata resp)) (\<lambda>md.
       case MetadataError md of
         Some e \<Rightarrow> ret (Inl (PlainError (''CreateSnapshot error: '' @ e)))
       | None \<Rightarrow>
         bnd (deref (CreateSnapshotOutput_SnapshotId resp)) (\<lambda>sid.
         ret (Inr (Some \<lparr>Snapshot_SnapshotID = sid, Snapshot_SourceVolumeID = volumeID,
           Snapshot_Size = 0, Snapshot_CreationTime = ZeroTime, Snapshot_ReadyToUse = False\<rparr>)))))"

text \<open>
  The second error prints \<open>err\<close>, which is nil there, instead of \<open>resp.Metadata.Error\<close>.
\<close>

definition VolcEngin_DeleteSnapshot :: "'w VolcEngin \<Rightarrow> string \<Rightarrow> ('w, error + unit) go" where
  "VolcEngin_DeleteSnapshot volc snapshotID =
     bnd (call (sdk_DeleteSnapshot (svcClients volc)
            (zero_DeleteSnapshotInput\<lparr>DeleteSnapshotInput_SnapshotId := Some snapshotID\<rparr>))) (\<lambda>(err, resp).
     case err of
       Some e \<Rightarrow>
         (if is_not_found (Some (DeleteSnapshotOutput_Metadata resp)) then ret (Inr ())
          else ret (Inl (PlainError (''DeleteSnapshot '' @ snapshotID @ '' error: '' @ error_text e))))
     | None \<Rightarrow>
       bnd (deref (DeleteSnapshotOutput_Metadata resp)) (\<lambda>md.
       case MetadataError md of
         Some e \<Rightarrow> ret (Inl (PlainError (''DeleteSnapshot '' @ snapshotID @ '' error: %!s(<nil>)'')))
       | None \<Rightarrow> ret (Inr ())))"

definition ebsSnapshotResponseToStruct ::
  "'w VolcEngin \<Rightarrow> SnapshotForDescribeSnapshotsOutput option \<Rightarrow> ('w, error + Snapshot option) go" where
  "ebsSnapshotResponseToStruct volc ebsSnapshot =
     (case ebsSnapshot of
        None \<Rightarrow> ret (Inr None)
      | Some es \<Rightarrow>
        bnd (deref (SnapshotForDescribeSnapshotsOutput_CreationTime es)) (\<lambda>ct.
        case parse_time (svcClients volc) ct of
          None \<Rightarrow> ret (Inl (PlainError (''failed to parse snapshot creation time: '' @ ct)))
        | Some t \<Rightarrow>
          bnd (deref (SnapshotForDescribeSnapshotsOutput_SnapshotId es)) (\<lambda>sid.
          bnd (deref (SnapshotForDescribeSnapshotsOutput_VolumeId es)) (\<lambda>vid.
          bnd (deref (SnapshotForDescribeSnapshotsOutput_VolumeSize es)) (\<lambda>size.
          bnd (deref (SnapshotForDescribeSnapshotsOutput_Status es)) (\<lambda>status.
          ret (Inr (Some \<lparr>Snapshot_SnapshotID = sid, Snapshot_SourceVolumeID = vid,
            Snapshot_Size = size * GB, Snapshot_CreationTime = t,
            Snapshot_ReadyToUse = (status = ''available'')\<rparr>))))))))"

definition VolcEngin_GetSnapshotByName :: "'w VolcEngin \<Rightarrow> string \<Rightarrow> ('w, error + Snapshot option) go" where
  "VolcEngin_GetSnapshotByName volc name =
     bnd (call (sdk_DescribeSnapshots (svcClients volc)
            (zero_DescribeSnapshotsInput\<lparr>DescribeSnapshotsInput_SnapshotName := Some name,
               DescribeSnapshotsInput_PageNumber := Some 1,
               DescribeSnapshotsInput_PageSize := Some 10\<rparr>))) (\<lambda>(err, resp).
     case err of
       Some e \<Rightarrow> ret (Inl (WrapError (''GetSnapshotByName '' @ name @ '' failed: '') e))
     | None \<Rightarrow>
       bnd (deref (DescribeSnapshotsOutput_Metadata resp)) (\<lambda>md.
       case MetadataError md of
         Some e \<Rightarrow> ret (Inl (PlainError (''GetSnapshotByName '' @ name @ '' error: '' @ e)))
       | None \<Rightarrow>
         (case DescribeSnapshotsOutput_Snapshots resp of
            [] \<Rightarrow> ret (Inr None)
          | es # _ \<Rightarrow> ebsSnapshotResponseToStruct volc es)))"

definition VolcEngin_GetSnapshotByID :: "'w VolcEngin \<Rightarrow> string \<Rightarrow> ('w, error + Snapshot option) go" where
  "VolcEngin_GetSnapshotByID volc snapshotID =
     bnd (call (sdk_DescribeSnapshots (svcClients volc)
            (zero_DescribeSnapshotsInput\<lparr>DescribeSnapshotsInput_SnapshotIds := [Some snapshotID]\<rparr>))) (\<lambda>(err, resp).
     case err of
       Some e \<Rightarrow> ret (Inl (WrapError (''GetSnapshotByID '' @ snapshotID @ '' failed: '') e))
     | None \<Rightarrow>
       bnd (deref (DescribeSnapshotsOutput_Metadata resp)) (\<lambda>md.
       case MetadataError md of
         Some e \<Rightarrow> ret (Inl (PlainError (''GetSnapshotByID '' @ snapshotID @ '' error: '' @ e)))
       | None \<Rightarrow>
         (case DescribeSnapshotsOutput_Snapshots resp of
            [] \<Rightarrow> ret (Inr None)
          | es # _ \<Rightarrow> ebsSnapshotResponseToStruct volc es)))"

section \<open>Instances\<close>

definition VolcEngin_NodeById ::
  "'w VolcEngin \<Rightarrow> string \<Rightarrow> ('w, error + InstanceForDescribeInstancesOutput option) go" where
  "VolcEngin_NodeById volc nodeId =
     bnd (call (sdk_DescribeInstances (svcClients volc)
            (zero_DescribeInstancesInput\<lparr>DescribeInstancesInput_InstanceIds := [Some nodeId],
               DescribeInstancesInput_PageNumber := Some 1,
               DescribeInstancesInput_PageSize := Some 10\<rparr>))) (\<lambda>(err, resp).
     case err of
       Some e \<Rightarrow> ret (Inl (WrapError ''get instance by id failed: '' e))
     | None \<Rightarrow>
       (case DescribeInstancesOutput_Instances resp of
          [] \<Rightarrow> ret (Inl (PlainError ''not found''))
        | i # _ \<Rightarrow> ret (Inr i)))"

definition VolcEngin_DescribeInstanceTypes ::
  "'w VolcEngin \<Rightarrow> string \<Rightarrow> ('w, error + InstanceTypeForDescribeInstanceTypesOutput option) go" where
  "VolcEngin_DescribeInstanceTypes volc typeName =
     bnd (call (sdk_DescribeInstanceTypes (svcClients volc)
            (zero_DescribeInstanceTypesInput\<lparr>DescribeInstanceTypesInput_InstanceTypes := [Some typeName]\<rparr>)))
       (\<lambda>(err, resp).
     case err of
       Some e \<Rightarrow> ret (Inl (WrapError ''get instance by id failed: '' e))
     | None \<Rightarrow>
       (case DescribeInstanceTypesOutput_InstanceTypes resp of
          [] \<Rightarrow> ret (Inl (PlainError ''not found''))
        | [t] \<Rightarrow> ret (Inr t)
        | ts \<Rightarrow> ret (Inl (PlainError
            (''total count from DescribeInstanceTypes resp is expected 1, but got '' @ FormatInt (int (length ts)))))))"

definition NewVolcEngin :: "'w sdk \<Rightarrow> string \<Rightarrow> string \<Rightarrow> 'w VolcEngin" where
  "NewVolcEngin clients r z = \<lparr>svcClients = clients, region = r, zone = z\<rparr>"

definition VolcEngin_Region :: "'w VolcEngin \<Rightarrow> string" where
  "VolcEngin_Region volc = region volc"

definition VolcEngin_Zone :: "'w VolcEngin \<Rightarrow> string" where
  "VolcEngin_Zone volc = zone volc"

declare NewVolcEngin_def [simp] VolcEngin_Region_def [simp] VolcEngin_Zone_def [simp]

definition VolcEngin_Topology :: "topology_keys \<Rightarrow> 'w VolcEngin \<Rightarrow> attributes" where
  "VolcEngin_Topology tk volc = [TopologyRegionKey tk \<mapsto> VolcEngin_Region volc, TopologyZoneKey tk \<mapsto> VolcEngin_Zone volc]"

text \<open>\<open>var _ Cloud = &VolcEngin{}\<close>: the implementation as the interface.\<close>

definition VolcEngin_Cloud :: "topology_keys \<Rightarrow> 'w VolcEngin \<Rightarrow> 'w Cloud" where
  "VolcEngin_Cloud tk volc =
     \<lparr>cloud_CreateVolume = VolcEngin_CreateVolume volc,
      cloud_ExtendVolume = VolcEngin_ExtendVolume volc,
      cloud_DeleteVolume = VolcEngin_DeleteVolume volc,
      cloud_DevicePathByVolId = VolcEngin_DevicePathByVolId volc,
      cloud_AttachVolume = VolcEngin_AttachVolume volc,
      cloud_DetachVolume = VolcEngin_DetachVolume volc,
      cloud_NodeById = VolcEngin_NodeById volc,
      cloud_DescribeInstanceTypes = VolcEngin_DescribeInstanceTypes volc,
      cloud_VolumeById = VolcEngin_VolumeById volc,
      cloud_VolumeByName = VolcEngin_VolumeByName volc,
      cloud_CreateSnapshot = VolcEngin_CreateSnapshot volc,
      cloud_DeleteSnapshot = VolcEngin_DeleteSnapshot volc,
      cloud_GetSnapshotByName = VolcEngin_GetSnapshotByName volc,
      cloud_GetSnapshotByID = VolcEngin_GetSnapshotByID volc,
      cloud_Region = VolcEngin_Region volc,
      cloud_Zone = VolcEngin_Zone volc,
      cloud_Topology = VolcEngin_Topology tk volc\<rparr>"

end
