(* ===== verification/InFlight.thy ===== *)
theory InFlight
  imports Go_Strings
begin

text \<open>
  \<open>pkg/util/inflight\<close>: the table of running operations. \<open>Insert\<close> and \<open>Delete\<close> hold the
  mutex for their whole body, so each is one atomic step here. The contract the services
  rely on is the locale \<open>running_set\<close>; the code's table interprets it. The second half
  puts the way every handler uses the table (\<open>Insert\<close>, reject when busy, \<open>defer Delete\<close>)
  into one combinator for sequential runs and one step relation for concurrent ones.
\<close>

section \<open>The table\<close>

record InFlight =
  inFlight :: "string \<rightharpoonup> bool"

definition NewInFlight :: InFlight where
  "NewInFlight = \<lparr>inFlight = Map.empty\<rparr>"

definition Insert :: "string \<Rightarrow> InFlight \<Rightarrow> bool \<times> InFlight" where
  "Insert key db =
     (case inFlight db key of
        Some _ \<Rightarrow> (False, db)
      | None \<Rightarrow> (True, db\<lparr>inFlight := (inFlight db)(key \<mapsto> True)\<rparr>))"

definition Delete :: "string \<Rightarrow> InFlight \<Rightarrow> InFlight" where
  "Delete key db = db\<lparr>inFlight := (inFlight db)(key := None)\<rparr>"

definition running_keys :: "InFlight \<Rightarrow> string set" where
  "running_keys db = dom (inFlight db)"

section \<open>Its contract\<close>

locale running_set =
  fixes acquire :: "'k \<Rightarrow> 'db \<Rightarrow> bool \<times> 'db"
    and release :: "'k \<Rightarrow> 'db \<Rightarrow> 'db"
    and keys :: "'db \<Rightarrow> 'k set"
  assumes acquire_free: "k \<notin> keys db \<Longrightarrow> fst (acquire k db) \<and> keys (snd (acquire k db)) = insert k (keys db)"
    and acquire_busy: "k \<in> keys db \<Longrightarrow> acquire k db = (False, db)"
    and release_keys: "keys (release k db) = keys db - {k}"
begin

lemma acquire_iff: "fst (acquire k db) \<longleftrightarrow> k \<notin> keys db"
  using acquire_free acquire_busy by (cases "k \<in> keys db") auto

lemma acquired: "acquire k db = (True, db') \<Longrightarrow> k \<notin> keys db \<and> keys db' = insert k (keys db)"
  using acquire_free acquire_busy by (cases "k \<in> keys db") fastforce+

lemma rejected: "acquire k db = (False, db') \<Longrightarrow> k \<in> keys db \<and> db' = db"
  using acquire_free acquire_busy by (cases "k \<in> keys db") fastforce+

lemma acquire_release: "k \<notin> keys db \<Longrightarrow> keys (release k (snd (acquire k db))) = keys db"
  using acquire_free release_keys by auto

lemma acquire_after_release: "fst (acquire k (release k db))"
  by (simp add: acquire_iff release_keys)

end

interpretation flight: running_set Insert Delete running_keys
  by unfold_locales (auto simp: Insert_def Delete_def running_keys_def split: option.splits)

lemma Delete_Insert [simp]: "inFlight db k = None \<Longrightarrow> Delete k (snd (Insert k db)) = db"
  by (cases db) (auto simp: Insert_def Delete_def fun_eq_iff)

section \<open>A guarded handler, run on its own\<close>

text \<open>The state of a service: the table, and everything its handlers reach outside.\<close>

record 'w service =
  flights :: InFlight
  world :: 'w

text \<open>
  \<open>if ok := inFlight.Insert(key); !ok { return nil, busy }; defer inFlight.Delete(key)\<close>,
  then the rest of the handler. The deferred \<open>Delete\<close> also runs when the rest panics.
\<close>

definition guarded :: "string \<Rightarrow> error \<Rightarrow> ('w, error + 'a) go \<Rightarrow> ('w service, error + 'a) go" where
  "guarded key busy body s =
     (case Insert key (flights s) of
        (False, _) \<Rightarrow> Some (Ret (Inl busy), s)
      | (True, db) \<Rightarrow>
          (case body (world s) of
             None \<Rightarrow> None
           | Some (r, w') \<Rightarrow> Some (r, s\<lparr>flights := Delete key db, world := w'\<rparr>)))"

text \<open>A handler that does not use the table.\<close>

definition unguarded :: "('w, 'a) go \<Rightarrow> ('w service, 'a) go" where
  "unguarded body s =
     (case body (world s) of None \<Rightarrow> None | Some (r, w') \<Rightarrow> Some (r, s\<lparr>world := w'\<rparr>))"

lemma guarded_busy:
  "key \<in> running_keys (flights s) \<Longrightarrow> guarded key busy body s = Some (Ret (Inl busy), s)"
  by (simp add: guarded_def flight.acquire_busy)

lemma guarded_free:
  "key \<notin> running_keys (flights s) \<Longrightarrow>
     guarded key busy body s =
       (case body (world s) of None \<Rightarrow> None | Some (r, w') \<Rightarrow> Some (r, s\<lparr>world := w'\<rparr>))"
proof -
  assume k: "key \<notin> running_keys (flights s)"
  then have n: "inFlight (flights s) key = None" by (auto simp: running_keys_def)
  obtain db where db: "Insert key (flights s) = (True, db)" "Delete key db = flights s"
    using n Delete_Insert [of "flights s" key] by (auto simp: Insert_def)
  then show ?thesis by (cases s) (simp add: guarded_def split: option.splits)
qed

lemma keeps_flights_guarded: "keeps flights (guarded key busy body)"
  unfolding keeps_def
proof (intro allI impI)
  fix s r s'
  assume "guarded key busy body s = Some (r, s')"
  then show "flights s' = flights s"
    by (cases "key \<in> running_keys (flights s)")
      (auto simp: guarded_busy guarded_free split: option.splits)
qed

lemma keeps_flights_unguarded: "keeps flights (unguarded body)"
  by (auto simp: keeps_def unguarded_def split: option.splits)

lemma guarded_Inr:
  "guarded key busy body s = Some (Ret (Inr x), s') \<longleftrightarrow>
     key \<notin> running_keys (flights s) \<and>
     (\<exists>w'. body (world s) = Some (Ret (Inr x), w') \<and> s' = s\<lparr>world := w'\<rparr>)"
  by (cases "key \<in> running_keys (flights s)")
    (auto simp: guarded_busy guarded_free split: option.splits)

lemma unguarded_Some:
  "unguarded body s = Some (r, s') \<longleftrightarrow>
     (\<exists>w'. body (world s) = Some (r, w') \<and> s' = s\<lparr>world := w'\<rparr>)"
  by (auto simp: unguarded_def split: option.splits)

lemma returns_guarded: "returns body (world s) \<Longrightarrow> returns (guarded key busy body) s"
  by (cases "key \<in> running_keys (flights s)") (auto simp: returns_def guarded_busy guarded_free)

lemma returns_unguarded: "returns body (world s) \<Longrightarrow> returns (unguarded body) s"
  by (auto simp: returns_def unguarded_def)

section \<open>Handlers run concurrently\<close>

text \<open>
  Any number of requests (numbered by \<open>nat\<close>), each handled by its own goroutine. A
  request that found its key free is \<open>Running\<close> it until its deferred \<open>Delete\<close>; while
  running it acts on the shared world. Which goroutine moves next is not determined.
\<close>

datatype phase = Idle | Running string

record 'w pool =
  table :: InFlight
  phase_of :: "nat \<Rightarrow> phase"
  shared :: 'w

inductive handler_step :: "'w pool \<Rightarrow> 'w pool \<Rightarrow> bool" where
  enter: "phase_of p t = Idle \<Longrightarrow> Insert k (table p) = (True, db) \<Longrightarrow>
     handler_step p (p\<lparr>table := db, phase_of := (phase_of p)(t := Running k)\<rparr>)"
| reject: "phase_of p t = Idle \<Longrightarrow> Insert k (table p) = (False, db) \<Longrightarrow>
     handler_step p (p\<lparr>table := db\<rparr>)"
| act: "phase_of p t = Running k \<Longrightarrow> handler_step p (p\<lparr>shared := w\<rparr>)"
| leave: "phase_of p t = Running k \<Longrightarrow>
     handler_step p (p\<lparr>table := Delete k (table p), phase_of := (phase_of p)(t := Idle)\<rparr>)"

inductive_cases handler_stepE: "handler_step p q"

inductive pool_reachable :: "'w pool \<Rightarrow> bool" where
  start: "pool_reachable \<lparr>table = NewInFlight, phase_of = (\<lambda>_. Idle), shared = w\<rparr>"
| move: "pool_reachable p \<Longrightarrow> handler_step p q \<Longrightarrow> pool_reachable q"

text \<open>
  The invariant: the table holds exactly the keys of the running requests, and no two
  requests run the same key.
\<close>

definition pool_inv :: "'w pool \<Rightarrow> bool" where
  "pool_inv p \<longleftrightarrow>
     running_keys (table p) = {k. \<exists>t. phase_of p t = Running k} \<and>
     (\<forall>t u k. phase_of p t = Running k \<longrightarrow> phase_of p u = Running k \<longrightarrow> t = u)"

lemma pool_inv_keys: "pool_inv p \<Longrightarrow> k \<in> running_keys (table p) \<longleftrightarrow> (\<exists>t. phase_of p t = Running k)"
  by (simp add: pool_inv_def)

lemma pool_inv_unique:
  "pool_inv p \<Longrightarrow> phase_of p t = Running k \<Longrightarrow> phase_of p u = Running k \<Longrightarrow> t = u"
  by (simp add: pool_inv_def)

lemma phases_enter:
  assumes "f t = Idle"
  shows "{j. \<exists>u. (f(t := Running k)) u = Running j} = insert k {j. \<exists>u. f u = Running j}"
proof (intro set_eqI iffI)
  fix j
  assume "j \<in> insert k {j. \<exists>u. f u = Running j}"
  then consider "j = k" | u where "f u = Running j" by auto
  then show "j \<in> {j. \<exists>u. (f(t := Running k)) u = Running j}"
  proof cases
    case (2 u)
    then have "u \<noteq> t" using assms by auto
    with 2 show ?thesis by (auto intro: exI [of _ u])
  qed (auto intro: exI [of _ t])
qed (auto split: if_splits)

lemma phases_leave:
  assumes "f t = Running k" and "\<And>u. f u = Running k \<Longrightarrow> u = t"
  shows "{j. \<exists>u. (f(t := Idle)) u = Running j} = {j. \<exists>u. f u = Running j} - {k}"
proof (intro set_eqI iffI)
  fix j
  assume "j \<in> {j. \<exists>u. f u = Running j} - {k}"
  then obtain u where u: "f u = Running j" "j \<noteq> k" by auto
  then have "u \<noteq> t" using assms(1) by auto
  with u show "j \<in> {j. \<exists>u. (f(t := Idle)) u = Running j}" by (auto intro: exI [of _ u])
next
  fix j
  assume "j \<in> {j. \<exists>u. (f(t := Idle)) u = Running j}"
  then obtain u where u: "u \<noteq> t" "f u = Running j" by (auto split: if_splits)
  then have "j \<noteq> k" using assms(2) [of u] by blast
  with u show "j \<in> {j. \<exists>u. f u = Running j} - {k}" by blast
qed

lemma enter_pool_inv:
  assumes "pool_inv p" and "phase_of p t = Idle" and "Insert k (table p) = (True, db)"
  shows "pool_inv (p\<lparr>table := db, phase_of := (phase_of p)(t := Running k)\<rparr>)"
proof -
  have "\<forall>u. phase_of p u \<noteq> Running k" and "running_keys db = insert k (running_keys (table p))"
    using flight.acquired [OF assms(3)] assms(1) by (auto simp: pool_inv_keys)
  with assms phases_enter [of "phase_of p" t k] show ?thesis by (auto simp: pool_inv_def)
qed

lemma leave_pool_inv:
  assumes "pool_inv p" and "phase_of p t = Running k"
  shows "pool_inv (p\<lparr>table := Delete k (table p), phase_of := (phase_of p)(t := Idle)\<rparr>)"
proof -
  have "\<And>u. phase_of p u = Running k \<Longrightarrow> u = t"
    using pool_inv_unique [OF assms(1)] assms(2) by blast
  from phases_leave [of "phase_of p" t k, OF assms(2) this] assms show ?thesis
    by (simp add: pool_inv_def flight.release_keys)
qed

lemma handler_step_inv: "handler_step p q \<Longrightarrow> pool_inv p \<Longrightarrow> pool_inv q"
proof (induction rule: handler_step.induct)
  case (reject p t k db)
  then show ?case using flight.rejected [OF reject(2)] by simp
next
  case (act p t k w)
  then show ?case by (simp add: pool_inv_def)
qed (auto intro: enter_pool_inv leave_pool_inv)

lemma pool_reachable_inv: "pool_reachable p \<Longrightarrow> pool_inv p"
proof (induction rule: pool_reachable.induct)
  case (start w)
  show ?case by (simp add: pool_inv_def running_keys_def NewInFlight_def)
next
  case (move p q)
  then show ?case by (blast intro: handler_step_inv)
qed

section \<open>Properties\<close>

text \<open>C1: Mutual exclusion: in every state that any interleaving of handlers reaches, two
  requests that run under the same key are one and the same, and the table holds exactly
  the keys of the running requests, so no key stays locked.\<close>

theorem inflight_mutual_exclusion:
  assumes "pool_reachable p"
  shows "(phase_of p t = Running k \<and> phase_of p u = Running k \<longrightarrow> t = u) \<and>
    (inFlight (table p) k \<noteq> None \<longleftrightarrow> (\<exists>t. phase_of p t = Running k))"
  using pool_reachable_inv [OF assms] pool_inv_keys [of p k] pool_inv_unique [of p t k u]
  by (auto simp: running_keys_def)

definition two_requests :: "unit pool" where
  "two_requests = \<lparr>table = \<lparr>inFlight = [''a'' \<mapsto> True, ''b'' \<mapsto> True]\<rparr>,
     phase_of = (\<lambda>_. Idle)(0 := Running ''a'', 1 := Running ''b''), shared = ()\<rparr>"

theorem inflight_mutual_exclusion_witness:
  "phase_of two_requests 0 = Running ''a'' \<and> phase_of two_requests 1 \<noteq> Running ''a'' \<and>
   inFlight (table two_requests) ''c'' = None"
proof -
  let ?p0 = "\<lparr>table = NewInFlight, phase_of = (\<lambda>_. Idle), shared = ()\<rparr>"
  let ?p1 = "?p0\<lparr>table := \<lparr>inFlight = [''a'' \<mapsto> True]\<rparr>, phase_of := (phase_of ?p0)(0 := Running ''a'')\<rparr>"
  have "handler_step ?p0 ?p1"
    by (rule handler_step.enter) (simp_all add: Insert_def NewInFlight_def)
  moreover have "handler_step ?p1 (?p1\<lparr>table := \<lparr>inFlight = [''a'' \<mapsto> True, ''b'' \<mapsto> True]\<rparr>,
      phase_of := (phase_of ?p1)(1 := Running ''b'')\<rparr>)"
    by (rule handler_step.enter) (simp_all add: Insert_def)
  ultimately have r: "pool_reachable two_requests"
    using pool_reachable.start [of "()"] by (auto simp: two_requests_def intro: pool_reachable.move)
  have "phase_of two_requests 0 = Running ''a''" by (simp add: two_requests_def)
  with inflight_mutual_exclusion [OF r, of 1 "''a''" 0] inflight_mutual_exclusion [OF r, of 0 "''c''" 0]
  show ?thesis by (auto simp: two_requests_def split: if_splits)
qed

end
