(* ===== verification/EBS_Driver.thy ===== *)
theory EBS_Driver
  imports CSI_Common EBS_Cloud InFlight
begin

text \<open>
  \<open>pkg/ebs/ebs.go\<close> (the driver and its capabilities) and \<open>identitysvc.go\<close>; and the check
  of volume capabilities, which the controller and the node service both contain.
\<close>

record Driver =
  csi_driver :: CSIDriver
  maxVolumesPerNode :: int64
  reserveVolumesPerNode :: int64

definition ebs_NewDriver :: "string \<Rightarrow> string \<Rightarrow> string \<Rightarrow> int64 \<Rightarrow> int64 \<Rightarrow> Driver" where
  "ebs_NewDriver name version nodeId maxVols reserveVols =
     (let d0 = zero_CSIDriver\<lparr>Name := ebs_DriverName\<rparr>;
          d1 = (if name \<noteq> [] then d0\<lparr>Name := name\<rparr> else d0);
          d2 = d1\<lparr>Version := version, NodeID := nodeId\<rparr>;
          d3 = AddVolumeCapabilityAccessModes [SINGLE_NODE_WRITER, SINGLE_NODE_READER_ONLY] d2;
          d4 = AddControllerServiceCapabilities
                 [CREATE_DELETE_VOLUME, PUBLISH_UNPUBLISH_VOLUME, CS_EXPAND_VOLUME,
                  CREATE_DELETE_SNAPSHOT, LIST_SNAPSHOTS] d3;
          d5 = AddNodeServiceCapabilities [STAGE_UNSTAGE_VOLUME, GET_VOLUME_STATS, NS_EXPAND_VOLUME] d4
      in \<lparr>csi_driver = d5, maxVolumesPerNode = maxVols, reserveVolumesPerNode = reserveVols\<rparr>)"

definition isValidVolumeCapabilities :: "Driver \<Rightarrow> volume_capability list \<Rightarrow> bool" where
  "isValidVolumeCapabilities d volCaps =
     list_all (\<lambda>cap. list_ex (\<lambda>c. c = get_mode cap) (Cap (csi_driver d))) volCaps"

definition ebs_GetPluginCapabilities :: "error + plugin_service list" where
  "ebs_GetPluginCapabilities = Inr [CONTROLLER_SERVICE, VOLUME_ACCESSIBILITY_CONSTRAINTS]"

lemma ebs_NewDriver_simps [simp]:
  "Cap (csi_driver (ebs_NewDriver n v i m r)) = [SINGLE_NODE_WRITER, SINGLE_NODE_READER_ONLY]"
  "CSCap (csi_driver (ebs_NewDriver n v i m r)) =
     [CREATE_DELETE_VOLUME, PUBLISH_UNPUBLISH_VOLUME, CS_EXPAND_VOLUME, CREATE_DELETE_SNAPSHOT, LIST_SNAPSHOTS]"
  "NSCap (csi_driver (ebs_NewDriver n v i m r)) = [STAGE_UNSTAGE_VOLUME, GET_VOLUME_STATS, NS_EXPAND_VOLUME]"
  "Name (csi_driver (ebs_NewDriver n v i m r)) = (if n = [] then ebs_DriverName else n)"
  "Version (csi_driver (ebs_NewDriver n v i m r)) = v"
  "NodeID (csi_driver (ebs_NewDriver n v i m r)) = i"
  "maxVolumesPerNode (ebs_NewDriver n v i m r) = m"
  "reserveVolumesPerNode (ebs_NewDriver n v i m r) = r"
  by (simp_all add: ebs_NewDriver_def Let_def)

lemma isValidVolumeCapabilities_iff:
  "isValidVolumeCapabilities d vcs \<longleftrightarrow> (\<forall>c\<in>set vcs. get_mode c \<in> set (Cap (csi_driver d)))"
  by (auto simp: isValidVolumeCapabilities_def list_all_iff list_ex_iff)

end
