(* ===== verification/EBS_Controller.thy ===== *)
theory EBS_Controller
  imports EBS_Driver
begin

text \<open>
  \<open>pkg/ebs/controllersvc.go\<close>: the controller service. Each handler is a function of the
  request on the service's state: the in-flight table and the outside world that the cloud
  interface \<open>cl\<close> acts on. Handlers that use the table are \<open>guarded\<close>; the part after the
  guard is a definition of its own, \<open>..._body\<close>.
\<close>

section \<open>Parameters of a request\<close>

definition defaultCapacity :: int64 where
  "defaultCapacity = 20 * GB"

definition volumeTypeDefault :: string where
  "volumeTypeDefault = ''ESSD_PL0''"

definition getVolumeTypeWithDefault :: "create_volume_request \<Rightarrow> string" where
  "getVolumeTypeWithDefault req =
     (case cv_Parameters req ''type'' of Some volumeType \<Rightarrow> volumeType | None \<Rightarrow> volumeTypeDefault)"

fun first_zone :: "string \<Rightarrow> csi_topology list \<Rightarrow> string option" where
  "first_zone key [] = None"
| "first_zone key (t # ts) =
     (case Segments t key of Some z \<Rightarrow> Some z | None \<Rightarrow> first_zone key ts)"

definition pickZone :: "topology_keys \<Rightarrow> topology_requirement option \<Rightarrow> string" where
  "pickZone tk requirement =
     (case requirement of
        None \<Rightarrow> []
      | Some r \<Rightarrow>
        (case first_zone (TopologyZoneKey tk) (Preferred r) of
           Some z \<Rightarrow> z
         | None \<Rightarrow>
           (case first_zone (TopologyZoneKey tk) (Requisite r) of Some z \<Rightarrow> z | None \<Rightarrow> [])))"

definition getZoneId :: "topology_keys \<Rightarrow> create_volume_request \<Rightarrow> string" where
  "getZoneId tk req =
     (let zoneId = attr (cv_Parameters req) ''zone''
      in if zoneId \<noteq> [] then zoneId else pickZone tk (cv_Accessibility req))"

definition request_capacity :: "create_volume_request \<Rightarrow> int64" where
  "request_capacity req =
     (case cv_CapacityRange req of
        Some cr \<Rightarrow> if RequiredBytes cr \<noteq> 0 then RequiredBytes cr else defaultCapacity
      | None \<Rightarrow> defaultCapacity)"

definition source_snapshot :: "create_volume_request \<Rightarrow> error + string" where
  "source_snapshot req =
     (case cv_ContentSource req of
        None \<Rightarrow> Inr []
      | Some ty \<Rightarrow>
        (case ty of
           Some (SnapshotSource (Some sid)) \<Rightarrow> Inr sid
         | Some (SnapshotSource None) \<Rightarrow>
             Inl (StatusError InvalidArgument ''Error retrieving snapshot from the volumeContentSource'')
         | _ \<Rightarrow> Inl (StatusError InvalidArgument ''Unsupported volumeContentSource type'')))"

section \<open>CreateVolume\<close>

definition created_volume ::
  "topology_keys \<Rightarrow> 'w Cloud \<Rightarrow> create_volume_request \<Rightarrow> string \<Rightarrow> string \<Rightarrow> int64 \<Rightarrow> string \<Rightarrow> csi_volume" where
  "created_volume tk cl req snapshotID volID capacity zoneId =
     \<lparr>VolumeId = volID, CapacityBytes = capacity, VolumeContext = [SnapshotID \<mapsto> snapshotID],
      ContentSource = cv_ContentSource req,
      AccessibleTopology =
        [\<lparr>Segments = [TopologyRegionKey tk \<mapsto> cloud_Region cl, TopologyZoneKey tk \<mapsto> zoneId]\<rparr>]\<rparr>"

text \<open>What the handler answers when a volume of the requested name exists.\<close>

definition existing_volume ::
  "topology_keys \<Rightarrow> 'w Cloud \<Rightarrow> create_volume_request \<Rightarrow> string \<Rightarrow> string \<Rightarrow> int64 \<Rightarrow> string \<Rightarrow> Volume
     \<Rightarrow> error + csi_volume" where
  "existing_volume tk cl req snapshotID volumeType capacity zoneId vol =
     (if \<not> Available (Some vol) then
        Inl (StatusError FailedPrecondition ''the volume which get by name isn't available'')
      else if Volume_VolumeType vol \<noteq> volumeType then
        Inl (StatusError AlreadyExists ''already exists volume with different type'')
      else if i64_less (Volume_Capacity vol) capacity then
        Inl (StatusError AlreadyExists ''already exists volume with smaller capacity'')
      else if Volume_ZoneId vol \<noteq> zoneId then
        Inl (StatusError AlreadyExists ''already exists volume with different zoneId'')
      else Inr (created_volume tk cl req snapshotID (Volume_Id vol) (Volume_Capacity vol) (Volume_ZoneId vol)))"

definition request_zone :: "topology_keys \<Rightarrow> 'w Cloud \<Rightarrow> create_volume_request \<Rightarrow> string" where
  "request_zone tk cl req = (let z = getZoneId tk req in if z = [] then cloud_Zone cl else z)"

definition CreateVolume_body ::
  "topology_keys \<Rightarrow> 'w Cloud \<Rightarrow> create_volume_request \<Rightarrow> ('w, error + csi_volume) go" where
  "CreateVolume_body tk cl req =
     (let capacity = request_capacity req;
          zoneId = request_zone tk cl req;
          volumeType = getVolumeTypeWithDefault req
      in if zoneId = [] then fails Internal ''get zoneId from metadata service failed''
      else case source_snapshot req of
        Inl e \<Rightarrow> ret (Inl e)
      | Inr snapshotID \<Rightarrow>
        bndE (cloud_VolumeByName cl (cv_Name req))
          (\<lambda>e. StatusError FailedPrecondition (''get volume by name error: '' @ error_text e)) (\<lambda>vol.
        case vol of
          Some v \<Rightarrow> ret (existing_volume tk cl req snapshotID volumeType capacity zoneId v)
        | None \<Rightarrow>
          bndE (cloud_CreateVolume cl (cv_Name req) volumeType zoneId snapshotID capacity)
            (WrapError (''failed to create volume '' @ cv_Name req @ '': '')) (\<lambda>volID.
          ret (Inr (created_volume tk cl req snapshotID volID capacity zoneId)))))"

definition ControllerSvc_CreateVolume ::
  "topology_keys \<Rightarrow> 'w Cloud \<Rightarrow> create_volume_request \<Rightarrow> ('w service, error + csi_volume) go" where
  "ControllerSvc_CreateVolume tk cl req =
     (if cv_Name req = [] then fails InvalidArgument ''Volume name missiong in request''
      else if cv_VolumeCapabilities req = [] then
        fails InvalidArgument ''Volume capabilities missing in request''
      else guarded (cv_Name req)
        (StatusError Aborted (''Create volume request for '' @ cv_Name req @ '' is already in progress''))
        (CreateVolume_body tk cl req))"

section \<open>DeleteVolume\<close>

definition DeleteVolume_body :: "'w Cloud \<Rightarrow> string \<Rightarrow> ('w, error + unit) go" where
  "DeleteVolume_body cl volumeID =
     bndE (cloud_VolumeById cl volumeID)
       (\<lambda>e. StatusError FailedPrecondition (''test volume existed error '' @ error_text e)) (\<lambda>vol.
     case vol of
       None \<Rightarrow> ret (Inr ())
     | Some _ \<Rightarrow>
       bndE (cloud_DeleteVolume cl volumeID) (WrapError (''failed to delete volume '' @ volumeID @ '': ''))
         (\<lambda>_. ret (Inr ())))"

definition ControllerSvc_DeleteVolume :: "'w Cloud \<Rightarrow> string \<Rightarrow> ('w service, error + unit) go" where
  "ControllerSvc_DeleteVolume cl volumeID =
     (if volumeID = [] then fails InvalidArgument ''Volume ID missing in request''
      else guarded volumeID
        (StatusError Aborted (''An operation with the given Volume '' @ volumeID @ '' already exists''))
        (DeleteVolume_body cl volumeID))"

section \<open>ControllerPublishVolume and ControllerUnpublishVolume\<close>

definition PublishVolume_body ::
  "Driver \<Rightarrow> 'w Cloud \<Rightarrow> string \<Rightarrow> string \<Rightarrow> ('w, error + attributes) go" where
  "PublishVolume_body d cl volId nodeId =
     bndE (cloud_VolumeById cl volId)
       (\<lambda>e. StatusError FailedPrecondition (''get volume by id failed: '' @ error_text e)) (\<lambda>vol.
     case vol of
       None \<Rightarrow> fails NotFound ''volume not found''
     | Some v \<Rightarrow>
       if Attached vol then
         (if Volume_NodeId v = nodeId then ret (Inr Map.empty)
          else fails FailedPrecondition ''volume is attached to another node'')
       else if \<not> Available vol then fails FailedPrecondition ''volume status is not available''
       else
         bndE (cloud_NodeById cl nodeId)
           (\<lambda>_. StatusError NotFound (''get node by id '' @ nodeId @ '' failed'')) (\<lambda>nodeInfo.
         bnd (deref nodeInfo) (\<lambda>info.
         if sint (maxVolumesPerNode d) \<le> int (length (InstanceForDescribeInstancesOutput_Volumes info)) then
           fails FailedPrecondition (''volume attached to the node exceed limit '' @
             FormatInt (sint (maxVolumesPerNode d)))
         else
           bndE (cloud_AttachVolume cl nodeId volId)
             (\<lambda>e. StatusError Internal (''attach volume failed: '' @ error_text e)) (\<lambda>_.
           ret (Inr Map.empty)))))"

definition ControllerSvc_ControllerPublishVolume ::
  "Driver \<Rightarrow> 'w Cloud \<Rightarrow> volume_publish_request \<Rightarrow> ('w service, error + attributes) go" where
  "ControllerSvc_ControllerPublishVolume d cl req =
     (if vp_VolumeId req = [] then fails InvalidArgument ''volume id missing in request''
      else if vp_NodeId req = [] then fails InvalidArgument ''node id missing in request''
      else case vp_VolumeCapability req of
        None \<Rightarrow> fails InvalidArgument ''volume capability missing in request''
      | Some volCap \<Rightarrow>
        if \<not> isValidVolumeCapabilities d [volCap] then
          fails InvalidArgument ''Volume capability not supported''
        else unguarded (PublishVolume_body d cl (vp_VolumeId req) (vp_NodeId req)))"

definition UnpublishVolume_body :: "'w Cloud \<Rightarrow> string \<Rightarrow> string \<Rightarrow> ('w, error + unit) go" where
  "UnpublishVolume_body cl volId nodeId =
     bndE (cloud_VolumeById cl volId)
       (\<lambda>e. StatusError FailedPrecondition (''get volume by id failed: '' @ error_text e)) (\<lambda>vol.
     case vol of
       None \<Rightarrow> ret (Inr ())
     | Some v \<Rightarrow>
       if Available vol \<or> Deleted vol \<or> Volume_NodeId v \<noteq> nodeId then ret (Inr ())
       else if Detaching vol then fails Internal ''volume is detaching''
       else
         bndE (cloud_DetachVolume cl nodeId volId)
           (\<lambda>e. StatusError Internal (''detach volume failed: '' @ error_text e)) (\<lambda>_. ret (Inr ())))"

definition ControllerSvc_ControllerUnpublishVolume ::
  "'w Cloud \<Rightarrow> volume_unpublish_request \<Rightarrow> ('w service, error + unit) go" where
  "ControllerSvc_ControllerUnpublishVolume cl req =
     (if vu_VolumeId req = [] then fails InvalidArgument ''volume id missing in request''
      else if vu_NodeId req = [] then fails InvalidArgument ''node id missing in request''
      else unguarded (UnpublishVolume_body cl (vu_VolumeId req) (vu_NodeId req)))"

section \<open>ValidateVolumeCapabilities\<close>

definition ControllerSvc_ValidateVolumeCapabilities ::
  "Driver \<Rightarrow> 'w Cloud \<Rightarrow> validate_request \<Rightarrow> ('w service, error + confirmed option) go" where
  "ControllerSvc_ValidateVolumeCapabilities d cl req =
     (if vc_VolumeId req = [] then fails InvalidArgument ''volume id cannot be empty''
      else if vc_VolumeCapabilities req = [] then
        fails InvalidArgument ''capabilities of request cannot be empty''
      else unguarded (
        bndE (cloud_VolumeById cl (vc_VolumeId req))
          (\<lambda>e. StatusError FailedPrecondition (''get volume by id failed: '' @ error_text e)) (\<lambda>vol.
        case vol of
          None \<Rightarrow> fails NotFound ''volume not found''
        | Some _ \<Rightarrow>
          if \<not> isValidVolumeCapabilities d (vc_VolumeCapabilities req) then ret (Inr None)
          else ret (Inr (Some \<lparr>cf_VolumeContext = vc_VolumeContext req,
                 cf_VolumeCapabilities = vc_VolumeCapabilities req,
                 cf_Parameters = vc_Parameters req\<rparr>)))))"

section \<open>Operations the driver does not offer\<close>

definition ControllerSvc_ListVolumes :: "error + unit" where
  "ControllerSvc_ListVolumes = Inl (StatusError Unimplemented [])"

definition ControllerSvc_GetCapacity :: "error + unit" where
  "ControllerSvc_GetCapacity = Inl (StatusError Unimplemented [])"

definition ControllerSvc_ControllerGetVolume :: "error + unit" where
  "ControllerSvc_ControllerGetVolume = Inl (StatusError Unimplemented [])"

definition ControllerSvc_ControllerGetCapabilities :: "Driver \<Rightarrow> error + controller_rpc list" where
  "ControllerSvc_ControllerGetCapabilities d = Inr (CSCap (csi_driver d))"

section \<open>Snapshots\<close>

definition newCSISnapshot :: "Snapshot \<Rightarrow> csi_snapshot" where
  "newCSISnapshot snapshot =
     \<lparr>cn_SnapshotId = Snapshot_SnapshotID snapshot,
      cn_SourceVolumeId = Snapshot_SourceVolumeID snapshot,
      cn_SizeBytes = Snapshot_Size snapshot,
      cn_CreationTime = Snapshot_CreationTime snapshot,
      cn_ReadyToUse = Snapshot_ReadyToUse snapshot\<rparr>"

definition validateCreateSnapshotRequest :: "create_snapshot_request \<Rightarrow> error option" where
  "validateCreateSnapshotRequest req =
     (if cs_Name req = [] then Some (StatusError InvalidArgument ''Snapshot name not provided'')
      else if cs_SourceVolumeId req = [] then
        Some (StatusError InvalidArgument ''Snapshot volume source ID not provided'')
      else None)"

definition CreateSnapshot_body ::
  "'w Cloud \<Rightarrow> string \<Rightarrow> string \<Rightarrow> ('w, error + csi_snapshot) go" where
  "CreateSnapshot_body cl snapshotName volumeID =
     bndE (cloud_GetSnapshotByName cl snapshotName) (\<lambda>e. e) (\<lambda>snapshot.
     case snapshot of
       Some sn \<Rightarrow>
         if Snapshot_SourceVolumeID sn \<noteq> volumeID then
           fails AlreadyExists (''Snapshot '' @ snapshotName @ '' already exists for different volume ('' @
             Snapshot_SourceVolumeID sn @ '')'')
         else ret (Inr (newCSISnapshot sn))
     | None \<Rightarrow>
       bndE (cloud_VolumeById cl volumeID)
         (\<lambda>e. StatusError FailedPrecondition (''get source volume by id failed: '' @ error_text e)) (\<lambda>vol.
       case vol of
         None \<Rightarrow> fails NotFound ''source volume not found''
       | Some v \<Rightarrow>
         bndE (cloud_CreateSnapshot cl volumeID snapshotName)
           (\<lambda>e. StatusError Internal (''Could not create snapshot '' @ snapshotName @ '': '' @ error_text e)) (\<lambda>sp.
         bnd (deref sp) (\<lambda>sn.
         ret (Inr (newCSISnapshot
           (sn\<lparr>Snapshot_Size := Volume_Capacity v, Snapshot_SourceVolumeID := volumeID\<rparr>)))))))"

definition ControllerSvc_CreateSnapshot ::
  "'w Cloud \<Rightarrow> create_snapshot_request \<Rightarrow> ('w service, error + csi_snapshot) go" where
  "ControllerSvc_CreateSnapshot cl req =
     (case validateCreateSnapshotRequest req of
        Some e \<Rightarrow> ret (Inl e)
      | None \<Rightarrow> guarded (cs_Name req)
          (StatusError Aborted (''An operation with the given Volume '' @ cs_Name req @ '' already exists''))
          (CreateSnapshot_body cl (cs_Name req) (cs_SourceVolumeId req)))"

definition validateDeleteSnapshotRequest :: "string \<Rightarrow> error option" where
  "validateDeleteSnapshotRequest snapshotId =
     (if snapshotId = [] then Some (StatusError InvalidArgument ''Snapshot ID not provided'') else None)"

definition ControllerSvc_DeleteSnapshot :: "'w Cloud \<Rightarrow> string \<Rightarrow> ('w service, error + unit) go" where
  "ControllerSvc_DeleteSnapshot cl snapshotID =
     (case validateDeleteSnapshotRequest snapshotID of
        Some e \<Rightarrow> ret (Inl e)
      | None \<Rightarrow> guarded snapshotID
          (StatusError Aborted (''DeleteSnapshot for Snapshot '' @ snapshotID @ '' is already in progress''))
          (bndE (cloud_DeleteSnapshot cl snapshotID)
            (\<lambda>e. StatusError Internal (''Could not delete snapshot ID '' @ snapshotID @ '': '' @ error_text e))
            (\<lambda>_. ret (Inr ()))))"

definition ControllerSvc_ListSnapshots :: "'w Cloud \<Rightarrow> string \<Rightarrow> ('w service, error + csi_snapshot list) go" where
  "ControllerSvc_ListSnapshots cl snapshotID =
     (if snapshotID \<noteq> [] then unguarded (
        bndE (cloud_GetSnapshotByID cl snapshotID)
          (\<lambda>e. StatusError Internal (''Could not get snapshot ID '' @ snapshotID @ '': '' @ error_text e)) (\<lambda>snapshot.
        case snapshot of None \<Rightarrow> ret (Inr []) | Some sn \<Rightarrow> ret (Inr [newCSISnapshot sn])))
      else fails Unimplemented [])"

section \<open>ControllerExpandVolume\<close>

definition ExpandVolume_body :: "'w Cloud \<Rightarrow> string \<Rightarrow> int64 \<Rightarrow> ('w, error + expand_response) go" where
  "ExpandVolume_body cl volumeId volSizeBytes =
     bndE (cloud_VolumeById cl volumeId)
       (\<lambda>e. StatusError Internal (''describe volume '' @ volumeId @ '' failed: '' @ error_text e)) (\<lambda>vol.
     case vol of
       None \<Rightarrow> fails Internal ''expand volume not exist''
     | Some v \<Rightarrow>
       if roundGB volSizeBytes * GB = Volume_Capacity v \<and> Volume_Status v \<noteq> StatusExtending then
         ret (Inr \<lparr>er_CapacityBytes = Volume_Capacity v, er_NodeExpansionRequired = True\<rparr>)
       else if i64_less volSizeBytes (Volume_Capacity v) \<and> Volume_Status v \<noteq> StatusExtending then
         ret (Inr \<lparr>er_CapacityBytes = Volume_Capacity v, er_NodeExpansionRequired = True\<rparr>)
       else
         bndE (cloud_ExtendVolume cl volumeId volSizeBytes)
           (\<lambda>e. StatusError Internal (''expend volume failed: '' @ error_text e)) (\<lambda>_.
         ret (Inr \<lparr>er_CapacityBytes = volSizeBytes, er_NodeExpansionRequired = True\<rparr>)))"

definition ControllerSvc_ControllerExpandVolume ::
  "'w Cloud \<Rightarrow> expand_request \<Rightarrow> ('w service, error + expand_response) go" where
  "ControllerSvc_ControllerExpandVolume cl req =
     (if ex_VolumeId req = [] then fails InvalidArgument ''Volume ID missing in request''
      else unguarded (ExpandVolume_body cl (ex_VolumeId req) (get_required_bytes (ex_CapacityRange req))))"

end
