(* ===== verification/EBS_Wait.thy ===== *)
theory EBS_Wait
  imports EBS_Cloud
begin

text \<open>
  Facts about the cloud client: what a polling loop has seen when it returns, when it
  returns at all, and from these the contract \<open>observed_cloud\<close> that the controller's
  proofs use: a mutating operation reports success only after it has read the volume back
  in the state it promises.
\<close>

section \<open>The loop\<close>

lemma poll_ctx: "ctx_err sdk w = Some e \<Longrightarrow> poll sdk rnd w = Some (Ret (Inl e), w)"
  by (simp add: poll.simps)

lemma poll_stop:
  "ctx_err sdk w = None \<Longrightarrow> rnd w = Some (Ret (Stop r), w1) \<Longrightarrow> poll sdk rnd w = Some (Ret r, w1)"
  by (simp add: poll.simps)

lemma poll_panic:
  "ctx_err sdk w = None \<Longrightarrow> rnd w = Some (Panic, w1) \<Longrightarrow> poll sdk rnd w = Some (Panic, w1)"
  by (simp add: poll.simps)

lemma poll_again:
  "ctx_err sdk w = None \<Longrightarrow> rnd w = Some (Ret Again, w1) \<Longrightarrow>
     poll sdk rnd w = poll sdk rnd (sleep_ms sdk 500 w1)"
  by (simp add: poll.simps [of sdk rnd w])

text \<open>A success comes from a round that stopped with it, in the state the loop ends in.\<close>

lemma poll_success:
  assumes "poll sdk rnd w = Some (Ret (Inr ()), w')"
  shows "\<exists>u. rnd u = Some (Ret (Stop (Inr ())), w')"
proof -
  have "fst res = Ret (Inr ()) \<longrightarrow> (\<exists>u. rnd u = Some (Ret (Stop (Inr ())), snd res))"
    if "poll sdk rnd w = Some res" for res
  proof (rule poll.raw_induct [where P = "\<lambda>sdk rnd w res. fst res = Ret (Inr ()) \<longrightarrow>
        (\<exists>u. rnd u = Some (Ret (Stop (Inr ())), snd res))", OF _ that])
    fix f sdk rnd w res
    assume IH: "\<And>(sdk :: 'a sdk) rnd w res. f sdk rnd w = Some res \<Longrightarrow>
        fst res = Ret (Inr ()) \<longrightarrow> (\<exists>u. rnd u = Some (Ret (Stop (Inr ())), snd res))"
      and eq: "(case ctx_err (sdk :: 'a sdk) w of Some e \<Rightarrow> Some (Ret (Inl e), w)
        | None \<Rightarrow> (case rnd w of None \<Rightarrow> None | Some (Panic, w1) \<Rightarrow> Some (Panic, w1)
           | Some (Ret (Stop r), w1) \<Rightarrow> Some (Ret r, w1)
           | Some (Ret Again, w1) \<Rightarrow> f sdk rnd (sleep_ms sdk 500 w1))) = Some res"
    show "fst res = Ret (Inr ()) \<longrightarrow> (\<exists>u. rnd u = Some (Ret (Stop (Inr ())), snd res))"
    proof (cases "ctx_err sdk w")
      case None
      with eq obtain out w1 where rw: "rnd w = Some (out, w1)" by (auto split: option.splits)
      show ?thesis
      proof (cases out)
        case (Ret x)
        with None rw eq IH show ?thesis by (cases x) auto
      qed (use None rw eq in auto)
    qed (use eq in auto)
  qed
  from this [OF assms] show ?thesis by auto
qed

text \<open>
  The loop returns when the time left until the end of the context shrinks with every
  round that does not stop.
\<close>

definition runs_down :: "'w sdk \<Rightarrow> ('w, (error + unit) round) go \<Rightarrow> ('w \<Rightarrow> nat) \<Rightarrow> bool" where
  "runs_down sdk rnd left \<longleftrightarrow>
     (\<forall>w w1. ctx_err sdk w = None \<longrightarrow> rnd w = Some (Ret Again, w1) \<longrightarrow> left (sleep_ms sdk 500 w1) < left w)"

lemma poll_returns:
  assumes "runs_down sdk rnd left" and "\<And>u. returns rnd u"
  shows "returns (poll sdk rnd) w"
proof (induction w rule: measure_induct_rule [of left])
  case (less w)
  show ?case
  proof (cases "ctx_err sdk w")
    case (Some e)
    then show ?thesis by (simp add: poll_ctx returns_def)
  next
    case ctx: None
    obtain out w1 where rw: "rnd w = Some (out, w1)"
      using assms(2) [of w] by (auto simp: returns_def)
    consider (panic) "out = Panic" | (stop) r where "out = Ret (Stop r)" | (again) "out = Ret Again"
      by (metis outcome.exhaust round.exhaust)
    then show ?thesis
    proof cases
      case again
      with rw ctx assms(1) have "left (sleep_ms sdk 500 w1) < left w"
        unfolding runs_down_def by blast
      from less.IH [OF this] again rw ctx show ?thesis by (simp add: poll_again returns_def)
    qed (use rw ctx in \<open>auto simp: poll_stop poll_panic returns_def\<close>)
  qed
qed

section \<open>Reading a volume back\<close>

text \<open>
  \<open>seen rd v P w'\<close>: a read of the volume \<open>v\<close> ended in \<open>w'\<close> and showed it satisfying \<open>P\<close>;
  \<open>seen_gone rd v w'\<close>: a read ended in \<open>w'\<close> and found no such volume.
\<close>

definition seen :: "(string \<Rightarrow> ('w, error + Volume option) go) \<Rightarrow> string \<Rightarrow> (Volume \<Rightarrow> bool) \<Rightarrow> 'w \<Rightarrow> bool" where
  "seen rd v P w' \<longleftrightarrow> (\<exists>u vol. rd v u = Some (Ret (Inr (Some vol)), w') \<and> P vol)"

definition seen_gone :: "(string \<Rightarrow> ('w, error + Volume option) go) \<Rightarrow> string \<Rightarrow> 'w \<Rightarrow> bool" where
  "seen_gone rd v w' \<longleftrightarrow> (\<exists>u. rd v u = Some (Ret (Inr None), w'))"

lemma seenI: "rd v u = Some (Ret (Inr (Some vol)), w') \<Longrightarrow> P vol \<Longrightarrow> seen rd v P w'"
  by (auto simp: seen_def)

lemma seen_goneI: "rd v u = Some (Ret (Inr None), w') \<Longrightarrow> seen_gone rd v w'"
  by (auto simp: seen_gone_def)

lemma seen_mono: "seen rd v P w \<Longrightarrow> (\<And>vol. P vol \<Longrightarrow> Q vol) \<Longrightarrow> seen rd v Q w"
  by (auto simp: seen_def)

lemma volume_of_output_returns: "returns (volume_of_output v n) w"
  unfolding volume_of_output_def by (intro returnsI)

lemma first_volume_returns: "returns (first_volume what vs) w"
  unfolding first_volume_def
  by (auto intro!: returnsI volume_of_output_returns split: list.split option.split)

lemma VolumeById_returns: "returns (VolcEngin_VolumeById volc v) w"
  unfolding VolcEngin_VolumeById_def
  by (auto intro!: returnsI first_volume_returns split: option.split)

lemma rounds_return:
  "returns (status_round volc v st) w" "returns (created_round volc v) w" "returns (extended_round volc v sz) w"
  unfolding status_round_def created_round_def extended_round_def
  by (auto intro!: returnsI VolumeById_returns split: option.split sum.split)

lemma status_round_stop:
  assumes "status_round volc v st u = Some (Ret (Stop (Inr ())), w')"
  shows "seen (VolcEngin_VolumeById volc) v (\<lambda>vol. StatusToString (Volume_Status vol) = st) w' \<or>
    st = ''deleted'' \<and> seen_gone (VolcEngin_VolumeById volc) v w'"
  using assms
  by (cases "VolcEngin_VolumeById volc v u" rule: go_opt_cases)
    (auto simp: status_round_def bnd_def intro: seenI seen_goneI split: if_splits)

lemma created_round_stop:
  assumes "created_round volc v u = Some (Ret (Stop (Inr ())), w')"
  shows "seen (VolcEngin_VolumeById volc) v (\<lambda>_. True) w'"
  using assms
  by (cases "VolcEngin_VolumeById volc v u" rule: go_opt_cases)
    (auto simp: created_round_def bnd_def intro: seenI)

lemma extended_round_stop:
  assumes "extended_round volc v sz u = Some (Ret (Stop (Inr ())), w')"
  shows "seen (VolcEngin_VolumeById volc) v
    (\<lambda>vol. Volume_Capacity vol = sz \<and> Volume_Status vol \<noteq> StatusExtending) w'"
  using assms
  by (cases "VolcEngin_VolumeById volc v u" rule: go_opt_cases)
    (auto simp: extended_round_def bnd_def intro: seenI split: if_splits)

lemma WaitVolumeBeStatus_seen:
  "WaitVolumeBeStatus volc v st w = Some (Ret (Inr ()), w') \<Longrightarrow>
     seen (VolcEngin_VolumeById volc) v (\<lambda>vol. StatusToString (Volume_Status vol) = st) w' \<or>
     st = ''deleted'' \<and> seen_gone (VolcEngin_VolumeById volc) v w'"
  unfolding WaitVolumeBeStatus_def by (blast dest: poll_success status_round_stop)

lemma WaitVolumeBeCreated_seen:
  "WaitVolumeBeCreated volc v w = Some (Ret (Inr ()), w') \<Longrightarrow>
     seen (VolcEngin_VolumeById volc) v (\<lambda>_. True) w'"
  unfolding WaitVolumeBeCreated_def by (blast dest: poll_success created_round_stop)

lemma WaitVolumeBeExtended_seen:
  "WaitVolumeBeExtended volc v sz w = Some (Ret (Inr ()), w') \<Longrightarrow>
     seen (VolcEngin_VolumeById volc) v
       (\<lambda>vol. Volume_Capacity vol = sz \<and> Volume_Status vol \<noteq> StatusExtending) w'"
  unfolding WaitVolumeBeExtended_def by (blast dest: poll_success extended_round_stop)

lemma wait_available_seen:
  "WaitVolumeBeStatus volc v EBSStatusAvailable w = Some (Ret (Inr ()), w') \<Longrightarrow>
     seen (VolcEngin_VolumeById volc) v (\<lambda>vol. Volume_Status vol = StatusAvailable) w'"
  by (drule WaitVolumeBeStatus_seen) (auto simp: StatusToString_iff, simp add: EBSStatus_defs)

lemma wait_attached_seen:
  "WaitVolumeBeStatus volc v EBSStatusAttached w = Some (Ret (Inr ()), w') \<Longrightarrow>
     seen (VolcEngin_VolumeById volc) v (\<lambda>vol. Volume_Status vol = StatusAttached) w'"
  by (drule WaitVolumeBeStatus_seen) (auto simp: StatusToString_iff, simp add: EBSStatus_defs)

lemma wait_deleted_seen:
  "WaitVolumeBeStatus volc v EBSStatusDeleted w = Some (Ret (Inr ()), w') \<Longrightarrow>
     seen (VolcEngin_VolumeById volc) v (\<lambda>vol. Volume_Status vol = StatusDeleted) w' \<or>
     seen_gone (VolcEngin_VolumeById volc) v w'"
  by (drule WaitVolumeBeStatus_seen) (auto simp: StatusToString_iff)

section \<open>The contract of the cloud interface\<close>

locale observed_cloud =
  fixes cl :: "'w Cloud"
  assumes create_observed:
      "cloud_CreateVolume cl n ty zn sn c w = Some (Ret (Inr v), w') \<Longrightarrow>
         seen (cloud_VolumeById cl) v (\<lambda>vol. Volume_Status vol = StatusAvailable) w'"
    and attach_observed:
      "cloud_AttachVolume cl nd v w = Some (Ret (Inr ()), w') \<Longrightarrow>
         seen (cloud_VolumeById cl) v (\<lambda>vol. Volume_Status vol = StatusAttached) w'"
    and detach_observed:
      "cloud_DetachVolume cl nd v w = Some (Ret (Inr ()), w') \<Longrightarrow>
         seen (cloud_VolumeById cl) v (\<lambda>vol. Volume_Status vol = StatusAvailable) w'"
    and extend_observed:
      "cloud_ExtendVolume cl v sz w = Some (Ret (Inr ()), w') \<Longrightarrow>
         seen (cloud_VolumeById cl) v
           (\<lambda>vol. Volume_Capacity vol = roundGB sz * GB \<and> Volume_Status vol \<noteq> StatusExtending) w'"

lemmas VolcEngin_ops = VolcEngin_CreateVolume_def VolcEngin_AttachVolume_def
  VolcEngin_DetachVolume_def VolcEngin_ExtendVolume_def VolcEngin_DeleteVolume_def

lemma VolcEngin_CreateVolume_seen:
  "VolcEngin_CreateVolume volc n ty zn sn c w = Some (Ret (Inr v), w') \<Longrightarrow>
     seen (VolcEngin_VolumeById volc) v (\<lambda>vol. Volume_Status vol = StatusAvailable) w'"
  by (auto simp: VolcEngin_CreateVolume_def go_ret case_prod_unfold
      split: option.splits dest!: wait_available_seen)

lemma VolcEngin_AttachVolume_seen:
  "VolcEngin_AttachVolume volc nd v w = Some (Ret (Inr ()), w') \<Longrightarrow>
     seen (VolcEngin_VolumeById volc) v (\<lambda>vol. Volume_Status vol = StatusAttached) w'"
  by (auto simp: VolcEngin_AttachVolume_def go_ret case_prod_unfold
      split: option.splits dest!: wait_attached_seen)

lemma VolcEngin_DetachVolume_seen:
  "VolcEngin_DetachVolume volc nd v w = Some (Ret (Inr ()), w') \<Longrightarrow>
     seen (VolcEngin_VolumeById volc) v (\<lambda>vol. Volume_Status vol = StatusAvailable) w'"
  by (auto simp: VolcEngin_DetachVolume_def go_ret case_prod_unfold
      split: option.splits dest!: wait_available_seen)

lemma VolcEngin_ExtendVolume_seen:
  "VolcEngin_ExtendVolume volc v sz w = Some (Ret (Inr ()), w') \<Longrightarrow>
     seen (VolcEngin_VolumeById volc) v
       (\<lambda>vol. Volume_Capacity vol = roundGB sz * GB \<and> Volume_Status vol \<noteq> StatusExtending) w'"
  by (auto simp: VolcEngin_ExtendVolume_def go_ret case_prod_unfold split: option.splits dest!: WaitVolumeBeExtended_seen)

interpretation volc_cloud: observed_cloud "VolcEngin_Cloud tk volc" for tk :: topology_keys and volc :: "'w VolcEngin"
  by unfold_locales
    (simp_all add: VolcEngin_Cloud_def VolcEngin_CreateVolume_seen VolcEngin_AttachVolume_seen
      VolcEngin_DetachVolume_seen VolcEngin_ExtendVolume_seen)

text \<open>Deletion: gone, shown as deleted, or answered with 404 by the service.\<close>

lemma VolcEngin_DeleteVolume_seen:
  assumes "VolcEngin_DeleteVolume volc v w = Some (Ret (Inr ()), w')"
  shows "seen (VolcEngin_VolumeById volc) v (\<lambda>vol. Volume_Status vol = StatusDeleted) w' \<or>
    seen_gone (VolcEngin_VolumeById volc) v w' \<or>
    (\<exists>e resp. sdk_DeleteVolume (svcClients volc) v w = ((Some e, resp), w') \<and> is_not_found resp)"
proof (cases "fst (fst (sdk_DeleteVolume (svcClients volc) v w))")
  case None
  with assms show ?thesis
    by (auto simp: VolcEngin_DeleteVolume_def go_ret case_prod_unfold
        split: option.splits dest!: wait_deleted_seen)
next
  case (Some e)
  with assms show ?thesis
    by (auto simp: VolcEngin_DeleteVolume_def go_ret case_prod_unfold split: if_splits
        intro!: exI [of _ e] exI [of _ "snd (fst (sdk_DeleteVolume (svcClients volc) v w))"] prod_eqI)
qed

section \<open>Every call of the client comes back\<close>

text \<open>
  What a context with a deadline gives: \<open>left\<close> is the time until it ends, reading volumes
  does not add to it, sleeping takes some of it away, and at 0 the context is done.
\<close>

definition has_deadline :: "'w sdk \<Rightarrow> ('w \<Rightarrow> nat) \<Rightarrow> bool" where
  "has_deadline sdk left \<longleftrightarrow>
     (\<forall>inp w. left (snd (sdk_DescribeVolumes sdk inp w)) \<le> left w) \<and>
     (\<forall>w. left (sleep_ms sdk 500 w) \<le> left w - 1) \<and>
     (\<forall>w. left w = 0 \<longrightarrow> ctx_err sdk w \<noteq> None)"

lemma keeps_le_VolumeById:
  assumes "has_deadline (svcClients volc) left" and "VolcEngin_VolumeById volc v w = Some (r, w1)"
  shows "left w1 \<le> left w"
proof -
  have fv: "first_volume what vs u = Some (r', u') \<Longrightarrow> u' = u" for what vs u r' u'
    by (auto simp: first_volume_def volume_of_output_def bnd_def deref_def split: list.splits option.splits if_splits)
  show ?thesis
    using assms by (auto simp: VolcEngin_VolumeById_def bnd_def case_prod_unfold has_deadline_def
        dest: fv split: option.splits)
qed

lemma rounds_keep:
  assumes "has_deadline (svcClients volc) left"
  shows "status_round volc v st w = Some (r, w1) \<Longrightarrow> left w1 \<le> left w"
    and "created_round volc v w = Some (r, w1) \<Longrightarrow> left w1 \<le> left w"
    and "extended_round volc v sz w = Some (r, w1) \<Longrightarrow> left w1 \<le> left w"
  using keeps_le_VolumeById [OF assms]
  by (cases "VolcEngin_VolumeById volc v w" rule: go_opt_cases;
      force simp: status_round_def created_round_def extended_round_def bnd_def split: if_splits)+

lemma runs_downI:
  assumes "has_deadline sdk left" and "\<And>w r w1. rnd w = Some (r, w1) \<Longrightarrow> left w1 \<le> left w"
  shows "runs_down sdk rnd left"
  unfolding runs_down_def
proof (intro allI impI)
  fix w w1
  assume ctx: "ctx_err sdk w = None" and rnd: "rnd w = Some (Ret Again, w1)"
  have "left w \<noteq> 0" using ctx assms(1) by (auto simp: has_deadline_def)
  moreover have "left (sleep_ms sdk 500 w1) \<le> left w1 - 1" using assms(1) by (simp add: has_deadline_def)
  ultimately show "left (sleep_ms sdk 500 w1) < left w" using assms(2) [OF rnd] by linarith
qed

lemma waits_return:
  assumes "has_deadline (svcClients volc) left"
  shows "returns (WaitVolumeBeStatus volc v st) w" "returns (WaitVolumeBeCreated volc v) w"
    "returns (WaitVolumeBeExtended volc v sz) w"
  unfolding WaitVolumeBeStatus_def WaitVolumeBeCreated_def WaitVolumeBeExtended_def
  by (rule poll_returns [OF runs_downI [OF assms]], erule rounds_keep [OF assms], rule rounds_return)+

lemma metadata_error_returns: "returns (metadata_error resp) w"
  by (auto simp: metadata_error_def intro!: returnsI split: option.split)

lemma VolcEngin_ops_return:
  assumes "has_deadline (svcClients volc) left"
  shows "returns (VolcEngin_CreateVolume volc n ty zn sn c) w" "returns (VolcEngin_AttachVolume volc nd v) w"
    "returns (VolcEngin_DetachVolume volc nd v) w" "returns (VolcEngin_ExtendVolume volc v sz) w"
    "returns (VolcEngin_DeleteVolume volc v) w"
  unfolding VolcEngin_ops
  by (auto intro!: returnsI waits_return [OF assms] metadata_error_returns split: option.split)

lemma VolumeByName_returns: "returns (VolcEngin_VolumeByName volc v) w"
  unfolding VolcEngin_VolumeByName_def
  by (auto intro!: returnsI first_volume_returns split: option.split)

lemma NodeById_returns: "returns (VolcEngin_NodeById volc v) w"
  unfolding VolcEngin_NodeById_def
  by (auto intro!: returnsI split: option.split list.split)

lemma snapshot_struct_returns: "returns (ebsSnapshotResponseToStruct volc s) w"
  unfolding ebsSnapshotResponseToStruct_def by (auto intro!: returnsI split: option.split)

lemma VolcEngin_snapshots_return:
  "returns (VolcEngin_GetSnapshotByName volc n) w" "returns (VolcEngin_GetSnapshotByID volc n) w"
  "returns (VolcEngin_CreateSnapshot volc v n) w" "returns (VolcEngin_DeleteSnapshot volc n) w"
  unfolding VolcEngin_GetSnapshotByName_def VolcEngin_GetSnapshotByID_def VolcEngin_CreateSnapshot_def
    VolcEngin_DeleteSnapshot_def
  by (auto intro!: returnsI snapshot_struct_returns split: option.split list.split)

end
