(* ===== verification/EBS_Controller_Facts.thy ===== *)
theory EBS_Controller_Facts
  imports EBS_Controller EBS_Wait
begin

text \<open>
  What the controller service guarantees. The first part inverts the handlers: what a
  success says about the calls that were made. The second combines this with the contract
  \<open>observed_cloud\<close>, in its context, and states the results for the code's own cloud client.
\<close>

section \<open>Handlers taken apart\<close>

lemma source_snapshot_cases:
  "source_snapshot req = Inr sid \<longleftrightarrow>
     cv_ContentSource req = None \<and> sid = [] \<or>
     cv_ContentSource req = Some (Some (SnapshotSource (Some sid)))"
  by (auto simp: source_snapshot_def split: option.splits content_source.splits)

lemma existing_volume_Inr:
  "existing_volume tk cl req sid ty c z v = Inr r \<longleftrightarrow>
     Volume_Status v = StatusAvailable \<and> Volume_VolumeType v = ty \<and> sint c \<le> sint (Volume_Capacity v) \<and>
     Volume_ZoneId v = z \<and> r = created_volume tk cl req sid (Volume_Id v) (Volume_Capacity v) z"
  by (auto simp: existing_volume_def)

lemma CreateVolume_body_Inr:
  assumes "CreateVolume_body tk cl req w = Some (Ret (Inr r), w')"
  obtains (existing) sid v where "request_zone tk cl req \<noteq> []" "source_snapshot req = Inr sid"
      "cloud_VolumeByName cl (cv_Name req) w = Some (Ret (Inr (Some v)), w')"
      "existing_volume tk cl req sid (getVolumeTypeWithDefault req) (request_capacity req)
         (request_zone tk cl req) v = Inr r"
  | (created) sid w1 vid where "request_zone tk cl req \<noteq> []" "source_snapshot req = Inr sid"
      "cloud_VolumeByName cl (cv_Name req) w = Some (Ret (Inr None), w1)"
      "cloud_CreateVolume cl (cv_Name req) (getVolumeTypeWithDefault req) (request_zone tk cl req) sid
         (request_capacity req) w1 = Some (Ret (Inr vid), w')"
      "r = created_volume tk cl req sid vid (request_capacity req) (request_zone tk cl req)"
proof -
  from assms obtain sid where z: "request_zone tk cl req \<noteq> []" and sid: "source_snapshot req = Inr sid"
    by (auto simp: CreateVolume_body_def Let_def split: if_splits sum.splits)
  from assms z sid obtain x w1 where x: "cloud_VolumeByName cl (cv_Name req) w = Some (Ret (Inr x), w1)"
    by (auto simp: CreateVolume_body_def Let_def go_ret)
  show thesis
  proof (cases x)
    case None
    with assms z sid x created show thesis by (auto simp: CreateVolume_body_def Let_def go_ret)
  next
    case (Some v)
    with assms z sid x existing show thesis by (auto simp: CreateVolume_body_def Let_def go_ret)
  qed
qed

lemma CreateVolume_Inr:
  "ControllerSvc_CreateVolume tk cl req s = Some (Ret (Inr r), s') \<longleftrightarrow>
     cv_Name req \<noteq> [] \<and> cv_VolumeCapabilities req \<noteq> [] \<and> cv_Name req \<notin> running_keys (flights s) \<and>
     (\<exists>w'. CreateVolume_body tk cl req (world s) = Some (Ret (Inr r), w') \<and> s' = s\<lparr>world := w'\<rparr>)"
  by (auto simp: ControllerSvc_CreateVolume_def guarded_Inr)

lemma PublishVolume_body_Inr:
  assumes "PublishVolume_body d cl v nd w = Some (Ret (Inr r), w')"
  obtains (already) vol where "r = Map.empty" "cloud_VolumeById cl v w = Some (Ret (Inr (Some vol)), w')"
      "Volume_Status vol = StatusAttached" "Volume_NodeId vol = nd"
  | (attach) vol w1 info w2 where "r = Map.empty"
      "cloud_VolumeById cl v w = Some (Ret (Inr (Some vol)), w1)" "Volume_Status vol = StatusAvailable"
      "cloud_NodeById cl nd w1 = Some (Ret (Inr (Some info)), w2)"
      "int (length (InstanceForDescribeInstancesOutput_Volumes info)) < sint (maxVolumesPerNode d)"
      "cloud_AttachVolume cl nd v w2 = Some (Ret (Inr ()), w')"
proof (cases "cloud_VolumeById cl v w" rule: go_opt_cases)
  case (found vol w1)
  with assms that show thesis
    by (cases "Volume_Status vol") (auto simp: PublishVolume_body_def go_simps go_ret split: if_splits)
qed (use assms in \<open>auto simp: PublishVolume_body_def go_simps\<close>)

lemma UnpublishVolume_body_Inr:
  assumes "UnpublishVolume_body cl v nd w = Some (Ret (Inr ()), w')"
  obtains (gone) "cloud_VolumeById cl v w = Some (Ret (Inr None), w')"
  | (elsewhere) vol where "cloud_VolumeById cl v w = Some (Ret (Inr (Some vol)), w')"
      "Volume_Status vol = StatusAvailable \<or> Volume_Status vol = StatusDeleted \<or> Volume_NodeId vol \<noteq> nd"
  | (detach) vol w1 where "cloud_VolumeById cl v w = Some (Ret (Inr (Some vol)), w1)"
      "Volume_NodeId vol = nd" "Volume_Status vol \<notin> {StatusAvailable, StatusDeleted, StatusDetaching}"
      "cloud_DetachVolume cl nd v w1 = Some (Ret (Inr ()), w')"
proof (cases "cloud_VolumeById cl v w" rule: go_opt_cases)
  case (found vol w1)
  with assms that show thesis
    by (auto simp: UnpublishVolume_body_def go_simps go_ret split: if_splits)
qed (use assms that in \<open>auto simp: UnpublishVolume_body_def go_simps\<close>)

lemma ExpandVolume_body_Inr:
  assumes "ExpandVolume_body cl v sz w = Some (Ret (Inr r), w')"
  obtains (enough) vol where "cloud_VolumeById cl v w = Some (Ret (Inr (Some vol)), w')"
      "roundGB sz * GB = Volume_Capacity vol \<or> sint sz < sint (Volume_Capacity vol)"
      "Volume_Status vol \<noteq> StatusExtending"
      "r = \<lparr>er_CapacityBytes = Volume_Capacity vol, er_NodeExpansionRequired = True\<rparr>"
  | (extend) vol w1 where "cloud_VolumeById cl v w = Some (Ret (Inr (Some vol)), w1)"
      "sint (Volume_Capacity vol) \<le> sint sz \<or> Volume_Status vol = StatusExtending"
      "cloud_ExtendVolume cl v sz w1 = Some (Ret (Inr ()), w')"
      "r = \<lparr>er_CapacityBytes = sz, er_NodeExpansionRequired = True\<rparr>"
proof (cases "cloud_VolumeById cl v w" rule: go_opt_cases)
  case (found vol w1)
  with assms that show thesis
    by (auto simp: ExpandVolume_body_def go_simps go_ret split: if_splits)
qed (use assms in \<open>auto simp: ExpandVolume_body_def go_simps\<close>)

lemma DeleteVolume_body_Inr:
  assumes "DeleteVolume_body cl v w = Some (Ret (Inr ()), w')"
  obtains (gone) "cloud_VolumeById cl v w = Some (Ret (Inr None), w')"
  | (deleted) vol w1 where "cloud_VolumeById cl v w = Some (Ret (Inr (Some vol)), w1)"
      "cloud_DeleteVolume cl v w1 = Some (Ret (Inr ()), w')"
proof (cases "cloud_VolumeById cl v w" rule: go_opt_cases)
  case (found vol w1)
  with assms that show thesis by (auto simp: DeleteVolume_body_def go_simps go_ret)
qed (use assms that in \<open>auto simp: DeleteVolume_body_def go_simps\<close>)

section \<open>With a cloud that observes what it reports\<close>

context observed_cloud
begin

lemma create_guarantee:
  assumes "CreateVolume_body tk cl req w = Some (Ret (Inr r), w')"
  shows "(\<exists>v. cloud_VolumeByName cl (cv_Name req) w = Some (Ret (Inr (Some v)), w') \<and>
        Volume_Id v = VolumeId r \<and> Volume_Status v = StatusAvailable \<and>
        Volume_VolumeType v = getVolumeTypeWithDefault req \<and> Volume_ZoneId v = request_zone tk cl req \<and>
        sint (request_capacity req) \<le> sint (Volume_Capacity v)) \<or>
     seen (cloud_VolumeById cl) (VolumeId r) (\<lambda>v. Volume_Status v = StatusAvailable) w'"
  using assms
proof (cases rule: CreateVolume_body_Inr)
  case (existing sid v)
  then show ?thesis by (auto simp: existing_volume_Inr created_volume_def)
next
  case (created sid w1 vid)
  then show ?thesis by (auto simp: created_volume_def dest: create_observed)
qed

lemma publish_guarantee:
  assumes "PublishVolume_body d cl v nd w = Some (Ret (Inr r), w')"
  shows "seen (cloud_VolumeById cl) v (\<lambda>vol. Volume_Status vol = StatusAttached) w'"
  using assms by (cases rule: PublishVolume_body_Inr) (auto intro: seenI dest: attach_observed)

lemma unpublish_guarantee:
  assumes "UnpublishVolume_body cl v nd w = Some (Ret (Inr ()), w')"
  shows "seen_gone (cloud_VolumeById cl) v w' \<or>
    seen (cloud_VolumeById cl) v (\<lambda>vol. Volume_Status vol = StatusAvailable \<or>
      Volume_Status vol = StatusDeleted \<or> Volume_NodeId vol \<noteq> nd) w'"
  using assms
  by (cases rule: UnpublishVolume_body_Inr)
    (auto intro: seenI seen_goneI seen_mono dest: detach_observed)

lemma expand_guarantee:
  assumes "ExpandVolume_body cl v sz w = Some (Ret (Inr r), w')" and "size_ok sz"
  shows "seen (cloud_VolumeById cl) v (\<lambda>vol. sint sz \<le> sint (Volume_Capacity vol) \<and>
      sint (er_CapacityBytes r) \<le> sint (Volume_Capacity vol) \<and> Volume_Status vol \<noteq> StatusExtending) w'"
  using assms(1)
proof (cases rule: ExpandVolume_body_Inr)
  case (enough vol)
  have "sint sz \<le> sint (Volume_Capacity vol)"
    using enough(2) roundGB_bounds(1) [OF assms(2)] sint_roundGB_GB [OF assms(2)] by auto
  with enough show ?thesis by (auto intro: seenI)
next
  case (extend vol w1)
  have "sint sz \<le> sint (roundGB sz * GB)"
    using roundGB_bounds(1) [OF assms(2)] sint_roundGB_GB [OF assms(2)] by simp
  with extend show ?thesis by (auto dest!: extend_observed elim!: seen_mono)
qed

end

section \<open>Properties of the controller service\<close>

text \<open>The example requests of the witnesses.\<close>

definition mount_cap :: "access_mode \<Rightarrow> volume_capability" where
  "mount_cap m = \<lparr>AccessType = Some (MountAccess \<lparr>FsType = [], MountFlags = []\<rparr>), AccessMode = Some m\<rparr>"

definition create_example :: "string \<Rightarrow> int64 \<Rightarrow> create_volume_request" where
  "create_example name bytes =
     \<lparr>cv_Name = name, cv_CapacityRange = Some \<lparr>RequiredBytes = bytes, LimitBytes = 0\<rparr>,
      cv_VolumeCapabilities = [mount_cap SINGLE_NODE_WRITER], cv_Parameters = Map.empty,
      cv_ContentSource = None, cv_Accessibility = None\<rparr>"

definition idle_service :: "'w \<Rightarrow> 'w service" where
  "idle_service w = \<lparr>flights = NewInFlight, world = w\<rparr>"

definition example_driver :: Driver where
  "example_driver = ebs_NewDriver [] ''v1.0.0'' ''i-node'' 15 0"

lemma idle_simps [simp]:
  "flights (idle_service w) = NewInFlight" "world (idle_service w) = w"
  "running_keys NewInFlight = {}"
  by (simp_all add: idle_service_def running_keys_def NewInFlight_def)

end
