(* ===== verification/Sim_SDK.thy ===== *)
theory Sim_SDK
  imports EBS_Wait
begin

text \<open>
  A small storage service that answers the SDK calls, to run the cloud client on. Nothing
  is proved about the program from it: it is the concrete instance of the parameter \<open>sdk\<close>
  with which the witnesses of the properties are evaluated. Its world is the list of
  volumes (with their capacity in GB) and the time left until the end of the request
  context. A request is refused when it does not fit the state of the volume, or accepted
  and puts the volume into a transitional state that settles while the client sleeps.
\<close>

record sim =
  sim_vols :: "Volume list"
  sim_target :: "string \<rightharpoonup> int64"  \<comment> \<open>the size a volume is being extended to\<close>
  sim_ms :: nat  \<comment> \<open>time left\<close>

definition ok_meta :: "ResponseMetadata option" where
  "ok_meta = Some \<lparr>HTTPCode = 200, MetadataError = None\<rparr>"

definition sim_output :: "Volume \<Rightarrow> VolumeForDescribeVolumesOutput" where
  "sim_output v = zero_VolumeForDescribeVolumesOutput\<lparr>
     VolumeForDescribeVolumesOutput_VolumeId := Some (Volume_Id v),
     VolumeForDescribeVolumesOutput_VolumeName := Some (Volume_Name v),
     VolumeForDescribeVolumesOutput_ErrorDetail := Some [],
     VolumeForDescribeVolumesOutput_Size := Some (FormatInt (sint (Volume_Capacity v))),
     VolumeForDescribeVolumesOutput_Status := Some
       (if Volume_Status v = StatusExtending then EBSStatusExtending
        else if Volume_Status v = StatusDetaching then EBSStatusDetaching
        else StatusToString (Volume_Status v)),
     VolumeForDescribeVolumesOutput_InstanceId := Some (Volume_NodeId v),
     VolumeForDescribeVolumesOutput_ZoneId := Some (Volume_ZoneId v),
     VolumeForDescribeVolumesOutput_VolumeType := Some (Volume_VolumeType v)\<rparr>"

definition sim_describe ::
  "DescribeVolumesInput \<Rightarrow> sim \<Rightarrow> (error option \<times> DescribeVolumesOutput) \<times> sim" where
  "sim_describe inp w =
     (let hit = (\<lambda>v. Some (Volume_Id v) \<in> set (DescribeVolumesInput_VolumeIds inp) \<or>
            Some (Volume_Name v) = DescribeVolumesInput_VolumeName inp)
      in ((None, zero_DescribeVolumesOutput\<lparr>DescribeVolumesOutput_Metadata := ok_meta,
            DescribeVolumesOutput_Volumes := map (Some \<circ> sim_output) (filter hit (sim_vols w))\<rparr>), w))"

definition opt_str :: "string option \<Rightarrow> string" where
  "opt_str p = (case p of None \<Rightarrow> [] | Some s \<Rightarrow> s)"

definition sim_create :: "CreateVolumeInput \<Rightarrow> sim \<Rightarrow> (error option \<times> CreateVolumeOutput) \<times> sim" where
  "sim_create inp w =
     (let name = opt_str (CreateVolumeInput_VolumeName inp); volId = ''vol-'' @ name;
          size = (case ParseInt64 (opt_str (CreateVolumeInput_Size inp)) of None \<Rightarrow> 0 | Some n \<Rightarrow> n)
      in ((None, zero_CreateVolumeOutput\<lparr>CreateVolumeOutput_Metadata := ok_meta,
            CreateVolumeOutput_VolumeId := Some volId\<rparr>),
          w\<lparr>sim_vols := \<lparr>Volume_Id = volId, Volume_Name = name, Volume_Status = StatusUnknown,
              Volume_Capacity = size, Volume_NodeId = [],
              Volume_ZoneId = opt_str (CreateVolumeInput_ZoneId inp),
              Volume_VolumeType = opt_str (CreateVolumeInput_VolumeType inp)\<rparr> #
            filter (\<lambda>v. Volume_Id v \<noteq> volId) (sim_vols w)\<rparr>))"

definition sim_update :: "string \<Rightarrow> (Volume \<Rightarrow> Volume) \<Rightarrow> sim \<Rightarrow> sim" where
  "sim_update volId f w = w\<lparr>sim_vols := map (\<lambda>v. if Volume_Id v = volId then f v else v) (sim_vols w)\<rparr>"

definition sim_answer :: "sim \<Rightarrow> (error option \<times> ResponseMetadata option option) \<times> sim" where
  "sim_answer w = ((None, Some ok_meta), w)"

definition sim_refuse :: "nat \<Rightarrow> sim \<Rightarrow> (error option \<times> ResponseMetadata option option) \<times> sim" where
  "sim_refuse code w = ((Some (PlainError ''refused''),
     Some (Some \<lparr>HTTPCode = int code, MetadataError = Some ''refused''\<rparr>)), w)"

text \<open>The request \<open>g\<close> for a volume, refused if there is none or its state does not fit \<open>fits\<close>.\<close>

definition sim_request ::
  "string \<Rightarrow> (Volume \<Rightarrow> bool) \<Rightarrow> (sim \<Rightarrow> sim) \<Rightarrow> sim \<Rightarrow> (error option \<times> ResponseMetadata option option) \<times> sim" where
  "sim_request volId fits g w =
     (case find (\<lambda>v. Volume_Id v = volId) (sim_vols w) of
        None \<Rightarrow> sim_refuse 404 w
      | Some v \<Rightarrow>
          if Volume_Status v = StatusDeleted then sim_refuse 404 w
          else if fits v then sim_answer (g w) else sim_refuse 409 w)"

text \<open>The size that a volume has or is going to have, in GB.\<close>

definition sim_size :: "sim \<Rightarrow> Volume \<Rightarrow> int64" where
  "sim_size w v = (case (Volume_Status v, sim_target w (Volume_Id v)) of
     (StatusExtending, Some c) \<Rightarrow> c | _ \<Rightarrow> Volume_Capacity v)"

definition sim_extend :: "string \<Rightarrow> string \<Rightarrow> sim \<Rightarrow> (error option \<times> ResponseMetadata option option) \<times> sim" where
  "sim_extend volId sz w =
     (case ParseInt64 sz of
        None \<Rightarrow> sim_refuse 400 w
      | Some gb \<Rightarrow>
          sim_request volId (\<lambda>v. Volume_Status v \<noteq> StatusDetaching \<and> sint (sim_size w v * GB) \<le> sint (gb * GB))
            (\<lambda>w. sim_update volId (\<lambda>v. v\<lparr>Volume_Status := StatusExtending\<rparr>) (w\<lparr>sim_target := (sim_target w)(volId := Some gb)\<rparr>)) w)"

definition sim_delete :: "string \<Rightarrow> sim \<Rightarrow> (error option \<times> ResponseMetadata option option) \<times> sim" where
  "sim_delete volId = sim_request volId (\<lambda>_. True) (sim_update volId (\<lambda>v. v\<lparr>Volume_Status := StatusDeleted\<rparr>))"

definition sim_attach :: "string \<Rightarrow> string \<Rightarrow> sim \<Rightarrow> (error option \<times> ResponseMetadata option option) \<times> sim" where
  "sim_attach nodeId volId = sim_request volId (\<lambda>v. Volume_Status v = StatusAvailable)
     (sim_update volId (\<lambda>v. v\<lparr>Volume_Status := StatusUnknown, Volume_NodeId := nodeId\<rparr>))"

definition sim_detach :: "string \<Rightarrow> string \<Rightarrow> sim \<Rightarrow> (error option \<times> ResponseMetadata option option) \<times> sim" where
  "sim_detach nodeId volId = sim_request volId
     (\<lambda>v. Volume_NodeId v = nodeId \<and> Volume_Status v \<in> {StatusAttached, StatusUnknown})
     (sim_update volId (\<lambda>v. v\<lparr>Volume_Status := StatusDetaching\<rparr>))"

text \<open>While the client sleeps, every pending operation completes.\<close>

definition sim_settle :: "sim \<Rightarrow> Volume \<Rightarrow> Volume" where
  "sim_settle w v =
     (case Volume_Status v of
        StatusUnknown \<Rightarrow>
          v\<lparr>Volume_Status := if Volume_NodeId v = [] then StatusAvailable else StatusAttached\<rparr>
      | StatusDetaching \<Rightarrow> v\<lparr>Volume_Status := StatusAvailable, Volume_NodeId := []\<rparr>
      | StatusExtending \<Rightarrow>
          v\<lparr>Volume_Status := if Volume_NodeId v = [] then StatusAvailable else StatusAttached,
            Volume_Capacity := (case sim_target w (Volume_Id v) of None \<Rightarrow> Volume_Capacity v | Some c \<Rightarrow> c)\<rparr>
      | _ \<Rightarrow> v)"

definition sim_sleep :: "nat \<Rightarrow> sim \<Rightarrow> sim" where
  "sim_sleep ms w = w\<lparr>sim_ms := sim_ms w - ms,
     sim_vols := map (sim_settle w) (filter (\<lambda>v. Volume_Status v \<noteq> StatusDeleted) (sim_vols w))\<rparr>"

text \<open>A node is described with the volumes that are at it.\<close>

definition sim_instance :: "string \<Rightarrow> sim \<Rightarrow> InstanceForDescribeInstancesOutput" where
  "sim_instance nodeId w = zero_InstanceForDescribeInstancesOutput\<lparr>
     InstanceForDescribeInstancesOutput_Volumes := map (\<lambda>v. Some zero_VolumeForDescribeInstancesOutput)
       (filter (\<lambda>v. Volume_NodeId v = nodeId \<and> Volume_Status v \<noteq> StatusDeleted) (sim_vols w))\<rparr>"

definition sim_instances :: "DescribeInstancesInput \<Rightarrow> sim \<Rightarrow> (error option \<times> DescribeInstancesOutput) \<times> sim" where
  "sim_instances inp w =
     ((None, zero_DescribeInstancesOutput\<lparr>DescribeInstancesOutput_Metadata := ok_meta,
         DescribeInstancesOutput_Instances :=
           map (map_option (\<lambda>nodeId. sim_instance nodeId w)) (DescribeInstancesInput_InstanceIds inp)\<rparr>), w)"

definition sim_sdk :: "sim sdk" where
  "sim_sdk =
     \<lparr>sdk_CreateVolume = sim_create,
      sdk_DescribeVolumes = sim_describe,
      sdk_CreateSnapshot = (\<lambda>inp w. ((None, zero_CreateSnapshotOutput\<lparr>CreateSnapshotOutput_Metadata := ok_meta,
        CreateSnapshotOutput_SnapshotId := Some ''snap-1''\<rparr>), w)),
      sdk_DeleteSnapshot = (\<lambda>inp w. ((None, zero_DeleteSnapshotOutput\<lparr>DeleteSnapshotOutput_Metadata := ok_meta\<rparr>), w)),
      sdk_DescribeSnapshots = (\<lambda>inp w. ((None, zero_DescribeSnapshotsOutput\<lparr>DescribeSnapshotsOutput_Metadata := ok_meta\<rparr>), w)),
      sdk_DescribeInstances = sim_instances,
      sdk_DescribeInstanceTypes = (\<lambda>inp w. ((None, zero_DescribeInstanceTypesOutput\<lparr>DescribeInstanceTypesOutput_Metadata := ok_meta\<rparr>), w)),
      sdk_ExtendVolume = sim_extend, sdk_DeleteVolume = sim_delete,
      sdk_AttachVolume = sim_attach, sdk_DetachVolume = sim_detach,
      ctx_err = (\<lambda>w. if sim_ms w = 0 then Some (PlainError ''context deadline exceeded'') else None),
      sleep_ms = sim_sleep,
      device_by_volume_id = (\<lambda>volId. ret (Inr (''/dev/disk/by-id/virtio-'' @ volId))),
      parse_time = (\<lambda>s. Some ZeroTime)\<rparr>"

definition sim_volc :: "sim VolcEngin" where
  "sim_volc = \<lparr>svcClients = sim_sdk, region = ''cn-beijing'', zone = ''cn-beijing-a''\<rparr>"

definition sim_cloud :: "sim Cloud" where
  "sim_cloud = VolcEngin_Cloud default_topology_keys sim_volc"

definition sim_disk :: "string \<Rightarrow> Status \<Rightarrow> string \<Rightarrow> int64 \<Rightarrow> Volume" where
  "sim_disk name st node gb =
     \<lparr>Volume_Id = ''vol-'' @ name, Volume_Name = name, Volume_Status = st, Volume_Capacity = gb,
      Volume_NodeId = node, Volume_ZoneId = ''cn-beijing-a'', Volume_VolumeType = ''ESSD_PL0''\<rparr>"

definition sim_start :: "Volume list \<Rightarrow> nat \<Rightarrow> sim" where
  "sim_start vs ms = \<lparr>sim_vols = vs, sim_target = Map.empty, sim_ms = ms\<rparr>"

section \<open>Running the client on it\<close>

definition sim_view :: "Volume \<Rightarrow> Volume" where
  "sim_view v = v\<lparr>Volume_Capacity := Volume_Capacity v * GB\<rparr>"

lemma first_volume_sim: "first_volume what (map (Some \<circ> sim_output) vs) w =
    Some (Ret (Inr (case vs of [] \<Rightarrow> None | v # _ \<Rightarrow> Some (sim_view v))), w)"
proof (cases vs)
  case Nil
  then show ?thesis by (simp add: first_volume_def)
next
  case (Cons v us)
  have size: "ParseInt64 (FormatInt (sint (Volume_Capacity v))) = Some (Volume_Capacity v)"
    using ParseInt64_FormatInt [OF sint_i64_ge sint_i64_lt, of "Volume_Capacity v"] by simp
  show ?thesis
    unfolding Cons by (cases "Volume_Status v")
      (simp_all add: first_volume_def volume_of_output_def sim_output_def size sim_view_def bnd_def)
qed

lemma sim_reads:
  "VolcEngin_VolumeById sim_volc volId w =
     Some (Ret (Inr (map_option sim_view (find (\<lambda>v. Volume_Id v = volId) (sim_vols w)))), w)"
  "VolcEngin_VolumeByName sim_volc name w =
     Some (Ret (Inr (map_option sim_view (find (\<lambda>v. Volume_Name v = name) (sim_vols w)))), w)"
proof -
  have "(case filter P vs of [] \<Rightarrow> None | v # _ \<Rightarrow> Some (f v)) = map_option f (find P vs)"
    for P :: "Volume \<Rightarrow> bool" and f :: "Volume \<Rightarrow> Volume" and vs
    by (induction vs) auto
  note [simp] = this
  show "VolcEngin_VolumeById sim_volc volId w =
     Some (Ret (Inr (map_option sim_view (find (\<lambda>v. Volume_Id v = volId) (sim_vols w)))), w)"
    by (simp add: VolcEngin_VolumeById_def bnd_def sim_volc_def sim_sdk_def sim_describe_def Let_def
        zero_DescribeVolumesInput_def zero_DescribeVolumesOutput_def ok_meta_def first_volume_sim)
  show "VolcEngin_VolumeByName sim_volc name w =
     Some (Ret (Inr (map_option sim_view (find (\<lambda>v. Volume_Name v = name) (sim_vols w)))), w)"
    by (simp add: VolcEngin_VolumeByName_def bnd_def sim_volc_def sim_sdk_def sim_describe_def Let_def
        zero_DescribeVolumesInput_def zero_DescribeVolumesOutput_def ok_meta_def first_volume_sim)
qed

lemma sim_fields:
  "svcClients sim_volc = sim_sdk" "region sim_volc = ''cn-beijing''" "zone sim_volc = ''cn-beijing-a''"
  "sdk_CreateVolume sim_sdk = sim_create"
  "sdk_AttachVolume sim_sdk = sim_attach" "sdk_DetachVolume sim_sdk = sim_detach"
  "sdk_DeleteVolume sim_sdk = sim_delete" "sdk_ExtendVolume sim_sdk = sim_extend"
  "ctx_err sim_sdk w = (if sim_ms w = 0 then Some (PlainError ''context deadline exceeded'') else None)"
  "sleep_ms sim_sdk = sim_sleep"
  by (simp_all add: sim_volc_def sim_sdk_def)

lemma sim_node: "VolcEngin_NodeById sim_volc nd w = Some (Ret (Inr (Some (sim_instance nd w))), w)"
  by (simp add: VolcEngin_NodeById_def bnd_def sim_volc_def sim_sdk_def sim_instances_def zero_DescribeInstancesOutput_def
      zero_DescribeInstancesInput_def)

lemma sim_instance_volumes: "length (InstanceForDescribeInstancesOutput_Volumes (sim_instance nd w)) =
    length (filter (\<lambda>v. Volume_NodeId v = nd \<and> Volume_Status v \<noteq> StatusDeleted) (sim_vols w))"
  by (simp add: sim_instance_def)

lemma sim_wait_status:
  assumes "0 < sim_ms w" and "find (\<lambda>x. Volume_Id x = v) (sim_vols w) = Some x"
  shows "WaitVolumeBeStatus sim_volc v st w =
    (if StatusToString (Volume_Status x) = st then Some (Ret (Inr ()), w)
     else WaitVolumeBeStatus sim_volc v st (sim_sleep 500 w))"
proof -
  have ctx: "ctx_err (svcClients sim_volc) w = None" using assms(1) by (simp add: sim_fields)
  have rnd: "status_round sim_volc v st w =
      Some (Ret (if StatusToString (Volume_Status x) = st then Stop (Inr ()) else Again), w)"
    using assms(2) by (simp add: status_round_def sim_reads bnd_def sim_view_def)
  show ?thesis
    using poll_stop [OF ctx] poll_again [OF ctx] rnd
    by (auto simp: WaitVolumeBeStatus_def sim_fields)
qed

lemma sim_wait_created:
  assumes "0 < sim_ms w" and "find (\<lambda>x. Volume_Id x = v) (sim_vols w) = Some x"
  shows "WaitVolumeBeCreated sim_volc v w = Some (Ret (Inr ()), w)"
  using assms unfolding WaitVolumeBeCreated_def
  by (auto intro!: poll_stop simp: sim_fields created_round_def sim_reads bnd_def sim_view_def)

lemma sim_wait_extended:
  assumes "0 < sim_ms w" and "find (\<lambda>x. Volume_Id x = v) (sim_vols w) = Some x"
  shows "WaitVolumeBeExtended sim_volc v sz w =
    (if Volume_Capacity x * GB = sz \<and> Volume_Status x \<noteq> StatusExtending then Some (Ret (Inr ()), w)
     else WaitVolumeBeExtended sim_volc v sz (sim_sleep 500 w))"
proof -
  have ctx: "ctx_err (svcClients sim_volc) w = None" using assms(1) by (simp add: sim_fields)
  have rnd: "extended_round sim_volc v sz w =
      Some (Ret (if Volume_Capacity x * GB = sz \<and> Volume_Status x \<noteq> StatusExtending then Stop (Inr ()) else Again), w)"
    using assms(2) by (simp add: extended_round_def sim_reads bnd_def sim_view_def)
  show ?thesis
    using poll_stop [OF ctx] poll_again [OF ctx] rnd
    by (auto simp: WaitVolumeBeExtended_def sim_fields)
qed

text \<open>Everything that evaluates a run of the client or the controller on the service.\<close>

lemmas sim_run = sim_attach_def sim_detach_def sim_delete_def sim_extend_def sim_request_def sim_size_def sim_fields sim_node sim_instance_volumes sim_reads sim_wait_status sim_wait_created sim_wait_extended
  bnd_def bndE_def sim_answer_def sim_update_def metadata_error_def ok_meta_def sim_sleep_def
  sim_settle_def sim_start_def sim_disk_def sim_view_def VolcEngin_ops sim_cloud_def VolcEngin_Cloud_def
  EBSStatus_defs

end
