(* ===== verification/EBS_Guarantees.thy ===== *)
theory EBS_Guarantees
  imports EBS_Controller_Facts Sim_SDK
begin

text \<open>
  The properties of the EBS controller service over the code's own cloud client
  (\<open>VolcEngin\<close>), for every SDK behind it, each with a run on the simulated service.
\<close>

lemmas volc_fields = VolcEngin_Cloud_def

text \<open>What the client asks the service for when it creates a volume.\<close>

definition volume_order :: "string \<Rightarrow> string \<Rightarrow> string \<Rightarrow> string \<Rightarrow> int64 \<Rightarrow> CreateVolumeInput" where
  "volume_order name ty z sid capacity =
     zero_CreateVolumeInput\<lparr>CreateVolumeInput_VolumeName := Some name, CreateVolumeInput_VolumeType := Some ty,
       CreateVolumeInput_Kind := Some ''data'', CreateVolumeInput_Size := Some (FormatInt (sint (roundGB capacity))),
       CreateVolumeInput_ZoneId := Some z, CreateVolumeInput_SnapshotId := Some sid\<rparr>"

text \<open>The service accepted the order in state \<open>w\<close> and named the volume it created.\<close>

definition ordered :: "'w VolcEngin \<Rightarrow> CreateVolumeInput \<Rightarrow> string \<Rightarrow> 'w \<Rightarrow> bool" where
  "ordered volc order vid w \<longleftrightarrow>
     (\<exists>resp md. fst (sdk_CreateVolume (svcClients volc) order w) = (None, resp) \<and>
        CreateVolumeOutput_VolumeId resp = Some vid \<and>
        CreateVolumeOutput_Metadata resp = Some md \<and> MetadataError md = None)"

lemma VolcEngin_CreateVolume_ordered:
  assumes "VolcEngin_CreateVolume volc name ty z sid capacity w = Some (Ret (Inr vid), w')"
  shows "ordered volc (volume_order name ty z sid capacity) vid w"
  using assms
  by (auto simp: VolcEngin_CreateVolume_def bnd_Ret_iff bndE_Inr_iff deref_Ret_iff call_def ordered_def volume_order_def
      split: option.splits prod.splits)

text \<open>C3: When CreateVolume succeeds, the volume it reports exists and is available. Either the
  name lookup found an available volume of the requested type and zone that is large
  enough, its id, size and zone are reported, and nothing else happened. Or the lookup found
  no volume of the name, the service was asked in that state for a volume with the requested
  name, type, zone and snapshot and the requested size rounded up to GB, it accepted and
  named the created volume, the answer reports that id, and a read of that volume showed it
  available before the answer was sent.\<close>

theorem create_reports_available:
  assumes "ControllerSvc_CreateVolume tk (VolcEngin_Cloud tk volc) req s = Some (Ret (Inr r), s')"
  shows "\<exists>sid. source_snapshot req = Inr sid \<and>
    ((\<exists>v. VolcEngin_VolumeByName volc (cv_Name req) (world s) = Some (Ret (Inr (Some v)), world s') \<and>
        Volume_Id v = VolumeId r \<and> Volume_Status v = StatusAvailable \<and>
        Volume_VolumeType v = getVolumeTypeWithDefault req \<and>
        Volume_ZoneId v = request_zone tk (VolcEngin_Cloud tk volc) req \<and>
        sint (request_capacity req) \<le> sint (Volume_Capacity v) \<and>
        r = created_volume tk (VolcEngin_Cloud tk volc) req sid (Volume_Id v) (Volume_Capacity v) (Volume_ZoneId v)) \<or>
     (\<exists>w1. VolcEngin_VolumeByName volc (cv_Name req) (world s) = Some (Ret (Inr None), w1) \<and>
        ordered volc (volume_order (cv_Name req) (getVolumeTypeWithDefault req)
          (request_zone tk (VolcEngin_Cloud tk volc) req) sid (request_capacity req)) (VolumeId r) w1 \<and>
        r = created_volume tk (VolcEngin_Cloud tk volc) req sid (VolumeId r) (request_capacity req)
          (request_zone tk (VolcEngin_Cloud tk volc) req) \<and>
        seen (VolcEngin_VolumeById volc) (VolumeId r) (\<lambda>v. Volume_Status v = StatusAvailable) (world s')))"
proof -
  from assms obtain w' where b: "CreateVolume_body tk (VolcEngin_Cloud tk volc) req (world s) = Some (Ret (Inr r), w')"
    and s': "s' = s\<lparr>world := w'\<rparr>" by (auto simp: CreateVolume_Inr)
  from b show ?thesis
  proof (cases rule: CreateVolume_body_Inr)
    case (existing sid v)
    then show ?thesis by (auto simp: s' volc_fields existing_volume_Inr created_volume_def)
  next
    case (created sid w1 vid)
    from created(4) have "ordered volc (volume_order (cv_Name req) (getVolumeTypeWithDefault req)
        (request_zone tk (VolcEngin_Cloud tk volc) req) sid (request_capacity req)) vid w1"
      by (intro VolcEngin_CreateVolume_ordered) (simp add: volc_fields)
    moreover have "seen (VolcEngin_VolumeById volc) vid (\<lambda>v. Volume_Status v = StatusAvailable) w'"
      using volc_cloud.create_observed [OF created(4)] by (simp add: volc_fields)
    moreover have "VolumeId r = vid" by (simp add: created(5) created_volume_def)
    ultimately show ?thesis using created by (auto simp: s' volc_fields)
  qed
qed

theorem create_reports_available_witness:
  "\<exists>s' r. ControllerSvc_CreateVolume default_topology_keys sim_cloud (create_example ''pvc'' (30 * GB))
       (idle_service (sim_start [] 60000)) = Some (Ret (Inr r), s') \<and>
     seen (VolcEngin_VolumeById sim_volc) (VolumeId r) (\<lambda>v. Volume_Status v = StatusAvailable) (world s')"
proof -
  let ?s = "idle_service (sim_start [] 60000)" and ?req = "create_example ''pvc'' (30 * GB)"
  have "\<exists>s' r. ControllerSvc_CreateVolume default_topology_keys sim_cloud ?req ?s = Some (Ret (Inr r), s')"
    by (simp add: CreateVolume_Inr CreateVolume_body_def Let_def sim_run create_example_def request_zone_def
        getZoneId_def pickZone_def source_snapshot_def sim_create_def opt_str_def
        zero_CreateVolumeInput_def zero_CreateVolumeOutput_def)
  then obtain s' r where
    run: "ControllerSvc_CreateVolume default_topology_keys sim_cloud ?req ?s = Some (Ret (Inr r), s')"
    by blast
  from create_reports_available [of default_topology_keys sim_volc, folded sim_cloud_def, OF run] run
  show ?thesis by (auto simp: sim_reads sim_start_def)
qed

lemma handler_valid:
  "ControllerSvc_ControllerPublishVolume d cl req s = Some (Ret (Inr r), s') \<Longrightarrow>
     \<exists>w'. PublishVolume_body d cl (vp_VolumeId req) (vp_NodeId req) (world s) = Some (Ret (Inr r), w') \<and>
       s' = s\<lparr>world := w'\<rparr>"
  "ControllerSvc_ControllerUnpublishVolume cl ureq s = Some (Ret (Inr u), s') \<Longrightarrow>
     \<exists>w'. UnpublishVolume_body cl (vu_VolumeId ureq) (vu_NodeId ureq) (world s) = Some (Ret (Inr u), w') \<and>
       s' = s\<lparr>world := w'\<rparr>"
  "ControllerSvc_ControllerExpandVolume cl ereq s = Some (Ret (Inr e), s') \<Longrightarrow>
     \<exists>w'. ExpandVolume_body cl (ex_VolumeId ereq) (get_required_bytes (ex_CapacityRange ereq)) (world s)
         = Some (Ret (Inr e), w') \<and> s' = s\<lparr>world := w'\<rparr>"
  "ControllerSvc_DeleteVolume cl v s = Some (Ret (Inr u), s') \<Longrightarrow>
     \<exists>w'. DeleteVolume_body cl v (world s) = Some (Ret (Inr u), w') \<and> s' = s\<lparr>world := w'\<rparr>"
  by (auto simp: ControllerSvc_ControllerPublishVolume_def ControllerSvc_ControllerUnpublishVolume_def
      ControllerSvc_ControllerExpandVolume_def ControllerSvc_DeleteVolume_def unguarded_Some guarded_Inr
      split: if_splits option.splits)

text \<open>C7: When ControllerPublishVolume succeeds, a read of the volume showed it attached,
  with nothing done after that read, and the in-flight table is as before.\<close>

theorem publish_reports_attached:
  assumes "ControllerSvc_ControllerPublishVolume d (VolcEngin_Cloud tk volc) req s = Some (Ret (Inr r), s')"
  shows "seen (VolcEngin_VolumeById volc) (vp_VolumeId req) (\<lambda>vol. Volume_Status vol = StatusAttached) (world s') \<and>
    flights s' = flights s \<and> r = Map.empty"
proof -
  from handler_valid(1) [OF assms] obtain w' where
    b: "PublishVolume_body d (VolcEngin_Cloud tk volc) (vp_VolumeId req) (vp_NodeId req) (world s) = Some (Ret (Inr r), w')"
    and s': "s' = s\<lparr>world := w'\<rparr>" by blast
  from b have "r = Map.empty" by (cases rule: PublishVolume_body_Inr)
  with volc_cloud.publish_guarantee [OF b] s' show ?thesis by (simp add: volc_fields)
qed

definition publish_example :: "string \<Rightarrow> string \<Rightarrow> volume_publish_request" where
  "publish_example v nd = \<lparr>vp_VolumeId = v, vp_NodeId = nd, vp_VolumeCapability = Some (mount_cap SINGLE_NODE_WRITER)\<rparr>"

theorem publish_reports_attached_witness:
  "\<exists>s' r. ControllerSvc_ControllerPublishVolume example_driver sim_cloud (publish_example ''vol-a'' ''i-1'')
       (idle_service (sim_start [sim_disk ''a'' StatusAvailable [] 20] 60000)) = Some (Ret (Inr r), s') \<and>
     seen (VolcEngin_VolumeById sim_volc) ''vol-a'' (\<lambda>vol. Volume_Status vol = StatusAttached) (world s')"
proof -
  have "\<exists>s' r. ControllerSvc_ControllerPublishVolume example_driver sim_cloud (publish_example ''vol-a'' ''i-1'')
      (idle_service (sim_start [sim_disk ''a'' StatusAvailable [] 20] 60000)) = Some (Ret (Inr r), s')"
    by (simp add: ControllerSvc_ControllerPublishVolume_def publish_example_def unguarded_def PublishVolume_body_def
        example_driver_def isValidVolumeCapabilities_iff mount_cap_def get_mode_def sim_run
        zero_InstanceForDescribeInstancesOutput_def)
  then obtain s' r where run: "ControllerSvc_ControllerPublishVolume example_driver sim_cloud
      (publish_example ''vol-a'' ''i-1'')
      (idle_service (sim_start [sim_disk ''a'' StatusAvailable [] 20] 60000)) = Some (Ret (Inr r), s')"
    by blast
  from publish_reports_attached [of example_driver default_topology_keys sim_volc, folded sim_cloud_def, OF run] run
  show ?thesis by (auto simp: publish_example_def)
qed

text \<open>A volume that is attached to another node, or is neither attached nor available, is
  never attached: ControllerPublishVolume answers FailedPrecondition right after reading
  the volume, whatever the cloud is.\<close>

theorem publish_refuses_busy_volume:
  assumes "vp_VolumeCapability req = Some c" "isValidVolumeCapabilities d [c]"
    and "vp_VolumeId req \<noteq> []" "vp_NodeId req \<noteq> []"
    and "cloud_VolumeById cl (vp_VolumeId req) (world s) = Some (Ret (Inr (Some v)), w1)"
    and "Volume_Status v = StatusAttached \<and> Volume_NodeId v \<noteq> vp_NodeId req \<or>
      Volume_Status v \<notin> {StatusAttached, StatusAvailable}"
  shows "\<exists>m. ControllerSvc_ControllerPublishVolume d cl req s =
    Some (Ret (Inl (StatusError FailedPrecondition m)), s\<lparr>world := w1\<rparr>)"
  using assms
  by (auto simp: ControllerSvc_ControllerPublishVolume_def unguarded_def PublishVolume_body_def go_simps)

theorem publish_refuses_busy_volume_witness:
  "\<exists>m. ControllerSvc_ControllerPublishVolume example_driver sim_cloud (publish_example ''vol-a'' ''i-1'')
       (idle_service (sim_start [sim_disk ''a'' StatusAttached ''i-2'' 20] 60000)) =
     Some (Ret (Inl (StatusError FailedPrecondition m)),
       idle_service (sim_start [sim_disk ''a'' StatusAttached ''i-2'' 20] 60000))"
  using publish_refuses_busy_volume [of "publish_example ''vol-a'' ''i-1''" "mount_cap SINGLE_NODE_WRITER"
      example_driver sim_cloud "idle_service (sim_start [sim_disk ''a'' StatusAttached ''i-2'' 20] 60000)"
      "sim_view (sim_disk ''a'' StatusAttached ''i-2'' 20)" "sim_start [sim_disk ''a'' StatusAttached ''i-2'' 20] 60000"]
  by (simp add: publish_example_def example_driver_def isValidVolumeCapabilities_iff mount_cap_def get_mode_def
      sim_run idle_service_def)

text \<open>The attach limit, for one request: a node that already has the maximal number of volumes gets
  no further one. ControllerPublishVolume answers FailedPrecondition after reading volume
  and node and does not attach.\<close>

theorem publish_respects_limit:
  assumes "vp_VolumeCapability req = Some c" "isValidVolumeCapabilities d [c]"
    and "vp_VolumeId req \<noteq> []" "vp_NodeId req \<noteq> []"
    and "cloud_VolumeById cl (vp_VolumeId req) (world s) = Some (Ret (Inr (Some v)), w1)"
    and "Volume_Status v = StatusAvailable"
    and "cloud_NodeById cl (vp_NodeId req) w1 = Some (Ret (Inr (Some info)), w2)"
    and "sint (maxVolumesPerNode d) \<le> int (length (InstanceForDescribeInstancesOutput_Volumes info))"
  shows "\<exists>m. ControllerSvc_ControllerPublishVolume d cl req s =
    Some (Ret (Inl (StatusError FailedPrecondition m)), s\<lparr>world := w2\<rparr>)"
  using assms
  by (auto simp: ControllerSvc_ControllerPublishVolume_def unguarded_def PublishVolume_body_def go_simps)

theorem publish_respects_limit_witness:
  "\<exists>m. ControllerSvc_ControllerPublishVolume (example_driver\<lparr>maxVolumesPerNode := 0\<rparr>) sim_cloud
       (publish_example ''vol-a'' ''i-1'')
       (idle_service (sim_start [sim_disk ''a'' StatusAvailable [] 20] 60000)) =
     Some (Ret (Inl (StatusError FailedPrecondition m)),
       idle_service (sim_start [sim_disk ''a'' StatusAvailable [] 20] 60000))"
  using publish_respects_limit [of "publish_example ''vol-a'' ''i-1''" "mount_cap SINGLE_NODE_WRITER"
      "example_driver\<lparr>maxVolumesPerNode := 0\<rparr>" sim_cloud
      "idle_service (sim_start [sim_disk ''a'' StatusAvailable [] 20] 60000)"
      "sim_view (sim_disk ''a'' StatusAvailable [] 20)" "sim_start [sim_disk ''a'' StatusAvailable [] 20] 60000"
      "sim_instance ''i-1'' (sim_start [sim_disk ''a'' StatusAvailable [] 20] 60000)" "sim_start [sim_disk ''a'' StatusAvailable [] 20] 60000"]
  by (simp add: publish_example_def example_driver_def isValidVolumeCapabilities_iff mount_cap_def get_mode_def
      sim_run idle_service_def)

text \<open>C10: When ControllerUnpublishVolume succeeds, a read showed the volume not attached to
  the node: it was gone, available, deleted, or on another node.\<close>

theorem unpublish_reports_detached:
  assumes "ControllerSvc_ControllerUnpublishVolume (VolcEngin_Cloud tk volc) req s = Some (Ret (Inr ()), s')"
  shows "seen_gone (VolcEngin_VolumeById volc) (vu_VolumeId req) (world s') \<or>
    seen (VolcEngin_VolumeById volc) (vu_VolumeId req)
      (\<lambda>vol. Volume_Status vol = StatusAvailable \<or> Volume_Status vol = StatusDeleted \<or>
        Volume_NodeId vol \<noteq> vu_NodeId req) (world s')"
proof -
  from handler_valid(2) [OF assms] obtain w' where
    b: "UnpublishVolume_body (VolcEngin_Cloud tk volc) (vu_VolumeId req) (vu_NodeId req) (world s) = Some (Ret (Inr ()), w')"
    and s': "s' = s\<lparr>world := w'\<rparr>" by blast
  with volc_cloud.unpublish_guarantee [OF b] show ?thesis by (simp add: volc_fields)
qed

theorem unpublish_reports_detached_witness:
  "\<exists>s'. ControllerSvc_ControllerUnpublishVolume sim_cloud \<lparr>vu_VolumeId = ''vol-a'', vu_NodeId = ''i-1''\<rparr>
       (idle_service (sim_start [sim_disk ''a'' StatusAttached ''i-1'' 20] 60000)) = Some (Ret (Inr ()), s') \<and>
     seen (VolcEngin_VolumeById sim_volc) ''vol-a''
      (\<lambda>vol. Volume_Status vol = StatusAvailable \<or> Volume_Status vol = StatusDeleted \<or>
        Volume_NodeId vol \<noteq> ''i-1'') (world s')"
proof -
  have "\<exists>s'. ControllerSvc_ControllerUnpublishVolume sim_cloud \<lparr>vu_VolumeId = ''vol-a'', vu_NodeId = ''i-1''\<rparr>
       (idle_service (sim_start [sim_disk ''a'' StatusAttached ''i-1'' 20] 60000)) = Some (Ret (Inr ()), s') \<and>
       sim_vols (world s') = [sim_disk ''a'' StatusAvailable [] 20]"
    by (simp add: ControllerSvc_ControllerUnpublishVolume_def unguarded_def UnpublishVolume_body_def sim_run)
  then obtain s' where run: "ControllerSvc_ControllerUnpublishVolume sim_cloud
      \<lparr>vu_VolumeId = ''vol-a'', vu_NodeId = ''i-1''\<rparr>
      (idle_service (sim_start [sim_disk ''a'' StatusAttached ''i-1'' 20] 60000)) = Some (Ret (Inr ()), s')"
    and end_state: "sim_vols (world s') = [sim_disk ''a'' StatusAvailable [] 20]" by blast
  from unpublish_reports_detached [of default_topology_keys sim_volc, folded sim_cloud_def, OF run] run end_state
  show ?thesis by (auto simp: seen_gone_def sim_reads sim_disk_def)
qed

text \<open>C11: When ControllerExpandVolume succeeds on a size in the range where rounding does not
  overflow, a read showed the volume no longer extending and at least as large as both the
  size that was asked for and the size that is reported.\<close>

theorem expand_reaches_capacity:
  assumes "ControllerSvc_ControllerExpandVolume (VolcEngin_Cloud tk volc) req s = Some (Ret (Inr r), s')"
    and "size_ok (get_required_bytes (ex_CapacityRange req))"
  shows "seen (VolcEngin_VolumeById volc) (ex_VolumeId req)
      (\<lambda>vol. sint (get_required_bytes (ex_CapacityRange req)) \<le> sint (Volume_Capacity vol) \<and>
        sint (er_CapacityBytes r) \<le> sint (Volume_Capacity vol) \<and> Volume_Status vol \<noteq> StatusExtending)
      (world s')"
proof -
  from handler_valid(3) [OF assms(1)] obtain w' where
    b: "ExpandVolume_body (VolcEngin_Cloud tk volc) (ex_VolumeId req)
        (get_required_bytes (ex_CapacityRange req)) (world s) = Some (Ret (Inr r), w')"
    and s': "s' = s\<lparr>world := w'\<rparr>" by blast
  from volc_cloud.expand_guarantee [OF b assms(2)] s' show ?thesis by (simp add: volc_fields)
qed

definition expand_example :: "string \<Rightarrow> int64 \<Rightarrow> expand_request" where
  "expand_example v n = \<lparr>ex_VolumeId = v, ex_CapacityRange = Some \<lparr>RequiredBytes = n, LimitBytes = 0\<rparr>\<rparr>"

theorem expand_reaches_capacity_witness:
  "\<exists>s' r. ControllerSvc_ControllerExpandVolume sim_cloud (expand_example ''vol-a'' 32212254721)
       (idle_service (sim_start [sim_disk ''a'' StatusAvailable [] 20] 60000)) = Some (Ret (Inr r), s') \<and>
     seen (VolcEngin_VolumeById sim_volc) ''vol-a''
      (\<lambda>vol. 32212254721 \<le> sint (Volume_Capacity vol) \<and>
        sint (er_CapacityBytes r) \<le> sint (Volume_Capacity vol) \<and> Volume_Status vol \<noteq> StatusExtending)
      (world s')"
proof -
  have g: "roundGB 32212254721 = 31"
    by (simp add: roundGB_def GB_def i64_div_def signed_divide_int_def)
  have p: "ParseInt64 (FormatInt 31) = Some 31" using ParseInt64_FormatInt [of 31] by simp
  have "\<exists>s' r. ControllerSvc_ControllerExpandVolume sim_cloud (expand_example ''vol-a'' 32212254721)
       (idle_service (sim_start [sim_disk ''a'' StatusAvailable [] 20] 60000)) = Some (Ret (Inr r), s')"
    by (simp add: ControllerSvc_ControllerExpandVolume_def unguarded_def ExpandVolume_body_def sim_run
        expand_example_def get_required_bytes_def g p GB_def)
  then obtain s' r where run: "ControllerSvc_ControllerExpandVolume sim_cloud (expand_example ''vol-a'' 32212254721)
       (idle_service (sim_start [sim_disk ''a'' StatusAvailable [] 20] 60000)) = Some (Ret (Inr r), s')"
    by blast
  have "size_ok (get_required_bytes (ex_CapacityRange (expand_example ''vol-a'' 32212254721)))"
    by (simp add: expand_example_def get_required_bytes_def size_ok_def)
  from expand_reaches_capacity [of default_topology_keys sim_volc, folded sim_cloud_def, OF run this] run
  show ?thesis by (auto simp: expand_example_def get_required_bytes_def)
qed

text \<open>C12: When DeleteVolume succeeds, a read showed the volume gone or deleted, or the service
  answered the delete request with 404.\<close>

theorem delete_reports_removed:
  assumes "ControllerSvc_DeleteVolume (VolcEngin_Cloud tk volc) v s = Some (Ret (Inr ()), s')"
  shows "seen_gone (VolcEngin_VolumeById volc) v (world s') \<or>
    seen (VolcEngin_VolumeById volc) v (\<lambda>vol. Volume_Status vol = StatusDeleted) (world s') \<or>
    (\<exists>e resp w1. sdk_DeleteVolume (svcClients volc) v w1 = ((Some e, resp), world s') \<and> is_not_found resp)"
proof -
  from handler_valid(4) [OF assms] obtain w' where
    b: "DeleteVolume_body (VolcEngin_Cloud tk volc) v (world s) = Some (Ret (Inr ()), w')"
    and s': "s' = s\<lparr>world := w'\<rparr>" by blast
  from b show ?thesis
  proof (cases rule: DeleteVolume_body_Inr)
    case gone
    then show ?thesis by (simp add: s' volc_fields seen_goneI)
  next
    case (deleted vol w1)
    then show ?thesis
      using VolcEngin_DeleteVolume_seen [of volc v w1 w'] by (auto simp: s' volc_fields)
  qed
qed

theorem delete_reports_removed_witness:
  "\<exists>s'. ControllerSvc_DeleteVolume sim_cloud ''vol-a''
       (idle_service (sim_start [sim_disk ''a'' StatusAvailable [] 20] 60000)) = Some (Ret (Inr ()), s') \<and>
     (seen_gone (VolcEngin_VolumeById sim_volc) ''vol-a'' (world s') \<or>
      seen (VolcEngin_VolumeById sim_volc) ''vol-a'' (\<lambda>vol. Volume_Status vol = StatusDeleted) (world s') \<or>
      (\<exists>e resp w1. sdk_DeleteVolume (svcClients sim_volc) ''vol-a'' w1 = ((Some e, resp), world s') \<and> is_not_found resp))"
proof -
  have "\<exists>s'. ControllerSvc_DeleteVolume sim_cloud ''vol-a''
      (idle_service (sim_start [sim_disk ''a'' StatusAvailable [] 20] 60000)) = Some (Ret (Inr ()), s')"
    by (simp add: ControllerSvc_DeleteVolume_def guarded_free DeleteVolume_body_def sim_run)
  then obtain s' where run: "ControllerSvc_DeleteVolume sim_cloud ''vol-a''
      (idle_service (sim_start [sim_disk ''a'' StatusAvailable [] 20] 60000)) = Some (Ret (Inr ()), s')" by blast
  from delete_reports_removed [of default_topology_keys sim_volc, folded sim_cloud_def, OF run] run
  show ?thesis by blast
qed

text \<open>A CreateVolume request whose volume name is in flight is rejected with Aborted and
  changes nothing.\<close>

theorem busy_request_rejected:
  "cv_Name req \<noteq> [] \<Longrightarrow> cv_VolumeCapabilities req \<noteq> [] \<Longrightarrow> cv_Name req \<in> running_keys (flights s) \<Longrightarrow>
     \<exists>m. ControllerSvc_CreateVolume tk cl req s = Some (Ret (Inl (StatusError Aborted m)), s)"
  by (simp add: ControllerSvc_CreateVolume_def guarded_busy)

theorem busy_request_rejected_witness:
  "\<exists>m. ControllerSvc_CreateVolume default_topology_keys sim_cloud (create_example ''pvc'' 0)
       \<lparr>flights = snd (Insert ''pvc'' NewInFlight), world = sim_start [] 0\<rparr> =
     Some (Ret (Inl (StatusError Aborted m)), \<lparr>flights = snd (Insert ''pvc'' NewInFlight), world = sim_start [] 0\<rparr>)"
  by (rule busy_request_rejected)
    (simp_all add: create_example_def Insert_def NewInFlight_def running_keys_def)

text \<open>C14: Every controller handler that reaches the in-flight table or the cloud, however it
  ends (result, error or panic), leaves the in-flight table as it found it: no key is leaked.
  (The four others, ListVolumes, GetCapacity, ControllerGetVolume and ControllerGetCapabilities, answer
  a constant.)\<close>

theorem handlers_restore_flights:
  "keeps flights (ControllerSvc_CreateVolume tk cl cv) \<and> keeps flights (ControllerSvc_DeleteVolume cl v) \<and>
   keeps flights (ControllerSvc_ControllerPublishVolume d cl vp) \<and>
   keeps flights (ControllerSvc_ControllerUnpublishVolume cl vu) \<and>
   keeps flights (ControllerSvc_ValidateVolumeCapabilities d cl vc) \<and>
   keeps flights (ControllerSvc_CreateSnapshot cl cs) \<and> keeps flights (ControllerSvc_DeleteSnapshot cl sn) \<and>
   keeps flights (ControllerSvc_ListSnapshots cl sn') \<and> keeps flights (ControllerSvc_ControllerExpandVolume cl ex)"
  by (auto simp: ControllerSvc_CreateVolume_def ControllerSvc_DeleteVolume_def
      ControllerSvc_ControllerPublishVolume_def ControllerSvc_ControllerUnpublishVolume_def
      ControllerSvc_ValidateVolumeCapabilities_def ControllerSvc_ListSnapshots_def
      ControllerSvc_CreateSnapshot_def ControllerSvc_DeleteSnapshot_def
      ControllerSvc_ControllerExpandVolume_def keeps_flights_guarded keeps_flights_unguarded split: option.split)

lemmas handlers_returnI = returns_guarded returns_unguarded VolumeById_returns VolumeByName_returns
  NodeById_returns VolcEngin_snapshots_return

text \<open>C13: With a request context that has a deadline, every handler of the controller that calls the
  cloud comes back: the polling loops of the cloud client cannot run for ever. (The four other
  handlers answer a constant.)\<close>

theorem handlers_return:
  assumes "has_deadline (svcClients volc) left"
  shows "returns (ControllerSvc_CreateVolume tk (VolcEngin_Cloud tk volc) cv) s \<and>
    returns (ControllerSvc_DeleteVolume (VolcEngin_Cloud tk volc) v) s \<and>
    returns (ControllerSvc_ControllerPublishVolume d (VolcEngin_Cloud tk volc) vp) s \<and>
    returns (ControllerSvc_ControllerUnpublishVolume (VolcEngin_Cloud tk volc) vu) s \<and>
    returns (ControllerSvc_ValidateVolumeCapabilities d (VolcEngin_Cloud tk volc) vc) s \<and>
    returns (ControllerSvc_CreateSnapshot (VolcEngin_Cloud tk volc) cs) s \<and>
    returns (ControllerSvc_DeleteSnapshot (VolcEngin_Cloud tk volc) sn) s \<and>
    returns (ControllerSvc_ListSnapshots (VolcEngin_Cloud tk volc) sn') s \<and>
    returns (ControllerSvc_ControllerExpandVolume (VolcEngin_Cloud tk volc) ex) s"
proof (intro conjI)
  show "returns (ControllerSvc_CreateVolume tk (VolcEngin_Cloud tk volc) cv) s"
    unfolding ControllerSvc_CreateVolume_def CreateVolume_body_def Let_def
    by (auto simp: volc_fields intro!: returnsI handlers_returnI VolcEngin_ops_return [OF assms] split: sum.split option.split)
  show "returns (ControllerSvc_DeleteVolume (VolcEngin_Cloud tk volc) v) s"
    unfolding ControllerSvc_DeleteVolume_def DeleteVolume_body_def
    by (auto simp: volc_fields intro!: returnsI handlers_returnI VolcEngin_ops_return [OF assms] split: option.split)
  show "returns (ControllerSvc_ControllerPublishVolume d (VolcEngin_Cloud tk volc) vp) s"
    unfolding ControllerSvc_ControllerPublishVolume_def PublishVolume_body_def
    by (auto simp: volc_fields intro!: returnsI handlers_returnI VolcEngin_ops_return [OF assms] split: option.split)
  show "returns (ControllerSvc_ControllerUnpublishVolume (VolcEngin_Cloud tk volc) vu) s"
    unfolding ControllerSvc_ControllerUnpublishVolume_def UnpublishVolume_body_def
    by (auto simp: volc_fields intro!: returnsI handlers_returnI VolcEngin_ops_return [OF assms] split: option.split)
  show "returns (ControllerSvc_ValidateVolumeCapabilities d (VolcEngin_Cloud tk volc) vc) s"
    unfolding ControllerSvc_ValidateVolumeCapabilities_def
    by (auto simp: volc_fields intro!: returnsI handlers_returnI split: option.split)
  show "returns (ControllerSvc_CreateSnapshot (VolcEngin_Cloud tk volc) cs) s"
    unfolding ControllerSvc_CreateSnapshot_def CreateSnapshot_body_def
    by (auto simp: volc_fields intro!: returnsI handlers_returnI split: option.split)
  show "returns (ControllerSvc_DeleteSnapshot (VolcEngin_Cloud tk volc) sn) s"
    unfolding ControllerSvc_DeleteSnapshot_def
    by (auto simp: volc_fields intro!: returnsI handlers_returnI split: option.split)
  show "returns (ControllerSvc_ListSnapshots (VolcEngin_Cloud tk volc) sn') s"
    unfolding ControllerSvc_ListSnapshots_def
    by (auto simp: volc_fields intro!: returnsI handlers_returnI split: option.split)
  show "returns (ControllerSvc_ControllerExpandVolume (VolcEngin_Cloud tk volc) ex) s"
    unfolding ControllerSvc_ControllerExpandVolume_def ExpandVolume_body_def
    by (auto simp: volc_fields intro!: returnsI handlers_returnI VolcEngin_ops_return [OF assms] split: option.split)
qed

lemma sim_has_deadline: "has_deadline sim_sdk sim_ms"
  by (auto simp: has_deadline_def sim_sdk_def sim_describe_def sim_sleep_def diff_le_mono2)

theorem handlers_return_witness:
  "returns (ControllerSvc_DeleteVolume sim_cloud ''vol-a'')
     (idle_service (sim_start [sim_disk ''a'' StatusExtending [] 20] 1000))"
  using handlers_return [of sim_volc sim_ms default_topology_keys] sim_has_deadline
  by (simp add: sim_cloud_def sim_fields)

text \<open>CreateVolume never makes a second volume of a name: when the lookup finds a volume
  the answer depends on that volume alone (its status, type, size and zone are compared in
  this order, the first mismatch giving the error), and the state is the one after the
  lookup, whatever the cloud's CreateVolume would do.\<close>

theorem create_never_duplicates:
  assumes "cv_Name req \<noteq> []" "cv_VolumeCapabilities req \<noteq> []" "cv_Name req \<notin> running_keys (flights s)"
    and "request_zone tk cl req \<noteq> []" and "source_snapshot req = Inr sid"
    and "cloud_VolumeByName cl (cv_Name req) (world s) = Some (Ret (Inr (Some v)), w1)"
  shows "ControllerSvc_CreateVolume tk cl req s = Some (Ret (
      if Volume_Status v \<noteq> StatusAvailable then
        Inl (StatusError FailedPrecondition ''the volume which get by name isn't available'')
      else if Volume_VolumeType v \<noteq> getVolumeTypeWithDefault req then
        Inl (StatusError AlreadyExists ''already exists volume with different type'')
      else if sint (Volume_Capacity v) < sint (request_capacity req) then
        Inl (StatusError AlreadyExists ''already exists volume with smaller capacity'')
      else if Volume_ZoneId v \<noteq> request_zone tk cl req then
        Inl (StatusError AlreadyExists ''already exists volume with different zoneId'')
      else Inr (created_volume tk cl req sid (Volume_Id v) (Volume_Capacity v) (Volume_ZoneId v))),
    s\<lparr>world := w1\<rparr>)"
  using assms
  by (simp add: ControllerSvc_CreateVolume_def guarded_free CreateVolume_body_def Let_def go_simps
      existing_volume_def)

theorem create_never_duplicates_witness:
  "\<exists>m. ControllerSvc_CreateVolume default_topology_keys sim_cloud (create_example ''a'' (40 * GB))
       (idle_service (sim_start [sim_disk ''a'' StatusAvailable [] 20] 60000)) =
     Some (Ret (Inl (StatusError AlreadyExists m)),
       idle_service (sim_start [sim_disk ''a'' StatusAvailable [] 20] 60000))"
  using create_never_duplicates [of "create_example ''a'' (40 * GB)"
      "idle_service (sim_start [sim_disk ''a'' StatusAvailable [] 20] 60000)" default_topology_keys sim_cloud
      "[]" "sim_view (sim_disk ''a'' StatusAvailable [] 20)" "sim_start [sim_disk ''a'' StatusAvailable [] 20] 60000"]
  by (simp add: create_example_def request_zone_def getZoneId_def pickZone_def source_snapshot_def sim_run
      getVolumeTypeWithDefault_def volumeTypeDefault_def request_capacity_def idle_service_def GB_def)

text \<open>C18: The wait for an extended volume panics when the volume cannot be found: the nil
  volume of a successful read is dereferenced.\<close>

theorem wait_extended_panics_when_gone:
  assumes "ctx_err (svcClients volc) w = None"
    and "VolcEngin_VolumeById volc v w = Some (Ret (Inr None), w1)"
  shows "WaitVolumeBeExtended volc v sz w = Some (Panic, w1)"
  using assms by (auto simp: WaitVolumeBeExtended_def extended_round_def bnd_def intro!: poll_panic)

theorem wait_extended_panics_when_gone_witness:
  "WaitVolumeBeExtended sim_volc ''vol-a'' 5 (sim_start [] 1000) = Some (Panic, sim_start [] 1000)"
  using wait_extended_panics_when_gone [of sim_volc "sim_start [] 1000" "''vol-a''" "sim_start [] 1000" 5]
  by (simp add: sim_run)

text \<open>Rounding to GB: for a size at which it does not overflow, the rounded size covers
  the request, exceeds it by less than one GB, fits 33 bits, and a whole number of GB is
  left alone; just above that range it wraps around to a negative number.\<close>

theorem roundGB_correct:
  assumes "size_ok n"
  shows "sint n \<le> sint (roundGB n * GB) \<and> sint (roundGB n * GB) < sint n + 2 ^ 30 \<and>
    0 \<le> sint (roundGB n) \<and> sint (roundGB n) < 2 ^ 33 \<and>
    (sint n mod 2 ^ 30 = 0 \<longrightarrow> roundGB n * GB = n) \<and>
    sint (roundGB (word_of_int (2 ^ 63 - 2 ^ 30 + 1))) < 0"
proof -
  have wrap: "sint (roundGB (word_of_int (2 ^ 63 - 2 ^ 30 + 1))) < 0"
    by (simp add: roundGB_def GB_def i64_div_def signed_divide_int_def)
  have exact: "roundGB n * GB = n" if "sint n mod 2 ^ 30 = 0"
  proof -
    have "sint (roundGB n * GB) = sint n"
      using roundGB_bounds [OF assms] sint_roundGB_GB [OF assms] that
      by (auto elim!: dvdE simp: mod_eq_0_iff_dvd)
    then show ?thesis by (simp add: signed_word_eqI)
  qed
  show ?thesis
    using roundGB_bounds [OF assms] roundGB_le [OF assms] sint_roundGB_GB [OF assms] wrap exact by auto
qed

theorem roundGB_correct_witness:
  "sint (roundGB 21474836481 * GB) = 22548578304 \<and> 0 \<le> sint (roundGB 21474836481)"
  using roundGB_correct [of 21474836481]
  by (simp add: size_ok_def) (simp add: roundGB_def GB_def i64_div_def signed_divide_int_def)

text \<open>The zone of a new volume: the parameter \<open>zone\<close> if it is given, else the first zone
  named by the preferred topologies, else by the requisite ones, else the cloud's own. An
  error is reported only if that is empty too.\<close>

theorem zone_choice:
  "request_zone tk cl req =
     (let named = List.map_filter (\<lambda>t. Segments t (TopologyZoneKey tk));
          zones = (case cv_Accessibility req of None \<Rightarrow> [] | Some r \<Rightarrow> named (Preferred r) @ named (Requisite r))
      in if attr (cv_Parameters req) ''zone'' \<noteq> [] then attr (cv_Parameters req) ''zone''
         else case zones of z # _ \<Rightarrow> (if z = [] then cloud_Zone cl else z) | [] \<Rightarrow> cloud_Zone cl)"
proof -
  have fz: "first_zone k ts = (case List.map_filter (\<lambda>t. Segments t k) ts of [] \<Rightarrow> None | z # _ \<Rightarrow> Some z)" for k ts
    by (induction ts) (auto simp: List.map_filter_simps split: option.splits)
  show ?thesis
    by (auto simp: request_zone_def getZoneId_def pickZone_def fz Let_def split: option.splits list.splits)
qed

end
