(* ===== verification/Go_WP.thy ===== *)
theory Go_WP
  imports InFlight
begin

text \<open>
  Weakest preconditions of Go functions: one rule per combinator, with which the lemmas on
  whole handlers are proved along their text.
\<close>

section \<open>The calculus\<close>

text \<open>If \<open>m\<close> returns, then in a state where \<open>P\<close> holds of the value.\<close>

definition wp :: "('w, 'a) go \<Rightarrow> ('a \<Rightarrow> 'w \<Rightarrow> bool) \<Rightarrow> 'w \<Rightarrow> bool" where
  "wp m P w \<longleftrightarrow> (\<forall>x w'. m w = Some (Ret x, w') \<longrightarrow> P x w')"

lemma wp_mono: "wp m P w \<Longrightarrow> (\<And>x w'. P x w' \<Longrightarrow> Q x w') \<Longrightarrow> wp m Q w"
  by (simp add: wp_def)

lemma wp_conj: "wp m P w \<Longrightarrow> wp m Q w \<Longrightarrow> wp m (\<lambda>x w'. P x w' \<and> Q x w') w"
  by (simp add: wp_def)

lemma wp_basic [simp]:
  "wp (ret x) P w \<longleftrightarrow> P x w" "wp panic P w" "wp (fails c e) Q w \<longleftrightarrow> Q (Inl (StatusError c e)) w"
  "wp (deref p) R w \<longleftrightarrow> (\<forall>y. p = Some y \<longrightarrow> R y w)"
  by (auto simp: wp_def deref_Ret_iff)

lemma wp_bnd [simp]: "wp (bnd m f) P w \<longleftrightarrow> wp m (\<lambda>x. wp (f x) P) w"
  by (auto simp: wp_def bnd_Ret_iff)

lemma wp_bndE [simp]:
  "wp (bndE m h f) P w \<longleftrightarrow> wp m (\<lambda>r w1. case r of Inl e \<Rightarrow> P (Inl (h e)) w1 | Inr x \<Rightarrow> wp (f x) P w1) w"
  unfolding bndE_def wp_bnd by (auto simp: wp_def split: sum.split)

lemma wp_guarded:
  "(\<And>s'. world s' = world s \<Longrightarrow> P (Inl busy) s') \<Longrightarrow> wp body (\<lambda>r w'. \<forall>s'. world s' = w' \<longrightarrow> P r s') (world s) \<Longrightarrow>
    wp (guarded key busy body) P s"
  by (cases "key \<in> running_keys (flights s)") (auto simp: wp_def guarded_busy guarded_free split: option.splits)

lemma wp_unguarded: "wp body (\<lambda>r w'. \<forall>s'. world s' = w' \<longrightarrow> P r s') (world s) \<Longrightarrow> wp (unguarded body) P s"
  by (auto simp: wp_def unguarded_Some)

lemma wp_True: "(\<And>x w'. P x w') \<Longrightarrow> wp m P w"
  by (simp add: wp_def)

lemma wp_call: "wp (call f) P w \<longleftrightarrow> P (fst (f w)) (snd (f w))"
  by (simp add: wp_def)

text \<open>Whatever came before, and a call that leaves a part of the state alone.\<close>

lemma wp_bnd_any: "(\<And>x w1. wp (f x) P w1) \<Longrightarrow> wp (bnd m f) P w"
  unfolding wp_bnd by (rule wp_True)

lemma wp_bndE_any: "(\<And>e w1. P (Inl (h e)) w1) \<Longrightarrow> (\<And>x w1. wp (f x) P w1) \<Longrightarrow> wp (bndE m h f) P w"
  unfolding wp_bndE by (rule wp_True) (simp split: sum.split)

lemma wp_keeps: "keeps v m \<Longrightarrow> (\<And>x w'. v w' = v w \<Longrightarrow> P x w') \<Longrightarrow> wp m P w"
  by (auto simp: wp_def keeps_def)

end
