(* ===== verification/Volume_Spec.thy ===== *)
theory Volume_Spec
  imports EBS_Controller_Facts Go_WP
begin

text \<open>
  What the controller service promises of the volumes it manages, as an abstract store of
  volumes with a name, a size and at most one holder, and the refinement of it: every
  handler, on a cloud that keeps the contract \<open>volume_cloud\<close>, is a step of the store. Theory
  \<open>Fake_Store\<close> shows that the repository's test cloud keeps it, \<open>Client_Store\<close> that the cloud
  client does, on a service that keeps a contract of its own.
\<close>

section \<open>The abstract store\<close>

record avol =
  av_name :: string
  av_size :: int64
  av_holder :: "string option"

type_synonym store = "string \<rightharpoonup> avol"

text \<open>The requests of the controller service that change volumes.\<close>

datatype op = OpCreate create_volume_request | OpDelete string | OpPublish volume_publish_request
  | OpUnpublish volume_unpublish_request | OpExpand expand_request

definition named :: "store \<Rightarrow> string \<Rightarrow> bool" where
  "named m n \<longleftrightarrow> (\<exists>v a. m v = Some a \<and> av_name a = n)"

text \<open>The volume is no longer with the node; another node's holding is left alone.\<close>

definition release :: "string \<Rightarrow> string \<Rightarrow> store \<Rightarrow> store" where
  "release v n m = (case m v of None \<Rightarrow> m | Some a \<Rightarrow> if av_holder a = Some n then m(v \<mapsto> a\<lparr>av_holder := None\<rparr>) else m)"

definition resize :: "string \<Rightarrow> int64 \<Rightarrow> store \<Rightarrow> store" where
  "resize v sz m = (case m v of None \<Rightarrow> m | Some a \<Rightarrow> m(v \<mapsto> a\<lparr>av_size := sz\<rparr>))"

text \<open>
  A step: the request, whether it succeeded, the store before and after. \<open>grant\<close> is the size
  a cloud gives for a size that is asked for. A failed request changes nothing, except that
  on a cloud that is not \<open>strict\<close> one that was accepted may be reported as failed (the wait
  for it ran out of time): then it has taken effect.
\<close>

inductive vol_step :: "bool \<Rightarrow> (int64 \<Rightarrow> int64) \<Rightarrow> op \<Rightarrow> bool \<Rightarrow> store \<Rightarrow> store \<Rightarrow> bool" for strict grant where
  refuse: "vol_step strict grant p False m m"
| late: "\<not> strict \<Longrightarrow> vol_step strict grant p True m m' \<Longrightarrow> vol_step strict grant p False m m'"
| create: "\<not> named m (cv_Name req) \<Longrightarrow> m v = None \<Longrightarrow> vol_step strict grant (OpCreate req) True m
     (m(v \<mapsto> \<lparr>av_name = cv_Name req, av_size = grant (request_capacity req), av_holder = None\<rparr>))"
| create_again: "m v = Some a \<Longrightarrow> av_name a = cv_Name req \<Longrightarrow> av_holder a = None \<Longrightarrow>
     sint (request_capacity req) \<le> sint (av_size a) \<Longrightarrow> vol_step strict grant (OpCreate req) True m m"
| delete: "vol_step strict grant (OpDelete v) True m (m(v := None))"
| publish: "m (vp_VolumeId req) = Some a \<Longrightarrow> av_holder a = None \<Longrightarrow> vol_step strict grant (OpPublish req) True m
     (m(vp_VolumeId req \<mapsto> a\<lparr>av_holder := Some (vp_NodeId req)\<rparr>))"
| publish_again: "m (vp_VolumeId req) = Some a \<Longrightarrow> av_holder a = Some (vp_NodeId req) \<Longrightarrow>
     vol_step strict grant (OpPublish req) True m m"
| unpublish: "vol_step strict grant (OpUnpublish req) True m (release (vu_VolumeId req) (vu_NodeId req) m)"
| expand: "sz = grant (get_required_bytes (ex_CapacityRange req)) \<Longrightarrow>
     (\<And>a. m (ex_VolumeId req) = Some a \<Longrightarrow> sint (av_size a) \<le> sint sz) \<Longrightarrow>
     vol_step strict grant (OpExpand req) True m (resize (ex_VolumeId req) sz m)"
| expand_again: "sz = get_required_bytes (ex_CapacityRange req) \<Longrightarrow>
     (\<And>a. m (ex_VolumeId req) = Some a \<Longrightarrow> roundGB sz * GB = av_size a \<or> sint sz < sint (av_size a)) \<Longrightarrow>
     vol_step strict grant (OpExpand req) True m m"

inductive_cases vol_step_OpUnpublish: "vol_step strict grant (OpUnpublish req) b m m'"

inductive vol_steps :: "bool \<Rightarrow> (int64 \<Rightarrow> int64) \<Rightarrow> op list \<Rightarrow> bool list \<Rightarrow> store \<Rightarrow> store \<Rightarrow> bool" for strict grant where
  none: "vol_steps strict grant [] [] m m"
| more: "vol_step strict grant p b m m1 \<Longrightarrow> vol_steps strict grant ps bs m1 m' \<Longrightarrow>
     vol_steps strict grant (p # ps) (b # bs) m m'"

section \<open>What the store guarantees\<close>

definition unique_names :: "store \<Rightarrow> bool" where
  "unique_names m \<longleftrightarrow> (\<forall>u v a b. m u = Some a \<longrightarrow> m v = Some b \<longrightarrow> av_name a = av_name b \<longrightarrow> u = v)"

lemma unique_names_change: "unique_names m \<Longrightarrow> m v = Some a \<Longrightarrow> av_name b = av_name a \<Longrightarrow> unique_names (m(v \<mapsto> b))"
  unfolding unique_names_def by (metis fun_upd_apply option.inject)

lemma unique_names_new: "unique_names m \<Longrightarrow> \<not> named m (av_name a) \<Longrightarrow> unique_names (m(v \<mapsto> a))"
  unfolding unique_names_def named_def by (metis fun_upd_apply option.inject)

lemma unique_names_remove: "unique_names m \<Longrightarrow> unique_names (m(v := None))"
  unfolding unique_names_def by (metis fun_upd_apply option.distinct(1))

lemma release_at: "release v n m u = (if u = v then map_option (\<lambda>a. if av_holder a = Some n then a\<lparr>av_holder := None\<rparr> else a) (m v) else m u)"
  by (auto simp: release_def split: option.split)

lemma resize_at: "resize v sz m u = (if u = v then map_option (\<lambda>a. a\<lparr>av_size := sz\<rparr>) (m v) else m u)"
  by (auto simp: resize_def split: option.split)

lemma unique_names_release: "unique_names m \<Longrightarrow> unique_names (release v n m)"
  by (auto simp: release_def intro: unique_names_change split: option.split)

lemma unique_names_resize: "unique_names m \<Longrightarrow> unique_names (resize v sz m)"
  by (auto simp: resize_def intro: unique_names_change split: option.split)

lemma vol_step_unique: "vol_step strict grant p b m m' \<Longrightarrow> unique_names m \<Longrightarrow> unique_names m'"
  by (induction rule: vol_step.induct)
    (auto intro: unique_names_change unique_names_new unique_names_remove unique_names_release unique_names_resize)

lemma vol_steps_unique: "vol_steps strict grant ps bs m m' \<Longrightarrow> unique_names m \<Longrightarrow> unique_names m'"
  by (induction rule: vol_steps.induct) (auto intro: vol_step_unique)

lemma vol_step_keeps:
  assumes "vol_step strict grant p b m m'" and "m v = Some a" and "m' v = Some a'"
  shows "sint (av_size a) \<le> sint (av_size a') \<and> av_name a' = av_name a \<and>
    (\<forall>n. av_holder a = Some n \<longrightarrow> av_holder a' = Some n \<or>
       av_holder a' = None \<and> (strict \<longrightarrow> b) \<and> (\<exists>req. p = OpUnpublish req \<and> vu_VolumeId req = v \<and> vu_NodeId req = n))"
  using assms by (induction rule: vol_step.induct) (auto simp: release_at resize_at split: if_splits)

section \<open>The handlers as steps\<close>

definition void :: "('w, error + 'a) go \<Rightarrow> ('w, error + unit) go" where
  "void m = bndE m (\<lambda>e. e) (\<lambda>_. ret (Inr ()))"

fun run_op :: "topology_keys \<Rightarrow> Driver \<Rightarrow> 'w Cloud \<Rightarrow> op \<Rightarrow> ('w service, error + unit) go" where
  "run_op tk d cl (OpCreate req) = void (ControllerSvc_CreateVolume tk cl req)"
| "run_op tk d cl (OpDelete v) = ControllerSvc_DeleteVolume cl v"
| "run_op tk d cl (OpPublish req) = void (ControllerSvc_ControllerPublishVolume d cl req)"
| "run_op tk d cl (OpUnpublish req) = ControllerSvc_ControllerUnpublishVolume cl req"
| "run_op tk d cl (OpExpand req) = void (ControllerSvc_ControllerExpandVolume cl req)"

fun run_ops :: "topology_keys \<Rightarrow> Driver \<Rightarrow> 'w Cloud \<Rightarrow> op list \<Rightarrow> ('w service, (error + unit) list) go" where
  "run_ops tk d cl [] = ret []"
| "run_ops tk d cl (p # ps) = bnd (run_op tk d cl p) (\<lambda>r. bnd (run_ops tk d cl ps) (\<lambda>rs. ret (r # rs)))"

lemma wp_void: "wp (void m) P w \<longleftrightarrow> wp m (\<lambda>r. P (case r of Inl e \<Rightarrow> Inl e | Inr _ \<Rightarrow> Inr ())) w"
  unfolding void_def wp_bndE wp_basic by (auto simp: wp_def split: sum.split)

section \<open>The contract of the cloud\<close>

text \<open>How a volume that a cloud describes agrees with the store. Without an entry it is going away.\<close>

definition shape :: "Volume \<Rightarrow> avol" where
  "shape v = \<lparr>av_name = Volume_Name v, av_size = Volume_Capacity v,
     av_holder = (if Volume_Status v = StatusAttached then Some (Volume_NodeId v) else None)\<rparr>"

lemma shape_simps [simp]:
  "av_name (shape v) = Volume_Name v" "av_size (shape v) = Volume_Capacity v"
  "av_holder (shape v) = (if Volume_Status v = StatusAttached then Some (Volume_NodeId v) else None)"
  by (simp_all add: shape_def)

definition agrees :: "avol option \<Rightarrow> Volume \<Rightarrow> bool" where
  "agrees p vol \<longleftrightarrow>
     (case p of
        None \<Rightarrow> Volume_Status vol \<in> {StatusDeleted, StatusUnknown}
      | Some a \<Rightarrow>
          Volume_Status vol \<noteq> StatusDeleted \<and> Volume_Name vol = av_name a \<and>
          (Volume_Status vol = StatusExtending \<or> Volume_Capacity vol = av_size a) \<and>
          (case av_holder a of
             None \<Rightarrow> Volume_Status vol \<noteq> StatusAttached
           | Some n \<Rightarrow> Volume_Status vol \<notin> {StatusAvailable, StatusDetaching} \<and> Volume_NodeId vol = n))"

lemma agrees_settled:
  "Volume_Status vol = StatusAvailable \<Longrightarrow> agrees p vol \<longleftrightarrow> p = Some (shape vol)"
  "Volume_Status vol = StatusAttached \<Longrightarrow> agrees p vol \<longleftrightarrow> p = Some (shape vol)"
  by (cases p; auto simp: agrees_def shape_def split: option.split)+

lemma agrees_shape: "agrees (Some (shape vol)) vol \<longleftrightarrow> Volume_Status vol \<noteq> StatusDeleted"
  by (simp add: agrees_def shape_def)

lemma agreesD:
  assumes "agrees (Some a) vol"
  shows "Volume_Status vol \<noteq> StatusDeleted" and "Volume_Status vol = StatusExtending \<or> Volume_Capacity vol = av_size a"
    and "av_holder a = Some n \<Longrightarrow> Volume_Status vol \<noteq> StatusAvailable \<and> Volume_NodeId vol = n"
  using assms by (auto simp: agrees_def)

text \<open>The store after a call that changes it: only a cloud that is not strict may report a failure
  and have done it all the same.\<close>

definition effect :: "bool \<Rightarrow> bool \<Rightarrow> store \<Rightarrow> store \<Rightarrow> store \<Rightarrow> bool" where
  "effect strict success new old now \<longleftrightarrow> (if success then now = new else now = old \<or> \<not> strict \<and> now = new)"

lemma effect_strict [simp]: "effect True success new old now \<longleftrightarrow> now = (if success then new else old)"
  by (simp add: effect_def)

text \<open>
  The cloud's state shows a store; \<open>ok k\<close> is its invariant, good for \<open>k\<close> more creations.
  Lookups read it; every other call changes it as its name says or fails, on a strict cloud
  under the conditions that the handlers check first.
\<close>

locale volume_cloud =
  fixes cl :: "'w Cloud" and ok :: "nat \<Rightarrow> 'w \<Rightarrow> bool" and view :: "'w \<Rightarrow> store"
    and strict :: bool and grant :: "int64 \<Rightarrow> int64"
  assumes ok_Suc: "ok (Suc k) w \<Longrightarrow> ok k w"
    and by_id: "ok k w \<Longrightarrow> wp (cloud_VolumeById cl v) (\<lambda>r w'. ok k w' \<and> view w' = view w \<and>
      (r = Inr None \<longrightarrow> view w v = None) \<and>
      (\<forall>vol. r = Inr (Some vol) \<longrightarrow> agrees (view w v) vol \<and>
        (strict \<longrightarrow> Volume_Status vol \<in> {StatusAvailable, StatusAttached}))) w"
    and by_name: "ok k w \<Longrightarrow> wp (cloud_VolumeByName cl n) (\<lambda>r w'. ok k w' \<and> view w' = view w \<and>
      (r = Inr None \<longrightarrow> \<not> named (view w) n) \<and>
      (\<forall>vol. r = Inr (Some vol) \<longrightarrow> agrees (view w (Volume_Id vol)) vol \<and> Volume_Name vol = n)) w"
    and node: "ok k w \<Longrightarrow> wp (cloud_NodeById cl n) (\<lambda>r w'. ok k w' \<and> view w' = view w) w"
    and creates: "ok (Suc k) w \<Longrightarrow> \<not> named (view w) n \<Longrightarrow> wp (cloud_CreateVolume cl n ty z sid sz) (\<lambda>r w'. ok k w' \<and>
      (r \<in> range Inl \<and> view w' = view w \<or> (\<exists>v. (r = Inr v \<or> \<not> strict \<and> r \<in> range Inl) \<and> view w v = None \<and>
        view w' = (view w)(v \<mapsto> \<lparr>av_name = n, av_size = grant sz, av_holder = None\<rparr>)))) w"
    and deletes: "ok k w \<Longrightarrow> wp (cloud_DeleteVolume cl v) (\<lambda>r w'. ok k w' \<and>
      effect strict (r = Inr ()) ((view w)(v := None)) (view w) (view w')) w"
    and attaches: "ok k w \<Longrightarrow> nd \<noteq> [] \<Longrightarrow> view w v = Some a \<Longrightarrow> av_holder a = None \<Longrightarrow>
      wp (cloud_AttachVolume cl nd v) (\<lambda>r w'. ok k w' \<and>
      effect strict (r = Inr ()) ((view w)(v \<mapsto> a\<lparr>av_holder := Some nd\<rparr>)) (view w) (view w')) w"
    and detaches: "ok k w \<Longrightarrow> (strict \<Longrightarrow> \<exists>a. view w v = Some a \<and> av_holder a = Some nd) \<Longrightarrow>
      wp (cloud_DetachVolume cl nd v) (\<lambda>r w'. ok k w' \<and>
      effect strict (r = Inr ()) (release v nd (view w)) (view w) (view w')) w"
    and extends: "ok k w \<Longrightarrow> (strict \<Longrightarrow> \<exists>a. view w v = Some a \<and> sint (av_size a) \<le> sint sz) \<Longrightarrow>
      wp (cloud_ExtendVolume cl v sz) (\<lambda>r w'. ok k w' \<and>
      (r \<noteq> Inr () \<and> view w' = view w \<or>
       (\<forall>a. view w v = Some a \<longrightarrow> sint (av_size a) \<le> sint (grant sz)) \<and>
       effect strict (r = Inr ()) (resize v (grant sz) (view w)) (view w) (view w'))) w"
begin

text \<open>What a handler that starts in a store \<open>m\<close> has to reach.\<close>

definition reaches :: "nat \<Rightarrow> op \<Rightarrow> store \<Rightarrow> (error + 'a) \<Rightarrow> 'w \<Rightarrow> bool" where
  "reaches k p m r w' \<longleftrightarrow> ok k w' \<and> vol_step strict grant p (case r of Inl e \<Rightarrow> False | Inr x \<Rightarrow> True) m (view w')"

lemma reaches_Inl [simp]: "ok k w \<Longrightarrow> view w = m \<Longrightarrow> reaches k p m (Inl e) w"
  by (simp add: reaches_def vol_step.refuse)

lemma reaches_Inl_Suc: "ok (Suc k) w \<Longrightarrow> view w = m \<Longrightarrow> reaches k p m (Inl e) w"
  by (blast intro: reaches_Inl ok_Suc)

lemma reaches_late: "ok k w \<Longrightarrow> \<not> strict \<Longrightarrow> vol_step strict grant p True m (view w) \<Longrightarrow> reaches k p m (Inl e) w"
  unfolding reaches_def sum.case by (blast intro: vol_step.late)

lemma reaches_Inr: "reaches k p m (Inr x) w \<longleftrightarrow> ok k w \<and> vol_step strict grant p True m (view w)"
  by (simp add: reaches_def)

text \<open>The contract, one rule per call, with a case for each way the call can end.\<close>

lemma wp_VolumeById:
  assumes "ok k w" and "\<And>e w1. ok k w1 \<Longrightarrow> view w1 = view w \<Longrightarrow> P (Inl e) w1"
    and "\<And>w1. ok k w1 \<Longrightarrow> view w1 = view w \<Longrightarrow> view w v = None \<Longrightarrow> P (Inr None) w1"
    and "\<And>vol w1. ok k w1 \<Longrightarrow> view w1 = view w \<Longrightarrow> agrees (view w v) vol \<Longrightarrow>
      (strict \<Longrightarrow> Volume_Status vol = StatusAvailable \<or> Volume_Status vol = StatusAttached) \<Longrightarrow> P (Inr (Some vol)) w1"
  shows "wp (cloud_VolumeById cl v) P w"
proof (rule wp_mono [OF by_id [OF assms(1)]])
  fix r :: "error + Volume option" and w1
  assume r: "ok k w1 \<and> view w1 = view w \<and> (r = Inr None \<longrightarrow> view w v = None) \<and>
    (\<forall>vol. r = Inr (Some vol) \<longrightarrow> agrees (view w v) vol \<and> (strict \<longrightarrow> Volume_Status vol \<in> {StatusAvailable, StatusAttached}))"
  show "P r w1"
  proof (cases r)
    case (Inr x)
    with r assms(3,4) show ?thesis by (cases x) auto
  qed (use r assms(2) in auto)
qed

lemma wp_VolumeByName:
  assumes "ok k w" and "\<And>e w1. ok k w1 \<Longrightarrow> view w1 = view w \<Longrightarrow> P (Inl e) w1"
    and "\<And>w1. ok k w1 \<Longrightarrow> view w1 = view w \<Longrightarrow> \<not> named (view w) n \<Longrightarrow> P (Inr None) w1"
    and "\<And>vol w1. ok k w1 \<Longrightarrow> view w1 = view w \<Longrightarrow> agrees (view w (Volume_Id vol)) vol \<Longrightarrow>
      Volume_Name vol = n \<Longrightarrow> P (Inr (Some vol)) w1"
  shows "wp (cloud_VolumeByName cl n) P w"
proof (rule wp_mono [OF by_name [OF assms(1)]])
  fix r :: "error + Volume option" and w1
  assume r: "ok k w1 \<and> view w1 = view w \<and> (r = Inr None \<longrightarrow> \<not> named (view w) n) \<and>
    (\<forall>vol. r = Inr (Some vol) \<longrightarrow> agrees (view w (Volume_Id vol)) vol \<and> Volume_Name vol = n)"
  show "P r w1"
  proof (cases r)
    case (Inr x)
    with r assms(3,4) show ?thesis by (cases x) auto
  qed (use r assms(2) in auto)
qed

lemma wp_NodeById:
  assumes "ok k w" and "\<And>e w1. ok k w1 \<Longrightarrow> view w1 = view w \<Longrightarrow> P (Inl e) w1"
    and "\<And>x w1. ok k w1 \<Longrightarrow> view w1 = view w \<Longrightarrow> P (Inr x) w1"
  shows "wp (cloud_NodeById cl n) P w"
proof (rule wp_mono [OF node [OF assms(1)]])
  fix r :: "error + InstanceForDescribeInstancesOutput option" and w1
  assume "ok k w1 \<and> view w1 = view w"
  with assms(2,3) show "P r w1" by (cases r) auto
qed

text \<open>A call that changes one volume, or fails: the law of the change gives the step.\<close>

lemma reaches_effect:
  assumes "ok k w1" and "effect strict (r = Inr ()) new st (view w1)" and "vol_step strict grant p True st new"
  shows "case r of Inl e \<Rightarrow> reaches k p st (Inl (h e)) w1 | Inr u \<Rightarrow> reaches k p st (Inr x) w1"
  using assms by (cases r) (auto simp: reaches_Inr effect_def intro: reaches_late)

lemma change_step:
  assumes "wp m (\<lambda>r w'. ok k w' \<and> effect strict (r = Inr ()) new (view w1) (view w')) w1"
    and "view w1 = st" and "vol_step strict grant p True st new"
  shows "wp (bndE m h (\<lambda>_. ret (Inr x))) (reaches k p st) w1"
  unfolding wp_bndE wp_basic by (rule wp_mono [OF assms(1)]) (use assms(2,3) in \<open>blast intro: reaches_effect\<close>)

lemma created_step:
  assumes "ok (Suc k) w1" and "view w1 = m" and "\<not> named m (cv_Name req)"
  shows "wp (bndE (cloud_CreateVolume cl (cv_Name req) ty z sid (request_capacity req)) h (\<lambda>v. ret (Inr (f v))))
    (reaches k (OpCreate req) m) w1"
  unfolding wp_bndE
proof (rule wp_mono [OF creates [OF assms(1)]], goal_cases)
  case (2 r w')
  have step: "vol_step strict grant (OpCreate req) True m (view w')"
    if "m v = None" "view w' = m(v \<mapsto> \<lparr>av_name = cv_Name req, av_size = grant (request_capacity req), av_holder = None\<rparr>)" for v
    unfolding that(2) using assms(3) that(1) by (rule vol_step.create)
  from 2 show ?case
    unfolding assms(2) by (cases r) (auto simp only: reaches_Inr sum.case wp_basic intro: reaches_Inl step reaches_late)
qed (use assms(2,3) in simp)

lemma existing_step:
  assumes "ok (Suc k) w1" and "view w1 = m" and "agrees (m (Volume_Id vol)) vol" and "Volume_Name vol = cv_Name req"
  shows "reaches k (OpCreate req) m (existing_volume tk cl req sid ty (request_capacity req) z vol) w1"
proof (cases "existing_volume tk cl req sid ty (request_capacity req) z vol")
  case (Inr c)
  then have av: "Volume_Status vol = StatusAvailable" and sz: "sint (request_capacity req) \<le> sint (Volume_Capacity vol)"
    by (auto simp: existing_volume_Inr)
  have "m (Volume_Id vol) = Some (shape vol)" using assms(3) agrees_settled(1) [OF av] by simp
  then have "vol_step strict grant (OpCreate req) True m m"
    using av sz assms(4) by (intro vol_step.create_again [where v = "Volume_Id vol" and a = "shape vol"]) simp_all
  with assms Inr show ?thesis by (simp add: reaches_Inr ok_Suc)
qed (use assms in \<open>simp add: reaches_Inl_Suc\<close>)

lemma create_step:
  assumes "ok (Suc k) w"
  shows "wp (CreateVolume_body tk cl req) (reaches k (OpCreate req) (view w)) w"
proof -
  have body: "wp (bndE (cloud_VolumeByName cl (cv_Name req)) h (\<lambda>vol. case vol of
        Some v \<Rightarrow> ret (existing_volume tk cl req sid ty (request_capacity req) z v)
      | None \<Rightarrow> bndE (cloud_CreateVolume cl (cv_Name req) ty z sid (request_capacity req)) h'
          (\<lambda>volID. ret (Inr (f volID))))) (reaches k (OpCreate req) (view w)) w" for h sid ty z h' f
    unfolding wp_bndE [of "cloud_VolumeByName cl _"]
    by (rule wp_VolumeByName [OF assms]) (simp_all add: created_step existing_step reaches_Inl_Suc del: wp_bndE)
  show ?thesis
    unfolding CreateVolume_body_def Let_def by (simp add: assms body reaches_Inl_Suc del: wp_bndE split: sum.split)
qed

lemma delete_step:
  assumes "ok k w"
  shows "wp (DeleteVolume_body cl v) (reaches k (OpDelete v) (view w)) w"
proof -
  have gone: "vol_step strict grant (OpDelete v) True (view w) (view w)" if "view w v = None"
  proof -
    have "(view w)(v := None) = view w" using that by (auto simp: fun_eq_iff)
    then show ?thesis using vol_step.delete [of strict grant v "view w"] by simp
  qed
  show ?thesis
    unfolding DeleteVolume_body_def wp_bndE [of "cloud_VolumeById cl _"]
  proof (rule wp_VolumeById [OF assms], goal_cases)
    case (3 vol w1)
    have "wp (bndE (cloud_DeleteVolume cl v) h (\<lambda>_. ret (Inr x))) (reaches k (OpDelete v) (view w)) w1" for h x
      using 3 deletes [OF 3(1), of v] by (intro change_step [where new = "(view w)(v := None)"]) (simp_all add: vol_step.delete)
    then show ?case by (simp del: wp_bndE)
  qed (simp_all add: reaches_Inr gone)
qed

lemma publish_step:
  assumes "ok k w" and "vp_NodeId req \<noteq> []"
  shows "wp (PublishVolume_body d cl (vp_VolumeId req) (vp_NodeId req)) (reaches k (OpPublish req) (view w)) w"
proof -
  let ?v = "vp_VolumeId req" and ?n = "vp_NodeId req"
  have attach: "wp (bndE (cloud_AttachVolume cl ?n ?v) h (\<lambda>_. ret (Inr x))) (reaches k (OpPublish req) (view w)) w1"
    if "ok k w1" "view w1 = view w" "view w ?v = Some a" "av_holder a = None" for w1 a h x
    using that attaches [OF that(1) assms(2), of ?v a] vol_step.publish [of "view w" req a]
    by (intro change_step [where new = "(view w)(?v \<mapsto> a\<lparr>av_holder := Some ?n\<rparr>)"]) simp_all
  show ?thesis
    unfolding PublishVolume_body_def wp_bndE [of "cloud_VolumeById cl _"]
  proof (rule wp_VolumeById [OF assms(1)], goal_cases)
    case (3 vol w1)
    have again: "reaches k (OpPublish req) (view w) (Inr x) w1" if "Volume_Status vol = StatusAttached" "Volume_NodeId vol = ?n" for x
      using 3 that by (auto simp: reaches_Inr agrees_settled intro: vol_step.publish_again)
    have node: "wp (bndE (cloud_NodeById cl ?n) h (\<lambda>nodeInfo. bnd (deref nodeInfo) (\<lambda>info.
         if b info then fails FailedPrecondition (t info)
         else bndE (cloud_AttachVolume cl ?n ?v) h' (\<lambda>_. ret (Inr Map.empty))))) (reaches k (OpPublish req) (view w)) w1"
      if "Volume_Status vol = StatusAvailable" for h b t h'
      unfolding wp_bndE [of "cloud_NodeById cl _"]
      by (rule wp_NodeById [OF 3(1)]) (use 3 that in \<open>simp_all add: attach agrees_settled del: wp_bndE\<close>)
    show ?case using 3 by (auto simp: again node simp del: wp_bndE)
  qed simp_all
qed

lemma release_none: "(\<And>a. m v = Some a \<Longrightarrow> av_holder a \<noteq> Some n) \<Longrightarrow> release v n m = m"
  by (auto simp: release_def split: option.split)

lemma unpublish_step:
  assumes "ok k w"
  shows "wp (UnpublishVolume_body cl (vu_VolumeId req) (vu_NodeId req)) (reaches k (OpUnpublish req) (view w)) w"
proof -
  let ?v = "vu_VolumeId req" and ?n = "vu_NodeId req"
  have again: "reaches k (OpUnpublish req) (view w) (Inr x) w1"
    if "ok k w1" "view w1 = view w" "\<And>a. view w ?v = Some a \<Longrightarrow> av_holder a \<noteq> Some ?n" for w1 x
    using that vol_step.unpublish [of strict grant req "view w"] release_none [of "view w" ?v ?n] by (simp add: reaches_Inr)
  show ?thesis
    unfolding UnpublishVolume_body_def wp_bndE [of "cloud_VolumeById cl _"]
  proof (rule wp_VolumeById [OF assms], goal_cases)
    case (3 vol w1)
    have held: "\<exists>a. view w ?v = Some a \<and> av_holder a = Some ?n" if strict "\<not> Available (Some vol)" "Volume_NodeId vol = ?n"
      using 3 that by (auto simp: agrees_settled)
    have "wp (bndE (cloud_DetachVolume cl ?n ?v) h (\<lambda>_. ret (Inr x))) (reaches k (OpUnpublish req) (view w)) w1"
      if "\<not> Available (Some vol)" "Volume_NodeId vol = ?n" for h x
      using 3 detaches [OF 3(1), of ?v ?n] held that
      by (intro change_step [where new = "release ?v ?n (view w)"]) (simp_all add: vol_step.unpublish)
    moreover have "av_holder a \<noteq> Some ?n"
      if "view w ?v = Some a" "Available (Some vol) \<or> Deleted (Some vol) \<or> Volume_NodeId vol \<noteq> ?n" for a
      using 3 that agreesD [of a vol] by auto
    ultimately show ?case using 3(1,2) by (auto intro!: again simp del: wp_bndE)
  qed (auto intro!: again)
qed

lemma expand_step:
  assumes "ok k w"
  shows "wp (ExpandVolume_body cl (ex_VolumeId req) (get_required_bytes (ex_CapacityRange req))) (reaches k (OpExpand req) (view w)) w"
proof -
  let ?v = "ex_VolumeId req" and ?sz = "get_required_bytes (ex_CapacityRange req)"
  have extend: "wp (bndE (cloud_ExtendVolume cl ?v ?sz) h (\<lambda>_. ret (Inr x))) (reaches k (OpExpand req) (view w)) w1"
    if "ok k w1" "view w1 = view w" "strict \<Longrightarrow> \<exists>a. view w ?v = Some a \<and> sint (av_size a) \<le> sint ?sz" for w1 h x
    unfolding wp_bndE wp_basic
  proof (rule wp_mono [OF extends [OF that(1)]], goal_cases)
    case (2 r w')
    have step: "vol_step strict grant (OpExpand req) True (view w) (resize ?v (grant ?sz) (view w))"
      if "\<forall>a. view w ?v = Some a \<longrightarrow> sint (av_size a) \<le> sint (grant ?sz)"
      using that by (intro vol_step.expand) simp_all
    show ?case
    proof (cases "r = Inr ()")
      case True
      with 2 step \<open>view w1 = view w\<close> show ?thesis by (auto simp: reaches_Inr effect_def)
    next
      case False
      then obtain e where r: "r = Inl e" by (cases r) auto
      with 2 step \<open>view w1 = view w\<close> show ?thesis by (auto simp: effect_def intro: reaches_late)
    qed
  qed (use that in simp)
  have again: "reaches k (OpExpand req) (view w) (Inr x) w1"
    if "ok k w1" "view w1 = view w" "\<And>a. view w ?v = Some a \<Longrightarrow> roundGB ?sz * GB = av_size a \<or> sint ?sz < sint (av_size a)" for w1 x
    using that by (auto simp: reaches_Inr intro: vol_step.expand_again)
  show ?thesis
    unfolding ExpandVolume_body_def wp_bndE [of "cloud_VolumeById cl _"]
  proof (rule wp_VolumeById [OF assms], goal_cases)
    case (3 vol w1)
    have "av_size a = Volume_Capacity vol" if "view w ?v = Some a" "Volume_Status vol \<noteq> StatusExtending" for a
      using 3(3) that agreesD(2) [of a vol] by simp
    moreover have "\<exists>a. view w ?v = Some a \<and> sint (av_size a) \<le> sint ?sz"
      if strict "\<not> sint ?sz < sint (Volume_Capacity vol)"
      using 3 that by (auto simp: agrees_settled)
    moreover have "Volume_Status vol \<noteq> StatusExtending" if strict using 3(4) that by auto
    ultimately show ?case using 3(1,2) by (auto intro!: again extend simp del: wp_bndE)
  qed simp_all
qed

lemma reaches_void: "reaches k p m (case r of Inl e \<Rightarrow> Inl e | Inr _ \<Rightarrow> Inr ()) w \<longleftrightarrow> reaches k p m r w"
  by (auto simp: reaches_def split: sum.split)

lemma guarded_step:
  assumes "ok k (world s)" and "wp body (reaches k p (view (world s))) (world s)"
  shows "wp (guarded key busy body) (\<lambda>r s'. reaches k p (view (world s)) r (world s')) s"
  using assms by (auto intro!: wp_guarded elim!: wp_mono)

lemma unguarded_step:
  assumes "wp body (reaches k p (view (world s))) (world s)"
  shows "wp (unguarded body) (\<lambda>r s'. reaches k p (view (world s)) r (world s')) s"
  using assms by (auto intro!: wp_unguarded elim!: wp_mono)

lemma run_op_step:
  assumes "ok (Suc k) (world s)"
  shows "wp (run_op tk d cl p) (\<lambda>r s'. reaches k p (view (world s)) r (world s')) s"
proof -
  note k = ok_Suc [OF assms]
  show ?thesis
  proof (cases p)
  case (OpCreate req)
  then show ?thesis using k guarded_step [OF k create_step [OF assms]]
    by (simp add: wp_void reaches_void ControllerSvc_CreateVolume_def)
next
  case (OpDelete v)
  then show ?thesis using k guarded_step [OF k delete_step [OF k]]
    by (simp add: ControllerSvc_DeleteVolume_def)
next
  case (OpPublish req)
  then show ?thesis using k unguarded_step [OF publish_step [OF k, of req]]
    by (simp add: wp_void reaches_void ControllerSvc_ControllerPublishVolume_def split: option.split)
next
  case (OpUnpublish req)
  then show ?thesis using k unguarded_step [OF unpublish_step [OF k]]
    by (simp add: ControllerSvc_ControllerUnpublishVolume_def)
next
  case (OpExpand req)
  then show ?thesis using k unguarded_step [OF expand_step [OF k]]
    by (simp add: wp_void reaches_void ControllerSvc_ControllerExpandVolume_def)
qed
qed

lemma run_ops_steps:
  "ok (length ps + k) (world s) \<Longrightarrow> wp (run_ops tk d cl ps) (\<lambda>rs s'. ok k (world s') \<and>
     vol_steps strict grant ps (map (\<lambda>r. r = Inr ()) rs) (view (world s)) (view (world s'))) s"
proof (induction ps arbitrary: s)
  case (Cons p ps)
  have start: "ok (Suc (length ps + k)) (world s)" using Cons.prems by simp
  show ?case
    unfolding run_ops.simps wp_bnd
  proof (rule wp_mono [OF run_op_step [OF start]])
    fix r :: "error + unit" and s1 :: "'w service"
    assume "reaches (length ps + k) p (view (world s)) r (world s1)"
    then have s1: "ok (length ps + k) (world s1)" "vol_step strict grant p (r = Inr ()) (view (world s)) (view (world s1))"
      by (cases r; simp add: reaches_def)+
    show "wp (run_ops tk d cl ps) (\<lambda>rs. wp (ret (r # rs)) (\<lambda>rs s'. ok k (world s') \<and>
        vol_steps strict grant (p # ps) (map (\<lambda>r. r = Inr ()) rs) (view (world s)) (view (world s')))) s1"
      by (rule wp_mono [OF Cons.IH [OF s1(1)]]) (use s1(2) in \<open>auto intro: vol_steps.more\<close>)
  qed
qed (simp add: vol_steps.none)

end

end
