(* ===== verification/Fake_Cloud.thy ===== *)
theory Fake_Cloud
  imports EBS_Controller_Facts "HOL-Library.AList"
begin

text \<open>
  \<open>fakeCloud\<close> of \<open>pkg/ebs/sanity_test.go\<close>, the in-memory cloud the repository tests its
  services with, and what a cloud has to promise for CreateVolume to be idempotent: the
  locale \<open>lookup_cloud\<close>, which \<open>fakeCloud\<close> interprets. Go maps are association lists, in an
  order that a \<open>range\<close> loop may choose. The store holds volumes by pointer, but nothing
  outside writes through them; the controller does write through the snapshot that
  \<open>CreateSnapshot\<close> returns, which the copy kept here does not see, so nothing is claimed
  about snapshots of this cloud.
\<close>

section \<open>The contract of idempotent creation\<close>

locale lookup_cloud =
  fixes cl :: "'w Cloud"
  assumes lookup_pure: "cloud_VolumeByName cl n w = Some (r, w') \<Longrightarrow> w' = w"
    and create_found: "cloud_CreateVolume cl n ty z sn c w = Some (Ret (Inr v), w') \<Longrightarrow>
      \<exists>vol. cloud_VolumeByName cl n w' = Some (Ret (Inr (Some vol)), w') \<and> Volume_Id vol = v \<and>
        Volume_Status vol = StatusAvailable \<and> Volume_VolumeType vol = ty \<and> Volume_ZoneId vol = z \<and>
        sint c \<le> sint (Volume_Capacity vol)"
begin

lemma create_again:
  assumes "ControllerSvc_CreateVolume tk cl req s = Some (Ret (Inr r), s1)"
  shows "\<exists>r2. ControllerSvc_CreateVolume tk cl req s1 = Some (Ret (Inr r2), s1) \<and> VolumeId r2 = VolumeId r \<and>
    AccessibleTopology r2 = AccessibleTopology r \<and> sint (CapacityBytes r) \<le> sint (CapacityBytes r2)"
proof -
  from assms obtain w1 where ok: "cv_Name req \<noteq> []" "cv_VolumeCapabilities req \<noteq> []"
      "cv_Name req \<notin> running_keys (flights s)" and body: "CreateVolume_body tk cl req (world s) = Some (Ret (Inr r), w1)"
    and s1: "s1 = s\<lparr>world := w1\<rparr>"
    by (auto simp: CreateVolume_Inr)
  from body obtain sid vol where z: "request_zone tk cl req \<noteq> []" and sid: "source_snapshot req = Inr sid"
    and found: "cloud_VolumeByName cl (cv_Name req) w1 = Some (Ret (Inr (Some vol)), w1)"
    and fits: "Volume_Status vol = StatusAvailable" "Volume_VolumeType vol = getVolumeTypeWithDefault req"
      "Volume_ZoneId vol = request_zone tk cl req" "sint (request_capacity req) \<le> sint (Volume_Capacity vol)"
    and r: "VolumeId r = Volume_Id vol" "sint (CapacityBytes r) \<le> sint (Volume_Capacity vol)"
      "AccessibleTopology r = AccessibleTopology (created_volume tk cl req sid [] 0 (request_zone tk cl req))"
  proof (cases rule: CreateVolume_body_Inr)
    case (existing sid v)
    moreover have "w1 = world s" using lookup_pure existing(3) by blast
    ultimately show thesis
      using that by (auto simp: existing_volume_Inr created_volume_def)
  next
    case (created sid w0 vid)
    with create_found [OF created(4)] that show thesis by (auto simp: created_volume_def)
  qed
  have "CreateVolume_body tk cl req w1 =
      Some (Ret (Inr (created_volume tk cl req sid (Volume_Id vol) (Volume_Capacity vol) (request_zone tk cl req))), w1)"
    using z sid found fits
    by (simp add: CreateVolume_body_def Let_def go_simps existing_volume_def)
  with ok r s1 show ?thesis
    by (auto simp: ControllerSvc_CreateVolume_def guarded_Inr created_volume_def)
qed

end

section \<open>The test cloud\<close>

record fakeCloud =
  fc_volumes :: "(string \<times> Volume) list"
  fc_attached :: "string \<rightharpoonup> string"
  fc_snapshots :: "(string \<times> Snapshot) list"
  fc_random :: "nat \<Rightarrow> 64 word"  \<comment> \<open>the next values of \<open>rand.Uint64\<close>\<close>

definition newFakeCloud :: "(nat \<Rightarrow> 64 word) \<Rightarrow> fakeCloud" where
  "newFakeCloud rnd = \<lparr>fc_volumes = [], fc_attached = Map.empty, fc_snapshots = [], fc_random = rnd\<rparr>"

definition fake_CreateVolume ::
  "string \<Rightarrow> string \<Rightarrow> string \<Rightarrow> string \<Rightarrow> int64 \<Rightarrow> (fakeCloud, error + string) go" where
  "fake_CreateVolume name volumeType zoneId snapshotId capacity c =
     (let volId = ''vol-'' @ format_nat (unat (fc_random c 0));
          v = \<lparr>Volume_Id = volId, Volume_Name = name, Volume_Status = StatusAvailable,
               Volume_Capacity = capacity, Volume_NodeId = [], Volume_ZoneId = zoneId,
               Volume_VolumeType = volumeType\<rparr>
      in Some (Ret (Inr volId),
           c\<lparr>fc_volumes := AList.update name v (fc_volumes c), fc_random := (\<lambda>i. fc_random c (Suc i))\<rparr>))"

definition fake_DeleteVolume :: "string \<Rightarrow> (fakeCloud, error + unit) go" where
  "fake_DeleteVolume volId c =
     Some (Ret (Inr ()), c\<lparr>fc_volumes := filter (\<lambda>(_, f). Volume_Id f \<noteq> volId) (fc_volumes c)\<rparr>)"

text \<open>A write to every volume with an id, as the \<open>range\<close> loops do it.\<close>

definition on_volume :: "string \<Rightarrow> (Volume \<Rightarrow> Volume) \<Rightarrow> fakeCloud \<Rightarrow> fakeCloud" where
  "on_volume volId g c =
     c\<lparr>fc_volumes := map (\<lambda>(n, f). (n, if Volume_Id f = volId then g f else f)) (fc_volumes c)\<rparr>"

definition fake_ExtendVolume :: "string \<Rightarrow> int64 \<Rightarrow> (fakeCloud, error + unit) go" where
  "fake_ExtendVolume volId newSize c =
     Some (Ret (Inr ()), on_volume volId (\<lambda>f. f\<lparr>Volume_Capacity := newSize\<rparr>) c)"

definition fake_AttachVolume :: "string \<Rightarrow> string \<Rightarrow> (fakeCloud, error + unit) go" where
  "fake_AttachVolume nodeId volId c =
     (case fc_attached c volId of
        Some nid \<Rightarrow>
          if nid = nodeId then Some (Ret (Inr ()), c)
          else Some (Ret (Inl (PlainError ''volume attached by other node'')), c)
      | None \<Rightarrow>
          Some (Ret (Inr ()), on_volume volId (\<lambda>f. f\<lparr>Volume_Status := StatusAttached, Volume_NodeId := nodeId\<rparr>)
            (c\<lparr>fc_attached := (fc_attached c)(volId \<mapsto> nodeId)\<rparr>)))"

definition fake_DetachVolume :: "string \<Rightarrow> string \<Rightarrow> (fakeCloud, error + unit) go" where
  "fake_DetachVolume nodeId volId c =
     Some (Ret (Inr ()), on_volume volId (\<lambda>f. f\<lparr>Volume_Status := StatusAvailable, Volume_NodeId := []\<rparr>)
       (if fc_attached c volId = Some nodeId then c\<lparr>fc_attached := (fc_attached c)(volId := None)\<rparr> else c))"

definition fake_NodeById :: "string \<Rightarrow> (fakeCloud, error + InstanceForDescribeInstancesOutput option) go" where
  "fake_NodeById nodeId =
     (if nodeId = ''mock-node'' then
        ret (Inr (Some (zero_InstanceForDescribeInstancesOutput\<lparr>
          InstanceForDescribeInstancesOutput_Id := Some nodeId,
          InstanceForDescribeInstancesOutput_InstanceType := Some
            (zero_InstanceTypeForDescribeInstancesOutput\<lparr>
               InstanceTypeForDescribeInstancesOutput_VolumeTypes := [Some volumeTypeDefault]\<rparr>)\<rparr>)))
      else ret (Inl (PlainError ''not found'')))"

definition fake_VolumeById :: "string \<Rightarrow> (fakeCloud, error + Volume option) go" where
  "fake_VolumeById volId c =
     Some (Ret (Inr (find (\<lambda>f. Volume_Id f = volId) (map snd (fc_volumes c)))), c)"

definition fake_VolumeByName :: "string \<Rightarrow> (fakeCloud, error + Volume option) go" where
  "fake_VolumeByName name c = Some (Ret (Inr (map_of (fc_volumes c) name)), c)"

definition fake_CreateSnapshot :: "string \<Rightarrow> string \<Rightarrow> (fakeCloud, error + Snapshot option) go" where
  "fake_CreateSnapshot volumeID snapshotName c =
     (let sn = \<lparr>Snapshot_SnapshotID = volumeID, Snapshot_SourceVolumeID = volumeID, Snapshot_Size = 0,
               Snapshot_CreationTime = ZeroTime, Snapshot_ReadyToUse = True\<rparr>
      in Some (Ret (Inr (Some sn)), c\<lparr>fc_snapshots := AList.update snapshotName sn (fc_snapshots c)\<rparr>))"

definition fake_DeleteSnapshot :: "string \<Rightarrow> (fakeCloud, error + unit) go" where
  "fake_DeleteSnapshot snapshotID c =
     Some (Ret (Inr ()), c\<lparr>fc_snapshots := filter (\<lambda>(_, f). Snapshot_SnapshotID f \<noteq> snapshotID) (fc_snapshots c)\<rparr>)"

definition fake_GetSnapshotByName :: "string \<Rightarrow> (fakeCloud, error + Snapshot option) go" where
  "fake_GetSnapshotByName name c = Some (Ret (Inr (map_of (fc_snapshots c) name)), c)"

definition fake_GetSnapshotByID :: "string \<Rightarrow> (fakeCloud, error + Snapshot option) go" where
  "fake_GetSnapshotByID snapshotID c =
     Some (Ret (Inr (find (\<lambda>f. Snapshot_SnapshotID f = snapshotID) (map snd (fc_snapshots c)))), c)"

text \<open>\<open>DevicePathByVolId\<close> also makes the directory \<open>/tmp/testvolume\<close>; \<open>made\<close> is its success.\<close>

definition fake_DevicePathByVolId :: "bool \<Rightarrow> string \<Rightarrow> (fakeCloud, string) go" where
  "fake_DevicePathByVolId made volId c =
     (if \<not> made then Some (Ret [], c)
      else if list_ex (\<lambda>f. Volume_Id f = volId) (map snd (fc_volumes c)) then Some (Ret ''/tmp/testvolume'', c)
      else Some (Ret [], c))"

definition fake_Cloud :: "topology_keys \<Rightarrow> bool \<Rightarrow> fakeCloud Cloud" where
  "fake_Cloud tk made =
     \<lparr>cloud_CreateVolume = fake_CreateVolume, cloud_ExtendVolume = fake_ExtendVolume,
      cloud_DeleteVolume = fake_DeleteVolume, cloud_DevicePathByVolId = fake_DevicePathByVolId made,
      cloud_AttachVolume = fake_AttachVolume, cloud_DetachVolume = fake_DetachVolume,
      cloud_NodeById = fake_NodeById, cloud_DescribeInstanceTypes = (\<lambda>_. ret (Inr None)),
      cloud_VolumeById = fake_VolumeById, cloud_VolumeByName = fake_VolumeByName,
      cloud_CreateSnapshot = fake_CreateSnapshot, cloud_DeleteSnapshot = fake_DeleteSnapshot,
      cloud_GetSnapshotByName = fake_GetSnapshotByName, cloud_GetSnapshotByID = fake_GetSnapshotByID,
      cloud_Region = ''region'', cloud_Zone = ''zone'',
      cloud_Topology = [TopologyRegionKey tk \<mapsto> ''region'', TopologyZoneKey tk \<mapsto> ''zone'']\<rparr>"

interpretation fake_lookup: lookup_cloud "fake_Cloud tk made" for tk :: topology_keys and made :: bool
  by unfold_locales
    (auto simp: fake_Cloud_def fake_VolumeByName_def fake_CreateVolume_def Let_def update_conv')

text \<open>C6: CreateVolume is idempotent: repeating a request that succeeded gives the same volume
  id and topology, at least the capacity first reported, and changes nothing (on the
  repository's test cloud, from the contract \<open>lookup_cloud\<close>).\<close>

theorem create_idempotent:
  assumes "ControllerSvc_CreateVolume tk (fake_Cloud tk made) req s = Some (Ret (Inr r), s1)"
  shows "\<exists>r2. ControllerSvc_CreateVolume tk (fake_Cloud tk made) req s1 = Some (Ret (Inr r2), s1) \<and>
    VolumeId r2 = VolumeId r \<and> AccessibleTopology r2 = AccessibleTopology r \<and>
    sint (CapacityBytes r) \<le> sint (CapacityBytes r2)"
  by (rule fake_lookup.create_again [OF assms])

theorem create_idempotent_witness:
  "\<exists>s1 r r2. ControllerSvc_CreateVolume default_topology_keys (fake_Cloud default_topology_keys True)
       (create_example ''pvc'' 0) (idle_service (newFakeCloud (\<lambda>_. 7))) = Some (Ret (Inr r), s1) \<and>
     ControllerSvc_CreateVolume default_topology_keys (fake_Cloud default_topology_keys True)
       (create_example ''pvc'' 0) s1 = Some (Ret (Inr r2), s1) \<and> VolumeId r2 = VolumeId r"
proof -
  have "\<exists>s1 r. ControllerSvc_CreateVolume default_topology_keys (fake_Cloud default_topology_keys True)
       (create_example ''pvc'' 0) (idle_service (newFakeCloud (\<lambda>_. 7))) = Some (Ret (Inr r), s1)"
    by (simp add: CreateVolume_Inr CreateVolume_body_def Let_def go_simps bndE_def bnd_def create_example_def
        fake_Cloud_def fake_VolumeByName_def fake_CreateVolume_def newFakeCloud_def request_zone_def
        getZoneId_def pickZone_def source_snapshot_def)
  then obtain s1 r where
    run: "ControllerSvc_CreateVolume default_topology_keys (fake_Cloud default_topology_keys True)
       (create_example ''pvc'' 0) (idle_service (newFakeCloud (\<lambda>_. 7))) = Some (Ret (Inr r), s1)" by blast
  from create_idempotent [OF run] run show ?thesis by blast
qed

end
