(* ===== verification/Fake_Store.thy ===== *)
theory Fake_Store
  imports Volume_Spec Fake_Cloud
begin

text \<open>
  The test cloud \<open>fakeCloud\<close> keeps the contract \<open>volume_cloud\<close>, so the controller service on it
  refines the abstract store: from an empty cloud, for any sequence of requests.
\<close>

section \<open>The test cloud keeps the contract\<close>

definition vol_id :: "64 word \<Rightarrow> string" where
  "vol_id n = ''vol-'' @ format_nat (unat n)"

definition fake_ids :: "fakeCloud \<Rightarrow> string set" where
  "fake_ids c = Volume_Id ` snd ` set (fc_volumes c)"

definition pick :: "string \<Rightarrow> Volume list \<Rightarrow> Volume option" where
  "pick u vs = find (\<lambda>f. Volume_Id f = u) vs"

definition fake_view :: "fakeCloud \<Rightarrow> store" where
  "fake_view c v = map_option shape (pick v (map snd (fc_volumes c)))"

text \<open>Every volume under its name, ids unique, the table of attachments in step with the
  volumes, and \<open>k\<close> more random numbers that repeat neither an id in use nor each other.\<close>

definition fake_ok :: "nat \<Rightarrow> fakeCloud \<Rightarrow> bool" where
  "fake_ok k c \<longleftrightarrow>
     distinct (map fst (fc_volumes c)) \<and> distinct (map (Volume_Id \<circ> snd) (fc_volumes c)) \<and>
     (\<forall>(n, v) \<in> set (fc_volumes c). Volume_Name v = n \<and> Volume_Status v \<in> {StatusAvailable, StatusAttached} \<and>
        fc_attached c (Volume_Id v) = av_holder (shape v)) \<and>
     inj_on (fc_random c) {..<k} \<and> (\<forall>i<k. vol_id (fc_random c i) \<notin> fake_ids c \<union> dom (fc_attached c))"

lemma vol_id_inject: "vol_id m = vol_id n \<longleftrightarrow> m = n"
  unfolding vol_id_def by (metis append_same_eq option.inject parse_nat_format same_append_eq unsigned_word_eqI)

lemma pick_simps [simp]:
  "pick u [] = None" "pick u (f # fs) = (if Volume_Id f = u then Some f else pick u fs)"
  by (simp_all add: pick_def)

lemma pick_Some: "pick u vs = Some f \<Longrightarrow> f \<in> set vs \<and> Volume_Id f = u"
  by (induction vs) (auto split: if_splits)

lemma pick_map: "(\<And>f. Volume_Id (h f) = Volume_Id f) \<Longrightarrow> pick u (map h vs) = map_option h (pick u vs)"
  by (induction vs) auto

lemma pick_unique: "distinct (map Volume_Id vs) \<Longrightarrow> v \<in> set vs \<Longrightarrow> pick (Volume_Id v) vs = Some v"
proof (induction vs)
  case (Cons f fs)
  then show ?case by (cases "v = f") (auto simp: image_iff)
qed simp

lemma pick_append: "pick u (xs @ ys) = (case pick u xs of None \<Rightarrow> pick u ys | Some x \<Rightarrow> Some x)"
  by (induction xs) auto

lemma pick_None: "pick u vs = None \<longleftrightarrow> u \<notin> Volume_Id ` set vs"
  by (induction vs) auto

lemma pick_filter:
  "pick u (map snd (filter (\<lambda>(_, f). Volume_Id f \<noteq> v) xs)) = (if u = v then None else pick u (map snd xs))"
proof (induction xs)
  case (Cons x xs)
  then show ?case by (cases x; cases "u = v"; cases "Volume_Id (snd x) = v") simp_all
qed simp

lemma fake_okD:
  assumes "fake_ok k c"
  shows "distinct (map fst (fc_volumes c))" and "distinct (map Volume_Id (map snd (fc_volumes c)))"
    and "(n, v) \<in> set (fc_volumes c) \<Longrightarrow> Volume_Name v = n \<and> Volume_Status v \<in> {StatusAvailable, StatusAttached} \<and>
      fc_attached c (Volume_Id v) = av_holder (shape v)"
    and "inj_on (fc_random c) {..<k}" and "i < k \<Longrightarrow> vol_id (fc_random c i) \<notin> fake_ids c \<union> dom (fc_attached c)"
  using assms unfolding fake_ok_def by (simp, simp, blast, blast, blast)

lemma fake_view_at: "fake_ok k c \<Longrightarrow> (n, v) \<in> set (fc_volumes c) \<Longrightarrow> fake_view c (Volume_Id v) = Some (shape v)"
  using pick_unique [OF fake_okD(2)] by (force simp: fake_view_def)

lemma fake_view_Some:
  assumes "fake_view c v = Some a"
  obtains n f where "(n, f) \<in> set (fc_volumes c)" "Volume_Id f = v" "a = shape f" "pick v (map snd (fc_volumes c)) = Some f"
proof -
  from assms obtain f where f: "pick v (map snd (fc_volumes c)) = Some f" "a = shape f"
    by (auto simp: fake_view_def)
  from pick_Some [OF f(1)] obtain n where "(n, f) \<in> set (fc_volumes c)" "Volume_Id f = v" by auto
  with f that show thesis by blast
qed

lemma fake_named:
  assumes "fake_ok k c"
  shows "named (fake_view c) n \<longleftrightarrow> n \<in> fst ` set (fc_volumes c)"
proof
  assume "named (fake_view c) n"
  then obtain v a where "fake_view c v = Some a" "av_name a = n" by (auto simp: named_def)
  then obtain m f where "(m, f) \<in> set (fc_volumes c)" "Volume_Name f = n" by (auto elim: fake_view_Some)
  with fake_okD(3) [OF assms this(1)] show "n \<in> fst ` set (fc_volumes c)" by force
next
  assume "n \<in> fst ` set (fc_volumes c)"
  then obtain v where v: "(n, v) \<in> set (fc_volumes c)" by auto
  have "av_name (shape v) = n" using fake_okD(3) [OF assms v] by simp
  with fake_view_at [OF assms v] show "named (fake_view c) n" unfolding named_def by blast
qed

text \<open>Writing to the volumes with one id.\<close>

lemma fake_view_on_volume:
  assumes "\<And>f. Volume_Id (g f) = Volume_Id f"
  shows "fake_view (on_volume v g c) = (fake_view c)(v := map_option (\<lambda>f. shape (g f)) (pick v (map snd (fc_volumes c))))"
proof
  fix u
  let ?h = "\<lambda>f. if Volume_Id f = v then g f else f"
  have "map snd (fc_volumes (on_volume v g c)) = map ?h (map snd (fc_volumes c))"
    by (simp add: on_volume_def case_prod_unfold)
  moreover have "pick u (map ?h (map snd (fc_volumes c))) = map_option ?h (pick u (map snd (fc_volumes c)))"
    using assms by (intro pick_map) simp
  ultimately have "fake_view (on_volume v g c) u = map_option shape (map_option ?h (pick u (map snd (fc_volumes c))))"
    by (simp only: fake_view_def)
  then show "fake_view (on_volume v g c) u = ((fake_view c)(v := map_option (\<lambda>f. shape (g f)) (pick v (map snd (fc_volumes c))))) u"
    by (cases "pick u (map snd (fc_volumes c))") (auto simp: fake_view_def dest: pick_Some)
qed

lemma on_volume_fields:
  "fc_volumes (on_volume v g c) = map (\<lambda>(n, f). (n, if Volume_Id f = v then g f else f)) (fc_volumes c)"
  "fc_attached (on_volume v g c) = fc_attached c" "fc_random (on_volume v g c) = fc_random c"
  "fc_volumes (c\<lparr>fc_attached := att\<rparr>) = fc_volumes c"
  by (simp_all add: on_volume_def)

lemma fake_idsI: "(n, f) \<in> set (fc_volumes c) \<Longrightarrow> Volume_Id f \<in> fake_ids c"
  by (force simp: fake_ids_def)

lemma fake_okI:
  assumes "distinct (map fst (fc_volumes c))" and "distinct (map (Volume_Id \<circ> snd) (fc_volumes c))"
    and "\<And>n v. (n, v) \<in> set (fc_volumes c) \<Longrightarrow> Volume_Name v = n \<and> Volume_Status v \<in> {StatusAvailable, StatusAttached} \<and>
        fc_attached c (Volume_Id v) = av_holder (shape v)"
    and "inj_on (fc_random c) {..<k}" and "\<And>i. i < k \<Longrightarrow> vol_id (fc_random c i) \<notin> fake_ids c \<union> dom (fc_attached c)"
  shows "fake_ok k c"
  using assms unfolding fake_ok_def by blast

lemma fake_ok_on_volume:
  assumes "fake_ok k c" and "\<And>f. Volume_Id (g f) = Volume_Id f" and "\<And>f. Volume_Name (g f) = Volume_Name f"
    and "\<And>n f. (n, f) \<in> set (fc_volumes c) \<Longrightarrow> Volume_Id f = v \<Longrightarrow>
      Volume_Status (g f) \<in> {StatusAvailable, StatusAttached} \<and> att v = av_holder (shape (g f))"
    and "\<And>u. u \<noteq> v \<Longrightarrow> att u = fc_attached c u" and "dom att \<subseteq> dom (fc_attached c) \<union> fake_ids c"
  shows "fake_ok k (on_volume v g (c\<lparr>fc_attached := att\<rparr>))"
proof -
  let ?h = "\<lambda>(n, f). (n, if Volume_Id f = v then g f else f)"
  have same: "map fst (map ?h xs) = map fst xs" "map (Volume_Id \<circ> snd) (map ?h xs) = map (Volume_Id \<circ> snd) xs" for xs
    using assms(2) by (induction xs) auto
  have "Volume_Id ` snd ` set (map ?h (fc_volumes c)) = fake_ids c"
    using arg_cong [OF same(2) [of "fc_volumes c"], of set] by (simp only: set_map image_comp comp_assoc fake_ids_def)
  then have ids: "fake_ids (on_volume v g (c\<lparr>fc_attached := att\<rparr>)) = fake_ids c"
    by (simp only: fake_ids_def on_volume_fields)
  have each: "Volume_Name w = n \<and> Volume_Status w \<in> {StatusAvailable, StatusAttached} \<and> att (Volume_Id w) = av_holder (shape w)"
    if w: "(n, w) \<in> set (map ?h (fc_volumes c))" for n w
  proof -
    from w obtain f where f: "(n, f) \<in> set (fc_volumes c)" "w = (if Volume_Id f = v then g f else f)" by auto
    show ?thesis
      using fake_okD(3) [OF assms(1) f(1)] assms(2,3,5) assms(4) [OF f(1)] f(2) by (cases "Volume_Id f = v") simp_all
  qed
  show ?thesis
  proof (rule fake_okI, goal_cases)
    case (3 n w)
    then show ?case using each by (simp add: on_volume_fields)
  next
    case (5 i)
    then show ?case using fake_okD(5) [OF assms(1), of i] assms(6) unfolding ids by (auto simp: on_volume_fields)
  next
    case 1
    then show ?case unfolding on_volume_fields same using fake_okD(1) [OF assms(1)] .
  next
    case 2
    then show ?case unfolding on_volume_fields same using fake_okD(2) [OF assms(1)] by simp
  qed (use fake_okD(4) [OF assms(1)] in \<open>simp add: on_volume_fields\<close>)
qed

lemma wp_end [simp]: "wp (\<lambda>w. Some (Ret (f w), g w)) P w \<longleftrightarrow> P (f w) (g w)"
  by (simp add: wp_def)

lemma fake_new_id:
  assumes "fake_ok (Suc k) c"
  shows "fake_view c (vol_id (fc_random c 0)) = None" and "fc_attached c (vol_id (fc_random c 0)) = None"
  using fake_okD(5) [OF assms, of 0] by (auto simp: fake_view_def pick_None fake_ids_def image_comp)

lemma update_new: "n \<notin> fst ` set xs \<Longrightarrow> AList.update n x xs = xs @ [(n, x)]"
  by (induction xs) auto

lemma fake_creates:
  assumes "fake_ok (Suc k) c" and "\<not> named (fake_view c) n"
  shows "wp (fake_CreateVolume n ty z sid sz) (\<lambda>r c'. fake_ok k c' \<and>
    (case r of Inl e \<Rightarrow> fake_view c' = fake_view c
     | Inr v \<Rightarrow> fake_view c v = None \<and> fake_view c' = (fake_view c)(v \<mapsto> \<lparr>av_name = n, av_size = sz, av_holder = None\<rparr>))) c"
proof -
  let ?v = "vol_id (fc_random c 0)"
  let ?f = "\<lparr>Volume_Id = ?v, Volume_Name = n, Volume_Status = StatusAvailable, Volume_Capacity = sz,
    Volume_NodeId = [], Volume_ZoneId = z, Volume_VolumeType = ty\<rparr>"
  let ?c = "c\<lparr>fc_volumes := fc_volumes c @ [(n, ?f)], fc_random := \<lambda>i. fc_random c (Suc i)\<rparr>"
  have new: "n \<notin> fst ` set (fc_volumes c)" using assms by (simp add: fake_named)
  then have run: "fake_CreateVolume n ty z sid sz c = Some (Ret (Inr ?v), ?c)"
    by (simp add: fake_CreateVolume_def Let_def vol_id_def update_new)
  have view: "fake_view ?c = (fake_view c)(?v \<mapsto> \<lparr>av_name = n, av_size = sz, av_holder = None\<rparr>)"
    using fake_new_id(1) [OF assms(1)]
    by (auto simp: fake_view_def fun_eq_iff pick_append shape_def split: option.split)
  have ids: "fake_ids ?c = insert ?v (fake_ids c)" by (simp add: fake_ids_def)
  have "fake_ok k ?c"
  proof (rule fake_okI, goal_cases)
    case 2
    then show ?case using fake_okD(2) [OF assms(1)] fake_okD(5) [OF assms(1), of 0] by (auto simp: fake_ids_def image_comp)
  next
    case (3 m w)
    then show ?case using fake_okD(3) [OF assms(1), of m w] fake_new_id(2) [OF assms(1)] by auto
  next
    case (5 i)
    show ?case
      using 5 fake_okD(5) [OF assms(1), of "Suc i"] inj_onD [OF fake_okD(4) [OF assms(1)], of "Suc i" 0]
      unfolding ids by (auto simp: vol_id_inject)
  next
    case 4
    show ?case using fake_okD(4) [OF assms(1)] by (auto simp: inj_on_def)
  qed (use new fake_okD(1) [OF assms(1)] in simp)
  with view fake_new_id(1) [OF assms(1)] show ?thesis by (simp add: wp_def run)
qed

lemma fake_deletes:
  assumes "fake_ok k c"
  shows "wp (fake_DeleteVolume v) (\<lambda>r c'. fake_ok k c' \<and> fake_view c' = (if r = Inr () then (fake_view c)(v := None) else fake_view c)) c"
proof -
  let ?vols = "filter (\<lambda>(_, f). Volume_Id f \<noteq> v) (fc_volumes c)"
  have "fake_view (c\<lparr>fc_volumes := ?vols\<rparr>) = (fake_view c)(v := None)"
    by (simp add: fake_view_def fun_eq_iff pick_filter)
  moreover have "fake_ok k (c\<lparr>fc_volumes := ?vols\<rparr>)"
  proof (rule fake_okI)
    show "distinct (map fst (fc_volumes (c\<lparr>fc_volumes := ?vols\<rparr>)))"
      "distinct (map (Volume_Id \<circ> snd) (fc_volumes (c\<lparr>fc_volumes := ?vols\<rparr>)))"
      using fake_okD(1,2) [OF assms] by (simp_all add: distinct_map_filter)
    show "vol_id (fc_random (c\<lparr>fc_volumes := ?vols\<rparr>) i) \<notin> fake_ids (c\<lparr>fc_volumes := ?vols\<rparr>) \<union> dom (fc_attached (c\<lparr>fc_volumes := ?vols\<rparr>))"
      if "i < k" for i
      using fake_okD(5) [OF assms that] by (auto simp: fake_ids_def)
  qed (use fake_okD(3,4) [OF assms] in auto)
  ultimately show ?thesis by (simp add: wp_def fake_DeleteVolume_def)
qed

lemma fake_attaches:
  assumes "fake_ok k c" and "fake_view c v = Some a" and "av_holder a = None"
  shows "wp (fake_AttachVolume nd v) (\<lambda>r c'. fake_ok k c' \<and>
    fake_view c' = (if r = Inr () then (fake_view c)(v \<mapsto> a\<lparr>av_holder := Some nd\<rparr>) else fake_view c)) c"
proof -
  let ?g = "\<lambda>f. f\<lparr>Volume_Status := StatusAttached, Volume_NodeId := nd\<rparr>"
  let ?att = "(fc_attached c)(v \<mapsto> nd)"
  obtain n f where f: "(n, f) \<in> set (fc_volumes c)" "Volume_Id f = v" "a = shape f" "pick v (map snd (fc_volumes c)) = Some f"
    using assms(2) by (rule fake_view_Some)
  then have free: "fc_attached c v = None" using fake_okD(3) [OF assms(1) f(1)] assms(3) by simp
  then have run: "fake_AttachVolume nd v c = Some (Ret (Inr ()), on_volume v ?g (c\<lparr>fc_attached := ?att\<rparr>))"
    by (simp add: fake_AttachVolume_def)
  have "fake_ok k (on_volume v ?g (c\<lparr>fc_attached := ?att\<rparr>))"
    using f by (intro fake_ok_on_volume [OF assms(1)]) (force simp: fake_ids_def)+
  moreover have "fake_view (on_volume v ?g (c\<lparr>fc_attached := ?att\<rparr>)) = (fake_view c)(v \<mapsto> a\<lparr>av_holder := Some nd\<rparr>)"
    using f by (subst fake_view_on_volume) (simp_all add: fake_view_def shape_def fun_eq_iff)
  ultimately show ?thesis by (simp add: wp_def run)
qed

lemma fake_detaches:
  assumes "fake_ok k c" and "fake_view c v = Some a" and "av_holder a = Some nd"
  shows "wp (fake_DetachVolume nd v) (\<lambda>r c'. fake_ok k c' \<and>
    fake_view c' = (if r = Inr () then (fake_view c)(v \<mapsto> a\<lparr>av_holder := None\<rparr>) else fake_view c)) c"
proof -
  let ?g = "\<lambda>f. f\<lparr>Volume_Status := StatusAvailable, Volume_NodeId := []\<rparr>"
  let ?att = "(fc_attached c)(v := None)"
  obtain n f where f: "(n, f) \<in> set (fc_volumes c)" "Volume_Id f = v" "a = shape f" "pick v (map snd (fc_volumes c)) = Some f"
    using assms(2) by (rule fake_view_Some)
  then have "fc_attached c v = Some nd" using fake_okD(3) [OF assms(1) f(1)] assms(3) by simp
  then have run: "fake_DetachVolume nd v c = Some (Ret (Inr ()), on_volume v ?g (c\<lparr>fc_attached := ?att\<rparr>))"
    by (simp add: fake_DetachVolume_def)
  have "fake_ok k (on_volume v ?g (c\<lparr>fc_attached := ?att\<rparr>))"
    by (intro fake_ok_on_volume [OF assms(1)]) (force split: if_splits)+
  moreover have "fake_view (on_volume v ?g (c\<lparr>fc_attached := ?att\<rparr>)) = (fake_view c)(v \<mapsto> a\<lparr>av_holder := None\<rparr>)"
    using f by (subst fake_view_on_volume) (simp_all add: fake_view_def shape_def fun_eq_iff)
  ultimately show ?thesis by (simp add: wp_def run)
qed

lemma fake_extends:
  assumes "fake_ok k c" and "fake_view c v = Some a"
  shows "wp (fake_ExtendVolume v sz) (\<lambda>r c'. fake_ok k c' \<and>
    fake_view c' = (if r = Inr () then (fake_view c)(v \<mapsto> a\<lparr>av_size := sz\<rparr>) else fake_view c)) c"
proof -
  let ?g = "\<lambda>f. f\<lparr>Volume_Capacity := sz\<rparr>"
  obtain n f where f: "(n, f) \<in> set (fc_volumes c)" "Volume_Id f = v" "a = shape f" "pick v (map snd (fc_volumes c)) = Some f"
    using assms(2) by (rule fake_view_Some)
  have same: "c = c\<lparr>fc_attached := fc_attached c\<rparr>" by simp
  have "fake_ok k (on_volume v ?g (c\<lparr>fc_attached := fc_attached c\<rparr>))"
    by (intro fake_ok_on_volume [OF assms(1)]) (use fake_okD(3) [OF assms(1)] in \<open>force simp: shape_def\<close>)+
  moreover have "fake_view (on_volume v ?g c) = (fake_view c)(v \<mapsto> a\<lparr>av_size := sz\<rparr>)"
    using f by (subst fake_view_on_volume) (simp_all add: shape_def fun_eq_iff)
  ultimately show ?thesis using same by (simp add: wp_def fake_ExtendVolume_def)
qed

text \<open>It is strict, and gives just the size that is asked for.\<close>

interpretation fake_store: volume_cloud "fake_Cloud tk made" fake_ok fake_view True "\<lambda>s. s" for tk :: topology_keys and made :: bool
proof unfold_locales
  fix k w
  assume ok: "fake_ok (Suc k) w"
  show "fake_ok k w"
    by (rule fake_okI) (use fake_okD [OF ok] in \<open>auto intro: inj_on_subset simp del: shape_simps\<close>)
next
  fix k w v
  assume ok: "fake_ok k w"
  have pick: "find (\<lambda>f. Volume_Id f = v) (map snd (fc_volumes w)) = pick v (map snd (fc_volumes w))" by (simp add: pick_def)
  have "Volume_Status vol \<in> {StatusAvailable, StatusAttached}" if "pick v (map snd (fc_volumes w)) = Some vol" for vol
  proof -
    from pick_Some [OF that] obtain n where "(n, vol) \<in> set (fc_volumes w)" by auto
    from fake_okD(3) [OF ok this] show ?thesis by blast
  qed
  then show "wp (cloud_VolumeById (fake_Cloud tk made) v) (\<lambda>r w'. fake_ok k w' \<and> fake_view w' = fake_view w \<and>
      (r = Inr None \<longrightarrow> fake_view w v = None) \<and>
      (\<forall>vol. r = Inr (Some vol) \<longrightarrow> agrees (fake_view w v) vol \<and> (True \<longrightarrow> Volume_Status vol \<in> {StatusAvailable, StatusAttached}))) w"
    using ok by (auto simp: fake_Cloud_def fake_VolumeById_def wp_def pick fake_view_def agrees_shape)
next
  fix k w n
  assume ok: "fake_ok k w"
  have "agrees (fake_view w (Volume_Id vol)) vol \<and> Volume_Name vol = n" if "map_of (fc_volumes w) n = Some vol" for vol
    using fake_view_at [OF ok map_of_SomeD [OF that]] fake_okD(3) [OF ok map_of_SomeD [OF that]] by (auto simp: agrees_shape)
  then show "wp (cloud_VolumeByName (fake_Cloud tk made) n) (\<lambda>r w'. fake_ok k w' \<and> fake_view w' = fake_view w \<and>
      (r = Inr None \<longrightarrow> \<not> named (fake_view w) n) \<and>
      (\<forall>vol. r = Inr (Some vol) \<longrightarrow> agrees (fake_view w (Volume_Id vol)) vol \<and> Volume_Name vol = n)) w"
    using ok by (simp add: fake_Cloud_def fake_VolumeByName_def wp_def fake_named map_of_eq_None_iff)
next
  fix k w n ty z sid sz
  assume "fake_ok (Suc k) w" "\<not> named (fake_view w) n"
  note created = fake_creates [OF this, of ty z sid sz]
  show "wp (cloud_CreateVolume (fake_Cloud tk made) n ty z sid sz) (\<lambda>r w'. fake_ok k w' \<and>
      (r \<in> range Inl \<and> fake_view w' = fake_view w \<or> (\<exists>v. (r = Inr v \<or> \<not> True \<and> r \<in> range Inl) \<and> fake_view w v = None \<and>
        fake_view w' = (fake_view w)(v \<mapsto> \<lparr>av_name = n, av_size = sz, av_holder = None\<rparr>)))) w"
    unfolding fake_Cloud_def Cloud.select_convs
    by (rule wp_mono [OF created]) (simp only: sum.case split: sum.split_asm, blast, blast)
next
  fix k w nd v
  assume ok: "fake_ok k w" and "True \<Longrightarrow> \<exists>a. fake_view w v = Some a \<and> av_holder a = Some nd"
  then obtain a where a: "fake_view w v = Some a" "av_holder a = Some nd" by auto
  with fake_detaches [OF ok this]
  show "wp (cloud_DetachVolume (fake_Cloud tk made) nd v) (\<lambda>r w'. fake_ok k w' \<and>
      effect True (r = Inr ()) (release v nd (fake_view w)) (fake_view w) (fake_view w')) w"
    by (simp add: fake_Cloud_def release_def)
next
  fix k w v and sz :: int64
  assume ok: "fake_ok k w" and "True \<Longrightarrow> \<exists>a. fake_view w v = Some a \<and> sint (av_size a) \<le> sint sz"
  then obtain a where a: "fake_view w v = Some a" "sint (av_size a) \<le> sint sz" by auto
  with fake_extends [OF ok this(1), of sz]
  show "wp (cloud_ExtendVolume (fake_Cloud tk made) v sz) (\<lambda>r w'. fake_ok k w' \<and>
      (r \<noteq> Inr () \<and> fake_view w' = fake_view w \<or> (\<forall>a. fake_view w v = Some a \<longrightarrow> sint (av_size a) \<le> sint sz) \<and>
       effect True (r = Inr ()) (resize v sz (fake_view w)) (fake_view w) (fake_view w'))) w"
    by (auto simp: fake_Cloud_def resize_def elim!: wp_mono)
qed (simp_all add: fake_Cloud_def fake_deletes fake_attaches, simp add: fake_NodeById_def)

section \<open>Properties\<close>

lemma new_cloud:
  "inj_on rnd {..<k} \<Longrightarrow> fake_ok k (world (idle_service (newFakeCloud rnd)))"
  "fake_view (newFakeCloud rnd) = Map.empty"
  by (auto simp: fake_ok_def newFakeCloud_def fake_ids_def fake_view_def fun_eq_iff)

lemma run_ops_reach:
  assumes "inj_on rnd {..<length ps + k}"
    and "run_ops tk d (fake_Cloud tk made) ps (idle_service (newFakeCloud rnd)) = Some (Ret rs, s)"
  shows "fake_ok k (world s)" and "vol_steps True (\<lambda>s. s) ps (map (\<lambda>r. r = Inr ()) rs) Map.empty (fake_view (world s))"
proof -
  let ?s = "idle_service (newFakeCloud rnd)"
  have "wp (run_ops tk d (fake_Cloud tk made) ps) (\<lambda>rs s'. fake_ok k (world s') \<and>
      vol_steps True (\<lambda>s. s) ps (map (\<lambda>r. r = Inr ()) rs) (fake_view (world ?s)) (fake_view (world s'))) ?s"
    by (rule fake_store.run_ops_steps [OF new_cloud(1) [OF assms(1)]])
  then show "fake_ok k (world s)" "vol_steps True (\<lambda>s. s) ps (map (\<lambda>r. r = Inr ()) rs) Map.empty (fake_view (world s))"
    using assms(2) by (simp_all add: wp_def new_cloud(2))
qed

text \<open>C4: The controller service refines the abstract store of volumes. From an empty cloud,
  whatever requests arrive one after another, the volumes in the cloud are at every moment
  those of a run of the store in which a request succeeds just when its handler does: a
  name makes one volume, a failed request changes nothing, only a free volume is given to
  a node and only its holder's request frees it. So no two volumes have the same name.
  (On the repository's test cloud, from the contract \<open>volume_cloud\<close>, if the random ids do
  not repeat.)\<close>

theorem controller_refines_store:
  assumes "inj_on rnd {..<length ps}"
    and "run_ops tk d (fake_Cloud tk made) ps (idle_service (newFakeCloud rnd)) = Some (Ret rs, s)"
  shows "vol_steps True (\<lambda>s. s) ps (map (\<lambda>r. r = Inr ()) rs) Map.empty (fake_view (world s)) \<and> unique_names (fake_view (world s))"
proof -
  have steps: "vol_steps True (\<lambda>s. s) ps (map (\<lambda>r. r = Inr ()) rs) Map.empty (fake_view (world s))"
    using run_ops_reach(2) [of rnd ps 0] assms by simp
  moreover have "unique_names Map.empty" by (simp add: unique_names_def)
  ultimately show ?thesis using vol_steps_unique by blast
qed

text \<open>A volume stays with its node, and keeps its name and size: after any history, one more
  request of whatever kind leaves a volume that it does not delete with the same name, at
  least as large, and attached to the node it was attached to, unless it is a successful
  ControllerUnpublishVolume of that volume from that very node.\<close>

theorem volume_stays_with_holder:
  assumes "inj_on rnd {..<length ps + 1}"
    and "run_ops tk d (fake_Cloud tk made) ps (idle_service (newFakeCloud rnd)) = Some (Ret rs, s1)"
    and "run_op tk d (fake_Cloud tk made) p s1 = Some (Ret r, s2)"
    and "fake_view (world s1) v = Some a" and "fake_view (world s2) v = Some b"
  shows "av_name b = av_name a \<and> sint (av_size a) \<le> sint (av_size b) \<and>
    (\<forall>n. av_holder a = Some n \<longrightarrow> av_holder b = Some n \<or>
       av_holder b = None \<and> r = Inr () \<and> (\<exists>req. p = OpUnpublish req \<and> vu_VolumeId req = v \<and> vu_NodeId req = n))"
proof -
  have "fake_ok (Suc 0) (world s1)" using run_ops_reach(1) [of rnd ps 1] assms(1,2) by simp
  then have "wp (run_op tk d (fake_Cloud tk made) p)
      (\<lambda>r s'. fake_store.reaches 0 p (fake_view (world s1)) r (world s')) s1" by (rule fake_store.run_op_step)
  with assms(3) have "vol_step True (\<lambda>s. s) p (case r of Inl e \<Rightarrow> False | Inr x \<Rightarrow> True) (fake_view (world s1)) (fake_view (world s2))"
    by (simp add: wp_def fake_store.reaches_def)
  from vol_step_keeps [OF this assms(4,5)] show ?thesis by (cases r) auto
qed

text \<open>A volume is made and attached, another node asks for it to be detached and for it.\<close>

abbreviation no_random :: "nat \<Rightarrow> 64 word" where
  "no_random \<equiv> of_nat"

definition example_ops :: "op list" where
  "example_ops = [OpCreate (create_example ''pvc'' 1073741824),
     OpPublish \<lparr>vp_VolumeId = ''vol-0'', vp_NodeId = ''mock-node'', vp_VolumeCapability = Some (mount_cap SINGLE_NODE_WRITER)\<rparr>]"

definition rival :: op where
  "rival = OpUnpublish \<lparr>vu_VolumeId = ''vol-0'', vu_NodeId = ''other''\<rparr>"

definition example_volume :: Volume where
  "example_volume = \<lparr>Volume_Id = ''vol-0'', Volume_Name = ''pvc'', Volume_Status = StatusAttached, Volume_Capacity = 1073741824,
     Volume_NodeId = ''mock-node'', Volume_ZoneId = ''zone'', Volume_VolumeType = volumeTypeDefault\<rparr>"

definition served_cloud :: fakeCloud where
  "served_cloud = \<lparr>fc_volumes = [(''pvc'', example_volume)], fc_attached = [''vol-0'' \<mapsto> ''mock-node''],
     fc_snapshots = [], fc_random = (\<lambda>i. no_random (Suc i))\<rparr>"

lemma run_two: "run_op tk d cl p s = Some (Ret r, s1) \<Longrightarrow> run_op tk d cl q s1 = Some (Ret r2, s2) \<Longrightarrow>
    run_ops tk d cl [p, q] s = Some (Ret [r, r2], s2)"
  by (simp add: bnd_def)

lemma example_run:
  "run_ops default_topology_keys example_driver (fake_Cloud default_topology_keys True) example_ops
     (idle_service (newFakeCloud no_random)) = Some (Ret [Inr (), Inr ()], idle_service served_cloud)"
proof -
  let ?cl = "fake_Cloud default_topology_keys True"
  let ?v = "example_volume\<lparr>Volume_Status := StatusAvailable, Volume_NodeId := []\<rparr>"
  let ?c = "served_cloud\<lparr>fc_volumes := [(''pvc'', ?v)], fc_attached := Map.empty\<rparr>"
  have id: "format_nat 0 = ''0''" by code_simp
  have create: "run_op default_topology_keys example_driver ?cl (example_ops ! 0) (idle_service (newFakeCloud no_random)) =
      Some (Ret (Inr ()), idle_service ?c)"
    by (simp add: example_ops_def void_def bndE_def bnd_def ControllerSvc_CreateVolume_def guarded_free CreateVolume_body_def Let_def
        create_example_def fake_Cloud_def fake_VolumeByName_def fake_CreateVolume_def newFakeCloud_def request_zone_def
        getZoneId_def pickZone_def source_snapshot_def request_capacity_def getVolumeTypeWithDefault_def id served_cloud_def
        example_volume_def idle_service_def)
  have publish: "run_op default_topology_keys example_driver ?cl (example_ops ! 1) (idle_service ?c) =
      Some (Ret (Inr ()), idle_service served_cloud)"
    by (simp add: example_ops_def void_def bndE_def bnd_def ControllerSvc_ControllerPublishVolume_def unguarded_def
        PublishVolume_body_def fake_Cloud_def fake_VolumeById_def fake_NodeById_def fake_AttachVolume_def on_volume_def
        isValidVolumeCapabilities_iff example_driver_def mount_cap_def get_mode_def served_cloud_def example_volume_def
        zero_InstanceForDescribeInstancesOutput_def idle_service_def fun_upd_def)
  have two: "[example_ops ! 0, example_ops ! 1] = example_ops" by (simp add: example_ops_def)
  from run_two [OF create publish] show ?thesis unfolding two .
qed

lemma served_view: "fake_view served_cloud ''vol-0'' =
    Some \<lparr>av_name = ''pvc'', av_size = 1073741824, av_holder = Some ''mock-node''\<rparr>"
  by (simp add: fake_view_def served_cloud_def example_volume_def shape_def)

lemma no_random_inj: "inj_on no_random {..<3}"
  by (auto simp: inj_on_def numeral_3_eq_3 less_Suc_eq)

theorem controller_refines_store_witness:
  "vol_steps True (\<lambda>s. s) example_ops [True, True] Map.empty (fake_view served_cloud) \<and> unique_names (fake_view served_cloud) \<and>
   fake_view served_cloud ''vol-0'' = Some \<lparr>av_name = ''pvc'', av_size = 1073741824, av_holder = Some ''mock-node''\<rparr>"
proof -
  have "inj_on no_random {..<length example_ops}"
    using no_random_inj by (rule inj_on_subset) (auto simp: example_ops_def)
  from controller_refines_store [OF this example_run] served_view show ?thesis by simp
qed

theorem volume_stays_with_holder_witness:
  "run_op default_topology_keys example_driver (fake_Cloud default_topology_keys True) rival (idle_service served_cloud) =
     Some (Ret (Inr ()), idle_service served_cloud) \<and>
   (\<exists>b. fake_view served_cloud ''vol-0'' = Some b \<and> (av_holder b = Some ''mock-node'' \<or> av_holder b = None \<and>
      (\<exists>req. rival = OpUnpublish req \<and> vu_VolumeId req = ''vol-0'' \<and> vu_NodeId req = ''mock-node'')))"
proof -
  have run: "run_op default_topology_keys example_driver (fake_Cloud default_topology_keys True) rival (idle_service served_cloud) =
      Some (Ret (Inr ()), idle_service served_cloud)"
    by (simp add: rival_def ControllerSvc_ControllerUnpublishVolume_def unguarded_def UnpublishVolume_body_def bndE_def bnd_def
        fake_Cloud_def fake_VolumeById_def served_cloud_def example_volume_def idle_service_def)
  have "inj_on no_random {..<length example_ops + 1}"
    using no_random_inj by (rule inj_on_subset) (auto simp: example_ops_def)
  from volume_stays_with_holder [OF this example_run run, of "''vol-0''"] served_view run
  show ?thesis by auto
qed

end
