(* ===== verification/Server.thy ===== *)
theory Server
  imports CSI_Common
begin

text \<open>
  \<open>pkg/csi-common/server.go\<close>: the gRPC server that a plugin's \<open>Run\<close> starts and waits for, as
  a state machine. \<open>Start\<close> runs \<open>serve\<close> in a goroutine of its own, which in test mode starts a
  third one that stops the server, and clients may stop it at any time: their statements
  interleave. The gRPC library's server is the list of the calls made on it. Also the logging
  interceptor of \<open>utils.go\<close> that every RPC passes through.
\<close>

section \<open>The server\<close>

text \<open>The three services, for the registrations.\<close>

datatype csi_service = Identity | Controller | Node

datatype grpc_call = NewServer | Register csi_service | Serve string string | GracefulStop | Stop

text \<open>What \<open>Start\<close> is given; of a service only whether it is nil matters here.\<close>

record start_args =
  sa_endpoint :: string
  sa_ids :: bool
  sa_cs :: bool
  sa_ns :: bool
  sa_testMode :: bool

text \<open>How far the goroutine of \<open>serve\<close> has come, and how far the one of test mode.\<close>

datatype serve_at = Idle | Address | Build string string | RegisterIds string string | RegisterCs string string
  | RegisterNs string string | TestMode string string | CallServe string string | Serving | Returned

datatype stopper_at = NotRunning | Waiting | Sleeping | Finished

text \<open>
  \<open>nonBlockingGRPCServer\<close> with its goroutines. \<open>wg\<close> is the counter of the wait group,
  \<open>server = None\<close> the nil pointer before \<open>serve\<close> has set it; \<open>fatal\<close> is set when \<open>klog.Fatal\<close> or a
  panic has ended the process, \<open>waited\<close> when \<open>Wait\<close> has returned.
\<close>

record nonBlockingGRPCServer =
  wg :: int
  server :: "grpc_call list option"
  serve_pc :: serve_at
  stopper :: stopper_at
  waited :: bool
  fatal :: bool

definition NewNonBlockingGRPCServer :: nonBlockingGRPCServer where
  "NewNonBlockingGRPCServer =
     \<lparr>wg = 0, server = None, serve_pc = Idle, stopper = NotRunning, waited = False, fatal = False\<rparr>"

definition Server_Start :: "nonBlockingGRPCServer \<Rightarrow> nonBlockingGRPCServer" where
  "Server_Start s = s\<lparr>wg := wg s + 1, serve_pc := Address\<rparr>"

definition on_server :: "grpc_call \<Rightarrow> nonBlockingGRPCServer \<Rightarrow> nonBlockingGRPCServer" where
  "on_server c s =
     (case server s of
        None \<Rightarrow> s\<lparr>fatal := True\<rparr>
      | Some cs \<Rightarrow> s\<lparr>server := Some (cs @ [c])\<rparr>)"

definition Server_Stop :: "nonBlockingGRPCServer \<Rightarrow> nonBlockingGRPCServer" where
  "Server_Stop s = on_server GracefulStop s"

definition Server_ForceStop :: "nonBlockingGRPCServer \<Rightarrow> nonBlockingGRPCServer" where
  "Server_ForceStop s = on_server Stop s"

text \<open>\<open>Wait\<close> returns once the counter is zero; \<open>None\<close> while it blocks.\<close>

definition Server_Wait :: "nonBlockingGRPCServer \<Rightarrow> nonBlockingGRPCServer option" where
  "Server_Wait s = (if wg s = 0 then Some (s\<lparr>waited := True\<rparr>) else None)"

text \<open>
  One statement of \<open>serve\<close>. The system answers the removal of the old socket and the
  listening (\<open>listens\<close>); \<open>stops p a\<close> is what \<open>Serve\<close> returned with, if it returns.
\<close>

definition register_if :: "bool \<Rightarrow> csi_service \<Rightarrow> nonBlockingGRPCServer \<Rightarrow> nonBlockingGRPCServer" where
  "register_if present svc s = (if present then on_server (Register svc) s else s)"

definition serve :: "bool \<Rightarrow> (string \<Rightarrow> bool) \<Rightarrow> (string \<Rightarrow> string \<Rightarrow> bool) \<Rightarrow> error option \<Rightarrow> start_args
    \<Rightarrow> nonBlockingGRPCServer \<Rightarrow> nonBlockingGRPCServer" where
  "serve windows removed_or_absent listens err a s =
     (case serve_pc s of
        Address \<Rightarrow>
          (case serve_address windows removed_or_absent (sa_endpoint a) of
             Ret (Listen proto addr) \<Rightarrow>
               if listens proto addr then s\<lparr>serve_pc := Build proto addr\<rparr> else s\<lparr>fatal := True\<rparr>
           | _ \<Rightarrow> s\<lparr>fatal := True\<rparr>)
      | Build p ad \<Rightarrow> s\<lparr>server := Some [NewServer], serve_pc := RegisterIds p ad\<rparr>
      | RegisterIds p ad \<Rightarrow> (register_if (sa_ids a) Identity s)\<lparr>serve_pc := RegisterCs p ad\<rparr>
      | RegisterCs p ad \<Rightarrow> (register_if (sa_cs a) Controller s)\<lparr>serve_pc := RegisterNs p ad\<rparr>
      | RegisterNs p ad \<Rightarrow> (register_if (sa_ns a) Node s)\<lparr>serve_pc := TestMode p ad\<rparr>
      | TestMode p ad \<Rightarrow>
          (if sa_testMode a then s\<lparr>wg := wg s - 1, stopper := Waiting, serve_pc := CallServe p ad\<rparr>
           else s\<lparr>serve_pc := CallServe p ad\<rparr>)
      | CallServe p ad \<Rightarrow> (on_server (Serve p ad) s)\<lparr>serve_pc := Serving\<rparr>
      | Serving \<Rightarrow> (case err of None \<Rightarrow> s\<lparr>serve_pc := Returned\<rparr> | Some e \<Rightarrow> s\<lparr>fatal := True\<rparr>)
      | _ \<Rightarrow> s)"

text \<open>The goroutine of test mode: wait for the counter, sleep a second, stop.\<close>

definition stop_after_tests :: "nonBlockingGRPCServer \<Rightarrow> nonBlockingGRPCServer" where
  "stop_after_tests s =
     (case stopper s of
        Waiting \<Rightarrow> if wg s = 0 then s\<lparr>stopper := Sleeping\<rparr> else s
      | Sleeping \<Rightarrow> (on_server GracefulStop s)\<lparr>stopper := Finished\<rparr>
      | _ \<Rightarrow> s)"

text \<open>The caller starts once and waits; everything else happens in any order.\<close>

inductive server_step :: "start_args \<Rightarrow> nonBlockingGRPCServer \<Rightarrow> nonBlockingGRPCServer \<Rightarrow> bool" for a where
  start: "\<not> fatal s \<Longrightarrow> serve_pc s = Idle \<Longrightarrow> server_step a s (Server_Start s)"
| wait: "\<not> fatal s \<Longrightarrow> serve_pc s \<noteq> Idle \<Longrightarrow> Server_Wait s = Some s' \<Longrightarrow> server_step a s s'"
| serve: "\<not> fatal s \<Longrightarrow> server_step a s (serve windows removed listens err a s)"
| tests: "\<not> fatal s \<Longrightarrow> server_step a s (stop_after_tests s)"
| stop: "\<not> fatal s \<Longrightarrow> server_step a s (Server_Stop s)"
| force_stop: "\<not> fatal s \<Longrightarrow> server_step a s (Server_ForceStop s)"

inductive server_reach :: "start_args \<Rightarrow> nonBlockingGRPCServer \<Rightarrow> bool" for a where
  initial: "server_reach a NewNonBlockingGRPCServer"
| more: "server_reach a s \<Longrightarrow> server_step a s s' \<Longrightarrow> server_reach a s'"

section \<open>What every interleaving keeps\<close>

text \<open>The calls that \<open>serve\<close> itself makes on the server, in its order.\<close>

definition stop_calls :: "grpc_call set" where
  "stop_calls = {GracefulStop, Stop}"

definition registrations :: "start_args \<Rightarrow> grpc_call list" where
  "registrations a = (if sa_ids a then [Register Identity] else []) @
     (if sa_cs a then [Register Controller] else []) @ (if sa_ns a then [Register Node] else [])"

fun calls_at :: "start_args \<Rightarrow> serve_at \<Rightarrow> grpc_call list option \<Rightarrow> bool" where
  "calls_at a (RegisterIds p ad) cs \<longleftrightarrow> cs = Some [NewServer]"
| "calls_at a (RegisterCs p ad) cs \<longleftrightarrow> cs = Some (NewServer # (if sa_ids a then [Register Identity] else []))"
| "calls_at a (RegisterNs p ad) cs \<longleftrightarrow> cs = Some (NewServer # (if sa_ids a then [Register Identity] else []) @
     (if sa_cs a then [Register Controller] else []))"
| "calls_at a (TestMode p ad) cs \<longleftrightarrow> cs = Some (NewServer # registrations a)"
| "calls_at a (CallServe p ad) cs \<longleftrightarrow> cs = Some (NewServer # registrations a)"
| "calls_at a Serving cs \<longleftrightarrow> (\<exists>p ad. cs = Some (NewServer # registrations a @ [Serve p ad]))"
| "calls_at a Returned cs \<longleftrightarrow> (\<exists>p ad. cs = Some (NewServer # registrations a @ [Serve p ad]))"
| "calls_at a _ cs \<longleftrightarrow> cs = None"

definition own_calls :: "nonBlockingGRPCServer \<Rightarrow> grpc_call list option" where
  "own_calls s = map_option (filter (\<lambda>c. c \<notin> stop_calls)) (server s)"

text \<open>The test-mode goroutine runs, and the counter is back at zero, only after its statement.\<close>

fun after_tests :: "serve_at \<Rightarrow> bool" where
  "after_tests (CallServe p ad) = True" | "after_tests Serving = True" | "after_tests Returned = True"
| "after_tests _ = False"

definition server_inv :: "start_args \<Rightarrow> nonBlockingGRPCServer \<Rightarrow> bool" where
  "server_inv a s \<longleftrightarrow>
     calls_at a (serve_pc s) (own_calls s) \<and>
     wg s = (if serve_pc s = Idle \<or> sa_testMode a \<and> after_tests (serve_pc s) then 0 else 1) \<and>
     (stopper s \<noteq> NotRunning \<or> waited s \<longrightarrow> sa_testMode a \<and> after_tests (serve_pc s))"

lemma own_calls_on_server [simp]:
  "own_calls (on_server c s) = map_option (\<lambda>cs. cs @ (if c \<in> stop_calls then [] else [c])) (own_calls s)"
  by (simp add: own_calls_def on_server_def split: option.split)

lemma on_server_fields [simp]:
  "wg (on_server c s) = wg s" "serve_pc (on_server c s) = serve_pc s" "stopper (on_server c s) = stopper s"
  "waited (on_server c s) = waited s"
  by (simp_all add: on_server_def split: option.split)

lemma own_calls_update [simp]:
  "own_calls (s\<lparr>wg := x\<rparr>) = own_calls s" "own_calls (s\<lparr>serve_pc := pc\<rparr>) = own_calls s"
  "own_calls (s\<lparr>stopper := st\<rparr>) = own_calls s" "own_calls (s\<lparr>waited := b\<rparr>) = own_calls s"
  "own_calls (s\<lparr>fatal := f\<rparr>) = own_calls s"
  by (simp_all add: own_calls_def)

lemma stop_calls_simps [simp]:
  "GracefulStop \<in> stop_calls" "Stop \<in> stop_calls" "NewServer \<notin> stop_calls" "Register x \<notin> stop_calls" "Serve p ad \<notin> stop_calls"
  by (simp_all add: stop_calls_def)

lemma server_inv_initial: "server_inv a NewNonBlockingGRPCServer"
  by (simp add: server_inv_def NewNonBlockingGRPCServer_def own_calls_def)

lemma server_inv_stop: "server_inv a s \<Longrightarrow> c \<in> stop_calls \<Longrightarrow> server_inv a (on_server c s)"
  by (simp add: server_inv_def map_option.identity [unfolded id_def])

lemma server_inv_serve: "server_inv a s \<Longrightarrow> server_inv a (serve windows removed listens err a s)"
  by (cases "serve_pc s")
    (auto simp: server_inv_def serve_def register_if_def registrations_def own_calls_def on_server_def
      split: outcome.split serve_result.split option.split)

lemma server_step_inv:
  assumes "server_step a s s'" and "server_inv a s"
  shows "server_inv a s'"
  using assms
proof (induction rule: server_step.induct)
  case (start s)
  then show ?case by (simp add: server_inv_def Server_Start_def)
next
  case (wait s s')
  then show ?case by (auto simp: server_inv_def Server_Wait_def split: if_splits)
next
  case (tests s)
  then show ?case by (cases "stopper s") (auto simp: server_inv_def stop_after_tests_def map_option.identity [unfolded id_def])
qed (simp_all add: server_inv_serve server_inv_stop Server_Stop_def Server_ForceStop_def)

lemma server_reach_inv: "server_reach a s \<Longrightarrow> server_inv a s"
  by (induction rule: server_reach.induct) (auto intro: server_inv_initial server_step_inv)

lemma calls_at_prefix: "calls_at a pc (Some cs) \<Longrightarrow> \<exists>p ad. prefix cs (NewServer # registrations a @ [Serve p ad])"
  by (cases pc) (auto simp: registrations_def)

text \<open>C17: Whatever the order in which the goroutines of the server run and whenever a client stops
  it: apart from stops, the gRPC server sees its construction, then the registrations of
  exactly the services that are not nil (identity, controller, node), then one \<open>Serve\<close>, so no
  request is served before all services are registered; the wait counter is 0 or 1; and
  \<open>Wait\<close> returns in test mode only: the \<open>Run\<close> of a plugin never returns.\<close>

theorem server_lifecycle:
  assumes "server_reach a s"
  shows "(\<forall>cs. server s = Some cs \<longrightarrow>
      (\<exists>p ad. prefix (filter (\<lambda>c. c \<notin> stop_calls) cs) (NewServer # registrations a @ [Serve p ad]))) \<and>
    (waited s \<longrightarrow> sa_testMode a) \<and> wg s \<in> {0, 1} \<and> (serve_pc s \<noteq> Idle \<and> \<not> sa_testMode a \<longrightarrow> wg s = 1)"
  using server_reach_inv [OF assms] by (auto simp: server_inv_def own_calls_def calls_at_prefix split: if_splits)

text \<open>
  The goroutine of test mode says that it makes sure \<open>Serve\<close> is called; but it only waits for
  the counter that \<open>serve\<close> has just set to zero, and then for a second. Nothing else keeps it
  from stopping the server first.
\<close>

definition example_args :: "bool \<Rightarrow> start_args" where
  "example_args t = \<lparr>sa_endpoint = ''unix:///tmp/csi.sock'', sa_ids = True, sa_cs = False, sa_ns = True, sa_testMode = t\<rparr>"

text \<open>The states of a run: \<open>Start\<close>, then \<open>n\<close> statements of \<open>serve\<close>.\<close>

fun serve_run :: "start_args \<Rightarrow> nat \<Rightarrow> nonBlockingGRPCServer" where
  "serve_run a 0 = Server_Start NewNonBlockingGRPCServer"
| "serve_run a (Suc n) = serve False (\<lambda>_. True) (\<lambda>_ _. True) None a (serve_run a n)"

lemma example_address: "serve_address False (\<lambda>_. True) ''unix:///tmp/csi.sock'' = Ret (Listen ''unix'' ''//tmp/csi.sock'')"
  by code_simp

lemma serve_run_example:
  "serve_run (example_args t) 1 = \<lparr>wg = 1, server = None, serve_pc = Build ''unix'' ''//tmp/csi.sock'',
     stopper = NotRunning, waited = False, fatal = False\<rparr>"
  "serve_run (example_args t) 6 = \<lparr>wg = (if t then 0 else 1), server = Some [NewServer, Register Identity, Register Node],
     serve_pc = CallServe ''unix'' ''//tmp/csi.sock'', stopper = (if t then Waiting else NotRunning), waited = False, fatal = False\<rparr>"
  "serve_run (example_args t) 7 = \<lparr>wg = (if t then 0 else 1),
     server = Some [NewServer, Register Identity, Register Node, Serve ''unix'' ''//tmp/csi.sock''],
     serve_pc = Serving, stopper = (if t then Waiting else NotRunning), waited = False, fatal = False\<rparr>"
  by (simp_all add: numeral_eq_Suc serve_def Server_Start_def NewNonBlockingGRPCServer_def example_args_def example_address
      register_if_def on_server_def)

lemma serve_run_reach: "n \<le> 7 \<Longrightarrow> server_reach (example_args t) (serve_run (example_args t) n)"
proof (induction n)
  case 0
  show ?case
    using server_reach.more [OF server_reach.initial server_step.start, of "example_args t"]
    by (simp add: NewNonBlockingGRPCServer_def)
next
  case (Suc n)
  have "n \<le> 6 \<Longrightarrow> \<not> fatal (serve_run (example_args t) n)"
    by (auto simp: le_Suc_eq numeral_eq_Suc serve_def Server_Start_def NewNonBlockingGRPCServer_def example_args_def
        example_address register_if_def on_server_def split: if_splits)
  with Suc show ?case by (auto intro: server_reach.more server_step.serve)
qed

lemma tests_may_stop_before_serve:
  "\<exists>s. server_reach (example_args True) s \<and> fatal s = False \<and> serve_pc s = CallServe ''unix'' ''//tmp/csi.sock'' \<and>
     server s = Some [NewServer, Register Identity, Register Node, GracefulStop]"
proof (intro exI conjI)
  let ?s = "serve_run (example_args True) 6"
  have "server_reach (example_args True) ?s" by (rule serve_run_reach) simp
  moreover have "server_step (example_args True) ?s (stop_after_tests ?s)"
    "server_step (example_args True) (stop_after_tests ?s) (stop_after_tests (stop_after_tests ?s))"
    by (rule server_step.tests; simp add: serve_run_example stop_after_tests_def)+
  ultimately show "server_reach (example_args True) (stop_after_tests (stop_after_tests ?s))"
    by (blast intro: server_reach.more)
qed (simp_all add: serve_run_example stop_after_tests_def on_server_def)

theorem server_lifecycle_witness:
  "server (serve_run (example_args False) 7) = Some [NewServer, Register Identity, Register Node, Serve ''unix'' ''//tmp/csi.sock''] \<and>
   wg (serve_run (example_args False) 7) = 1 \<and> \<not> waited (serve_run (example_args False) 7)"
proof -
  have "server_reach (example_args False) (serve_run (example_args False) 7)" by (rule serve_run_reach) simp
  from server_lifecycle [OF this] have "\<not> waited (serve_run (example_args False) 7)" by (simp add: example_args_def)
  then show ?thesis by (simp add: serve_run_example)
qed

section \<open>The logging interceptor\<close>

text \<open>
  What is logged, in order: the method with the request, then the error or the response.
  \<open>StripSecrets\<close> of the library writes a message as text, for requests and responses.
\<close>

datatype log_line = LogRequest string string | LogError string string | LogReturn string string

record 'w logged =
  log_lines :: "log_line list"
  served :: 'w

definition klog :: "log_line \<Rightarrow> ('w logged, unit) go" where
  "klog l s = Some (Ret (), s\<lparr>log_lines := log_lines s @ [l]\<rparr>)"

definition inside :: "('w, 'a) go \<Rightarrow> ('w logged, 'a) go" where
  "inside m s = (case m (served s) of None \<Rightarrow> None | Some (r, w') \<Rightarrow> Some (r, s\<lparr>served := w'\<rparr>))"

definition logGRPC :: "('q \<Rightarrow> string) \<Rightarrow> ('r \<Rightarrow> string) \<Rightarrow> string \<Rightarrow> ('q \<Rightarrow> ('w, error + 'r) go) \<Rightarrow> 'q
    \<Rightarrow> ('w logged, error + 'r) go" where
  "logGRPC strip_request strip_response method handler req =
     bnd (klog (LogRequest method (strip_request req))) (\<lambda>_.
     bnd (inside (handler req)) (\<lambda>r.
     bnd (klog (case r of Inl e \<Rightarrow> LogError method (error_text e) | Inr resp \<Rightarrow> LogReturn method (strip_response resp))) (\<lambda>_.
     ret r)))"

lemma logGRPC_Some:
  "logGRPC sq sr meth h q s = Some (Ret r, s') \<longleftrightarrow>
     (\<exists>w'. h q (served s) = Some (Ret r, w') \<and>
       s' = s\<lparr>log_lines := log_lines s @ [LogRequest meth (sq q),
         case r of Inl e \<Rightarrow> LogError meth (error_text e) | Inr x \<Rightarrow> LogReturn meth (sr x)], served := w'\<rparr>)"
  by (auto simp: logGRPC_def bnd_def klog_def inside_def split: option.splits outcome.splits)

end
