(* ===== verification/Go_OS.thy ===== *)
theory Go_OS
  imports Go_Path "HOL-Library.List_Lexorder" "HOL-Library.Char_ord"
begin

text \<open>
  The operating system as the node plugins see it through Go's \<open>os\<close>, \<open>io/ioutil\<close> and
  \<open>path/filepath\<close>: a file tree per file system, the table of mounts that makes them one
  tree, and the system calls on it. A path is the list of its cleaned components; the
  working directory is the root. Any call may fail: \<open>faults\<close> is the script of what goes
  wrong, unknown to the theorems. Symbolic links are followed as the last component only;
  permissions and times are not kept.
\<close>

section \<open>The machine\<close>

datatype os_error = NotExist | OtherErr string

definition IsNotExist :: "os_error option \<Rightarrow> bool" where
  "IsNotExist err \<longleftrightarrow> err = Some NotExist"

fun os_text :: "os_error \<Rightarrow> string" where
  "os_text NotExist = ''no such file or directory''"
| "os_text (OtherErr m) = m"

datatype node = Dir | File string | Symlink string | BlockDevice

text \<open>A place in a file system: which one (\<open>[]\<close> is the local disk), and where in it.\<close>

type_synonym location = "string \<times> string list"

record statfs =
  Bavail :: int64
  Bsize :: int64
  Blocks :: int64
  Bfree :: int64
  Files :: int64
  Ffree :: int64

text \<open>
  A fault is the error it gives and, for a recursive removal that stops half way, which
  entries are still there. \<open>mtab\<close> lists the mounts, newest first.
\<close>

record machine =
  store :: "(location \<times> node) list"
  mtab :: "(string list \<times> location) list"
  faults :: "nat \<Rightarrow> (string \<times> (location \<Rightarrow> bool)) option"
  fs_sizes :: "string \<Rightarrow> statfs"

type_synonym 'x os = "'x machine_scheme"

definition comps :: "string \<Rightarrow> string list" where
  "comps p = clean_parts True (split_char CHR ''/'' p)"

fun resolve :: "(string list \<times> location) list \<Rightarrow> string list \<Rightarrow> location" where
  "resolve [] xs = ([], xs)"
| "resolve ((mp, d, r) # mt) xs =
     (if prefix mp xs then (d, r @ drop (length mp) xs) else resolve mt xs)"

definition loc :: "'x os \<Rightarrow> string list \<Rightarrow> location" where
  "loc m xs = resolve (mtab m) xs"

definition node_at :: "'x os \<Rightarrow> string list \<Rightarrow> node option" where
  "node_at m xs = (if snd (loc m xs) = [] then Some Dir else map_of (store m) (loc m xs))"

definition next_fault :: "'x os \<Rightarrow> 'x os" where
  "next_fault m = m\<lparr>faults := (\<lambda>i. faults m (Suc i))\<rparr>"

text \<open>A system call that either meets the next fault or does its work.\<close>

definition sys :: "('x os \<Rightarrow> (os_error + 'a) \<times> 'x os) \<Rightarrow> ('x os, os_error + 'a) go" where
  "sys f m =
     (case faults m 0 of
        Some (e, _) \<Rightarrow> Some (Ret (Inl (OtherErr e)), next_fault m)
      | None \<Rightarrow> Some (Ret (fst (f (next_fault m))), snd (f (next_fault m))))"

section \<open>Following links\<close>

definition link_target :: "string list \<Rightarrow> string \<Rightarrow> string list" where
  "link_target xs t =
     (if HasPrefix t ''/'' then comps t else clean_parts True (butlast xs @ split_char CHR ''/'' t))"

fun follow :: "nat \<Rightarrow> 'x os \<Rightarrow> string list \<Rightarrow> os_error + string list" where
  "follow n m xs =
     (case node_at m xs of
        Some (Symlink t) \<Rightarrow>
          (if n = 0 then Inl (OtherErr ''too many levels of symbolic links'')
           else follow (n - 1) m (link_target xs t))
      | _ \<Rightarrow> Inr xs)"

declare follow.simps [simp del]

definition stat_node :: "'x os \<Rightarrow> string list \<Rightarrow> os_error + node" where
  "stat_node m xs =
     (case follow 255 m xs of
        Inl e \<Rightarrow> Inl e
      | Inr ys \<Rightarrow> (case node_at m ys of None \<Rightarrow> Inl NotExist | Some n \<Rightarrow> Inr n))"

section \<open>Calls that read\<close>

definition Lstat :: "string \<Rightarrow> ('x os, os_error + node) go" where
  "Lstat p = sys (\<lambda>m. (case node_at m (comps p) of None \<Rightarrow> Inl NotExist | Some n \<Rightarrow> Inr n, m))"

definition Stat :: "string \<Rightarrow> ('x os, os_error + node) go" where
  "Stat p = sys (\<lambda>m. (stat_node m (comps p), m))"

definition EvalSymlinks :: "string \<Rightarrow> ('x os, os_error + string) go" where
  "EvalSymlinks p = sys (\<lambda>m.
     (case follow 255 m (comps p) of
        Inl e \<Rightarrow> Inl e
      | Inr ys \<Rightarrow> (case node_at m ys of None \<Rightarrow> Inl NotExist | Some n \<Rightarrow> Inr (abs_path ys)), m))"

definition ReadFile :: "string \<Rightarrow> ('x os, os_error + string) go" where
  "ReadFile p = sys (\<lambda>m.
     (case stat_node m (comps p) of
        Inl e \<Rightarrow> Inl e
      | Inr (File c) \<Rightarrow> Inr c
      | Inr n \<Rightarrow> Inl (OtherErr ''is a directory''), m))"

definition children :: "'x os \<Rightarrow> string list \<Rightarrow> string list" where
  "children m xs =
     (let (d, cs) = loc m xs
      in sort (remdups (map (last \<circ> snd \<circ> fst)
           (filter (\<lambda>((e, ds), n). e = d \<and> ds \<noteq> [] \<and> butlast ds = cs) (store m)))))"

definition ReadDir :: "string \<Rightarrow> ('x os, os_error + string list) go" where
  "ReadDir p = sys (\<lambda>m.
     (case stat_node m (comps p) of
        Inl e \<Rightarrow> Inl e
      | Inr Dir \<Rightarrow> Inr (children m (comps p))
      | Inr n \<Rightarrow> Inl (OtherErr ''not a directory''), m))"

definition Statfs :: "string \<Rightarrow> ('x os, os_error + statfs) go" where
  "Statfs p = sys (\<lambda>m.
     (case stat_node m (comps p) of
        Inl e \<Rightarrow> Inl e
      | Inr n \<Rightarrow> Inr (fs_sizes m (fst (loc m (comps p)))), m))"

section \<open>Calls that change the tree\<close>

text \<open>
  \<open>os.MkdirAll\<close>, one directory after the other; those made before a failure stay. A
  dangling link is no directory and cannot be made one.
\<close>

fun mkdirs :: "string list \<Rightarrow> string list \<Rightarrow> 'x os \<Rightarrow> (os_error + unit) \<times> 'x os" where
  "mkdirs done [] m = (Inr (), m)"
| "mkdirs done (x # xs) m =
     (let p = done @ [x]
      in case stat_node m p of
           Inr Dir \<Rightarrow> mkdirs p xs m
         | Inr n \<Rightarrow> (Inl (OtherErr ''not a directory''), m)
         | Inl (OtherErr e) \<Rightarrow> (Inl (OtherErr e), m)
         | Inl NotExist \<Rightarrow>
             if node_at m p \<noteq> None then (Inl (OtherErr ''file exists''), m)
             else (case faults m 0 of
                Some (e, _) \<Rightarrow> (Inl (OtherErr e), next_fault m)
              | None \<Rightarrow> mkdirs p xs ((next_fault m)\<lparr>store := (loc m p, Dir) # store m\<rparr>)))"

definition MkdirAll :: "string \<Rightarrow> ('x os, os_error + unit) go" where
  "MkdirAll p m = Some (Ret (fst (mkdirs [] (comps p) m)), snd (mkdirs [] (comps p) m))"

definition drop_entry :: "location \<Rightarrow> 'x os \<Rightarrow> 'x os" where
  "drop_entry l m = m\<lparr>store := filter (\<lambda>(k, n). k \<noteq> l) (store m)\<rparr>"

definition Remove :: "string \<Rightarrow> ('x os, os_error + unit) go" where
  "Remove p = sys (\<lambda>m.
     (case node_at m (comps p) of
        None \<Rightarrow> (Inl NotExist, m)
      | Some n \<Rightarrow>
          if list_ex (\<lambda>(mp, _). mp = comps p) (mtab m) then (Inl (OtherErr ''device or resource busy''), m)
          else if n = Dir \<and> children m (comps p) \<noteq> [] then (Inl (OtherErr ''directory not empty''), m)
          else (Inr (), drop_entry (loc m (comps p)) m)))"

text \<open>
  The paths under which a location can be seen; \<open>os.RemoveAll p\<close> removes what can be seen
  at or below \<open>p\<close>, other file systems mounted there included, except the mount points and
  the directories on the way to them, which are busy.
\<close>

definition paths_of :: "(string list \<times> location) list \<Rightarrow> location \<Rightarrow> string list list" where
  "paths_of mt l =
     filter (\<lambda>p. resolve mt p = l)
       ((if fst l = [] then [snd l] else []) @
        map (\<lambda>(mp, d, r). mp @ drop (length r) (snd l))
          (filter (\<lambda>(mp, d, r). d = fst l \<and> prefix r (snd l)) mt))"

definition below :: "(string list \<times> location) list \<Rightarrow> string list \<Rightarrow> location \<Rightarrow> bool" where
  "below mt xs l \<longleftrightarrow> list_ex (prefix xs) (paths_of mt l)"

definition pinned :: "(string list \<times> location) list \<Rightarrow> string list \<Rightarrow> location \<Rightarrow> bool" where
  "pinned mt xs l \<longleftrightarrow>
     list_ex (\<lambda>p. prefix xs p \<and> list_ex (\<lambda>(mp, _). prefix p mp) mt) (paths_of mt l)"

definition RemoveAll :: "string \<Rightarrow> ('x os, os_error + unit) go" where
  "RemoveAll p m =
     (if p = [] then Some (Ret (Inr ()), m)
      else case faults m 0 of
        Some (e, stays) \<Rightarrow> Some (Ret (Inl (OtherErr e)),
          (next_fault m)\<lparr>store := filter (\<lambda>(l, n). \<not> below (mtab m) (comps p) l \<or> pinned (mtab m) (comps p) l \<or> stays l)
             (store m)\<rparr>)
      | None \<Rightarrow>
          Some (Ret (if list_ex (\<lambda>(mp, _). prefix (comps p) mp) (mtab m)
                     then Inl (OtherErr ''device or resource busy'') else Inr ()),
            (next_fault m)\<lparr>store := filter (\<lambda>(l, n). \<not> below (mtab m) (comps p) l \<or> pinned (mtab m) (comps p) l)
               (store m)\<rparr>))"

definition mount_of :: "(string list \<times> location) list \<Rightarrow> string list \<Rightarrow> (string list \<times> location) option" where
  "mount_of mt xs = find (\<lambda>(mp, _). prefix mp xs) mt"

definition move_entry :: "location \<Rightarrow> location \<Rightarrow> location \<Rightarrow> location" where
  "move_entry from to l =
     (if fst l = fst from \<and> prefix (snd from) (snd l) then (fst to, snd to @ drop (length (snd from)) (snd l)) else l)"

definition Rename :: "string \<Rightarrow> string \<Rightarrow> ('x os, os_error + unit) go" where
  "Rename old new = sys (\<lambda>m.
     let xs = comps old; ys = comps new
     in case node_at m xs of
          None \<Rightarrow> (Inl NotExist, m)
        | Some n \<Rightarrow>
            if mount_of (mtab m) xs \<noteq> mount_of (mtab m) ys then (Inl (OtherErr ''invalid cross-device link''), m)
            else if list_ex (\<lambda>(mp, _). prefix xs mp \<or> mp = ys) (mtab m) then
              (Inl (OtherErr ''device or resource busy''), m)
            else if xs = ys then (Inr (), m)
            else if prefix xs ys then (Inl (OtherErr ''invalid argument''), m)
            else if ys = [] \<or> node_at m (butlast ys) \<noteq> Some Dir then (Inl NotExist, m)
            else if (case node_at m ys of None \<Rightarrow> True
                     | Some t \<Rightarrow> (if t = Dir then n = Dir \<and> children m ys = [] else n \<noteq> Dir)) then
              (Inr (), m\<lparr>store := map (\<lambda>(l, k). (move_entry (loc m xs) (loc m ys) l, k))
                 (filter (\<lambda>(l, k). l \<noteq> loc m ys) (store m))\<rparr>)
            else (Inl (OtherErr ''file exists''), m))"

text \<open>\<open>os.OpenFile(p, O_CREATE|O_RDWR)\<close> and \<open>Close\<close>; \<open>ioutil.WriteFile\<close>.\<close>

definition put_file :: "string list \<Rightarrow> string option \<Rightarrow> 'x os \<Rightarrow> (os_error + unit) \<times> 'x os" where
  "put_file xs content m =
     (case follow 255 m xs of
        Inl e \<Rightarrow> (Inl e, m)
      | Inr ys \<Rightarrow>
        (case node_at m ys of
           Some Dir \<Rightarrow> (Inl (OtherErr ''is a directory''), m)
         | Some n \<Rightarrow>
             (Inr (), case content of
                None \<Rightarrow> m
              | Some c \<Rightarrow> (if n = BlockDevice then m
                  else (drop_entry (loc m ys) m)\<lparr>store := (loc m ys, File c) # store (drop_entry (loc m ys) m)\<rparr>))
         | None \<Rightarrow>
             if node_at m (butlast ys) \<noteq> Some Dir then (Inl NotExist, m)
             else (Inr (), m\<lparr>store := (loc m ys, File (case content of None \<Rightarrow> [] | Some c \<Rightarrow> c)) # store m\<rparr>)))"

definition OpenCreate :: "string \<Rightarrow> ('x os, os_error + unit) go" where
  "OpenCreate p = sys (put_file (comps p) None)"

definition WriteFile :: "string \<Rightarrow> string \<Rightarrow> ('x os, os_error + unit) go" where
  "WriteFile p c = sys (put_file (comps p) (Some c))"

end
