(* ===== verification/Util.thy ===== *)
theory Util
  imports Go_OS CSI_Types
begin

text \<open>
  \<open>pkg/util\<close>: finding the device of a volume, the checks on devices and directories,
  file-system metrics (\<open>util.go\<close>), and the mounter (\<open>mounter.go\<close>). Programs that the code
  runs and the \<open>k8s.io/mount-utils\<close> package are not part of it: they are the record
  \<open>host\<close> of functions on the machine, of which nothing is assumed here.
\<close>

section \<open>Programs and the mount library\<close>

record 'w host =
  exec_output :: "string list \<Rightarrow> 'w \<Rightarrow> (error option \<times> string) \<times> 'w"  \<comment> \<open>\<open>exec.Command(..).CombinedOutput()\<close>\<close>
  mnt_Mount :: "string \<Rightarrow> string \<Rightarrow> string \<Rightarrow> string list \<Rightarrow> 'w \<Rightarrow> error option \<times> 'w"
  mnt_Unmount :: "string \<Rightarrow> 'w \<Rightarrow> error option \<times> 'w"
  mnt_IsLikelyNotMountPoint :: "string \<Rightarrow> 'w \<Rightarrow> (bool \<times> os_error option) \<times> 'w"
  mnt_IsNotMountPoint :: "string \<Rightarrow> 'w \<Rightarrow> (bool \<times> os_error option) \<times> 'w"
  mnt_CleanupMountPoint :: "string \<Rightarrow> bool \<Rightarrow> 'w \<Rightarrow> error option \<times> 'w"
  mnt_PathExists :: "string \<Rightarrow> 'w \<Rightarrow> (bool \<times> os_error option) \<times> 'w"
  mnt_GetDeviceNameFromMount :: "string \<Rightarrow> 'w \<Rightarrow> (string \<times> error option) \<times> 'w"
  mnt_FormatAndMount :: "string \<Rightarrow> string \<Rightarrow> string \<Rightarrow> string list \<Rightarrow> 'w \<Rightarrow> error option \<times> 'w"
  resize_NeedResize :: "string \<Rightarrow> string \<Rightarrow> 'w \<Rightarrow> (bool \<times> error option) \<times> 'w"
  resize_Resize :: "string \<Rightarrow> string \<Rightarrow> 'w \<Rightarrow> (bool \<times> error option) \<times> 'w"
  quantity_AsInt64 :: "int64 \<Rightarrow> int64 option"  \<comment> \<open>\<open>resource.NewQuantity(n, BinarySI).AsInt64()\<close>\<close>

text \<open>\<open>if err := m; err != nil { return nil, h err }\<close>, then \<open>f\<close>.\<close>

definition os_err :: "os_error \<Rightarrow> error" where
  "os_err e = PlainError (os_text e)"

definition bnd_err :: "('w \<Rightarrow> error option \<times> 'w) \<Rightarrow> (error \<Rightarrow> error) \<Rightarrow> ('w, error + 'a) go \<Rightarrow> ('w, error + 'a) go" where
  "bnd_err m h f = bnd (call m) (\<lambda>e. case e of Some x \<Rightarrow> ret (Inl (h x)) | None \<Rightarrow> f)"

definition bnd_os :: "('w, os_error + 'b) go \<Rightarrow> (error \<Rightarrow> error) \<Rightarrow> ('b \<Rightarrow> ('w, error + 'a) go) \<Rightarrow> ('w, error + 'a) go" where
  "bnd_os m h f = bnd m (\<lambda>r. case r of Inl e \<Rightarrow> ret (Inl (h (os_err e))) | Inr x \<Rightarrow> f x)"

text \<open>\<open>%q\<close> of \<open>fmt\<close>, on printable text and newlines.\<close>

definition quote_char :: "char \<Rightarrow> string" where
  "quote_char c =
     (if c = CHR 10 then [CHR 92, CHR ''n''] else if c = CHR 34 \<or> c = CHR 92 then [CHR 92, c] else [c])"

definition quoted :: "string \<Rightarrow> string" where
  "quoted s = [CHR 34] @ concat (map quote_char s) @ [CHR 34]"

section \<open>Finding the device of a volume\<close>

text \<open>\<open>strings.Replace(s, old, new, -1)\<close> for a non-empty \<open>old\<close>.\<close>

function ReplaceAll :: "string \<Rightarrow> string \<Rightarrow> string \<Rightarrow> string" where
  "ReplaceAll s old new =
     (if s = [] then []
      else if old \<noteq> [] \<and> HasPrefix s old then new @ ReplaceAll (drop (length old) s) old new
      else hd s # ReplaceAll (tl s) old new)"
  by pat_completeness auto

termination
  by (relation "measure (\<lambda>(s, old, new). length s)") auto

declare ReplaceAll.simps [simp del]

text \<open>
  \<open>getDeviceSerial\<close>: the block devices whose directory holds a file \<open>serial\<close>, in the order
  of their names, and the first whose serial is the one looked for. A directory that
  cannot be listed and a file that cannot be read are passed over.
\<close>

fun glob_serial :: "string list \<Rightarrow> ('x os, string list) go" where
  "glob_serial [] = ret []"
| "glob_serial (n # ns) =
     bnd (ReadDir (''/sys/block/'' @ n)) (\<lambda>r.
     bnd (glob_serial ns) (\<lambda>rest.
     ret (case r of Inr fs \<Rightarrow> if ''serial'' \<in> set fs then n # rest else rest | Inl e \<Rightarrow> rest)))"

fun find_serial :: "string \<Rightarrow> string list \<Rightarrow> ('x os, string) go" where
  "find_serial serial [] = ret []"
| "find_serial serial (n # ns) =
     bnd (ReadFile (''/sys/block/'' @ n @ ''/serial'')) (\<lambda>r.
     case r of
       Inl e \<Rightarrow> find_serial serial ns
     | Inr body \<Rightarrow>
         if TrimSpace body = serial then ret (path_join [''/dev'', n]) else find_serial serial ns)"

definition getDeviceSerial :: "string \<Rightarrow> ('x os, string) go" where
  "getDeviceSerial serial =
     bnd (ReadDir ''/sys/block'') (\<lambda>r.
     bnd (glob_serial (case r of Inr ns \<Rightarrow> ns | Inl e \<Rightarrow> [])) (find_serial serial))"

definition resolve_link :: "string \<Rightarrow> node \<Rightarrow> ('x os, error + string) go" where
  "resolve_link link stat =
     (case stat of
        Symlink t \<Rightarrow>
          bnd_os (EvalSymlinks link)
            (\<lambda>e. PlainError (''error reading target of symlink '' @ quoted link @ '': '' @ error_text e)) (\<lambda>resolved.
          if \<not> HasPrefix resolved ''/dev'' then
            ret (Inl (PlainError (''resolved symlink for '' @ quoted link @ '' was unexpected: '' @ quoted resolved)))
          else ret (Inr resolved))
      | _ \<Rightarrow> ret (Inl (PlainError (''volumeID link file '' @ quoted link @ '' found, but was not a symlink''))))"

definition GetDeviceByVolumeID :: "string \<Rightarrow> ('x os, error + string) go" where
  "GetDeviceByVolumeID volumeID =
     bnd (getDeviceSerial (TrimPrefix volumeID ''vol-'')) (\<lambda>device.
     if device \<noteq> [] then ret (Inr device)
     else
       (let byIDPath = ''/dev/disk/by-id/'';
            link = path_join [byIDPath, ReplaceAll volumeID ''vol-'' ''virtio-'']
        in bnd (Lstat link) (\<lambda>st.
           case st of
             Inr n \<Rightarrow> resolve_link link n
           | Inl NotExist \<Rightarrow>
               bnd (ReadDir byIDPath) (\<lambda>r.
               let files = (case r of Inr ns \<Rightarrow> ns | Inl e \<Rightarrow> []);
                   diskPart = ReplaceAll volumeID ''vol-'' []
               in case find (\<lambda>f. Contains f diskPart) files of
                    None \<Rightarrow> ret (Inl (PlainError (''volumeID link path '' @ quoted link @ '' not found'')))
                  | Some f \<Rightarrow>
                      bnd (Lstat (path_join [byIDPath, f])) (\<lambda>st2.
                      bnd (deref (case st2 of Inr n \<Rightarrow> Some n | Inl e \<Rightarrow> None)) (\<lambda>n.
                      resolve_link (path_join [byIDPath, f]) n)))
           | Inl (OtherErr e) \<Rightarrow> ret (Inl (PlainError (''error getting stat of '' @ quoted link @ '': '' @ e))))))"

section \<open>Files and directories\<close>

definition IsFileExisting :: "string \<Rightarrow> ('x os, bool) go" where
  "IsFileExisting filename =
     bnd (Stat filename) (\<lambda>r. ret (case r of Inr n \<Rightarrow> True | Inl NotExist \<Rightarrow> False | Inl (OtherErr e) \<Rightarrow> True))"

definition CreateDest :: "string \<Rightarrow> ('x os, error + unit) go" where
  "CreateDest dest =
     bnd (Lstat dest) (\<lambda>r.
     case r of
       Inl NotExist \<Rightarrow> bnd_os (MkdirAll dest) (\<lambda>e. e) (\<lambda>_. ret (Inr ()))
     | Inl (OtherErr e) \<Rightarrow> ret (Inl (PlainError e))
     | Inr Dir \<Rightarrow> ret (Inr ())
     | Inr n \<Rightarrow> ret (Inl (PlainError (dest @ '' already exist but it'' @ [CHR 39] @ ''s not a directory''))))"

section \<open>Metrics\<close>

record volume_usage =
  us_Available :: int64
  us_Total :: int64
  us_Used :: int64

definition FsInfo :: "string \<Rightarrow> ('x os, os_error + int64 \<times> int64 \<times> int64 \<times> int64 \<times> int64 \<times> int64) go" where
  "FsInfo p =
     bnd (Statfs p) (\<lambda>r. ret (case r of
       Inl e \<Rightarrow> Inl e
     | Inr s \<Rightarrow> Inr (Bavail s * Bsize s, Blocks s * Bsize s, (Blocks s - Bfree s) * Bsize s,
         Files s, Ffree s, Files s - Ffree s)))"

text \<open>The response carries the usage in bytes and then in inodes.\<close>

definition GetMetrics :: "string \<Rightarrow> ('x os, error + volume_usage \<times> volume_usage) go" where
  "GetMetrics p =
     (if p = [] then ret (Inl (PlainError ''getMetrics No path given''))
      else bnd_os (FsInfo p) (\<lambda>e. e)
        (\<lambda>(available, capacity, usage, inodes, inodesFree, inodesUsed).
          ret (Inr (\<lparr>us_Available = available, us_Total = capacity, us_Used = usage\<rparr>,
                    \<lparr>us_Available = inodesFree, us_Total = inodes, us_Used = inodesUsed\<rparr>))))"

section \<open>Programs\<close>

definition run :: "'w host \<Rightarrow> string \<Rightarrow> ('w, error + string) go" where
  "run h cmd =
     bnd (call (exec_output h [''sh'', ''-c'', cmd])) (\<lambda>(err, out).
     case err of
       Some e \<Rightarrow> ret (Inl (PlainError (''Failed to run cmd: '' @ cmd @ '', with out: '' @ out @ '', error: '' @
         error_text e @ '' '')))
     | None \<Rightarrow> ret (Inr out))"

definition CheckDeviceAvailable :: "'x os host \<Rightarrow> string \<Rightarrow> ('x os, error + unit) go" where
  "CheckDeviceAvailable h devicePath =
     (if devicePath = [] then fails Internal ''devicePath is empty, cannot used for Volume''
      else bnd (Stat devicePath) (\<lambda>r.
        if r = Inl NotExist then ret (Inl (os_err NotExist))
        else if devicePath = ''/dev/vda'' \<or> devicePath = ''/dev/vda1'' then
          ret (Inl (PlainError (''devicePath('' @ devicePath @ '') is system device, cannot used for Volume'')))
        else
          bnd (run h (''mount | grep '' @ [CHR 34] @ devicePath @ '' on /var/lib/kubelet type'' @ [CHR 34] @ '' | wc -l'')) (\<lambda>res.
          case res of
            Inl e \<Rightarrow> ret (Inl (PlainError (''devicePath('' @ devicePath @ '') is used to kubelet'')))
          | Inr out \<Rightarrow>
              if TrimSpace out \<noteq> ''0'' then
                ret (Inl (PlainError (''devicePath('' @ devicePath @
                  '') is used as DataDisk for kubelet, cannot used fo Volume'')))
              else ret (Inr ()))))"

definition ForceUnmount :: "'w host \<Rightarrow> string \<Rightarrow> ('w, error + unit) go" where
  "ForceUnmount h target =
     (if target = [] then ret (Inl (PlainError ''target is not specified for unmounting the volume''))
      else bnd (call (exec_output h [''umount'', ''-f'', target])) (\<lambda>(err, out).
        case err of
          Some e \<Rightarrow> ret (Inl (PlainError (''unmounting failed: '' @ error_text e @ '' cmd: '' @
            [CHR 39] @ ''umount -f '' @ target @ [CHR 39] @ '' output: '' @ quoted out)))
        | None \<Rightarrow> ret (Inr ())))"

end
