(* ===== verification/EBS_Node.thy ===== *)
theory EBS_Node
  imports EBS_Driver Util
begin

text \<open>
  \<open>pkg/ebs/nodesvc.go\<close>, \<open>utils.go\<close> and \<open>mount.go\<close>: the node service. The handlers that use
  the in-flight table are \<open>guarded\<close> by the volume id; each body is a definition of its own.
  The state behind the guard is the machine, on which the cloud interface \<open>cl\<close> (only its
  device lookup) and the mount library \<open>h\<close> act too.
\<close>

section \<open>Mount points and devices\<close>

definition createTargetMountPoint :: "string \<Rightarrow> bool \<Rightarrow> ('x os, error + unit) go" where
  "createTargetMountPoint mountPath isBlock =
     (if isBlock then
        bnd (Lstat mountPath) (\<lambda>fi.
        case fi of
          Inl (OtherErr e) \<Rightarrow> ret (Inl (PlainError e))
        | _ \<Rightarrow>
          bnd (if fi = Inr Dir then bnd (Remove mountPath) (\<lambda>_. ret ()) else ret ()) (\<lambda>_.
          bnd_os (OpenCreate mountPath) (\<lambda>e. StatusError Internal (error_text e)) (\<lambda>_. ret (Inr ()))))
      else CreateDest mountPath)"

definition isBlockDevice :: "string \<Rightarrow> ('x os, os_error + bool) go" where
  "isBlockDevice fullPath =
     bnd (Stat fullPath) (\<lambda>r. ret (case r of Inl e \<Rightarrow> Inl e | Inr n \<Rightarrow> Inr (n = BlockDevice)))"

definition BLOCKVOLUMEPREFIX :: string where
  "BLOCKVOLUMEPREFIX =
     path_join [''/var/lib/kubelet'', ''/plugins/kubernetes.io/csi/volumeDevices/publish'']"

section \<open>float64\<close>

text \<open>
  The capacity check of NodeExpandVolume is in \<open>float64\<close>. A float is here the integer it is
  a power-of-two fraction of: \<open>float64(capacity) / float64(GB)\<close> is \<open>fl (capacity)\<close> over 2^30
  (the division is exact), \<open>requestGB * 0.9\<close> is the product with the float next to 0.9,
  which is 8106479329266893 over 2^53, rounded. \<open>fl\<close> rounds to 53 bits, ties to even.
\<close>

fun bit_len :: "nat \<Rightarrow> nat" where
  "bit_len n = (if n = 0 then 0 else Suc (bit_len (n div 2)))"

declare bit_len.simps [simp del]

definition round53 :: "nat \<Rightarrow> nat" where
  "round53 k =
     (if bit_len k \<le> 53 then k
      else let s = bit_len k - 53; q = k div 2 ^ s; r = k mod 2 ^ s; half = 2 ^ (s - 1)
           in (if r > half \<or> r = half \<and> odd q then q + 1 else q) * 2 ^ s)"

definition fl :: "int \<Rightarrow> int" where
  "fl i = (if i < 0 then - int (round53 (nat (- i))) else int (round53 (nat i)))"

definition nine_tenths :: int where
  "nine_tenths = 8106479329266893"

definition filesystem_large_enough :: "int64 \<Rightarrow> int \<Rightarrow> bool" where
  "filesystem_large_enough requestGB diskCapacity \<longleftrightarrow>
     fl (sint requestGB * nine_tenths) \<le> diskCapacity * 2 ^ 23"

definition getDiskCapacity :: "'x os host \<Rightarrow> string \<Rightarrow> ('x os, error + int) go" where
  "getDiskCapacity h devicePath =
     bnd (FsInfo devicePath) (\<lambda>r.
     case r of
       Inl e \<Rightarrow> ret (Inl (PlainError (''getDiskCapacity:: get device error: '' @ os_text e)))
     | Inr (_, capacity, _) \<Rightarrow>
         (case quantity_AsInt64 h capacity of
            None \<Rightarrow> ret (Inl (StatusError Unknown ''failed to fetch capacity bytes''))
          | Some c \<Rightarrow> ret (Inr (fl (sint c)))))"

section \<open>NodeStageVolume and NodeUnstageVolume\<close>

definition mount_opts :: "volume_capability \<Rightarrow> string list" where
  "mount_opts c = get_mount_flags (get_mount c)"

text \<open>\<open>fsType := "ext4"; if GetMount().FsType != "" ...\<close> reads through a pointer that may be nil.\<close>

definition fs_type :: "volume_capability \<Rightarrow> ('w, string) go" where
  "fs_type c = bnd (deref (get_mount c)) (\<lambda>mv. ret (if FsType mv \<noteq> [] then FsType mv else ''ext4''))"

definition resize_snapshot :: "'w host \<Rightarrow> string \<Rightarrow> string \<Rightarrow> string \<Rightarrow> ('w, error + unit) go" where
  "resize_snapshot h volumeID devicePath targetPath =
     bnd (call (resize_NeedResize h devicePath targetPath)) (\<lambda>(needResize, err).
     if err \<noteq> None then ret (Inr ())
     else if needResize then
       bnd (call (resize_Resize h devicePath targetPath)) (\<lambda>(_, err).
       case err of
         Some e \<Rightarrow> fails Internal (''Resizing volume '' @ volumeID @ '' created from a snapshot failed: '' @ error_text e)
       | None \<Rightarrow> ret (Inr ()))
     else ret (Inr ()))"

definition StageVolume_mount ::
  "'x os Cloud \<Rightarrow> 'x os host \<Rightarrow> node_stage_request \<Rightarrow> volume_capability \<Rightarrow> string \<Rightarrow> ('x os, error + unit) go" where
  "StageVolume_mount cl h req volCap devicePath =
     (let targetPath = st_StagingTargetPath req; volumeID = st_VolumeId req
      in bndE (CheckDeviceAvailable h devicePath)
        (\<lambda>e. StatusError FailedPrecondition (''check device failed: '' @ error_text e)) (\<lambda>_.
      bndE (createTargetMountPoint targetPath False)
        (\<lambda>e. StatusError Internal (''createTargetMountPoint error: '' @ error_text e)) (\<lambda>_.
      bnd (call (mnt_GetDeviceNameFromMount h targetPath)) (\<lambda>(device, err).
      case err of
        Some e \<Rightarrow> fails Internal (''failed to check if volume is already mounted: '' @ error_text e)
      | None \<Rightarrow>
        if device = devicePath then ret (Inr ())
        else
          bnd (fs_type volCap) (\<lambda>fsType.
          bnd_err (mnt_FormatAndMount h devicePath targetPath fsType (mount_opts volCap))
            (\<lambda>e. StatusError Internal (''failed to mount device path ('' @ devicePath @ '') to staging path ('' @
              targetPath @ '') for volume ('' @ volumeID @ ''), error: '' @ error_text e))
            (if attr (st_VolumeContext req) SnapshotID \<noteq> [] then resize_snapshot h volumeID devicePath targetPath
             else ret (Inr ())))))))"

definition NodeSvc_isValidVolumeCapabilities :: "Driver \<Rightarrow> volume_capability list \<Rightarrow> bool" where
  "NodeSvc_isValidVolumeCapabilities d volCaps =
     (let hasSupport = (\<lambda>cap. list_ex (\<lambda>c. c = get_mode cap) (Cap (csi_driver d))) in list_all hasSupport volCaps)"

lemma NodeSvc_isValidVolumeCapabilities [simp]: "NodeSvc_isValidVolumeCapabilities = isValidVolumeCapabilities"
  by (simp add: fun_eq_iff NodeSvc_isValidVolumeCapabilities_def isValidVolumeCapabilities_def)

definition StageVolume_body ::
  "Driver \<Rightarrow> 'x os Cloud \<Rightarrow> 'x os host \<Rightarrow> node_stage_request \<Rightarrow> ('x os, error + unit) go" where
  "StageVolume_body d cl h req =
     (case st_VolumeCapability req of
        None \<Rightarrow> fails InvalidArgument ''volume capability missing in request''
      | Some volCap \<Rightarrow>
        if \<not> NodeSvc_isValidVolumeCapabilities d [volCap] then fails InvalidArgument ''Volume capability not supported''
        else if is_block volCap then ret (Inr ())
        else if st_StagingTargetPath req = [] then
          fails InvalidArgument ''staging target volumePath missing in request''
        else
          bnd (cloud_DevicePathByVolId cl (st_VolumeId req)) (\<lambda>devicePath.
          if devicePath = [] then fails NotFound ''device cannot be found''
          else StageVolume_mount cl h req volCap devicePath))"

definition node_busy :: "string \<Rightarrow> error" where
  "node_busy volumeID = StatusError Aborted (''An operation with the given Volume '' @ volumeID @ '' already exists'')"

definition NodeSvc_NodeStageVolume ::
  "Driver \<Rightarrow> 'x os Cloud \<Rightarrow> 'x os host \<Rightarrow> node_stage_request \<Rightarrow> ('x os service, error + unit) go" where
  "NodeSvc_NodeStageVolume d cl h req =
     (if st_VolumeId req = [] then fails InvalidArgument ''volume id missing in request''
      else guarded (st_VolumeId req) (node_busy (st_VolumeId req)) (StageVolume_body d cl h req))"

definition UnstageVolume_body :: "'x os host \<Rightarrow> string \<Rightarrow> ('x os, error + unit) go" where
  "UnstageVolume_body h targetPath =
     (if targetPath = [] then fails InvalidArgument ''unstaging target volumePath missing in request''
      else
        bnd (call (mnt_IsNotMountPoint h targetPath)) (\<lambda>(isNotMnt, err).
        if err \<noteq> None \<and> \<not> IsNotExist err then
          fails Internal (''check targetPath IsNotMountPoint err: '' @ (case err of Some e \<Rightarrow> os_text e | None \<Rightarrow> []))
        else
          bndE (if \<not> isNotMnt then
              bnd_err (mnt_Unmount h targetPath)
                (\<lambda>e. StatusError Internal (''failed to unmount targetPath '' @ targetPath @ '' with error: '' @ error_text e))
                (ret (Inr ()))
            else ret (Inr ())) (\<lambda>e. e) (\<lambda>_.
          bnd (Remove targetPath) (\<lambda>r.
          case r of
            Inl (OtherErr e) \<Rightarrow>
              fails Internal (''failed to remove staging target path ('' @ targetPath @ ''): ('' @ e @ '')'')
          | _ \<Rightarrow> ret (Inr ())))))"

definition NodeSvc_NodeUnstageVolume :: "'x os host \<Rightarrow> string \<Rightarrow> string \<Rightarrow> ('x os service, error + unit) go" where
  "NodeSvc_NodeUnstageVolume h volumeID targetPath =
     (if volumeID = [] then fails InvalidArgument ''volume id missing in request''
      else guarded volumeID (node_busy volumeID) (UnstageVolume_body h targetPath))"

section \<open>NodePublishVolume and NodeUnpublishVolume\<close>

definition publish_mount ::
  "'x os Cloud \<Rightarrow> 'x os host \<Rightarrow> node_publish_request \<Rightarrow> volume_capability \<Rightarrow> ('x os, error + unit) go" where
  "publish_mount cl h req volCap =
     (let targetPath = np_TargetPath req; source = np_StagingTargetPath req;
          opts = mount_opts volCap @ (if np_Readonly req then [''ro''] else []) @ [''bind'']
      in if is_block volCap then
           bnd (cloud_DevicePathByVolId cl (np_VolumeId req)) (\<lambda>devicePath.
           if devicePath = [] then fails NotFound ''device cannot be found''
           else bnd_err (mnt_Mount h devicePath targetPath [] opts)
             (\<lambda>_. StatusError Internal ''publish volume failed'') (ret (Inr ())))
         else
           bnd (call (mnt_IsNotMountPoint h source)) (\<lambda>(isNotMnt, err).
           case err of
             Some e \<Rightarrow> fails Internal (''check source '' @ source @ '' IsNotMountPoint err: '' @ os_text e)
           | None \<Rightarrow>
             if isNotMnt then fails Internal (''source '' @ source @ '' not mounted'')
             else
               bnd (fs_type volCap) (\<lambda>fsType.
               bnd_err (mnt_Mount h source targetPath fsType opts)
                 (\<lambda>_. StatusError Internal ''publish volume failed'') (ret (Inr ())))))"

definition NodePublishVolume_body ::
  "Driver \<Rightarrow> 'x os Cloud \<Rightarrow> 'x os host \<Rightarrow> node_publish_request \<Rightarrow> ('x os, error + unit) go" where
  "NodePublishVolume_body d cl h req =
     (if np_StagingTargetPath req = [] then fails InvalidArgument ''staging target missing in request''
      else if np_TargetPath req = [] then fails InvalidArgument ''target volumePath missing in request''
      else case np_VolumeCapability req of
        None \<Rightarrow> fails InvalidArgument ''volume capability missing in request''
      | Some volCap \<Rightarrow>
        if \<not> NodeSvc_isValidVolumeCapabilities d [volCap] then fails InvalidArgument ''Volume capability not supported''
        else
          bndE (createTargetMountPoint (np_TargetPath req) (is_block volCap))
            (\<lambda>e. StatusError Internal (''createTargetMountPoint error: '' @ error_text e)) (\<lambda>_.
          bnd (call (mnt_IsLikelyNotMountPoint h (np_TargetPath req))) (\<lambda>(isNotMnt, err).
          case err of
            Some e \<Rightarrow> fails Internal (''check targetPath IsNotMountPoint err: '' @ os_text e)
          | None \<Rightarrow> if \<not> isNotMnt then ret (Inr ()) else publish_mount cl h req volCap)))"

definition NodeSvc_NodePublishVolume ::
  "Driver \<Rightarrow> 'x os Cloud \<Rightarrow> 'x os host \<Rightarrow> node_publish_request \<Rightarrow> ('x os service, error + unit) go" where
  "NodeSvc_NodePublishVolume d cl h req =
     (if np_VolumeId req = [] then fails InvalidArgument ''volume id missing in request''
      else guarded (np_VolumeId req) (node_busy (np_VolumeId req)) (NodePublishVolume_body d cl h req))"

definition NodeSvc_NodeUnpublishVolume :: "'x os host \<Rightarrow> string \<Rightarrow> string \<Rightarrow> ('x os service, error + unit) go" where
  "NodeSvc_NodeUnpublishVolume h volumeID targetPath =
     (if volumeID = [] then fails InvalidArgument ''volume id is missing''
      else guarded volumeID (node_busy volumeID)
        (if targetPath = [] then fails InvalidArgument ''target volumePath is missing''
         else bnd_err (mnt_CleanupMountPoint h targetPath True)
           (\<lambda>e. StatusError Internal (error_text e)) (ret (Inr ()))))"

section \<open>Statistics, expansion and the rest\<close>

definition NodeSvc_NodeGetVolumeStats ::
  "'x os host \<Rightarrow> string \<Rightarrow> string \<Rightarrow> ('x os service, error + volume_usage \<times> volume_usage) go" where
  "NodeSvc_NodeGetVolumeStats h volumeId volumePath =
     (if volumeId = [] then fails InvalidArgument ''NodeGetVolumeStats volume ID was empty''
      else if volumePath = [] then fails InvalidArgument ''NodeGetVolumeStats volume path was empty''
      else unguarded (
        bnd (call (mnt_PathExists h volumePath)) (\<lambda>(exists, err).
        case err of
          Some e \<Rightarrow> fails Internal (''unknown error when stat on '' @ volumePath @ '': '' @ os_text e)
        | None \<Rightarrow>
          if \<not> exists then fails NotFound (''path '' @ volumePath @ '' does not exist'')
          else GetMetrics volumePath)))"

text \<open>The two floats that the last message prints are left out of it.\<close>

definition NodeExpandVolume_body ::
  "'x os Cloud \<Rightarrow> 'x os host \<Rightarrow> node_expand_request \<Rightarrow> ('x os, error + unit) go" where
  "NodeExpandVolume_body cl h req =
     (let volumeId = ne_VolumeId req; volumePath = ne_VolumePath req;
          requestGB = roundGB (get_required_bytes (ne_CapacityRange req))
      in bnd (cloud_DevicePathByVolId cl volumeId) (\<lambda>devicePath.
         if devicePath = [] then fails NotFound (''can'' @ [CHR 39] @ ''t get devicePath for '' @ volumeId)
         else if (case ne_VolumeCapability req of Some c \<Rightarrow> is_block c | None \<Rightarrow> False) then ret (Inr ())
         else if Contains volumePath BLOCKVOLUMEPREFIX then ret (Inr ())
         else
           bnd (isBlockDevice volumePath) (\<lambda>r.
           case r of
             Inl e \<Rightarrow> fails Internal (''failed to determine if volumePath ['' @ volumePath @
               ''] is a block device: '' @ os_text e)
           | Inr True \<Rightarrow> ret (Inr ())
           | Inr False \<Rightarrow>
             bnd (call (resize_Resize h devicePath volumePath)) (\<lambda>(_, err).
             case err of
               Some e \<Rightarrow> fails Internal (''Could not resize volume '' @ volumeId @ '': '' @ error_text e)
             | None \<Rightarrow>
               bndE (getDiskCapacity h volumePath)
                 (\<lambda>e. StatusError Internal (''get diskCapacity of '' @ volumePath @ '' error '' @ error_text e)) (\<lambda>diskCapacity.
               if filesystem_large_enough requestGB diskCapacity then ret (Inr ())
               else fails Internal ''requestGB, diskCapacity not in range'')))))"

definition NodeSvc_NodeExpandVolume ::
  "'x os Cloud \<Rightarrow> 'x os host \<Rightarrow> node_expand_request \<Rightarrow> ('x os service, error + unit) go" where
  "NodeSvc_NodeExpandVolume cl h req =
     (if ne_VolumeId req = [] then fails InvalidArgument ''Volume ID is empty''
      else if ne_VolumePath req = [] then fails InvalidArgument ''Volume path is empty''
      else unguarded (NodeExpandVolume_body cl h req))"

definition NodeSvc_NodeGetCapabilities :: "Driver \<Rightarrow> error + node_rpc list" where
  "NodeSvc_NodeGetCapabilities d = Inr (NSCap (csi_driver d))"

record node_info =
  ni_NodeId :: string
  ni_MaxVolumesPerNode :: int64
  ni_Segments :: attributes

definition NodeSvc_NodeGetInfo :: "Driver \<Rightarrow> 'w Cloud \<Rightarrow> error + node_info" where
  "NodeSvc_NodeGetInfo d cl =
     Inr \<lparr>ni_NodeId = NodeID (csi_driver d),
          ni_MaxVolumesPerNode = maxVolumesPerNode d - reserveVolumesPerNode d,
          ni_Segments = cloud_Topology cl\<rparr>"

end
