(* ===== verification/Config_Load.thy ===== *)
theory Config_Load
  imports Go_OS
begin

text \<open>
  Where a plugin gets its settings: \<open>pkg/util/http.go\<close>, the ECS metadata service
  (\<open>pkg/metadata/metadata.go\<close>), the loaders of \<open>pkg/openapi/cfgloader.go\<close> and the start-up
  code of \<open>cmd/ebsplugin\<close> and \<open>cmd/nasplugin\<close> that puts them together. The network, the YAML
  decoder and \<open>mergo.Merge\<close> are parameters.
\<close>

section \<open>HTTP and the metadata service\<close>

text \<open>\<open>http.Get\<close> fails, or gives a response whose body fails or can be read.\<close>

record 'w net =
  http_Get :: "string \<Rightarrow> 'w \<Rightarrow> (error + (error + string)) \<times> 'w"
  dial_host :: "string \<Rightarrow> 'w \<Rightarrow> error option \<times> 'w"  \<comment> \<open>\<open>net.DialTimeout("tcp", host:http, 1s)\<close>\<close>
  url_host :: "string \<Rightarrow> error + string"  \<comment> \<open>\<open>url.Parse(u)\<close> and its \<open>Host\<close>\<close>

definition HttpGet :: "'w net \<Rightarrow> string \<Rightarrow> ('w, error + string) go" where
  "HttpGet n url =
     bnd (call (http_Get n url)) (\<lambda>r.
     ret (case r of Inl e \<Rightarrow> Inl e | Inr (Inl e) \<Rightarrow> Inl e | Inr (Inr body) \<Rightarrow> Inr body))"

record 'w MetadataService =
  md_NodeId :: "('w, string) go"
  md_InstanceType :: "('w, string) go"
  md_Region :: "('w, string) go"
  md_Zone :: "('w, string) go"
  md_Credential :: "('w, string \<times> string \<times> string) go"
  md_Active :: "('w, bool) go"

definition ecs_get :: "'w net \<Rightarrow> string \<Rightarrow> string \<Rightarrow> ('w, string) go" where
  "ecs_get n metadataURL item =
     bnd (HttpGet n (metadataURL @ ''/'' @ item)) (\<lambda>r. ret (case r of Inl e \<Rightarrow> [] | Inr v \<Rightarrow> v))"

definition ecs_Active :: "'w net \<Rightarrow> string \<Rightarrow> ('w, bool) go" where
  "ecs_Active n metadataURL =
     (case url_host n metadataURL of
        Inl e \<Rightarrow> ret False
      | Inr host \<Rightarrow> bnd (call (dial_host n (host @ '':http''))) (\<lambda>e. ret (e = None)))"

definition NewECSMetadataService :: "'w net \<Rightarrow> string \<Rightarrow> 'w MetadataService" where
  "NewECSMetadataService n metadataURL =
     \<lparr>md_NodeId = ecs_get n metadataURL ''instance_id'',
      md_InstanceType = ecs_get n metadataURL ''instance_type'',
      md_Region = ecs_get n metadataURL ''region_id'',
      md_Zone = ecs_get n metadataURL ''availability_zone'',
      md_Credential = ret ([], [], []),
      md_Active = ecs_Active n metadataURL\<rparr>"

section \<open>Configuration\<close>

text \<open>\<open>Config\<close> embeds \<open>Credential\<close>, \<open>Topology\<close> and \<open>OpenApi\<close>; its fields are theirs.\<close>

record Config =
  AccessKeyId :: string
  SecretAccessKey :: string
  SessionToken :: string
  AssumeRoleName :: string
  Region :: string
  Zone :: string
  Host :: string

definition zero_Config :: Config where
  "zero_Config = \<lparr>AccessKeyId = [], SecretAccessKey = [], SessionToken = [], AssumeRoleName = [],
     Region = [], Zone = [], Host = []\<rparr>"

text \<open>A loader gives a pointer to a configuration, which may be nil.\<close>

type_synonym 'w loader = "('w, Config option) go"

definition EnvLoader :: "(string \<Rightarrow> string) \<Rightarrow> 'w loader" where
  "EnvLoader getenv =
     ret (Some \<lparr>AccessKeyId = getenv ''VOLC_ACCESSKEYID'', SecretAccessKey = getenv ''VOLC_SECRETACCESSKEY'',
       SessionToken = [], AssumeRoleName = getenv ''VOLC_ASSUMEROLENAME'', Region = getenv ''VOLC_REGION'',
       Zone = getenv ''VOLC_ZONE'', Host = getenv ''VOLC_HOST''\<rparr>)"

text \<open>
  \<open>unmarshal\<close> gives the structure as far as it was filled in and an error or nil; either
  way the loader returns the structure. It returns nil when the file cannot be read.
\<close>

definition FileLoader :: "(string \<Rightarrow> Config \<times> error option) \<Rightarrow> string \<Rightarrow> 'x os loader" where
  "FileLoader unmarshal filename =
     bnd (ReadFile filename) (\<lambda>r. ret (case r of Inl e \<Rightarrow> None | Inr data \<Rightarrow> Some (fst (unmarshal data))))"

definition ServerLoader :: "'w MetadataService \<Rightarrow> 'w loader" where
  "ServerLoader md =
     bnd (md_Credential md) (\<lambda>(ak, sk, st).
     bnd (md_Region md) (\<lambda>region.
     bnd (md_Zone md) (\<lambda>zone.
     ret (Some \<lparr>AccessKeyId = ak, SecretAccessKey = sk, SessionToken = st, AssumeRoleName = [],
       Region = region, Zone = zone, Host = []\<rparr>))))"

text \<open>\<open>mergo.Merge(config, l.Load())\<close> for each loader in turn, its error dropped.\<close>

fun ConfigVia :: "(Config \<Rightarrow> Config option \<Rightarrow> Config outcome) \<Rightarrow> 'w loader list \<Rightarrow> Config \<Rightarrow> ('w, Config) go" where
  "ConfigVia merge [] config = ret config"
| "ConfigVia merge (l # ls) config =
     bnd l (\<lambda>c.
     case merge config c of
       Panic \<Rightarrow> panic
     | Ret config' \<Rightarrow> ConfigVia merge ls config')"

text \<open>
  \<open>loadOpenapiConfig\<close> of the EBS plugin, and the same code in \<open>run\<close> of the NAS plugin: the
  environment, then the file if it is a regular file, then the metadata server if it answers.
\<close>

definition loadOpenapiConfig ::
  "(Config \<Rightarrow> Config option \<Rightarrow> Config outcome) \<Rightarrow> (string \<Rightarrow> string) \<Rightarrow> (string \<Rightarrow> Config \<times> error option) \<Rightarrow> string
     \<Rightarrow> 'x os MetadataService \<Rightarrow> ('x os, Config) go" where
  "loadOpenapiConfig merge getenv unmarshal openApiCfgFile md =
     bnd (Stat openApiCfgFile) (\<lambda>info.
     bnd (md_Active md) (\<lambda>active.
     ConfigVia merge
       ([EnvLoader getenv] @
        (case info of Inr (File _) \<Rightarrow> [FileLoader unmarshal openApiCfgFile] | _ \<Rightarrow> []) @
        (if active then [ServerLoader md] else [])) zero_Config))"

section \<open>Precedence\<close>

text \<open>
  What \<open>mergo.Merge\<close> documents: a field of the destination that is empty takes the source's; a nil
  source is refused with an error, which the code drops, and changes nothing (or panics).
\<close>

definition fill :: "Config \<Rightarrow> Config \<Rightarrow> Config" where
  "fill c d =
     (let f = (\<lambda>x y. if x = [] then y else x)
      in \<lparr>AccessKeyId = f (AccessKeyId c) (AccessKeyId d), SecretAccessKey = f (SecretAccessKey c) (SecretAccessKey d),
          SessionToken = f (SessionToken c) (SessionToken d), AssumeRoleName = f (AssumeRoleName c) (AssumeRoleName d),
          Region = f (Region c) (Region d), Zone = f (Zone c) (Zone d), Host = f (Host c) (Host d)\<rparr>)"

definition merges :: "(Config \<Rightarrow> Config option \<Rightarrow> Config outcome) \<Rightarrow> bool" where
  "merges merge \<longleftrightarrow> (\<forall>c d. merge c (Some d) = Ret (fill c d)) \<and> (\<forall>c. merge c None \<in> {Ret c, Panic})"

lemma fill_zero [simp]: "fill zero_Config d = d"
  by (simp add: fill_def zero_Config_def Let_def)

text \<open>The first non-empty string of a list.\<close>

fun first_set :: "string list \<Rightarrow> string" where
  "first_set [] = []"
| "first_set (x # xs) = (if x = [] then first_set xs else x)"

lemma first_set_Nil [simp]: "first_set ([] # xs) = first_set xs"
  by simp

text \<open>The configuration that a list of sources gives: for each field the first that sets it.\<close>

definition first_of :: "Config list \<Rightarrow> Config" where
  "first_of cs = (let pick = (\<lambda>field. first_set (map field cs)) in
     \<lparr>AccessKeyId = pick AccessKeyId, SecretAccessKey = pick SecretAccessKey, SessionToken = pick SessionToken,
      AssumeRoleName = pick AssumeRoleName, Region = pick Region, Zone = pick Zone, Host = pick Host\<rparr>)"

lemma foldl_fill: "foldl fill c cs = first_of (c # cs)"
  by (induction cs arbitrary: c) (simp_all add: fill_def first_of_def Let_def)

lemma first_of_zero [simp]: "first_of (zero_Config # cs) = first_of cs"
  by (simp add: first_of_def zero_Config_def)

text \<open>One loader after the other, each run in the state that the one before has left.\<close>

fun loads :: "'w loader list \<Rightarrow> 'w \<Rightarrow> Config option list \<Rightarrow> 'w \<Rightarrow> bool" where
  "loads [] w cs w' \<longleftrightarrow> cs = [] \<and> w' = w"
| "loads (l # ls) w cs w' \<longleftrightarrow>
     (\<exists>c w1 ds. l w = Some (Ret c, w1) \<and> loads ls w1 ds w' \<and> cs = c # ds)"

lemma ConfigVia_loads:
  assumes "merges merge" and "ConfigVia merge ls c w = Some (Ret config, w')"
  shows "\<exists>cs. loads ls w cs w' \<and> config = foldl fill c (List.map_filter (\<lambda>x. x) cs)"
  using assms(2)
proof (induction ls arbitrary: c w)
  case (Cons l ls)
  then obtain x w1 where l: "l w = Some (Ret x, w1)"
    and rest: "(case merge c x of Panic \<Rightarrow> panic | Ret c' \<Rightarrow> ConfigVia merge ls c') w1 = Some (Ret config, w')"
    by (auto simp: bnd_Ret_iff)
  define c1 where "c1 = (case x of None \<Rightarrow> c | Some d \<Rightarrow> fill c d)"
  have "merge c x = Ret c1 \<or> merge c x = Panic"
    using assms(1) by (cases x) (auto simp: merges_def c1_def)
  with rest have "ConfigVia merge ls c1 w1 = Some (Ret config, w')" by auto
  from Cons.IH [OF this] obtain ds where ds: "loads ls w1 ds w'" "config = foldl fill c1 (List.map_filter (\<lambda>x. x) ds)" by blast
  then have "config = foldl fill c (List.map_filter (\<lambda>x. x) (x # ds))"
    by (cases x) (simp_all add: c1_def List.map_filter_simps)
  with l ds(1) show ?case by fastforce
qed (simp add: List.map_filter_simps)

text \<open>What the file and the metadata server contribute, in the states in which they are read.\<close>

definition file_source :: "(string \<Rightarrow> Config \<times> error option) \<Rightarrow> string \<Rightarrow> os_error + node \<Rightarrow> 'x os \<Rightarrow> Config list \<Rightarrow> 'x os \<Rightarrow> bool" where
  "file_source unmarshal filename info w cs w' \<longleftrightarrow>
     (case info of
        Inr (File content) \<Rightarrow>
          (\<exists>r. ReadFile filename w = Some (Ret r, w') \<and>
            cs = (case r of Inl e \<Rightarrow> [] | Inr data \<Rightarrow> [fst (unmarshal data)]))
      | _ \<Rightarrow> cs = [] \<and> w' = w)"

definition server_source :: "'w MetadataService \<Rightarrow> bool \<Rightarrow> 'w \<Rightarrow> Config list \<Rightarrow> 'w \<Rightarrow> bool" where
  "server_source md active w cs w' \<longleftrightarrow>
     (if active then
        (\<exists>ak sk st region zone w1 w2.
           md_Credential md w = Some (Ret (ak, sk, st), w1) \<and> md_Region md w1 = Some (Ret region, w2) \<and>
           md_Zone md w2 = Some (Ret zone, w') \<and>
           cs = [\<lparr>AccessKeyId = ak, SecretAccessKey = sk, SessionToken = st, AssumeRoleName = [],
             Region = region, Zone = zone, Host = []\<rparr>])
      else cs = [] \<and> w' = w)"

lemma loads_append:
  "loads (ls @ ks) w cs w' \<longleftrightarrow> (\<exists>ds es w1. loads ls w ds w1 \<and> loads ks w1 es w' \<and> cs = ds @ es)"
  by (induction ls arbitrary: w cs) fastforce+

lemma loads_file:
  "loads (case info of Inr (File c) \<Rightarrow> [FileLoader unmarshal f] | _ \<Rightarrow> []) w cs w' \<Longrightarrow>
     file_source unmarshal f info w (List.map_filter (\<lambda>x. x) cs) w'"
  by (auto simp: file_source_def FileLoader_def bnd_Ret_iff List.map_filter_simps split: sum.splits node.splits)

lemma loads_server:
  "loads (if active then [ServerLoader md] else []) w cs w' \<Longrightarrow> server_source md active w (List.map_filter (\<lambda>x. x) cs) w'"
  by (auto simp: server_source_def ServerLoader_def bnd_Ret_iff List.map_filter_simps split: if_splits prod.splits)

text \<open>C32: The order of the configuration sources decides. When the plugins load their configuration, every
  one of its seven fields is the first non-empty value of: the environment (its VOLC_ variables; it has no
  session token); the configuration file, if it was a regular file when it was looked for and can be read, as
  decoded at the time of reading; the metadata server, if it was reachable, with what it answers after
  that. What is assumed is \<open>mergo\<close>'s documented rule for two structures.\<close>

theorem config_precedence:
  assumes "merges merge" and "loadOpenapiConfig merge getenv unmarshal file_name md w = Some (Ret config, w')"
  shows "\<exists>info w1 active w2 from_file w3 from_server.
    Stat file_name w = Some (Ret info, w1) \<and> md_Active md w1 = Some (Ret active, w2) \<and>
    file_source unmarshal file_name info w2 from_file w3 \<and> server_source md active w3 from_server w' \<and>
    config =
      \<lparr>AccessKeyId = first_set (getenv ''VOLC_ACCESSKEYID'' # map AccessKeyId (from_file @ from_server)),
       SecretAccessKey = first_set (getenv ''VOLC_SECRETACCESSKEY'' # map SecretAccessKey (from_file @ from_server)),
       SessionToken = first_set (map SessionToken (from_file @ from_server)),
       AssumeRoleName = first_set (getenv ''VOLC_ASSUMEROLENAME'' # map AssumeRoleName (from_file @ from_server)),
       Region = first_set (getenv ''VOLC_REGION'' # map Region (from_file @ from_server)),
       Zone = first_set (getenv ''VOLC_ZONE'' # map Zone (from_file @ from_server)),
       Host = first_set (getenv ''VOLC_HOST'' # map Host (from_file @ from_server))\<rparr>"
proof -
  from assms(2) obtain info w1 active w2 where info: "Stat file_name w = Some (Ret info, w1)"
    and active: "md_Active md w1 = Some (Ret active, w2)"
    and via: "ConfigVia merge ([EnvLoader getenv] @
        (case info of Inr (File _) \<Rightarrow> [FileLoader unmarshal file_name] | _ \<Rightarrow> []) @
        (if active then [ServerLoader md] else [])) zero_Config w2 = Some (Ret config, w')"
    unfolding loadOpenapiConfig_def bnd_Ret_iff by blast
  from ConfigVia_loads [OF assms(1) via] obtain env fs ss w3 w4 where env: "loads [EnvLoader getenv] w2 env w3"
    and loads: "loads (case info of Inr (File _) \<Rightarrow> [FileLoader unmarshal file_name] | _ \<Rightarrow> []) w3 fs w4"
      "loads (if active then [ServerLoader md] else []) w4 ss w'"
    and config: "config = first_of (List.map_filter (\<lambda>x. x) (env @ fs @ ss))"
    unfolding loads_append foldl_fill first_of_zero by blast
  have split: "List.map_filter (\<lambda>x. x) (xs @ ys) = List.map_filter (\<lambda>x. x) xs @ List.map_filter (\<lambda>x. x) ys" for xs ys :: "Config option list"
    by (simp add: List.map_filter_def)
  have "w3 = w2" and "\<exists>e. EnvLoader getenv w2 = Some (Ret (Some e), w2) \<and> env = [Some e]"
    using env by (auto simp: EnvLoader_def)
  then obtain e where e: "EnvLoader getenv w2 = Some (Ret (Some e), w2)" "env = [Some e]" by blast
  let ?f = "List.map_filter (\<lambda>x. x) fs"
  let ?s = "List.map_filter (\<lambda>x. x) ss"
  have env_config: "AccessKeyId e = getenv ''VOLC_ACCESSKEYID''" "SecretAccessKey e = getenv ''VOLC_SECRETACCESSKEY''"
    "SessionToken e = []" "AssumeRoleName e = getenv ''VOLC_ASSUMEROLENAME''" "Region e = getenv ''VOLC_REGION''"
    "Zone e = getenv ''VOLC_ZONE''" "Host e = getenv ''VOLC_HOST''"
    using e(1) by (auto simp: EnvLoader_def)
  have "config = first_of (e # ?f @ ?s)"
    using config by (simp add: e(2) split List.map_filter_simps)
  then have fields: "config =
      \<lparr>AccessKeyId = first_set (getenv ''VOLC_ACCESSKEYID'' # map AccessKeyId (?f @ ?s)),
       SecretAccessKey = first_set (getenv ''VOLC_SECRETACCESSKEY'' # map SecretAccessKey (?f @ ?s)),
       SessionToken = first_set (map SessionToken (?f @ ?s)),
       AssumeRoleName = first_set (getenv ''VOLC_ASSUMEROLENAME'' # map AssumeRoleName (?f @ ?s)),
       Region = first_set (getenv ''VOLC_REGION'' # map Region (?f @ ?s)),
       Zone = first_set (getenv ''VOLC_ZONE'' # map Zone (?f @ ?s)),
       Host = first_set (getenv ''VOLC_HOST'' # map Host (?f @ ?s))\<rparr>"
    using env_config by (simp add: first_of_def del: first_set.simps(2))
  show ?thesis
    by (intro exI conjI, rule info, rule active, rule loads_file [OF loads(1) [unfolded \<open>w3 = w2\<close>]],
        rule loads_server [OF loads(2)], rule fields)
qed

text \<open>A machine with a configuration file, whose metadata server answers; the host is set by the environment.\<close>

definition config_machine :: machine where
  "config_machine = \<lparr>store = [(([], [''volc.yaml'']), File ''text'')], mtab = [], faults = (\<lambda>_. None),
     fs_sizes = (\<lambda>_. \<lparr>Bavail = 0, Bsize = 0, Blocks = 0, Bfree = 0, Files = 0, Ffree = 0\<rparr>)\<rparr>"

definition config_net :: "'w net" where
  "config_net = \<lparr>http_Get = (\<lambda>url w. (Inr (Inr url), w)), dial_host = (\<lambda>_ w. (None, w)), url_host = (\<lambda>_. Inr ''md'')\<rparr>"

theorem config_precedence_witness:
  "\<exists>config w'. loadOpenapiConfig (\<lambda>c d. Ret (case d of None \<Rightarrow> c | Some e \<Rightarrow> fill c e))
      (\<lambda>v. if v = ''VOLC_HOST'' then ''a'' else []) (\<lambda>data. (zero_Config\<lparr>Host := data, Zone := data\<rparr>, None)) ''/volc.yaml''
      (NewECSMetadataService config_net ''http://md'') config_machine = Some (Ret config, w') \<and>
     config = zero_Config\<lparr>Host := ''a'', Zone := ''text'', Region := ''http://md/region_id''\<rparr>"
proof -
  let ?run = "loadOpenapiConfig (\<lambda>c d. Ret (case d of None \<Rightarrow> c | Some e \<Rightarrow> fill c e))
      (\<lambda>v. if v = ''VOLC_HOST'' then ''a'' else []) (\<lambda>data. (zero_Config\<lparr>Host := data, Zone := data\<rparr>, None)) ''/volc.yaml''
      (NewECSMetadataService config_net ''http://md'') config_machine"
  have "(case ?run of Some (Ret c, w') \<Rightarrow> True | _ \<Rightarrow> False)" by code_simp
  then obtain config w' where run: "?run = Some (Ret config, w')"
    by (auto split: option.splits prod.splits outcome.splits)
  have "merges (\<lambda>c d. Ret (case d of None \<Rightarrow> c | Some e \<Rightarrow> fill c e))" by (simp add: merges_def)
  from config_precedence [OF this run] obtain info w1 active w2 from_file w3 from_server where
    info: "Stat ''/volc.yaml'' config_machine = Some (Ret info, w1)"
    and active: "md_Active (NewECSMetadataService config_net ''http://md'') w1 = Some (Ret active, w2)"
    and fs: "file_source (\<lambda>data. (zero_Config\<lparr>Host := data, Zone := data\<rparr>, None)) ''/volc.yaml'' info w2 from_file w3"
    and ss: "server_source (NewECSMetadataService config_net ''http://md'') active w3 from_server w'"
    and config: "config = first_of ([zero_Config\<lparr>Host := ''a''\<rparr>] @ from_file @ from_server)"
    by (auto simp: first_of_def zero_Config_def)
  have quiet: "faults config_machine i = None" "mtab config_machine = []" for i by (simp_all add: config_machine_def)
  have there: "stat_node u (comps ''/volc.yaml'') = Inr (File ''text'')" if "store u = store config_machine" "mtab u = []" for u :: machine
  proof -
    have "comps ''/volc.yaml'' = [''volc.yaml'']" by code_simp
    then show ?thesis using that by (simp add: stat_node_def follow.simps [of 255] node_at_def loc_def config_machine_def)
  qed
  have i: "info = Inr (File ''text'')" "store w1 = store config_machine" "mtab w1 = []" "\<And>i. faults w1 i = None"
    using info there [of "next_fault config_machine"] quiet by (auto simp: Stat_def sys_def next_fault_def)
  have a: "active = True" "w2 = w1" using active by (auto simp: NewECSMetadataService_def ecs_Active_def config_net_def bnd_def)
  have f: "from_file = [zero_Config\<lparr>Host := ''text'', Zone := ''text''\<rparr>]"
    using fs i a(2) there [of "next_fault w1"] by (auto simp: file_source_def ReadFile_def sys_def next_fault_def)
  have "from_server = [zero_Config\<lparr>Region := ''http://md/region_id'', Zone := ''http://md/availability_zone''\<rparr>]"
    using ss a(1) by (auto simp: server_source_def NewECSMetadataService_def ecs_get_def HttpGet_def config_net_def bnd_def zero_Config_def)
  then show ?thesis using run by (simp add: config f first_of_def zero_Config_def)
qed

end
