(* ===== verification/Nas.thy ===== *)
theory Nas
  imports CSI_Common Config_Load Util
begin

text \<open>
  \<open>pkg/nas\<close>: the NAS plugin. \<open>utils.go\<close> (mount options, NFS paths, mounting with the
  creation of a missing sub-directory), the controller and node servers and the driver.
  \<open>util.DefaultMounter\<close> and the programs it runs are the \<open>host\<close> parameter \<open>h\<close>; the
  Kubernetes client and the clock are the record \<open>nas_env\<close>.
\<close>

section \<open>Driver\<close>

record nas_Driver =
  nas_csi :: CSIDriver
  nas_Config :: "Config option"

definition nas_DefaultDriverName :: string where
  "nas_DefaultDriverName = ''nas.csi.volcengine.com''"

definition TempMntPath :: string where "TempMntPath = ''/mnt/ecs_mnt/k8s_nas/temp''"

definition MntRootPath :: string where "MntRootPath = ''/csi-persistentvolumes''"

definition VCIInstanceRoleForVKE :: string where "VCIInstanceRoleForVKE = ''VCIInstanceRoleForVKE''"

definition nas_NewDriver :: "string \<Rightarrow> string \<Rightarrow> string \<Rightarrow> Config option \<Rightarrow> nas_Driver" where
  "nas_NewDriver name version nodeId config =
     (let d0 = zero_CSIDriver\<lparr>Name := nas_DefaultDriverName\<rparr>;
          d1 = (if name \<noteq> [] then d0\<lparr>Name := name\<rparr> else d0);
          d2 = d1\<lparr>Version := version, NodeID := nodeId\<rparr>;
          d3 = AddVolumeCapabilityAccessModes
                 [SINGLE_NODE_WRITER, SINGLE_NODE_READER_ONLY, MULTI_NODE_READER_ONLY,
                  MULTI_NODE_SINGLE_WRITER, MULTI_NODE_MULTI_WRITER] d2;
          d4 = AddControllerServiceCapabilities [CREATE_DELETE_VOLUME, CS_EXPAND_VOLUME] d3;
          d5 = AddNodeServiceCapabilities [GET_VOLUME_STATS, NS_UNKNOWN] d4
      in \<lparr>nas_csi = d5, nas_Config = config\<rparr>)"

section \<open>The identity server\<close>

definition nas_GetPluginInfo :: "nas_Driver \<Rightarrow> error + string \<times> string" where
  "nas_GetPluginInfo d =
     (if Name (nas_csi d) = [] then Inl (StatusError Unavailable ''Plugin name is not configured'')
      else if Version (nas_csi d) = [] then Inl (StatusError Unavailable ''Plugin version is not configured'')
      else Inr (Name (nas_csi d), Version (nas_csi d)))"

definition nas_Probe :: "error + bool" where
  "nas_Probe = Inr True"

definition nas_GetPluginCapabilities :: "error + plugin_service list" where
  "nas_GetPluginCapabilities = Inr [CONTROLLER_SERVICE]"

section \<open>Options and paths\<close>

definition valid_nfs_version :: "string \<Rightarrow> bool" where
  "valid_nfs_version v \<longleftrightarrow> v \<in> {''3'', ''4'', ''4.0'', ''4.1'', ''4.2''}"

definition parseMountOptions :: "string list \<Rightarrow> string \<times> string" where
  "parseMountOptions mntOptions =
     (if mntOptions \<noteq> [] then
        (let opts = split_char CHR '','' (join '','' mntOptions);
             (nfsVers, rest) = foldl (\<lambda>(v, acc) x.
               if HasPrefix x ''vers='' then (drop 5 x, acc) else (v, acc @ [x])) ([], []) opts
         in (if valid_nfs_version nfsVers then nfsVers else ''3'', join '','' rest))
      else ([], []))"

definition getNfsPathDetail :: "string \<Rightarrow> string \<times> string" where
  "getNfsPathDetail nfsPath =
     (case split_char CHR ''/'' nfsPath of
        [_, x] \<Rightarrow> (x, [])
      | _ # x # y # ys \<Rightarrow> (x, CHR ''/'' # join ''/'' (y # ys))
      | _ \<Rightarrow> ([], []))"

record nasVolumeArgs =
  na_VolumeAs :: string
  na_Server :: string
  na_FsID :: string
  na_SubPath :: string
  na_ArchiveOnDelete :: string

definition clean_sub_path :: "string \<Rightarrow> string" where
  "clean_sub_path sub =
     (let s = (if sub \<noteq> [] \<and> \<not> HasPrefix sub ''/'' then CHR ''/'' # sub else sub)
      in if HasSuffix s ''/'' then take (length s - 1) s else s)"

definition getNasVolumeArgs :: "attributes \<Rightarrow> error + nasVolumeArgs" where
  "getNasVolumeArgs volParameters =
     (let volumeAs = (case volParameters ''volumeAs'' of None \<Rightarrow> ''subpath'' | Some v \<Rightarrow> v)
      in if volumeAs \<noteq> ''subpath'' then
           Inl (PlainError ''required parameter [parameter.volumeAs] must be [subpath]'')
         else
           (let archive = (case volParameters ''archiveOnDelete'' of None \<Rightarrow> ''true'' | Some v \<Rightarrow> v);
                server = attr volParameters ''server'';
                fsId = attr volParameters ''fsId''
            in if server = [] then Inl (PlainError ''server can not be empty'')
               else if Contains fsId ''/'' then Inl (PlainError ''fsId can not contain /'')
               else Inr \<lparr>na_VolumeAs = volumeAs, na_Server = server, na_FsID = fsId,
                 na_SubPath = clean_sub_path (attr volParameters ''subPath''), na_ArchiveOnDelete = archive\<rparr>))"

section \<open>Mounting\<close>

definition isNfsPathMounted :: "'w host \<Rightarrow> string \<Rightarrow> string \<Rightarrow> ('w, bool) go" where
  "isNfsPathMounted h mountPoint path =
     bnd (call (exec_output h [''grep'', mountPoint, ''/proc/mounts''])) (\<lambda>(err, out).
     ret (err = None \<and> Contains (TrimSpace out) path))"

definition nfs_options :: "string \<Rightarrow> string \<Rightarrow> string list" where
  "nfs_options nfsVers opts =
     (''vers='' @ nfsVers) # (if opts \<noteq> [] then split_char CHR '','' opts else [])"

definition createNasSubDir ::
  "'x os host \<Rightarrow> string \<Rightarrow> string \<Rightarrow> string \<Rightarrow> string \<Rightarrow> string \<Rightarrow> string \<Rightarrow> ('x os, error + unit) go" where
  "createNasSubDir h nfsServer fsId subPath nfsVers nfsOptions volumeID =
     (let nasTmpPath = path_join [TempMntPath, volumeID];
          source = nfsServer @ '':'' @ ''/'' @ fsId
      in bndE (CreateDest nasTmpPath) (\<lambda>e. e) (\<lambda>_.
         bnd (call (mnt_IsLikelyNotMountPoint h nasTmpPath)) (\<lambda>(notMnt, _).
         bndE (if \<not> notMnt then bnd_err (mnt_Unmount h nasTmpPath) (\<lambda>e. e) (ret (Inr ())) else ret (Inr ()))
           (\<lambda>e. e) (\<lambda>_.
         bnd_err (mnt_Mount h source nasTmpPath ''nfs'' (nfs_options nfsVers nfsOptions)) (\<lambda>e. e)
           (bndE (CreateDest (path_join [nasTmpPath, subPath])) (\<lambda>e. e) (\<lambda>_.
            bnd_err (mnt_Unmount h nasTmpPath) (\<lambda>e. e) (ret (Inr ()))))))))"

definition doNfsMount ::
  "'x os host \<Rightarrow> string \<Rightarrow> string \<Rightarrow> string \<Rightarrow> string \<Rightarrow> string \<Rightarrow> string \<Rightarrow> string \<Rightarrow> ('x os, error + unit) go" where
  "doNfsMount h nfsServer fsId subPath nfsVers mountOptions mountPoint volumeID =
     bnd (IsFileExisting mountPoint) (\<lambda>exists.
     bndE (if exists then ret (Inr ()) else bnd_os (MkdirAll mountPoint) (\<lambda>e. e) (\<lambda>_. ret (Inr ())))
       (\<lambda>e. e) (\<lambda>_.
     let nfsPath = path_join [''/'' @ fsId, subPath];
         options = nfs_options nfsVers mountOptions;
         source = nfsServer @ '':'' @ nfsPath
     in bnd (isNfsPathMounted h mountPoint nfsPath) (\<lambda>mounted.
        if mounted then ret (Inr ())
        else
          bnd (call (mnt_Mount h source mountPoint ''nfs'' options)) (\<lambda>err.
          case err of
            None \<Rightarrow> ret (Inr ())
          | Some e \<Rightarrow>
            if nfsPath \<noteq> ''/'' then
              bndE (createNasSubDir h nfsServer fsId subPath nfsVers mountOptions volumeID) (\<lambda>e. e) (\<lambda>_.
              bnd_err (mnt_Mount h source mountPoint ''nfs'' options) (\<lambda>e. e) (ret (Inr ())))
            else ret (Inl e)))))"

section \<open>CreateVolume\<close>

text \<open>The type assertion on each capability panics on anything but a mount.\<close>

fun capability_flags :: "volume_capability list \<Rightarrow> ('w, string list) go" where
  "capability_flags [] = ret []"
| "capability_flags (c # cs) =
     bnd (deref (get_mount c)) (\<lambda>m.
     bnd (capability_flags cs) (\<lambda>rest.
     ret (MountFlags m @ rest)))"

definition nas_internal :: "string \<Rightarrow> error \<Rightarrow> error" where
  "nas_internal what e = StatusError Internal (what @ '', with error: '' @ error_text e)"

text \<open>The error of a failed mount; \<open>place\<close> is how the caller names the NFS path.\<close>

definition nas_mount_error ::
  "string \<Rightarrow> string \<Rightarrow> string \<Rightarrow> string \<Rightarrow> string \<Rightarrow> string \<Rightarrow> error \<Rightarrow> error" where
  "nas_mount_error what server place nfsVersion nfsOptions mountPoint =
     nas_internal (what @ '', Mount server: '' @ server @ '', '' @ place @ '', nfsVersion: '' @ nfsVersion @
       '', nfsOptions: '' @ nfsOptions @ '', mountPoint: '' @ mountPoint)"

definition provision_dir ::
  "'x os host \<Rightarrow> nasVolumeArgs \<Rightarrow> string \<Rightarrow> string \<Rightarrow> string \<Rightarrow> ('x os, error + unit) go" where
  "provision_dir h args nfsVersion nfsOptionsStr pvName =
     (let mountPoint = path_join [MntRootPath, pvName];
          fullPath = path_join [mountPoint, pvName]
      in bndE (doNfsMount h (na_Server args) (na_FsID args) (na_SubPath args) nfsVersion nfsOptionsStr mountPoint pvName)
           (nas_mount_error (''CreateVolume: '' @ pvName) (na_Server args)
             (''fsId: '' @ na_FsID args @ '', subPath: '' @ na_SubPath args) nfsVersion nfsOptionsStr mountPoint) (\<lambda>_.
         bnd (MkdirAll fullPath) (\<lambda>r.
         case r of
           Inl e \<Rightarrow>
             bnd (call (mnt_Unmount h mountPoint)) (\<lambda>_.
             ret (Inl (nas_internal (''Provision: '' @ pvName @ '', creating path: '' @ fullPath) (os_err e))))
         | Inr _ \<Rightarrow>
             bnd_err (mnt_Unmount h mountPoint)
               (\<lambda>e. StatusError Internal (''Provision: '' @ pvName @ '', unmount nfs mountpoint '' @ mountPoint @
                 '' failed with error '' @ error_text e)) (ret (Inr ())))))"

definition nas_CreateVolume ::
  "nas_Driver \<Rightarrow> 'x os host \<Rightarrow> create_volume_request \<Rightarrow> ('x os, error + csi_volume) go" where
  "nas_CreateVolume d h req =
     (let pvName = cv_Name req
      in bnd (capability_flags (cv_VolumeCapabilities req)) (\<lambda>nfsOptions.
         let (v, nfsOptionsStr) = parseMountOptions nfsOptions;
             nfsVersion = (if v = [] then ''3'' else v)
         in case getNasVolumeArgs (cv_Parameters req) of
              Inl e \<Rightarrow> fails InvalidArgument
                (''Invalid parameters from input: '' @ pvName @ '', with error: '' @ error_text e)
            | Inr args \<Rightarrow>
                if na_VolumeAs args = ''subpath'' then
                  bnd (deref (nas_Config d)) (\<lambda>config.
                  bndE (if AssumeRoleName config \<noteq> VCIInstanceRoleForVKE
                        then provision_dir h args nfsVersion nfsOptionsStr pvName else ret (Inr ())) (\<lambda>e. e) (\<lambda>_.
                  ret (Inr \<lparr>VolumeId = pvName, CapacityBytes = get_required_bytes (cv_CapacityRange req),
                    VolumeContext = [''archiveOnDelete'' \<mapsto> na_ArchiveOnDelete args,
                      ''volumeAs'' \<mapsto> na_VolumeAs args,
                      ''path'' \<mapsto> path_join [path_join [''/'' @ na_FsID args, na_SubPath args], pvName],
                      ''server'' \<mapsto> na_Server args, ''fsId'' \<mapsto> na_FsID args],
                    ContentSource = None, AccessibleTopology = []\<rparr>)))
                else fails Unimplemented (''CreateVolume: volumeAs should be set as subpath: '' @ na_VolumeAs args)))"

section \<open>DeleteVolume\<close>

record persistent_volume =
  pv_MountOptions :: "string list"
  pv_Attributes :: "attributes option"  \<comment> \<open>of \<open>Spec.CSI\<close>, which may be nil\<close>
  pv_StorageClassName :: string

record 'w nas_env =
  get_pv :: "string \<Rightarrow> 'w \<Rightarrow> (error + persistent_volume) \<times> 'w"
  now_stamp :: "'w \<Rightarrow> string"  \<comment> \<open>\<open>time.Now().Format(".2006-01-02-15:04:05")\<close>\<close>

text \<open>\<open>strconv.ParseBool\<close>.\<close>

definition ParseBool :: "string \<Rightarrow> bool option" where
  "ParseBool s =
     (if s \<in> {''1'', ''t'', ''T'', ''TRUE'', ''true'', ''True''} then Some True
      else if s \<in> {''0'', ''f'', ''F'', ''FALSE'', ''false'', ''False''} then Some False else None)"

text \<open>\<open>defer c\<close> right before \<open>m\<close>: \<open>c\<close> runs when \<open>m\<close> ends, by a panic too.\<close>

definition with_defer :: "('w \<Rightarrow> 'b \<times> 'w) \<Rightarrow> ('w, 'a) go \<Rightarrow> ('w, 'a) go" where
  "with_defer c m w = (case m w of None \<Rightarrow> None | Some (r, w') \<Rightarrow> Some (r, snd (c w')))"

definition archive_or_remove ::
  "('x os) nas_env \<Rightarrow> string \<Rightarrow> string option \<Rightarrow> string \<Rightarrow> string \<Rightarrow> ('x os, error + unit) go" where
  "archive_or_remove env volumeId archiveOnDelete mountPoint pvName =
     (let deletePath = path_join [mountPoint, pvName];
          archive = (\<lambda>w. let archivePath = path_join [mountPoint, ''archived-'' @ pvName @ now_stamp env w]
            in bnd_os (Rename deletePath archivePath)
                 (\<lambda>e. StatusError Internal (''Delete Failed: Volume '' @ volumeId @ '', archiving path '' @ deletePath @
                   '' to '' @ archivePath @ '' with error: '' @ error_text e))
                 (\<lambda>_. ret (Inr ())) w)
      in bnd (Stat deletePath) (\<lambda>st.
         if st = Inl NotExist then ret (Inr ())
         else case archiveOnDelete of
           None \<Rightarrow> archive
         | Some a \<Rightarrow>
           (case ParseBool a of
              None \<Rightarrow> fails Internal (''archiveOnDelete '' @ a @ '' format error: strconv.ParseBool: parsing '' @ quoted a @ '': invalid syntax'')
            | Some True \<Rightarrow> archive
            | Some False \<Rightarrow>
                bnd_os (RemoveAll deletePath)
                  (\<lambda>e. StatusError Internal (''volume '' @ volumeId @ '' remove path '' @ deletePath @ '' error: '' @ error_text e))
                  (\<lambda>_. ret (Inr ())))))"

definition delete_sub_path ::
  "'x os host \<Rightarrow> ('x os) nas_env \<Rightarrow> string \<Rightarrow> string \<Rightarrow> string \<Rightarrow> string \<Rightarrow> string option \<Rightarrow> ('x os, error + unit) go" where
  "delete_sub_path h env volumeId nfsServer path0 nfsOptions archiveOnDelete =
     (if path0 = ''/'' \<or> path0 = [] then
        fails FailedPrecondition ''pvPath cannot be / or empty in subpath mode''
      else
        (let pvPath = TrimSuffix path0 ''/'';
             pvName = Base pvPath;
             pos = LastIndexChar pvPath CHR ''/''
         in if pos < 0 then panic
            else
              (let p = take (nat pos) pvPath;
                   nfsPath = (if p = [] then ''/'' else p);
                   (fsId, subPath) = getNfsPathDetail nfsPath;
                   mountPoint = path_join [MntRootPath, volumeId @ ''-delete'']
               in bndE (doNfsMount h nfsServer fsId subPath ''3'' nfsOptions mountPoint volumeId)
                    (nas_mount_error (''DeleteVolume: '' @ volumeId) nfsServer (''nfsPath: '' @ nfsPath) ''3'' nfsOptions mountPoint) (\<lambda>_.
                  with_defer (mnt_Unmount h mountPoint)
                    (archive_or_remove env volumeId archiveOnDelete mountPoint pvName)))))"

definition nas_DeleteVolume ::
  "nas_Driver \<Rightarrow> 'x os host \<Rightarrow> ('x os) nas_env \<Rightarrow> string \<Rightarrow> ('x os, error + unit) go" where
  "nas_DeleteVolume d h env volumeId =
     bnd (deref (nas_Config d)) (\<lambda>config.
     if AssumeRoleName config = VCIInstanceRoleForVKE then ret (Inr ())
     else
       bnd (call (get_pv env volumeId)) (\<lambda>r.
       case r of
         Inl e \<Rightarrow> fails FailedPrecondition (''get pv '' @ volumeId @ '' from cluster error: '' @ error_text e)
       | Inr pv \<Rightarrow>
         (case pv_Attributes pv of
            None \<Rightarrow> fails FailedPrecondition (''CSI in volume '' @ volumeId @ '' is nil'')
          | Some attrs \<Rightarrow>
            (let volumeAs = (case attrs ''volumeAs'' of None \<Rightarrow> ''subpath'' | Some v \<Rightarrow> v)
             in case attrs ''server'' of
                  None \<Rightarrow> fails FailedPrecondition (''nfs server in volume '' @ volumeId @ '' is empty'')
                | Some nfsServer \<Rightarrow>
                  (case attrs ''path'' of
                     None \<Rightarrow> fails FailedPrecondition (''nfs server in volume '' @ volumeId @ '' is empty'')
                   | Some pvPath \<Rightarrow>
                     if pv_StorageClassName pv = [] then
                       fails FailedPrecondition (''storageclass in volume '' @ volumeId @ '' is empty'')
                     else if volumeAs = ''subpath'' then
                       delete_sub_path h env volumeId nfsServer pvPath (join '','' (pv_MountOptions pv))
                         (attrs ''archiveOnDelete'')
                     else ret (Inr ()))))))"

section \<open>The rest of the controller\<close>

definition nas_ValidateVolumeCapabilities :: "validate_request \<Rightarrow> error + confirmed option" where
  "nas_ValidateVolumeCapabilities req =
     (if vc_VolumeId req = [] then Inl (StatusError InvalidArgument ''volume id cannot be empty'')
      else if vc_VolumeCapabilities req = [] then
        Inl (StatusError InvalidArgument ''capabilities of request cannot be empty'')
      else if list_ex (\<lambda>c. get_mode c \<noteq> MULTI_NODE_MULTI_WRITER) (vc_VolumeCapabilities req) then Inr None
      else Inr (Some \<lparr>cf_VolumeContext = vc_VolumeContext req, cf_VolumeCapabilities = vc_VolumeCapabilities req,
        cf_Parameters = vc_Parameters req\<rparr>))"

definition nas_ControllerGetCapabilities :: "nas_Driver \<Rightarrow> error + controller_rpc list" where
  "nas_ControllerGetCapabilities d = Inr (CSCap (nas_csi d))"

text \<open>ControllerPublishVolume, ControllerUnpublishVolume, ListVolumes, GetCapacity, the
  snapshot calls, ControllerExpandVolume and ControllerGetVolume are one answer.\<close>

definition nas_unimplemented :: "error + unit" where
  "nas_unimplemented = Inl (StatusError Unimplemented [])"

section \<open>The node server\<close>

definition nas_NodePublishVolume :: "'x os host \<Rightarrow> node_publish_request \<Rightarrow> ('x os, error + unit) go" where
  "nas_NodePublishVolume h req =
     (let targetPath = np_TargetPath req
      in if np_VolumeId req = [] then fails InvalidArgument ''volume id missing in request''
      else if targetPath = [] then fails InvalidArgument ''target volumePath missing in request''
      else case np_VolumeCapability req of
        None \<Rightarrow> fails InvalidArgument ''volume capability missing in request''
      | Some cap \<Rightarrow>
        bnd (call (mnt_IsLikelyNotMountPoint h targetPath)) (\<lambda>(notMnt0, err).
        bndE (case err of
            None \<Rightarrow> ret (Inr notMnt0)
          | Some NotExist \<Rightarrow>
              bnd_os (MkdirAll targetPath) (\<lambda>e. StatusError Internal (''mkdir targetPath err '' @ error_text e))
                (\<lambda>_. ret (Inr True))
          | Some (OtherErr e) \<Rightarrow> fails Internal (''check targetPath mounted err: '' @ e)) (\<lambda>e. e) (\<lambda>notMnt.
        if \<not> notMnt then ret (Inr ())
        else
          (let mountOptions = get_mount_flags (get_mount cap) @ (if np_Readonly req then [''ro''] else []);
               (v, nfsOptionsStr) = parseMountOptions mountOptions;
               nfsVersion = (if v = [] then ''3'' else v);
               server = attr (np_VolumeContext req) ''server'';
               path0 = attr (np_VolumeContext req) ''path''
           in if path0 = [] then fails InvalidArgument ''path can not be empty''
              else
                (let nfsPath = (if path0 \<noteq> ''/'' \<and> HasSuffix path0 ''/'' then take (length path0 - 1) path0 else path0);
                     (fsId, subPath) = (if attr (np_VolumeContext req) ''fsId'' \<noteq> [] then getNfsPathDetail nfsPath
                       else ([], nfsPath))
                 in bndE (doNfsMount h server fsId subPath nfsVersion nfsOptionsStr targetPath (np_VolumeId req))
                      (nas_mount_error (''NodePublishVolume: '' @ np_VolumeId req) server (''nfsPath: '' @ nfsPath)
                        nfsVersion nfsOptionsStr targetPath) (\<lambda>_. ret (Inr ())))))))"

definition not_mounted_text :: "string \<Rightarrow> bool" where
  "not_mounted_text m \<longleftrightarrow> Contains m ''not mounted'' \<or> Contains m ''no mount point specified''"

definition nas_NodeUnpublishVolume :: "'w host \<Rightarrow> string \<Rightarrow> string \<Rightarrow> ('w, error + unit) go" where
  "nas_NodeUnpublishVolume h volumeId targetPath =
     (if volumeId = [] then fails InvalidArgument ''Volume ID missing in request''
      else if targetPath = [] then fails InvalidArgument ''Target path missing in request''
      else
        bnd (ForceUnmount h targetPath) (\<lambda>r.
        case r of
          Inr _ \<Rightarrow> ret (Inr ())
        | Inl e \<Rightarrow>
            if not_mounted_text (error_text e) then ret (Inr ())
            else fails Internal (''umount nas fail: '' @ error_text e)))"

definition nas_NodeGetVolumeStats :: "string \<Rightarrow> ('x os, error + volume_usage \<times> volume_usage) go" where
  "nas_NodeGetVolumeStats targetPath =
     (if targetPath = [] then fails InvalidArgument ''NodeGetVolumeStats targetpath  is empty''
      else GetMetrics targetPath)"

text \<open>NodeStageVolume, NodeUnstageVolume and NodeExpandVolume are \<open>nas_unimplemented\<close> too.\<close>

definition nas_NodeGetCapabilities :: "nas_Driver \<Rightarrow> error + node_rpc list" where
  "nas_NodeGetCapabilities d = Inr (NSCap (nas_csi d))"

definition nas_NodeGetInfo :: "nas_Driver \<Rightarrow> error + string" where
  "nas_NodeGetInfo d = Inr (NodeID (nas_csi d))"

end
