(* ===== verification/Go_JSON.thy ===== *)
theory Go_JSON
  imports Go_Strings "HOL-Library.List_Lexorder" "HOL-Library.Char_ord"
begin

text \<open>
  \<open>encoding/json\<close> as the TOS plugin and its launcher use it: \<open>json.Marshal\<close> of a
  \<open>map[string]string\<close> and \<open>json.Unmarshal\<close> of a request body into one. Text outside ASCII
  is passed through byte by byte (Go replaces what is not UTF-8).
\<close>

section \<open>Characters\<close>

definition hex_digit :: "nat \<Rightarrow> char" where
  "hex_digit n = char_of (if n < 10 then 48 + n else 87 + n)"

definition hex_value :: "char \<Rightarrow> nat option" where
  "hex_value c =
     (let n = (of_char c :: nat)
      in if 48 \<le> n \<and> n \<le> 57 then Some (n - 48)
         else if 97 \<le> n \<and> n \<le> 102 then Some (n - 87)
         else if 65 \<le> n \<and> n \<le> 70 then Some (n - 55)
         else None)"

definition hex4 :: "char \<Rightarrow> char \<Rightarrow> char \<Rightarrow> char \<Rightarrow> nat option" where
  "hex4 a b c d =
     (case (hex_value a, hex_value b, hex_value c, hex_value d) of
        (Some i, Some j, Some k, Some l) \<Rightarrow> Some (((i * 16 + j) * 16 + k) * 16 + l)
      | _ \<Rightarrow> None)"

definition utf8 :: "nat \<Rightarrow> string" where
  "utf8 n =
     (if n < 128 then [char_of n]
      else if n < 2048 then [char_of (192 + n div 64), char_of (128 + n mod 64)]
      else if n < 65536 then [char_of (224 + n div 4096), char_of (128 + n div 64 mod 64), char_of (128 + n mod 64)]
      else [char_of (240 + n div 262144), char_of (128 + n div 4096 mod 64), char_of (128 + n div 64 mod 64), char_of (128 + n mod 64)])"

definition is_surrogate :: "nat \<Rightarrow> bool" where
  "is_surrogate n \<longleftrightarrow> 55296 \<le> n \<and> n < 57344"

text \<open>\<open>utf16.DecodeRune\<close>: a high and a low surrogate.\<close>

definition surrogate_pair :: "nat \<Rightarrow> nat \<Rightarrow> nat option" where
  "surrogate_pair a b =
     (if 55296 \<le> a \<and> a < 56320 \<and> 56320 \<le> b \<and> b < 57344
      then Some ((a - 55296) * 1024 + (b - 56320) + 65536) else None)"

definition replacement_char :: nat where
  "replacement_char = 65533"

definition json_char :: "char \<Rightarrow> string" where
  "json_char c =
     (let n = (of_char c :: nat)
      in if n = 34 \<or> n = 92 then [CHR 92, c]
         else if n = 10 then [CHR 92, CHR ''n'']
         else if n = 13 then [CHR 92, CHR ''r'']
         else if n = 9 then [CHR 92, CHR ''t'']
         else if n < 32 \<or> n = 60 \<or> n = 62 \<or> n = 38 then
           [CHR 92, CHR ''u'', CHR ''0'', CHR ''0'', hex_digit (n div 16), hex_digit (n mod 16)]
         else [c])"

definition json_string :: "string \<Rightarrow> string" where
  "json_string s = CHR 34 # concat (map json_char s) @ [CHR 34]"

text \<open>\<open>json.Marshal\<close> of a map: its keys in order.\<close>

definition json_member :: "string \<times> string \<Rightarrow> string" where
  "json_member kv = json_string (fst kv) @ '':'' @ json_string (snd kv)"

definition Marshal_map :: "(string \<times> string) list \<Rightarrow> string" where
  "Marshal_map kvs = ''{'' @ join '','' (map json_member (sort_key fst kvs)) @ ''}''"

section \<open>Reading\<close>

datatype json = JNull | JBool bool | JNumber | JString string | JArray "json list" | JObject "(string \<times> json) list"

definition is_json_space :: "char \<Rightarrow> bool" where
  "is_json_space c \<longleftrightarrow> (of_char c :: nat) \<in> {32, 9, 10, 13}"

definition skip_ws :: "string \<Rightarrow> string" where
  "skip_ws s = dropWhile is_json_space s"

text \<open>After the opening quote: the text of the string and what follows its closing quote.\<close>

definition simple_escape :: "char \<Rightarrow> char option" where
  "simple_escape e =
     (let n = (of_char e :: nat)
      in if n = 34 \<or> n = 92 \<or> n = 47 then Some e
         else if e = CHR ''b'' then Some (CHR 8)
         else if e = CHR ''f'' then Some (CHR 12)
         else if e = CHR ''n'' then Some (CHR 10)
         else if e = CHR ''r'' then Some (CHR 13)
         else if e = CHR ''t'' then Some (CHR 9)
         else None)"

definition unit_escape :: "string \<Rightarrow> (nat \<times> string) option" where
  "unit_escape s =
     (case s of
        a # b # c # d # t \<Rightarrow> (case hex4 a b c d of Some n \<Rightarrow> Some (n, t) | None \<Rightarrow> None)
      | _ \<Rightarrow> None)"

text \<open>One \<open>\\u\<close> escape, or two that make a surrogate pair.\<close>

definition rune_escape :: "string \<Rightarrow> (string \<times> string) option" where
  "rune_escape s =
     (case unit_escape s of
        None \<Rightarrow> None
      | Some (n, t) \<Rightarrow>
          if \<not> is_surrogate n then Some (utf8 n, t)
          else
            (case (if HasPrefix t [CHR 92, CHR ''u''] then unit_escape (drop 2 t) else None) of
               None \<Rightarrow> Some (utf8 replacement_char, t)
             | Some (k, u) \<Rightarrow>
                 (case surrogate_pair n k of
                    Some r \<Rightarrow> Some (utf8 r, u)
                  | None \<Rightarrow> Some (utf8 replacement_char, t))))"

lemma unit_escape_shorter: "unit_escape s = Some (n, t) \<Longrightarrow> length t < length s"
  by (auto simp: unit_escape_def split: list.splits option.splits)

lemma rune_escape_shorter: "rune_escape s = Some (r, t) \<Longrightarrow> length t < length s"
proof -
  assume r: "rune_escape s = Some (r, t)"
  then obtain n u where u: "unit_escape s = Some (n, u)" by (auto simp: rune_escape_def split: option.splits)
  have "length t \<le> length u"
    using r u unit_escape_shorter [of "drop 2 u"]
    by (fastforce simp: rune_escape_def split: option.splits if_splits)
  with unit_escape_shorter [OF u] show ?thesis by simp
qed

function lex_string :: "string \<Rightarrow> (string \<times> string) option" where
  "lex_string s =
     (case s of
        [] \<Rightarrow> None
      | c # t \<Rightarrow>
          if (of_char c :: nat) = 34 then Some ([], t)
          else if (of_char c :: nat) < 32 then None
          else if (of_char c :: nat) \<noteq> 92 then
            (case lex_string t of None \<Rightarrow> None | Some (x, u) \<Rightarrow> Some (c # x, u))
          else
            (case t of
               [] \<Rightarrow> None
             | e # t2 \<Rightarrow>
                 if e = CHR ''u'' then
                   (case rune_escape t2 of
                      None \<Rightarrow> None
                    | Some (r, t3) \<Rightarrow>
                        (case lex_string t3 of None \<Rightarrow> None | Some (x, u) \<Rightarrow> Some (r @ x, u)))
                 else
                   (case simple_escape e of
                      None \<Rightarrow> None
                    | Some d \<Rightarrow>
                        (case lex_string t2 of None \<Rightarrow> None | Some (x, u) \<Rightarrow> Some (d # x, u)))))"
  by pat_completeness auto

termination
  by (relation "measure length") (auto dest: rune_escape_shorter)

declare lex_string.simps [simp del]

text \<open>A number, of which only the extent is kept.\<close>

definition is_digit :: "char \<Rightarrow> bool" where
  "is_digit c \<longleftrightarrow> digit_value c \<noteq> None"

definition digits1 :: "string \<Rightarrow> string option" where
  "digits1 s = (if s \<noteq> [] \<and> is_digit (hd s) then Some (dropWhile is_digit s) else None)"

definition lex_int :: "string \<Rightarrow> string option" where
  "lex_int s =
     (let t = (if HasPrefix s ''-'' then tl s else s)
      in if HasPrefix t ''0'' then Some (tl t) else digits1 t)"

definition lex_frac :: "string \<Rightarrow> string option" where
  "lex_frac s = (if HasPrefix s ''.'' then digits1 (tl s) else Some s)"

definition lex_exp :: "string \<Rightarrow> string option" where
  "lex_exp s =
     (if HasPrefix s ''e'' \<or> HasPrefix s ''E'' then
        (let t = tl s in digits1 (if HasPrefix t ''+'' \<or> HasPrefix t ''-'' then tl t else t))
      else Some s)"

definition lex_number :: "string \<Rightarrow> string option" where
  "lex_number s =
     (case lex_int s of None \<Rightarrow> None | Some t \<Rightarrow> (case lex_frac t of None \<Rightarrow> None | Some u \<Rightarrow> lex_exp u))"

text \<open>
  Values, with a fuel that every nested value and every further element takes one of: the
  length of the text is enough.
\<close>

definition lex_literal :: "string \<Rightarrow> (json \<times> string) option" where
  "lex_literal s =
     (if HasPrefix s ''null'' then Some (JNull, drop 4 s)
      else if HasPrefix s ''true'' then Some (JBool True, drop 4 s)
      else if HasPrefix s ''false'' then Some (JBool False, drop 5 s)
      else (case lex_number s of None \<Rightarrow> None | Some t \<Rightarrow> Some (JNumber, t)))"

fun parse_value :: "nat \<Rightarrow> string \<Rightarrow> (json \<times> string) option"
  and parse_elements :: "nat \<Rightarrow> string \<Rightarrow> (json list \<times> string) option"
  and parse_members :: "nat \<Rightarrow> string \<Rightarrow> ((string \<times> json) list \<times> string) option" where
  "parse_value 0 s = None"
| "parse_value (Suc n) s =
     (case skip_ws s of
        [] \<Rightarrow> None
      | c # t \<Rightarrow>
          if (of_char c :: nat) = 34 then
            (case lex_string t of None \<Rightarrow> None | Some (x, u) \<Rightarrow> Some (JString x, u))
          else if c = CHR ''{'' then
            (if HasPrefix (skip_ws t) ''}'' then Some (JObject [], tl (skip_ws t))
             else (case parse_members n t of None \<Rightarrow> None | Some (ms, u) \<Rightarrow> Some (JObject ms, u)))
          else if c = CHR ''['' then
            (if HasPrefix (skip_ws t) '']'' then Some (JArray [], tl (skip_ws t))
             else (case parse_elements n t of None \<Rightarrow> None | Some (vs, u) \<Rightarrow> Some (JArray vs, u)))
          else lex_literal (c # t))"
| "parse_elements 0 s = None"
| "parse_elements (Suc n) s =
     (case parse_value n s of
        None \<Rightarrow> None
      | Some (v, t) \<Rightarrow>
          (case skip_ws t of
             [] \<Rightarrow> None
           | c # u \<Rightarrow>
               if c = CHR '']'' then Some ([v], u)
               else if c = CHR '','' then
                 (case parse_elements n u of None \<Rightarrow> None | Some (vs, w) \<Rightarrow> Some (v # vs, w))
               else None))"
| "parse_members 0 s = None"
| "parse_members (Suc n) s =
     (if \<not> HasPrefix (skip_ws s) [CHR 34] then None
      else case lex_string (tl (skip_ws s)) of
        None \<Rightarrow> None
      | Some (k, t) \<Rightarrow>
          if \<not> HasPrefix (skip_ws t) '':'' then None
          else
            (case parse_value n (tl (skip_ws t)) of
               None \<Rightarrow> None
             | Some (v, u) \<Rightarrow>
                 (case skip_ws u of
                    [] \<Rightarrow> None
                  | c # w \<Rightarrow>
                      if c = CHR ''}'' then Some ([(k, v)], w)
                      else if c = CHR '','' then
                        (case parse_members n w of None \<Rightarrow> None | Some (ms, x) \<Rightarrow> Some ((k, v) # ms, x))
                      else None)))"

definition parse_json :: "string \<Rightarrow> json option" where
  "parse_json s =
     (case parse_value (Suc (length s)) s of
        Some (v, t) \<Rightarrow> (if skip_ws t = [] then Some v else None)
      | None \<Rightarrow> None)"

text \<open>
  \<open>json.Unmarshal\<close> into a nil \<open>map[string]string\<close>: a later member replaces an earlier one of
  the same key, null leaves the empty string, any other value is a type error.
\<close>

fun string_value :: "json \<Rightarrow> string option" where
  "string_value (JString s) = Some s"
| "string_value JNull = Some []"
| "string_value _ = None"

fun member_map :: "(string \<times> json) list \<Rightarrow> (string \<rightharpoonup> string) \<Rightarrow> (string \<rightharpoonup> string) option" where
  "member_map [] f = Some f"
| "member_map ((k, v) # ms) f =
     (case string_value v of None \<Rightarrow> None | Some x \<Rightarrow> member_map ms (f(k \<mapsto> x)))"

definition Unmarshal_map :: "string \<Rightarrow> (string \<rightharpoonup> string) option" where
  "Unmarshal_map s =
     (case parse_json s of
        Some (JObject ms) \<Rightarrow> member_map ms Map.empty
      | Some JNull \<Rightarrow> Some Map.empty
      | _ \<Rightarrow> None)"

section \<open>Reading what was written\<close>

lemma hex_value_digit: "n < 16 \<Longrightarrow> hex_value (hex_digit n) = Some n"
  by (simp add: hex_value_def hex_digit_def Let_def)

lemma hex_value_zero: "hex_value (CHR ''0'') = Some 0"
  by (simp add: hex_value_def)

lemma of_char_less: "(of_char c :: nat) < 256"
  by simp

lemma rune_escape_low:
  assumes "n < 128"
  shows "rune_escape (CHR ''0'' # CHR ''0'' # hex_digit (n div 16) # hex_digit (n mod 16) # t) = Some ([char_of n], t)"
proof -
  have "hex_value (hex_digit (n div 16)) = Some (n div 16)" "hex_value (hex_digit (n mod 16)) = Some (n mod 16)"
    using assms by (auto intro!: hex_value_digit)
  then have "hex4 (CHR ''0'') (CHR ''0'') (hex_digit (n div 16)) (hex_digit (n mod 16)) = Some n"
    by (simp add: hex4_def hex_value_zero)
  then have "unit_escape (CHR ''0'' # CHR ''0'' # hex_digit (n div 16) # hex_digit (n mod 16) # t) = Some (n, t)"
    by (simp add: unit_escape_def)
  then show ?thesis using assms by (simp add: rune_escape_def is_surrogate_def utf8_def)
qed

lemma control_chars: "char_of (10 :: nat) = CHR 10" "char_of (13 :: nat) = CHR 13" "char_of (9 :: nat) = CHR 9"
  by code_simp+

lemma lex_json_char:
  "lex_string (json_char c @ s) = (case lex_string s of None \<Rightarrow> None | Some (x, u) \<Rightarrow> Some (c # x, u))"
proof -
  define n where "n = (of_char c :: nat)"
  have c: "c = char_of n" by (simp add: n_def)
  consider "n = 34 \<or> n = 92" | "n = 10" | "n = 13" | "n = 9"
    | "n \<noteq> 34" "n \<noteq> 92" "n \<noteq> 10" "n \<noteq> 13" "n \<noteq> 9" "n < 32 \<or> n = 60 \<or> n = 62 \<or> n = 38"
    | "n \<noteq> 34" "n \<noteq> 92" "n \<noteq> 10" "n \<noteq> 13" "n \<noteq> 9" "32 \<le> n" "n \<noteq> 60" "n \<noteq> 62" "n \<noteq> 38"
    by linarith
  then show ?thesis
  proof cases
    case 1
    then have "json_char c = [CHR 92, c]" "simple_escape c = Some c" "c \<noteq> CHR ''u''"
      by (auto simp: json_char_def simple_escape_def n_def [symmetric] Let_def) (auto simp: n_def)
    then show ?thesis by (simp add: lex_string.simps [of "CHR 92 # c # s"])
  next
    case 2
    then have "json_char c = [CHR 92, CHR ''n'']" "c = CHR 10"
      by (auto simp: json_char_def n_def [symmetric] Let_def c control_chars)
    then show ?thesis by (simp add: lex_string.simps [of "CHR 92 # _"] simple_escape_def split: option.split)
  next
    case 3
    then have "json_char c = [CHR 92, CHR ''r'']" "c = CHR 13"
      by (auto simp: json_char_def n_def [symmetric] Let_def c control_chars)
    then show ?thesis by (simp add: lex_string.simps [of "CHR 92 # _"] simple_escape_def split: option.split)
  next
    case 4
    then have "json_char c = [CHR 92, CHR ''t'']" "c = CHR 9"
      by (auto simp: json_char_def n_def [symmetric] Let_def c control_chars)
    then show ?thesis by (simp add: lex_string.simps [of "CHR 92 # _"] simple_escape_def split: option.split)
  next
    case 5
    then have j: "json_char c = [CHR 92, CHR ''u'', CHR ''0'', CHR ''0'', hex_digit (n div 16), hex_digit (n mod 16)]"
      by (simp add: json_char_def n_def [symmetric] Let_def)
    have "n < 128" using 5 by auto
    from rune_escape_low [OF this, of s] show ?thesis
      unfolding j by (simp add: lex_string.simps [of "CHR 92 # _"] c split: option.split)
  next
    case 6
    then have "json_char c = [c]" by (simp add: json_char_def n_def [symmetric] Let_def)
    then show ?thesis using 6 by (simp add: lex_string.simps [of "c # s"] n_def)
  qed
qed

lemma lex_json_string: "lex_string (concat (map json_char s) @ CHR 34 # t) = Some (s, t)"
proof (induction s)
  case Nil
  show ?case by (simp add: lex_string.simps [of "CHR 34 # t"])
next
  case (Cons c s)
  then show ?case by (simp add: lex_json_char)
qed

lemma skip_ws_json_string: "skip_ws (json_string k @ t) = json_string k @ t"
  by (simp add: skip_ws_def json_string_def is_json_space_def)

lemma parse_json_string: "parse_value (Suc n) (json_string x @ t) = Some (JString x, t)"
  using lex_json_string [of x t] by (simp add: skip_ws_json_string [simplified json_string_def] json_string_def)
    (simp add: skip_ws_def is_json_space_def)

lemma parse_one_member:
  assumes "d = CHR '','' \<or> d = CHR ''}''"
  shows "parse_members (Suc (Suc n)) (json_member (k, x) @ d # t) =
    (if d = CHR ''}'' then Some ([(k, JString x)], t)
     else (case parse_members (Suc n) t of None \<Rightarrow> None | Some (ms, w) \<Rightarrow> Some ((k, JString x) # ms, w)))"
proof -
  let ?r = "json_string x @ d # t"
  have k: "lex_string (concat (map json_char k) @ CHR 34 # CHR '':'' # ?r) = Some (k, CHR '':'' # ?r)"
    by (rule lex_json_string)
  have "skip_ws (CHR '':'' # ?r) = CHR '':'' # ?r" "skip_ws (d # t) = d # t"
    using assms by (auto simp: skip_ws_def is_json_space_def)
  moreover have "json_member (k, x) @ d # t = CHR 34 # concat (map json_char k) @ CHR 34 # CHR '':'' # ?r"
    by (simp add: json_member_def json_string_def)
  moreover have "skip_ws (CHR 34 # u) = CHR 34 # u" for u by (simp add: skip_ws_def is_json_space_def)
  ultimately show ?thesis
    using k parse_json_string [of n x "d # t"] assms by (auto simp: HasPrefix_def)
qed

lemma parse_marshalled_members:
  "ms \<noteq> [] \<Longrightarrow> length ms \<le> n \<Longrightarrow>
     parse_members (Suc n) (join '','' (map json_member ms) @ CHR ''}'' # t) =
       Some (map (\<lambda>(k, x). (k, JString x)) ms, t)"
proof (induction ms arbitrary: n)
  case (Cons m ms)
  obtain k x where m: "m = (k, x)" by fastforce
  obtain i where n: "n = Suc i" using Cons.prems by (cases n) auto
  show ?case
  proof (cases "ms = []")
    case True
    then show ?thesis using parse_one_member [of "CHR ''}''" i k x t] by (simp add: n m)
  next
    case False
    then have "join '','' (map json_member (m # ms)) @ CHR ''}'' # t =
        json_member (k, x) @ CHR '','' # join '','' (map json_member ms) @ CHR ''}'' # t"
      by (simp add: join_Cons m)
    then show ?thesis
      using parse_one_member [of "CHR '',''" i k x] Cons.IH [of i] Cons.prems False by (simp add: n m)
  qed
qed simp

lemma member_map_strings: "member_map (map (\<lambda>(k, x). (k, JString x)) ms) f = Some (f ++ map_of (rev ms))"
  by (induction ms arbitrary: f) (auto simp: map_add_def fun_eq_iff split: option.split)

lemma json_members_length: "length ms \<le> length (join '','' (map json_member ms))"
proof (induction ms)
  case (Cons m ms)
  then show ?case by (simp add: join_Cons json_member_def json_string_def)
qed simp

lemma Unmarshal_Marshal:
  assumes "distinct (map fst kvs)"
  shows "Unmarshal_map (Marshal_map kvs) = Some (map_of kvs)"
proof -
  define ms where "ms = sort_key fst kvs"
  have d: "distinct (map fst (rev ms))" using assms by (simp add: ms_def distinct_map)
  have m: "map_of (rev ms) = map_of kvs"
    using map_of_inject_set [OF d assms] by (simp add: ms_def)
  show ?thesis
  proof (cases "ms = []")
    case True
    then have "kvs = []" by (metis ms_def set_empty set_sort)
    moreover have "parse_json ''{}'' = Some (JObject [])" by code_simp
    ultimately show ?thesis by (simp add: Marshal_map_def Unmarshal_map_def)
  next
    case False
    let ?b = "join '','' (map json_member ms)"
    have first: "\<exists>u. ?b = CHR 34 # u"
      using False by (cases ms) (auto simp: join_Cons json_member_def json_string_def)
    then have "HasPrefix (skip_ws (?b @ ''}'')) ''}'' \<longleftrightarrow> False"
      by (auto simp: HasPrefix_def skip_ws_def is_json_space_def)
    moreover have "parse_members (Suc (Suc (length ?b))) (?b @ ''}'') = Some (map (\<lambda>(k, x). (k, JString x)) ms, [])"
      using parse_marshalled_members [OF False, of "Suc (length ?b)" "[]"] json_members_length [of ms] by simp
    ultimately have "parse_json (CHR ''{'' # ?b @ ''}'') = Some (JObject (map (\<lambda>(k, x). (k, JString x)) ms))"
      by (simp add: parse_json_def skip_ws_def [of "CHR ''{'' # _"] is_json_space_def) (simp add: skip_ws_def)
    then show ?thesis
      by (simp add: Unmarshal_map_def Marshal_map_def ms_def [symmetric] member_map_strings m)
  qed
qed

end
