(* ===== verification/Tos.thy ===== *)
theory Tos
  imports CSI_Common Util Go_JSON
begin

text \<open>
  \<open>pkg/tos\<close>: the TOS plugin, which mounts an object-storage bucket with \<open>s3fs\<close>. The plugin
  does not run \<open>s3fs\<close> itself, it posts the command to a launcher on a local socket
  (theory \<open>Launcher\<close>). \<open>util.DefaultMounter\<close> is the \<open>host\<close> parameter; the HTTP transport, the
  hash function and the passing of time are the record \<open>tos_env\<close>.
\<close>

section \<open>Driver\<close>

definition tos_DefaultDriverName :: string where
  "tos_DefaultDriverName = ''tos.csi.volcengine.com''"

definition tos_NewDriver :: "string \<Rightarrow> string \<Rightarrow> string \<Rightarrow> CSIDriver" where
  "tos_NewDriver name version nodeId =
     (let d0 = zero_CSIDriver\<lparr>Name := tos_DefaultDriverName\<rparr>;
          d1 = (if name \<noteq> [] then d0\<lparr>Name := name\<rparr> else d0);
          d2 = d1\<lparr>Version := version, NodeID := nodeId\<rparr>
      in AddNodeServiceCapabilities [NS_UNKNOWN] (AddVolumeCapabilityAccessModes [MULTI_NODE_MULTI_WRITER] d2))"

definition tos_GetPluginInfo :: "CSIDriver \<Rightarrow> error + string \<times> string" where
  "tos_GetPluginInfo d =
     (if Name d = [] then Inl (StatusError Unavailable ''Plugin name is not configured'')
      else if Version d = [] then Inl (StatusError Unavailable ''Plugin version is not configured'')
      else Inr (Name d, Version d))"

definition tos_Probe :: "error + bool" where
  "tos_Probe = Inr True"

definition tos_GetPluginCapabilities :: "error + plugin_service list" where
  "tos_GetPluginCapabilities = Inr [PS_UNKNOWN]"

section \<open>Options\<close>

record tosfsOptions =
  URL :: string
  Bucket :: string
  Path :: string
  DbgLevel :: string
  AdditionalArgs :: string
  NotsupCompatDir :: bool

definition zero_tosfsOptions :: tosfsOptions where
  "zero_tosfsOptions = \<lparr>URL = [], Bucket = [], Path = [], DbgLevel = [], AdditionalArgs = [], NotsupCompatDir = False\<rparr>"

text \<open>
  \<open>v[:idx+3] + "-s3" + v[idx+3:]\<close>: the slice panics past the end of \<open>v\<close>; without \<open>tos\<close> in
  the URL, \<open>idx\<close> is -1.
\<close>

definition s3_url :: "string \<Rightarrow> string outcome" where
  "s3_url v =
     (if Contains v ''-s3'' then Ret v
      else let n = nat (Index v ''tos'' + 3)
           in if n \<le> length v then Ret (take n v @ ''-s3'' @ drop n v) else Panic)"

definition set_option :: "string \<Rightarrow> string \<Rightarrow> tosfsOptions \<Rightarrow> tosfsOptions outcome" where
  "set_option k v options =
     (let key = ToLower k
      in if key = ''url'' then (case s3_url v of Ret u \<Rightarrow> Ret (options\<lparr>URL := u\<rparr>) | Panic \<Rightarrow> Panic)
         else if key = ''bucket'' then Ret (options\<lparr>Bucket := v\<rparr>)
         else if key = ''path'' then Ret (options\<lparr>Path := v\<rparr>)
         else if key = ''additional_args'' then Ret (options\<lparr>AdditionalArgs := v\<rparr>)
         else if key = ''dbglevel'' then Ret (options\<lparr>DbgLevel := v\<rparr>)
         else Ret options)"

text \<open>The loop over the map: its keys and values in the order in which Go happens to visit them.\<close>

fun set_options :: "(string \<times> string) list \<Rightarrow> tosfsOptions \<Rightarrow> tosfsOptions outcome" where
  "set_options [] options = Ret options"
| "set_options ((k, v) # kvs) options =
     (case set_option k v options of Ret o' \<Rightarrow> set_options kvs o' | Panic \<Rightarrow> Panic)"

definition validateTosfsOptions :: "tosfsOptions \<Rightarrow> error option" where
  "validateTosfsOptions options =
     (if URL options = [] then Some (PlainError (''TOS service URL can'' @ [CHR 39] @ ''t be empty''))
      else if Bucket options = [] then Some (PlainError (''TOS bucket can'' @ [CHR 39] @ ''t be empty''))
      else None)"

definition parseTosfsOptions :: "(string \<times> string) list \<Rightarrow> ('w, error + tosfsOptions) go" where
  "parseTosfsOptions attributes =
     (case set_options attributes zero_tosfsOptions of
        Panic \<Rightarrow> panic
      | Ret o1 \<Rightarrow>
          (let o2 = (if DbgLevel o1 = [] then o1\<lparr>DbgLevel := ''err''\<rparr> else o1)
           in ret (case validateTosfsOptions o2 of Some e \<Rightarrow> Inl e | None \<Rightarrow> Inr o2)))"

section \<open>Credentials\<close>

record 'w tos_env =
  sha256_hex :: "string \<Rightarrow> string"  \<comment> \<open>\<open>hex.EncodeToString(sha256.Sum)\<close>\<close>
  post_launcher :: "string \<Rightarrow> 'w \<Rightarrow> (error + nat \<times> (error + string)) \<times> 'w"
    \<comment> \<open>\<open>Post\<close> of a JSON body: a transport error, or the status code and what reading the body gives\<close>
  sleep_200ms :: "'w \<Rightarrow> 'w"

definition getSecretCredential :: "attributes \<Rightarrow> error + string" where
  "getSecretCredential secrets =
     (let sid = TrimSpace (attr secrets ''akId''); skey = TrimSpace (attr secrets ''akSecret'')
      in if sid = [] \<or> skey = [] then Inl (PlainError ''secret must contains akId and akSecret'')
         else Inr (join '':'' [sid, skey]))"

definition passwd_filename :: "'w tos_env \<Rightarrow> string \<Rightarrow> string \<Rightarrow> string" where
  "passwd_filename env bucket credential = ''/tmp/'' @ bucket @ ''_'' @ sha256_hex env credential"

definition createCredentialFile :: "('x os) tos_env \<Rightarrow> string \<Rightarrow> attributes \<Rightarrow> ('x os, error + string) go" where
  "createCredentialFile env bucket secrets =
     (case getSecretCredential secrets of
        Inl e \<Rightarrow> fails InvalidArgument (''get credential failed: '' @ error_text e)
      | Inr credential \<Rightarrow>
          (let passwdFilename = passwd_filename env bucket credential
           in bnd (Stat passwdFilename) (\<lambda>r.
              case r of
                Inl NotExist \<Rightarrow>
                  bnd_os (WriteFile passwdFilename credential)
                    (\<lambda>e. StatusError Internal (''create tmp password file failed: '' @ error_text e))
                    (\<lambda>_. ret (Inr passwdFilename))
              | Inl (OtherErr e) \<Rightarrow> fails Internal (''stat password file failed: '' @ e)
              | Inr n \<Rightarrow> ret (Inr passwdFilename))))"

section \<open>Mounting\<close>

definition s3fs_command :: "tosfsOptions \<Rightarrow> string \<Rightarrow> string \<Rightarrow> string" where
  "s3fs_command options mountPoint credentialFilePath =
     (let bucketOrWithSubDir = (if Path options \<noteq> [] then Bucket options @ '':'' @ Path options else Bucket options);
          args = [bucketOrWithSubDir, mountPoint, ''-ourl='' @ URL options, ''-odbglevel='' @ DbgLevel options,
                  ''-opasswd_file='' @ credentialFilePath] @
            (if AdditionalArgs options \<noteq> [] then [AdditionalArgs options] else []) @
            (if NotsupCompatDir options then [''-onotsup_compat_dir''] else [])
      in ''s3fs '' @ join '' '' args)"

definition tos_mount :: "'w tos_env \<Rightarrow> tosfsOptions \<Rightarrow> string \<Rightarrow> string \<Rightarrow> ('w, error + unit) go" where
  "tos_mount env options mountPoint credentialFilePath =
     bnd (call (post_launcher env (Marshal_map [(''command'', s3fs_command options mountPoint credentialFilePath)]))) (\<lambda>r.
     ret (case r of
            Inl e \<Rightarrow> Inl e
          | Inr (code, Inl e) \<Rightarrow> Inl e
          | Inr (code, Inr respBody) \<Rightarrow>
              if code \<noteq> 200 then Inl (PlainError (''the response of launcher(action: s3fs) is: '' @ respBody))
              else Inr ()))"

text \<open>The wait for the mount, with the number of tries that are left.\<close>

fun wait_mounted :: "nat \<Rightarrow> 'w host \<Rightarrow> 'w tos_env \<Rightarrow> string \<Rightarrow> ('w, error + unit) go" where
  "wait_mounted 0 h env mountPoint = ret (Inl (PlainError ''check tos mounted timeout''))"
| "wait_mounted (Suc n) h env mountPoint =
     bnd (call (mnt_IsLikelyNotMountPoint h mountPoint)) (\<lambda>(notMnt, err).
     case err of
       Some e \<Rightarrow> ret (Inl (os_err e))
     | None \<Rightarrow>
         if \<not> notMnt then ret (Inr ())
         else bnd (call (\<lambda>w. ((), sleep_200ms env w))) (\<lambda>_. wait_mounted n h env mountPoint))"

definition checkTosMounted :: "'w host \<Rightarrow> 'w tos_env \<Rightarrow> string \<Rightarrow> ('w, error + unit) go" where
  "checkTosMounted = wait_mounted 20"

section \<open>The node server\<close>

definition validateNodePublishVolumeRequest :: "node_publish_request \<Rightarrow> error option" where
  "validateNodePublishVolumeRequest req =
     (if np_VolumeId req = [] then Some (PlainError ''volume ID missing in request'')
      else if np_TargetPath req = [] then Some (PlainError ''target path missing in request'')
      else if np_VolumeCapability req = None then Some (PlainError ''volume capability missing in request'')
      else None)"

definition validateNodeUnpublishVolumeRequest :: "string \<Rightarrow> string \<Rightarrow> error option" where
  "validateNodeUnpublishVolumeRequest volumeId targetPath =
     (if volumeId = [] then Some (PlainError ''volume ID missing in request'')
      else if targetPath = [] then Some (PlainError ''target path missing in request'')
      else None)"

text \<open>\<open>defer func() { if err != nil { c } }()\<close> right before \<open>m\<close>; every error that \<open>m\<close> returns is in \<open>err\<close>.\<close>

definition defer_on_error :: "('w \<Rightarrow> 'w) \<Rightarrow> ('w, error + 'a) go \<Rightarrow> ('w, error + 'a) go" where
  "defer_on_error c m w =
     (case m w of
        Some (Ret (Inl e), w') \<Rightarrow> Some (Ret (Inl e), c w')
      | r \<Rightarrow> r)"

definition internal :: "string \<Rightarrow> error \<Rightarrow> error" where
  "internal what e = StatusError Internal (what @ error_text e)"

text \<open>The bucket is mounted on a temporary directory, the sub-directory made and the mount taken off.\<close>

definition make_sub_path ::
  "'x os host \<Rightarrow> ('x os) tos_env \<Rightarrow> tosfsOptions \<Rightarrow> bool \<Rightarrow> string \<Rightarrow> string \<Rightarrow> string \<Rightarrow> ('x os, error + unit) go" where
  "make_sub_path h env options notMnt tosTmpPath subPath credFilePath =
     bndE (if notMnt then tos_mount env options tosTmpPath credFilePath else ret (Inr ())) (internal ''mount failed: '') (\<lambda>_.
     bndE (checkTosMounted h env tosTmpPath)
       (\<lambda>e. StatusError Internal (''check tosTmpPath mounted fail: '' @ error_text e @
         '', please check tos bucket existed and ak/sk is correct'')) (\<lambda>_.
     bnd_os (MkdirAll (path_join [tosTmpPath, subPath])) (internal ''create subPath error: '') (\<lambda>_.
     bnd_err (mnt_Unmount h tosTmpPath) (internal ''umount failed: '')
       (bnd_os (Remove tosTmpPath) (internal ''remove tosTmpPath failed: '') (\<lambda>_. ret (Inr ()))))))"

definition mount_target ::
  "'x os host \<Rightarrow> ('x os) tos_env \<Rightarrow> tosfsOptions \<Rightarrow> string \<Rightarrow> string \<Rightarrow> string \<Rightarrow> ('x os, error + unit) go" where
  "mount_target h env options volID targetPath credFilePath =
     bnd_os (MkdirAll targetPath) (internal (''create targetPath for '' @ volID @ '' failed: '')) (\<lambda>_.
     bnd (call (mnt_IsLikelyNotMountPoint h targetPath)) (\<lambda>(notMnt, err).
     case err of
       Some e \<Rightarrow> ret (Inl (os_err e))
     | None \<Rightarrow>
         if \<not> notMnt then ret (Inr ())
         else
           bndE (tos_mount env options targetPath credFilePath) (internal ''mount failed: '') (\<lambda>_.
           bndE (checkTosMounted h env targetPath)
             (\<lambda>e. StatusError Internal (''check targetPath mounted fail: '' @ error_text e @
               '', please check tos bucket existed and ak/sk is correct'')) (\<lambda>_. ret (Inr ())))))"

definition tos_NodePublishVolume ::
  "'x os host \<Rightarrow> ('x os) tos_env \<Rightarrow> (string \<times> string) list \<Rightarrow> node_publish_request \<Rightarrow> ('x os, error + unit) go" where
  "tos_NodePublishVolume h env attributes req =
     (case validateNodePublishVolumeRequest req of
        Some e \<Rightarrow> fails InvalidArgument (error_text e)
      | None \<Rightarrow>
        (let volID = np_VolumeId req; targetPath = np_TargetPath req;
             podUID = attr (np_VolumeContext req) ''csi.storage.k8s.io/pod.uid''
         in bndE (parseTosfsOptions attributes)
              (\<lambda>e. StatusError InvalidArgument (''parse options failed: '' @ error_text e)) (\<lambda>options.
            bndE (createCredentialFile env (Bucket options) (np_Secrets req)) (\<lambda>e. e) (\<lambda>credFilePath.
            let tosTmpPath = path_join [''/tmp/tos_mnt/'', podUID @ ''_'' @ volID]
            in bnd_os (MkdirAll tosTmpPath) (internal (''create tosTmpPath for '' @ volID @ '' failed: '')) (\<lambda>_.
               bnd (call (mnt_IsLikelyNotMountPoint h tosTmpPath)) (\<lambda>(notMnt, err).
               case err of
                 Some e \<Rightarrow> fails Internal (''check tosTmpPath IsLikelyNotMountPoint for '' @ volID @ '' failed: '' @ os_text e)
               | None \<Rightarrow>
                 defer_on_error (\<lambda>w. snd (mnt_Unmount h targetPath (snd (mnt_Unmount h tosTmpPath w))))
                   (bndE (make_sub_path h env (options\<lparr>Path := [], NotsupCompatDir := True\<rparr>) notMnt tosTmpPath
                       (Path options) credFilePath) (\<lambda>e. e) (\<lambda>_.
                    mount_target h env (options\<lparr>NotsupCompatDir := False\<rparr>) volID targetPath credFilePath))))))))"

definition tos_NodeUnpublishVolume :: "'w host \<Rightarrow> string \<Rightarrow> string \<Rightarrow> ('w, error + unit) go" where
  "tos_NodeUnpublishVolume h volID targetPath =
     (case validateNodeUnpublishVolumeRequest volID targetPath of
        Some e \<Rightarrow> fails InvalidArgument (error_text e)
      | None \<Rightarrow>
          bnd (call (mnt_Unmount h targetPath)) (\<lambda>err.
          case err of
            None \<Rightarrow> ret (Inr ())
          | Some e \<Rightarrow>
              if Contains (error_text e) ''not mounted'' \<or> Contains (error_text e) ''no mount point specified'' then ret (Inr ())
              else fails Internal (''umount tos failed: '' @ error_text e)))"

text \<open>NodeStageVolume, NodeUnstageVolume, NodeGetVolumeStats and NodeExpandVolume are one answer.\<close>

definition tos_unimplemented :: "error + unit" where
  "tos_unimplemented = Inl (StatusError Unimplemented [])"

definition tos_NodeGetCapabilities :: "CSIDriver \<Rightarrow> error + node_rpc list" where
  "tos_NodeGetCapabilities d = Inr (NSCap d)"

definition tos_NodeGetInfo :: "CSIDriver \<Rightarrow> error + string" where
  "tos_NodeGetInfo d = Inr (NodeID d)"

end
