(* ===== verification/Services.thy ===== *)
theory Services
  imports Server EBS_Controller EBS_Node Nas Tos Go_WP
begin

text \<open>
  The \<open>Run\<close> of the three drivers (\<open>ebs.go\<close>, \<open>nas.go\<close>, \<open>tos.go\<close>): the services they construct and
  register with the gRPC server, as one function from requests to answers per service, and
  which RPCs they answer. It is where the models of the single handlers meet.
\<close>

section \<open>Requests and answers\<close>

text \<open>A request is the message of the RPC (where a handler reads one or two fields, those).\<close>

datatype csi_request = GetPluginInfoReq | ProbeReq | GetPluginCapabilitiesReq
  | CreateVolumeReq create_volume_request | DeleteVolumeReq string
  | ControllerPublishVolumeReq volume_publish_request | ControllerUnpublishVolumeReq volume_unpublish_request
  | ValidateVolumeCapabilitiesReq validate_request | ListVolumesReq | GetCapacityReq | ControllerGetCapabilitiesReq
  | CreateSnapshotReq create_snapshot_request | DeleteSnapshotReq string | ListSnapshotsReq string
  | ControllerExpandVolumeReq expand_request | ControllerGetVolumeReq
  | NodeStageVolumeReq node_stage_request | NodeUnstageVolumeReq string string
  | NodePublishVolumeReq node_publish_request | NodeUnpublishVolumeReq string string
  | NodeGetVolumeStatsReq string string | NodeExpandVolumeReq node_expand_request | NodeGetCapabilitiesReq | NodeGetInfoReq

datatype csi_response = PluginInfoResp string string | ReadyResp bool | PluginCapabilitiesResp "plugin_service list"
  | VolumeResp csi_volume | PublishContextResp attributes | ConfirmedResp "confirmed option"
  | ControllerCapabilitiesResp "controller_rpc list" | SnapshotResp csi_snapshot | SnapshotsResp "csi_snapshot list"
  | ExpandResp expand_response | UsageResp volume_usage volume_usage | NodeCapabilitiesResp "node_rpc list"
  | NodeInfoResp node_info | EmptyResp

datatype csi_method = GetPluginInfo_M | Probe_M | GetPluginCapabilities_M
  | CreateVolume_M | DeleteVolume_M | ControllerPublishVolume_M | ControllerUnpublishVolume_M | ValidateVolumeCapabilities_M
  | ListVolumes_M | GetCapacity_M | ControllerGetCapabilities_M | CreateSnapshot_M | DeleteSnapshot_M | ListSnapshots_M
  | ControllerExpandVolume_M | ControllerGetVolume_M
  | NodeStageVolume_M | NodeUnstageVolume_M | NodePublishVolume_M | NodeUnpublishVolume_M | NodeGetVolumeStats_M
  | NodeExpandVolume_M | NodeGetCapabilities_M | NodeGetInfo_M

fun method_of :: "csi_request \<Rightarrow> csi_method" where
  "method_of GetPluginInfoReq = GetPluginInfo_M" | "method_of ProbeReq = Probe_M"
| "method_of GetPluginCapabilitiesReq = GetPluginCapabilities_M"
| "method_of (CreateVolumeReq r) = CreateVolume_M" | "method_of (DeleteVolumeReq v) = DeleteVolume_M"
| "method_of (ControllerPublishVolumeReq p) = ControllerPublishVolume_M"
| "method_of (ControllerUnpublishVolumeReq u) = ControllerUnpublishVolume_M"
| "method_of (ValidateVolumeCapabilitiesReq q) = ValidateVolumeCapabilities_M"
| "method_of ListVolumesReq = ListVolumes_M" | "method_of GetCapacityReq = GetCapacity_M"
| "method_of ControllerGetCapabilitiesReq = ControllerGetCapabilities_M"
| "method_of (CreateSnapshotReq s) = CreateSnapshot_M" | "method_of (DeleteSnapshotReq v) = DeleteSnapshot_M"
| "method_of (ListSnapshotsReq v) = ListSnapshots_M" | "method_of (ControllerExpandVolumeReq e) = ControllerExpandVolume_M"
| "method_of ControllerGetVolumeReq = ControllerGetVolume_M"
| "method_of (NodeStageVolumeReq st) = NodeStageVolume_M" | "method_of (NodeUnstageVolumeReq v t) = NodeUnstageVolume_M"
| "method_of (NodePublishVolumeReq np) = NodePublishVolume_M" | "method_of (NodeUnpublishVolumeReq v t) = NodeUnpublishVolume_M"
| "method_of (NodeGetVolumeStatsReq v t) = NodeGetVolumeStats_M" | "method_of (NodeExpandVolumeReq ne) = NodeExpandVolume_M"
| "method_of NodeGetCapabilitiesReq = NodeGetCapabilities_M" | "method_of NodeGetInfoReq = NodeGetInfo_M"

definition service_of :: "csi_method \<Rightarrow> csi_service" where
  "service_of m =
     (if m \<in> {GetPluginInfo_M, Probe_M, GetPluginCapabilities_M} then Identity
      else if m \<in> {NodeStageVolume_M, NodeUnstageVolume_M, NodePublishVolume_M, NodeUnpublishVolume_M, NodeGetVolumeStats_M,
        NodeExpandVolume_M, NodeGetCapabilities_M, NodeGetInfo_M} then Node
      else Controller)"

section \<open>What a driver registers\<close>

type_synonym 's handler = "csi_request \<Rightarrow> ('s, error + csi_response) go"

record 's services =
  sv_ids :: "'s handler option"
  sv_cs :: "'s handler option"
  sv_ns :: "'s handler option"

definition start_args_of :: "string \<Rightarrow> 's services \<Rightarrow> bool \<Rightarrow> start_args" where
  "start_args_of endpoint sv testMode =
     \<lparr>sa_endpoint = endpoint, sa_ids = sv_ids sv \<noteq> None, sa_cs = sv_cs sv \<noteq> None, sa_ns = sv_ns sv \<noteq> None,
      sa_testMode = testMode\<rparr>"

definition handler_of :: "'s services \<Rightarrow> csi_service \<Rightarrow> 's handler option" where
  "handler_of sv svc = (case svc of Identity \<Rightarrow> sv_ids sv | Controller \<Rightarrow> sv_cs sv | Node \<Rightarrow> sv_ns sv)"

text \<open>
  An RPC that reaches the server; \<open>None\<close>: no such service, which the gRPC library refuses
  itself. The rest goes through the interceptor.
\<close>

definition rpc :: "(csi_request \<Rightarrow> string) \<Rightarrow> (csi_response \<Rightarrow> string) \<Rightarrow> (csi_method \<Rightarrow> string) \<Rightarrow> 's services \<Rightarrow> csi_request
    \<Rightarrow> ('s logged, error + csi_response) go option" where
  "rpc strip_q strip_r full_name sv req =
     map_option (\<lambda>h. logGRPC strip_q strip_r (full_name (method_of req)) h req) (handler_of sv (service_of (method_of req)))"

definition answer :: "('a \<Rightarrow> csi_response) \<Rightarrow> ('s, error + 'a) go \<Rightarrow> ('s, error + csi_response) go" where
  "answer f m = bndE m (\<lambda>e. e) (\<lambda>x. ret (Inr (f x)))"

text \<open>A request of another service never reaches this one.\<close>

definition not_mine :: "('s, error + csi_response) go" where
  "not_mine = panic"

section \<open>The EBS plugin\<close>

text \<open>
  The controller and the node service have a table of requests in flight each; the state is
  the two tables and everything outside.
\<close>

record 'w ControllerSvc =
  cs_d :: Driver
  cs_cloud :: "'w Cloud"
  cs_inFlight :: InFlight

definition NewControllerSvc :: "Driver \<Rightarrow> 'w Cloud \<Rightarrow> 'w ControllerSvc" where
  "NewControllerSvc driver cloud = \<lparr>cs_d = driver, cs_cloud = cloud, cs_inFlight = NewInFlight\<rparr>"

record 'w NodeSvc =
  ns_d :: Driver
  ns_mounter :: "'w host"
  ns_cloud :: "'w Cloud"
  ns_inFlight :: InFlight

definition NewNodeSvc :: "Driver \<Rightarrow> 'w host \<Rightarrow> 'w Cloud \<Rightarrow> 'w NodeSvc" where
  "NewNodeSvc driver mounter cloud = \<lparr>ns_d = driver, ns_mounter = mounter, ns_cloud = cloud, ns_inFlight = NewInFlight\<rparr>"

record IdentitySvc =
  ids_d :: Driver

definition NewIdentitySvc :: "Driver \<Rightarrow> IdentitySvc" where
  "NewIdentitySvc driver = \<lparr>ids_d = driver\<rparr>"

record 'w plugin =
  controller_table :: InFlight
  node_table :: InFlight
  outside :: 'w

definition at_controller :: "('w service, 'a) go \<Rightarrow> ('w plugin, 'a) go" where
  "at_controller m s =
     (case m \<lparr>flights = controller_table s, world = outside s\<rparr> of
        None \<Rightarrow> None
      | Some (r, t) \<Rightarrow> Some (r, s\<lparr>controller_table := flights t, outside := world t\<rparr>))"

definition at_node :: "('w service, 'a) go \<Rightarrow> ('w plugin, 'a) go" where
  "at_node m s =
     (case m \<lparr>flights = node_table s, world = outside s\<rparr> of
        None \<Rightarrow> None
      | Some (r, t) \<Rightarrow> Some (r, s\<lparr>node_table := flights t, outside := world t\<rparr>))"

definition ebs_identity :: "IdentitySvc \<Rightarrow> 's handler" where
  "ebs_identity ids req =
     (case req of
        GetPluginInfoReq \<Rightarrow> answer (\<lambda>(n, v). PluginInfoResp n v) (ret (GetPluginInfo (csi_driver (ids_d ids))))
      | ProbeReq \<Rightarrow> answer ReadyResp (ret Probe)
      | GetPluginCapabilitiesReq \<Rightarrow> answer PluginCapabilitiesResp (ret ebs_GetPluginCapabilities)
      | _ \<Rightarrow> not_mine)"

definition ebs_controller :: "topology_keys \<Rightarrow> 'w ControllerSvc \<Rightarrow> 'w plugin handler" where
  "ebs_controller tk cs req =
     (case req of
        CreateVolumeReq r \<Rightarrow> answer VolumeResp (at_controller (ControllerSvc_CreateVolume tk (cs_cloud cs) r))
      | DeleteVolumeReq v \<Rightarrow> answer (\<lambda>_. EmptyResp) (at_controller (ControllerSvc_DeleteVolume (cs_cloud cs) v))
      | ControllerPublishVolumeReq r \<Rightarrow>
          answer PublishContextResp (at_controller (ControllerSvc_ControllerPublishVolume (cs_d cs) (cs_cloud cs) r))
      | ControllerUnpublishVolumeReq r \<Rightarrow>
          answer (\<lambda>_. EmptyResp) (at_controller (ControllerSvc_ControllerUnpublishVolume (cs_cloud cs) r))
      | ValidateVolumeCapabilitiesReq r \<Rightarrow>
          answer ConfirmedResp (at_controller (ControllerSvc_ValidateVolumeCapabilities (cs_d cs) (cs_cloud cs) r))
      | ListVolumesReq \<Rightarrow> answer (\<lambda>_. EmptyResp) (ret ControllerSvc_ListVolumes)
      | GetCapacityReq \<Rightarrow> answer (\<lambda>_. EmptyResp) (ret ControllerSvc_GetCapacity)
      | ControllerGetCapabilitiesReq \<Rightarrow>
          answer ControllerCapabilitiesResp (ret (ControllerSvc_ControllerGetCapabilities (cs_d cs)))
      | CreateSnapshotReq r \<Rightarrow> answer SnapshotResp (at_controller (ControllerSvc_CreateSnapshot (cs_cloud cs) r))
      | DeleteSnapshotReq v \<Rightarrow> answer (\<lambda>_. EmptyResp) (at_controller (ControllerSvc_DeleteSnapshot (cs_cloud cs) v))
      | ListSnapshotsReq v \<Rightarrow> answer SnapshotsResp (at_controller (ControllerSvc_ListSnapshots (cs_cloud cs) v))
      | ControllerExpandVolumeReq r \<Rightarrow>
          answer ExpandResp (at_controller (ControllerSvc_ControllerExpandVolume (cs_cloud cs) r))
      | ControllerGetVolumeReq \<Rightarrow> answer (\<lambda>_. EmptyResp) (ret ControllerSvc_ControllerGetVolume)
      | _ \<Rightarrow> not_mine)"

definition ebs_node :: "'x os NodeSvc \<Rightarrow> 'x os plugin handler" where
  "ebs_node ns req =
     (case req of
        NodeStageVolumeReq r \<Rightarrow>
          answer (\<lambda>_. EmptyResp) (at_node (NodeSvc_NodeStageVolume (ns_d ns) (ns_cloud ns) (ns_mounter ns) r))
      | NodeUnstageVolumeReq v t \<Rightarrow> answer (\<lambda>_. EmptyResp) (at_node (NodeSvc_NodeUnstageVolume (ns_mounter ns) v t))
      | NodePublishVolumeReq r \<Rightarrow>
          answer (\<lambda>_. EmptyResp) (at_node (NodeSvc_NodePublishVolume (ns_d ns) (ns_cloud ns) (ns_mounter ns) r))
      | NodeUnpublishVolumeReq v t \<Rightarrow> answer (\<lambda>_. EmptyResp) (at_node (NodeSvc_NodeUnpublishVolume (ns_mounter ns) v t))
      | NodeGetVolumeStatsReq v p \<Rightarrow>
          answer (\<lambda>(b, i). UsageResp b i) (at_node (NodeSvc_NodeGetVolumeStats (ns_mounter ns) v p))
      | NodeExpandVolumeReq r \<Rightarrow>
          answer (\<lambda>_. EmptyResp) (at_node (NodeSvc_NodeExpandVolume (ns_cloud ns) (ns_mounter ns) r))
      | NodeGetCapabilitiesReq \<Rightarrow> answer NodeCapabilitiesResp (ret (NodeSvc_NodeGetCapabilities (ns_d ns)))
      | NodeGetInfoReq \<Rightarrow> answer NodeInfoResp (ret (NodeSvc_NodeGetInfo (ns_d ns) (ns_cloud ns)))
      | _ \<Rightarrow> not_mine)"

text \<open>\<open>Run\<close>: the services, what the server is started with, and the tables at the start.\<close>

definition ebs_Run :: "topology_keys \<Rightarrow> 'x os host \<Rightarrow> Driver \<Rightarrow> string \<Rightarrow> 'x os Cloud \<Rightarrow> 'x os
    \<Rightarrow> 'x os plugin services \<times> start_args \<times> 'x os plugin" where
  "ebs_Run tk nodeMounter d endpoint cloud w =
     (let cs = NewControllerSvc d cloud;
          ns = NewNodeSvc d nodeMounter cloud;
          sv = \<lparr>sv_ids = Some (ebs_identity (NewIdentitySvc d)), sv_cs = Some (ebs_controller tk cs), sv_ns = Some (ebs_node ns)\<rparr>
      in (sv, start_args_of endpoint sv False,
          \<lparr>controller_table = cs_inFlight cs, node_table = ns_inFlight ns, outside = w\<rparr>))"

section \<open>The NAS plugin\<close>

definition nas_identity :: "nas_Driver \<Rightarrow> 's handler" where
  "nas_identity d req =
     (case req of
        GetPluginInfoReq \<Rightarrow> answer (\<lambda>(n, v). PluginInfoResp n v) (ret (nas_GetPluginInfo d))
      | ProbeReq \<Rightarrow> answer ReadyResp (ret nas_Probe)
      | GetPluginCapabilitiesReq \<Rightarrow> answer PluginCapabilitiesResp (ret nas_GetPluginCapabilities)
      | _ \<Rightarrow> not_mine)"

definition nas_controller :: "nas_Driver \<Rightarrow> 'x os host \<Rightarrow> ('x os) nas_env \<Rightarrow> 'x os handler" where
  "nas_controller d h env req =
     (case req of
        CreateVolumeReq r \<Rightarrow> answer VolumeResp (nas_CreateVolume d h r)
      | DeleteVolumeReq v \<Rightarrow> answer (\<lambda>_. EmptyResp) (nas_DeleteVolume d h env v)
      | ValidateVolumeCapabilitiesReq r \<Rightarrow> answer ConfirmedResp (ret (nas_ValidateVolumeCapabilities r))
      | ControllerGetCapabilitiesReq \<Rightarrow> answer ControllerCapabilitiesResp (ret (nas_ControllerGetCapabilities d))
      | ControllerPublishVolumeReq r \<Rightarrow> answer (\<lambda>_. EmptyResp) (ret nas_unimplemented)
      | ControllerUnpublishVolumeReq r \<Rightarrow> answer (\<lambda>_. EmptyResp) (ret nas_unimplemented)
      | ListVolumesReq \<Rightarrow> answer (\<lambda>_. EmptyResp) (ret nas_unimplemented)
      | GetCapacityReq \<Rightarrow> answer (\<lambda>_. EmptyResp) (ret nas_unimplemented)
      | CreateSnapshotReq r \<Rightarrow> answer (\<lambda>_. EmptyResp) (ret nas_unimplemented)
      | DeleteSnapshotReq v \<Rightarrow> answer (\<lambda>_. EmptyResp) (ret nas_unimplemented)
      | ListSnapshotsReq v \<Rightarrow> answer (\<lambda>_. EmptyResp) (ret nas_unimplemented)
      | ControllerExpandVolumeReq r \<Rightarrow> answer (\<lambda>_. EmptyResp) (ret nas_unimplemented)
      | ControllerGetVolumeReq \<Rightarrow> answer (\<lambda>_. EmptyResp) (ret nas_unimplemented)
      | _ \<Rightarrow> not_mine)"

definition node_id_only :: "string \<Rightarrow> csi_response" where
  "node_id_only n = NodeInfoResp \<lparr>ni_NodeId = n, ni_MaxVolumesPerNode = 0, ni_Segments = Map.empty\<rparr>"

definition nas_node :: "nas_Driver \<Rightarrow> 'x os host \<Rightarrow> 'x os handler" where
  "nas_node d h req =
     (case req of
        NodePublishVolumeReq r \<Rightarrow> answer (\<lambda>_. EmptyResp) (nas_NodePublishVolume h r)
      | NodeUnpublishVolumeReq v t \<Rightarrow> answer (\<lambda>_. EmptyResp) (nas_NodeUnpublishVolume h v t)
      | NodeGetVolumeStatsReq v p \<Rightarrow> answer (\<lambda>(b, i). UsageResp b i) (nas_NodeGetVolumeStats p)
      | NodeGetCapabilitiesReq \<Rightarrow> answer NodeCapabilitiesResp (ret (nas_NodeGetCapabilities d))
      | NodeGetInfoReq \<Rightarrow> answer node_id_only (ret (nas_NodeGetInfo d))
      | NodeStageVolumeReq r \<Rightarrow> answer (\<lambda>_. EmptyResp) (ret nas_unimplemented)
      | NodeUnstageVolumeReq v t \<Rightarrow> answer (\<lambda>_. EmptyResp) (ret nas_unimplemented)
      | NodeExpandVolumeReq r \<Rightarrow> answer (\<lambda>_. EmptyResp) (ret nas_unimplemented)
      | _ \<Rightarrow> not_mine)"

text \<open>
  \<open>NewControllerServer\<close> ends the process when the configuration of the cluster or the client
  cannot be had; then \<open>Run\<close> has no services.
\<close>

definition nas_NewControllerServer :: "error option \<Rightarrow> error + ('x os) nas_env \<Rightarrow> ('x os) nas_env option" where
  "nas_NewControllerServer inClusterConfig newForConfig =
     (case inClusterConfig of
        Some e \<Rightarrow> None
      | None \<Rightarrow> (case newForConfig of Inl e \<Rightarrow> None | Inr client \<Rightarrow> Some client))"

definition nas_Run :: "'x os host \<Rightarrow> error option \<Rightarrow> error + ('x os) nas_env \<Rightarrow> nas_Driver \<Rightarrow> string
    \<Rightarrow> ('x os services \<times> start_args) option" where
  "nas_Run h inClusterConfig newForConfig d endpoint =
     (case nas_NewControllerServer inClusterConfig newForConfig of
        None \<Rightarrow> None
      | Some env \<Rightarrow>
          (let sv = \<lparr>sv_ids = Some (nas_identity d), sv_cs = Some (nas_controller d h env), sv_ns = Some (nas_node d h)\<rparr>
           in Some (sv, start_args_of endpoint sv False)))"

section \<open>The TOS plugin\<close>

definition tos_identity :: "CSIDriver \<Rightarrow> 's handler" where
  "tos_identity d req =
     (case req of
        GetPluginInfoReq \<Rightarrow> answer (\<lambda>(n, v). PluginInfoResp n v) (ret (tos_GetPluginInfo d))
      | ProbeReq \<Rightarrow> answer ReadyResp (ret tos_Probe)
      | GetPluginCapabilitiesReq \<Rightarrow> answer PluginCapabilitiesResp (ret tos_GetPluginCapabilities)
      | _ \<Rightarrow> not_mine)"

text \<open>\<open>order\<close> is the order in which Go's \<open>range\<close> meets the entries of the volume context.\<close>

definition tos_node :: "CSIDriver \<Rightarrow> 'x os host \<Rightarrow> ('x os) tos_env \<Rightarrow> (attributes \<Rightarrow> (string \<times> string) list) \<Rightarrow> 'x os handler" where
  "tos_node d h env order req =
     (case req of
        NodePublishVolumeReq r \<Rightarrow> answer (\<lambda>_. EmptyResp) (tos_NodePublishVolume h env (order (np_VolumeContext r)) r)
      | NodeUnpublishVolumeReq v t \<Rightarrow> answer (\<lambda>_. EmptyResp) (tos_NodeUnpublishVolume h v t)
      | NodeGetCapabilitiesReq \<Rightarrow> answer NodeCapabilitiesResp (ret (tos_NodeGetCapabilities d))
      | NodeGetInfoReq \<Rightarrow> answer node_id_only (ret (tos_NodeGetInfo d))
      | NodeStageVolumeReq r \<Rightarrow> answer (\<lambda>_. EmptyResp) (ret tos_unimplemented)
      | NodeUnstageVolumeReq v t \<Rightarrow> answer (\<lambda>_. EmptyResp) (ret tos_unimplemented)
      | NodeGetVolumeStatsReq v p \<Rightarrow> answer (\<lambda>_. EmptyResp) (ret tos_unimplemented)
      | NodeExpandVolumeReq r \<Rightarrow> answer (\<lambda>_. EmptyResp) (ret tos_unimplemented)
      | _ \<Rightarrow> not_mine)"

definition tos_Run :: "'x os host \<Rightarrow> ('x os) tos_env \<Rightarrow> (attributes \<Rightarrow> (string \<times> string) list) \<Rightarrow> CSIDriver \<Rightarrow> string
    \<Rightarrow> 'x os services \<times> start_args" where
  "tos_Run h env order d endpoint =
     (let sv = \<lparr>sv_ids = Some (tos_identity d), sv_cs = None, sv_ns = Some (tos_node d h env order)\<rparr>
      in (sv, start_args_of endpoint sv False))"

end
