(* ===== verification/EBS_Threads.thy ===== *)
theory EBS_Threads
  imports Services Volume_Spec
begin

text \<open>
  The handlers of the controller service as threads. The gRPC server runs every request in a
  goroutine of its own, so between two calls of the cloud that one handler makes, other
  handlers may run. A thread stops before every such call; run without interruption it is
  the handler of \<open>EBS_Controller\<close>. The second half runs any number of them together.
\<close>

section \<open>Threads\<close>

text \<open>A function that is over, or one that is about to make its next call.\<close>

datatype ('w, 'a) thread = Done 'a | Turn "'w \<Rightarrow> (('w, 'a) thread outcome \<times> 'w) option"

definition turn :: "('w, 'b) go \<Rightarrow> ('b \<Rightarrow> ('w, 'a) thread) \<Rightarrow> ('w, 'a) thread" where
  "turn m f = Turn (bnd m (\<lambda>x. ret (f x)))"

definition turnE ::
  "('w, error + 'b) go \<Rightarrow> (error \<Rightarrow> error) \<Rightarrow> ('b \<Rightarrow> ('w, error + 'a) thread) \<Rightarrow> ('w, error + 'a) thread" where
  "turnE m h f = turn m (\<lambda>r. case r of Inl e \<Rightarrow> Done (Inl (h e)) | Inr x \<Rightarrow> f x)"

text \<open>The thread without interruption.\<close>

primrec alone :: "('w, 'a) thread \<Rightarrow> ('w, 'a) go" where
  "alone (Done r) = ret r"
| "alone (Turn m) = (\<lambda>w. case (map_option (map_prod (map_outcome alone) id) \<circ> m) w of
      None \<Rightarrow> None
    | Some (Panic, w') \<Rightarrow> Some (Panic, w')
    | Some (Ret f, w') \<Rightarrow> f w')"

lemma alone_turn [simp]: "alone (turn m f) = bnd m (\<lambda>x. alone (f x))"
  by (rule ext) (simp add: turn_def bnd_def split: option.split outcome.split)

lemma alone_turnE [simp]: "alone (turnE m h f) = bndE m h (\<lambda>x. alone (f x))"
proof -
  have "(\<lambda>r. alone (case r of Inl e \<Rightarrow> Done (Inl (h e)) | Inr x \<Rightarrow> f x)) =
      (\<lambda>r. case r of Inl e \<Rightarrow> ret (Inl (h e)) | Inr x \<Rightarrow> alone (f x))"
    by (auto split: sum.split)
  then show ?thesis by (simp add: turnE_def bndE_def)
qed

section \<open>The handlers\<close>

definition create_thread :: "topology_keys \<Rightarrow> 'w Cloud \<Rightarrow> create_volume_request \<Rightarrow> ('w, error + csi_response) thread" where
  "create_thread tk cl req =
     (let capacity = request_capacity req;
          zoneId = request_zone tk cl req;
          volumeType = getVolumeTypeWithDefault req
      in if zoneId = [] then Done (Inl (StatusError Internal ''get zoneId from metadata service failed''))
      else case source_snapshot req of
        Inl e \<Rightarrow> Done (Inl e)
      | Inr snapshotID \<Rightarrow>
        turnE (cloud_VolumeByName cl (cv_Name req))
          (\<lambda>e. StatusError FailedPrecondition (''get volume by name error: '' @ error_text e)) (\<lambda>vol.
        case vol of
          Some v \<Rightarrow> Done (map_sum id VolumeResp (existing_volume tk cl req snapshotID volumeType capacity zoneId v))
        | None \<Rightarrow>
          turnE (cloud_CreateVolume cl (cv_Name req) volumeType zoneId snapshotID capacity)
            (WrapError (''failed to create volume '' @ cv_Name req @ '': '')) (\<lambda>volID.
          Done (Inr (VolumeResp (created_volume tk cl req snapshotID volID capacity zoneId))))))"

definition delete_thread :: "'w Cloud \<Rightarrow> string \<Rightarrow> ('w, error + csi_response) thread" where
  "delete_thread cl volumeID =
     turnE (cloud_VolumeById cl volumeID)
       (\<lambda>e. StatusError FailedPrecondition (''test volume existed error '' @ error_text e)) (\<lambda>vol.
     case vol of
       None \<Rightarrow> Done (Inr EmptyResp)
     | Some _ \<Rightarrow>
       turnE (cloud_DeleteVolume cl volumeID) (WrapError (''failed to delete volume '' @ volumeID @ '': ''))
         (\<lambda>_. Done (Inr EmptyResp)))"

definition publish_thread :: "Driver \<Rightarrow> 'w Cloud \<Rightarrow> string \<Rightarrow> string \<Rightarrow> ('w, error + csi_response) thread" where
  "publish_thread d cl volId nodeId =
     turnE (cloud_VolumeById cl volId)
       (\<lambda>e. StatusError FailedPrecondition (''get volume by id failed: '' @ error_text e)) (\<lambda>vol.
     case vol of
       None \<Rightarrow> Done (Inl (StatusError NotFound ''volume not found''))
     | Some v \<Rightarrow>
       if Attached vol then
         (if Volume_NodeId v = nodeId then Done (Inr (PublishContextResp Map.empty))
          else Done (Inl (StatusError FailedPrecondition ''volume is attached to another node'')))
       else if \<not> Available vol then Done (Inl (StatusError FailedPrecondition ''volume status is not available''))
       else
         turnE (cloud_NodeById cl nodeId)
           (\<lambda>_. StatusError NotFound (''get node by id '' @ nodeId @ '' failed'')) (\<lambda>nodeInfo.
         turn (deref nodeInfo) (\<lambda>info.
         if sint (maxVolumesPerNode d) \<le> int (length (InstanceForDescribeInstancesOutput_Volumes info)) then
           Done (Inl (StatusError FailedPrecondition (''volume attached to the node exceed limit '' @
             FormatInt (sint (maxVolumesPerNode d)))))
         else
           turnE (cloud_AttachVolume cl nodeId volId)
             (\<lambda>e. StatusError Internal (''attach volume failed: '' @ error_text e)) (\<lambda>_.
           Done (Inr (PublishContextResp Map.empty))))))"

definition unpublish_thread :: "'w Cloud \<Rightarrow> string \<Rightarrow> string \<Rightarrow> ('w, error + csi_response) thread" where
  "unpublish_thread cl volId nodeId =
     turnE (cloud_VolumeById cl volId)
       (\<lambda>e. StatusError FailedPrecondition (''get volume by id failed: '' @ error_text e)) (\<lambda>vol.
     case vol of
       None \<Rightarrow> Done (Inr EmptyResp)
     | Some v \<Rightarrow>
       if Available vol \<or> Deleted vol \<or> Volume_NodeId v \<noteq> nodeId then Done (Inr EmptyResp)
       else if Detaching vol then Done (Inl (StatusError Internal ''volume is detaching''))
       else
         turnE (cloud_DetachVolume cl nodeId volId)
           (\<lambda>e. StatusError Internal (''detach volume failed: '' @ error_text e)) (\<lambda>_. Done (Inr EmptyResp)))"

definition expand_thread :: "'w Cloud \<Rightarrow> string \<Rightarrow> int64 \<Rightarrow> ('w, error + csi_response) thread" where
  "expand_thread cl volumeId volSizeBytes =
     turnE (cloud_VolumeById cl volumeId)
       (\<lambda>e. StatusError Internal (''describe volume '' @ volumeId @ '' failed: '' @ error_text e)) (\<lambda>vol.
     case vol of
       None \<Rightarrow> Done (Inl (StatusError Internal ''expand volume not exist''))
     | Some v \<Rightarrow>
       if roundGB volSizeBytes * GB = Volume_Capacity v \<and> Volume_Status v \<noteq> StatusExtending then
         Done (Inr (ExpandResp \<lparr>er_CapacityBytes = Volume_Capacity v, er_NodeExpansionRequired = True\<rparr>))
       else if i64_less volSizeBytes (Volume_Capacity v) \<and> Volume_Status v \<noteq> StatusExtending then
         Done (Inr (ExpandResp \<lparr>er_CapacityBytes = Volume_Capacity v, er_NodeExpansionRequired = True\<rparr>))
       else
         turnE (cloud_ExtendVolume cl volumeId volSizeBytes)
           (\<lambda>e. StatusError Internal (''expend volume failed: '' @ error_text e)) (\<lambda>_.
         Done (Inr (ExpandResp \<lparr>er_CapacityBytes = volSizeBytes, er_NodeExpansionRequired = True\<rparr>))))"

fun op_thread :: "topology_keys \<Rightarrow> Driver \<Rightarrow> 'w Cloud \<Rightarrow> op \<Rightarrow> ('w, error + csi_response) thread" where
  "op_thread tk d cl (OpCreate req) = create_thread tk cl req"
| "op_thread tk d cl (OpDelete v) = delete_thread cl v"
| "op_thread tk d cl (OpPublish req) = publish_thread d cl (vp_VolumeId req) (vp_NodeId req)"
| "op_thread tk d cl (OpUnpublish req) = unpublish_thread cl (vu_VolumeId req) (vu_NodeId req)"
| "op_thread tk d cl (OpExpand req) = expand_thread cl (ex_VolumeId req) (get_required_bytes (ex_CapacityRange req))"

text \<open>What a handler checks of its request before anything else.\<close>

definition create_check :: "create_volume_request \<Rightarrow> error option" where
  "create_check req =
     (if cv_Name req = [] then Some (StatusError InvalidArgument ''Volume name missiong in request'')
      else if cv_VolumeCapabilities req = [] then Some (StatusError InvalidArgument ''Volume capabilities missing in request'')
      else None)"

definition delete_check :: "string \<Rightarrow> error option" where
  "delete_check v = (if v = [] then Some (StatusError InvalidArgument ''Volume ID missing in request'') else None)"

definition publish_check :: "Driver \<Rightarrow> volume_publish_request \<Rightarrow> error option" where
  "publish_check d req =
     (if vp_VolumeId req = [] then Some (StatusError InvalidArgument ''volume id missing in request'')
      else if vp_NodeId req = [] then Some (StatusError InvalidArgument ''node id missing in request'')
      else case vp_VolumeCapability req of
        None \<Rightarrow> Some (StatusError InvalidArgument ''volume capability missing in request'')
      | Some volCap \<Rightarrow>
        if \<not> isValidVolumeCapabilities d [volCap] then Some (StatusError InvalidArgument ''Volume capability not supported'')
        else None)"

definition unpublish_check :: "volume_unpublish_request \<Rightarrow> error option" where
  "unpublish_check req =
     (if vu_VolumeId req = [] then Some (StatusError InvalidArgument ''volume id missing in request'')
      else if vu_NodeId req = [] then Some (StatusError InvalidArgument ''node id missing in request'')
      else None)"

definition expand_check :: "expand_request \<Rightarrow> error option" where
  "expand_check req =
     (if ex_VolumeId req = [] then Some (StatusError InvalidArgument ''Volume ID missing in request'') else None)"

declare create_check_def [simp] delete_check_def [simp] publish_check_def [simp] unpublish_check_def [simp] expand_check_def [simp]

fun op_check :: "Driver \<Rightarrow> op \<Rightarrow> error option" where
  "op_check d (OpCreate req) = create_check req"
| "op_check d (OpDelete v) = delete_check v"
| "op_check d (OpPublish req) = publish_check d req"
| "op_check d (OpUnpublish req) = unpublish_check req"
| "op_check d (OpExpand req) = expand_check req"

text \<open>The key that CreateVolume and DeleteVolume give to \<open>inFlight.Insert\<close>, and what they answer if it is busy.\<close>

fun op_key :: "op \<Rightarrow> string option" where
  "op_key (OpCreate req) = Some (cv_Name req)"
| "op_key (OpDelete v) = Some v"
| "op_key _ = None"

fun op_busy :: "op \<Rightarrow> error" where
  "op_busy (OpCreate req) = StatusError Aborted (''Create volume request for '' @ cv_Name req @ '' is already in progress'')"
| "op_busy (OpDelete v) = StatusError Aborted (''An operation with the given Volume '' @ v @ '' already exists'')"
| "op_busy _ = StatusError Aborted []"

text \<open>Without interruption they are the handlers.\<close>

definition on_its_own :: "topology_keys \<Rightarrow> Driver \<Rightarrow> 'w Cloud \<Rightarrow> op \<Rightarrow> ('w service, error + csi_response) go" where
  "on_its_own tk d cl p =
     (case op_check d p of
        Some e \<Rightarrow> ret (Inl e)
      | None \<Rightarrow>
          (case op_key p of
             Some k \<Rightarrow> guarded k (op_busy p) (alone (op_thread tk d cl p))
           | None \<Rightarrow> unguarded (alone (op_thread tk d cl p))))"

lemma answer_ret [simp]: "answer f (ret r) = ret (map_sum id f r)" "answer f (fails c m) = ret (Inl (StatusError c m))"
  by (rule ext; cases r; simp add: answer_def bndE_def bnd_def)+

lemma answer_bnd [simp]: "answer f (bnd m g) = bnd m (\<lambda>x. answer f (g x))"
  by (rule ext) (simp add: answer_def bndE_def bnd_def split: option.split outcome.split)

lemma answer_bndE [simp]: "answer f (bndE m h g) = bndE m h (\<lambda>x. answer f (g x))"
proof -
  have "(\<lambda>r. answer f (case r of Inl e \<Rightarrow> ret (Inl (h e)) | Inr x \<Rightarrow> g x)) =
      (\<lambda>r. case r of Inl e \<Rightarrow> ret (Inl (h e)) | Inr x \<Rightarrow> answer f (g x))"
    by (auto split: sum.split)
  then show ?thesis unfolding bndE_def answer_bnd by simp
qed

lemma answer_guarded: "answer f (guarded k b m) = guarded k b (answer f m)"
  by (rule ext) (auto simp: answer_def bndE_def bnd_def guarded_def split: option.split outcome.split sum.split prod.split bool.split)

lemma answer_unguarded: "answer f (unguarded m) = unguarded (answer f m)"
  by (rule ext) (auto simp: answer_def bndE_def bnd_def unguarded_def split: option.split outcome.split sum.split)

lemma alone_create: "alone (create_thread tk cl req) = answer VolumeResp (CreateVolume_body tk cl req)"
  by (simp add: create_thread_def CreateVolume_body_def Let_def fails_def split: sum.split option.split)
    (auto intro!: arg_cong3 [where f = bndE] split: option.split)

lemma alone_delete: "alone (delete_thread cl v) = answer (\<lambda>_. EmptyResp) (DeleteVolume_body cl v)"
  unfolding delete_thread_def DeleteVolume_body_def alone_turnE answer_bndE
  by (rule arg_cong3 [where f = bndE, OF refl refl]) (auto split: option.split)

lemma alone_publish: "alone (publish_thread d cl v nd) = answer PublishContextResp (PublishVolume_body d cl v nd)"
  unfolding publish_thread_def PublishVolume_body_def alone_turnE answer_bndE
  by (rule arg_cong3 [where f = bndE, OF refl refl], rule ext)
    (simp add: if_distrib [of alone] if_distrib [of "answer _"] fails_def cong: if_cong split: option.split)

lemma alone_unpublish: "alone (unpublish_thread cl v nd) = answer (\<lambda>_. EmptyResp) (UnpublishVolume_body cl v nd)"
  unfolding unpublish_thread_def UnpublishVolume_body_def alone_turnE answer_bndE
  by (rule arg_cong3 [where f = bndE, OF refl refl]) (auto split: option.split)

lemma alone_expand: "alone (expand_thread cl v sz) = answer ExpandResp (ExpandVolume_body cl v sz)"
  unfolding expand_thread_def ExpandVolume_body_def alone_turnE answer_bndE
  by (rule arg_cong3 [where f = bndE, OF refl refl]) (auto split: option.split)

lemmas alone_simps = alone_create alone_delete alone_publish alone_unpublish alone_expand

lemma on_its_own_handlers:
  "on_its_own tk d cl (OpCreate req) = answer VolumeResp (ControllerSvc_CreateVolume tk cl req)"
  "on_its_own tk d cl (OpDelete v) = answer (\<lambda>_. EmptyResp) (ControllerSvc_DeleteVolume cl v)"
  "on_its_own tk d cl (OpPublish pu) = answer PublishContextResp (ControllerSvc_ControllerPublishVolume d cl pu)"
  "on_its_own tk d cl (OpUnpublish up) = answer (\<lambda>_. EmptyResp) (ControllerSvc_ControllerUnpublishVolume cl up)"
  "on_its_own tk d cl (OpExpand ex) = answer ExpandResp (ControllerSvc_ControllerExpandVolume cl ex)"
  by (simp_all add: on_its_own_def ControllerSvc_CreateVolume_def ControllerSvc_DeleteVolume_def
      ControllerSvc_ControllerPublishVolume_def ControllerSvc_ControllerUnpublishVolume_def ControllerSvc_ControllerExpandVolume_def
      alone_simps answer_guarded answer_unguarded fails_def split: option.split)

section \<open>Any number of them at once\<close>

text \<open>
  The goroutines are numbered. One that has no request is \<open>Free\<close>. A \<open>Busy\<close> one has passed the
  checks and, if its request has a key, entered it in the table that all share; it leaves the
  table when it is done. Each step is one \<open>Insert\<close>, one call of the cloud or one \<open>Delete\<close>. A
  call that panics ends the driver, so nothing comes after it; one that never returns is
  never made.
\<close>

datatype 'w job = Free | Busy op "('w, error + csi_response) thread"

record 'w crowd =
  crowd_table :: InFlight
  crowd_jobs :: "nat \<Rightarrow> 'w job"
  crowd_world :: 'w

definition quiet :: "'w \<Rightarrow> 'w crowd" where
  "quiet w = \<lparr>crowd_table = NewInFlight, crowd_jobs = (\<lambda>_. Free), crowd_world = w\<rparr>"

inductive crowd_step :: "topology_keys \<Rightarrow> Driver \<Rightarrow> 'w Cloud \<Rightarrow> bool \<Rightarrow> 'w crowd \<Rightarrow> 'w crowd \<Rightarrow> bool" for tk d cl where
  enter: "crowd_jobs p t = Free \<Longrightarrow> op_check d o1 = None \<Longrightarrow> op_key o1 = Some k \<Longrightarrow> Insert k (crowd_table p) = (True, db) \<Longrightarrow>
     crowd_step tk d cl False p (p\<lparr>crowd_table := db, crowd_jobs := (crowd_jobs p)(t := Busy o1 (op_thread tk d cl o1))\<rparr>)"
| bounce: "crowd_jobs p t = Free \<Longrightarrow> op_check d o1 = None \<Longrightarrow> op_key o1 = Some k \<Longrightarrow> Insert k (crowd_table p) = (False, db) \<Longrightarrow>
     crowd_step tk d cl False p (p\<lparr>crowd_table := db\<rparr>)"
| enter_unkeyed: "crowd_jobs p t = Free \<Longrightarrow> op_check d o1 = None \<Longrightarrow> op_key o1 = None \<Longrightarrow>
     crowd_step tk d cl False p (p\<lparr>crowd_jobs := (crowd_jobs p)(t := Busy o1 (op_thread tk d cl o1))\<rparr>)"
| proceed: "crowd_jobs p t = Busy o1 (Turn m) \<Longrightarrow> m (crowd_world p) = Some (Ret th, w) \<Longrightarrow>
     crowd_step tk d cl True p (p\<lparr>crowd_jobs := (crowd_jobs p)(t := Busy o1 th), crowd_world := w\<rparr>)"
| leave: "crowd_jobs p t = Busy o1 (Done r) \<Longrightarrow>
     crowd_step tk d cl False p (p\<lparr>crowd_table := (case op_key o1 of None \<Rightarrow> crowd_table p | Some k \<Rightarrow> Delete k (crowd_table p)),
       crowd_jobs := (crowd_jobs p)(t := Free)\<rparr>)"

inductive_cases crowd_stepE: "crowd_step tk d cl c p q"

text \<open>A run, with the number of calls that it makes of the cloud.\<close>

inductive crowd_run :: "topology_keys \<Rightarrow> Driver \<Rightarrow> 'w Cloud \<Rightarrow> nat \<Rightarrow> 'w crowd \<Rightarrow> 'w crowd \<Rightarrow> bool" for tk d cl where
  here: "crowd_run tk d cl 0 p p"
| on: "crowd_run tk d cl n p q \<Longrightarrow> crowd_step tk d cl c q r \<Longrightarrow> crowd_run tk d cl ((if c then Suc n else n)) p r"

lemma crowd_run_trans: "crowd_run tk d cl n q r \<Longrightarrow> crowd_run tk d cl m p q \<Longrightarrow> crowd_run tk d cl (n + m) p r"
proof (induction rule: crowd_run.induct)
  case (on n p' q c r)
  from crowd_run.on [OF on(3) [OF on(4)] on(2)] show ?case by (cases c) simp_all
qed simp

lemma crowd_step_run:
  "crowd_step tk d cl True p q \<Longrightarrow> crowd_run tk d cl 1 p q" "crowd_step tk d cl False p q \<Longrightarrow> crowd_run tk d cl 0 p q"
  using crowd_run.on [OF crowd_run.here, of tk d cl _ p q] by fastforce+

text \<open>The call that a thread is about to make.\<close>

lemma proceed_turn:
  assumes "crowd_jobs p t = Busy o1 (turn m f)" and "m (crowd_world p) = Some (Ret x, w)"
  shows "crowd_step tk d cl True p (p\<lparr>crowd_jobs := (crowd_jobs p)(t := Busy o1 (f x)), crowd_world := w\<rparr>)"
  by (rule crowd_step.proceed [OF assms(1) [unfolded turn_def]]) (simp add: bnd_def assms(2))

lemma proceed_turnE:
  "crowd_jobs p t = Busy o1 (turnE m h f) \<Longrightarrow> m (crowd_world p) = Some (Ret (Inr x), w) \<Longrightarrow>
    crowd_step tk d cl True p (p\<lparr>crowd_jobs := (crowd_jobs p)(t := Busy o1 (f x)), crowd_world := w\<rparr>)"
  unfolding turnE_def by (drule (1) proceed_turn) simp

section \<open>The table keeps them apart\<close>

text \<open>What of a run the table sees is a run of the handlers of \<open>InFlight\<close>.\<close>

definition job_phase :: "'w job \<Rightarrow> phase" where
  "job_phase j = (case j of Free \<Rightarrow> Idle | Busy p _ \<Rightarrow> (case op_key p of None \<Rightarrow> Idle | Some k \<Rightarrow> Running k))"

definition table_view :: "'w crowd \<Rightarrow> unit pool" where
  "table_view p = \<lparr>table = crowd_table p, phase_of = job_phase \<circ> crowd_jobs p, shared = ()\<rparr>"

lemma job_phase_simps [simp]:
  "job_phase Free = Idle" "op_key o1 = None \<Longrightarrow> job_phase (Busy o1 th) = Idle"
  "op_key o1 = Some k \<Longrightarrow> job_phase (Busy o1 th) = Running k"
  by (simp_all add: job_phase_def)

lemma crowd_step_table: "crowd_step tk d cl c p q \<Longrightarrow> handler_step (table_view p) (table_view q) \<or> table_view q = table_view p"
proof (induction rule: crowd_step.induct)
  case (enter p t o1 k db)
  then show ?case
    using handler_step.enter [of "table_view p" t k db] by (simp add: table_view_def fun_upd_comp)
next
  case (bounce p t o1 k db)
  then show ?case using handler_step.reject [of "table_view p" t k db] by (simp add: table_view_def)
next
  case (enter_unkeyed p t o1)
  then have "job_phase \<circ> (crowd_jobs p)(t := Busy o1 (op_thread tk d cl o1)) = job_phase \<circ> crowd_jobs p" by auto
  then show ?case by (simp add: table_view_def)
next
  case (proceed p t o1 m th w)
  then have "job_phase \<circ> (crowd_jobs p)(t := Busy o1 th) = job_phase \<circ> crowd_jobs p" by (auto simp: job_phase_def)
  then show ?case by (simp add: table_view_def)
next
  case (leave p t o1 r)
  show ?case
  proof (cases "op_key o1")
    case None
    with leave have "job_phase \<circ> (crowd_jobs p)(t := Free) = job_phase \<circ> crowd_jobs p" by auto
    with None show ?thesis by (simp add: table_view_def)
  next
    case (Some k)
    with leave show ?thesis
      using handler_step.leave [of "table_view p" t k] by (simp add: table_view_def fun_upd_comp)
  qed
qed

lemma crowd_run_table: "crowd_run tk d cl n p q \<Longrightarrow> pool_inv (table_view p) \<Longrightarrow> pool_inv (table_view q)"
proof (induction rule: crowd_run.induct)
  case (on n p q c r)
  with crowd_step_table [OF on(2)] show ?case by (metis handler_step_inv)
qed simp

lemma quiet_table: "pool_inv (table_view (quiet w))"
  by (simp add: pool_inv_def table_view_def quiet_def running_keys_def NewInFlight_def)

lemma same_key:
  assumes "pool_inv (table_view p)" and "crowd_jobs p t = Busy o1 th" and "crowd_jobs p u = Busy o2 th'"
    and "op_key o1 = Some k" and "op_key o2 = Some k"
  shows "t = u"
  using pool_inv_unique [OF assms(1), of t k u] assms(2-5) by (simp add: table_view_def)

lemma table_holds:
  assumes "pool_inv (table_view p)"
  shows "inFlight (crowd_table p) k \<noteq> None \<longleftrightarrow> (\<exists>t o1 th. crowd_jobs p t = Busy o1 th \<and> op_key o1 = Some k)"
proof -
  have "job_phase j = Running k \<longleftrightarrow> (\<exists>o1 th. j = Busy o1 th \<and> op_key o1 = Some k)" for j :: "'a job"
    by (auto simp: job_phase_def split: job.split option.split)
  with pool_inv_keys [OF assms, of k] show ?thesis by (simp add: table_view_def running_keys_def domIff)
qed

end
