(* ===== verification/Client_Store.thy ===== *)
theory Client_Store
  imports Volume_Spec EBS_Guarantees
begin

text \<open>
  The cloud client \<open>VolcEngin\<close> keeps the contract \<open>volume_cloud\<close> on every service that keeps
  the store of volumes in the way documented for it (\<open>service_keeps\<close>): so the controller
  service refines the abstract store on the real cloud too, with the two differences that
  sizes are whole gigabytes and that a request whose outcome was not seen in time may have
  taken effect although it is reported as failed.
\<close>

section \<open>What is asked of the service\<close>

text \<open>The volume that the client reads out of a description.\<close>

definition listed :: "VolumeForDescribeVolumesOutput \<Rightarrow> int64 \<Rightarrow> Volume" where
  "listed x gb = \<lparr>Volume_Id = the (VolumeForDescribeVolumesOutput_VolumeId x),
     Volume_Name = the (VolumeForDescribeVolumesOutput_VolumeName x),
     Volume_Status = StatusFromString (the (VolumeForDescribeVolumesOutput_Status x)), Volume_Capacity = gb * GB,
     Volume_NodeId = the (VolumeForDescribeVolumesOutput_InstanceId x), Volume_ZoneId = the (VolumeForDescribeVolumesOutput_ZoneId x),
     Volume_VolumeType = the (VolumeForDescribeVolumesOutput_VolumeType x)\<rparr>"

definition tells :: "store \<Rightarrow> VolumeForDescribeVolumesOutput \<Rightarrow> bool" where
  "tells m x \<longleftrightarrow> (\<forall>sz gb. VolumeForDescribeVolumesOutput_Size x = Some sz \<longrightarrow> ParseInt64 sz = Some gb \<longrightarrow>
     agrees (m (the (VolumeForDescribeVolumesOutput_VolumeId x))) (listed x gb))"

definition by_id_input :: "string \<Rightarrow> DescribeVolumesInput" where
  "by_id_input v = zero_DescribeVolumesInput\<lparr>DescribeVolumesInput_VolumeIds := [Some v]\<rparr>"

definition by_name_input :: "string \<Rightarrow> DescribeVolumesInput" where
  "by_name_input n = zero_DescribeVolumesInput\<lparr>DescribeVolumesInput_VolumeName := Some n,
     DescribeVolumesInput_PageNumber := Some 1, DescribeVolumesInput_PageSize := Some 10\<rparr>"

text \<open>An answer without an error, and the first volume of one.\<close>

definition answered :: "(error option \<times> DescribeVolumesOutput) \<Rightarrow> bool" where
  "answered r \<longleftrightarrow> fst r = None \<and> (\<exists>md. DescribeVolumesOutput_Metadata (snd r) = Some md \<and> MetadataError md = None)"

text \<open>
  Descriptions change nothing. An answer describes the volume asked for as the store has it,
  and is empty only if the store has none.
\<close>

definition reads_store :: "'w VolcEngin \<Rightarrow> (nat \<Rightarrow> 'w \<Rightarrow> bool) \<Rightarrow> ('w \<Rightarrow> store) \<Rightarrow> bool" where
  "reads_store volc ok view \<longleftrightarrow> (\<forall>k w. ok k w \<longrightarrow>
     (\<forall>inp. let (r, w') = sdk_DescribeVolumes (svcClients volc) inp w in ok k w' \<and> view w' = view w) \<and>
     (\<forall>inp. let (r, w') = sdk_DescribeInstances (svcClients volc) inp w in ok k w' \<and> view w' = view w) \<and>
     (\<forall>v. let (r, w') = sdk_DescribeVolumes (svcClients volc) (by_id_input v) w in answered r \<longrightarrow>
        (case DescribeVolumesOutput_Volumes (snd r) of
           [] \<Rightarrow> view w v = None
         | p # _ \<Rightarrow> \<forall>x. p = Some x \<longrightarrow> VolumeForDescribeVolumesOutput_VolumeId x = Some v \<and> tells (view w) x)) \<and>
     (\<forall>n. let (r, w') = sdk_DescribeVolumes (svcClients volc) (by_name_input n) w in answered r \<longrightarrow>
        (case DescribeVolumesOutput_Volumes (snd r) of
           [] \<Rightarrow> \<not> named (view w) n
         | p # _ \<Rightarrow> \<forall>x. p = Some x \<longrightarrow> VolumeForDescribeVolumesOutput_VolumeName x = Some n \<and> tells (view w) x)))"

text \<open>The passing of time settles what was accepted, which is in the store already.\<close>

definition time_keeps :: "'w VolcEngin \<Rightarrow> (nat \<Rightarrow> 'w \<Rightarrow> bool) \<Rightarrow> ('w \<Rightarrow> store) \<Rightarrow> bool" where
  "time_keeps volc ok view \<longleftrightarrow>
     (\<forall>k w. (ok (Suc k) w \<longrightarrow> ok k w) \<and>
       (ok k w \<longrightarrow> ok k (sleep_ms (svcClients volc) 500 w) \<and> view (sleep_ms (svcClients volc) 500 w) = view w))"

text \<open>A creation under a name that is free is refused, or makes a volume of the size asked for.\<close>

definition creates_in_store :: "'w VolcEngin \<Rightarrow> (nat \<Rightarrow> 'w \<Rightarrow> bool) \<Rightarrow> ('w \<Rightarrow> store) \<Rightarrow> bool" where
  "creates_in_store volc ok view \<longleftrightarrow>
     (\<forall>k w inp n gb. ok (Suc k) w \<longrightarrow> \<not> named (view w) n \<longrightarrow>
       CreateVolumeInput_VolumeName inp = Some n \<longrightarrow> CreateVolumeInput_Size inp = Some (FormatInt (sint gb)) \<longrightarrow>
       (let ((err, resp), w') = sdk_CreateVolume (svcClients volc) inp w in ok k w' \<and>
         (view w' = view w \<and> (err \<noteq> None \<or> CreateVolumeOutput_VolumeId resp = None \<or>
            (case CreateVolumeOutput_Metadata resp of None \<Rightarrow> True | Some md \<Rightarrow> MetadataError md \<noteq> None)) \<or>
          (\<exists>v. CreateVolumeOutput_VolumeId resp \<in> {None, Some v} \<and> view w v = None \<and>
             view w' = (view w)(v \<mapsto> \<lparr>av_name = n, av_size = gb * GB, av_holder = None\<rparr>)))))"

definition accepted :: "error option \<Rightarrow> ResponseMetadata option option \<Rightarrow> bool" where
  "accepted err resp \<longleftrightarrow> err = None \<and>
     (case resp of None \<Rightarrow> True | Some None \<Rightarrow> False | Some (Some md) \<Rightarrow> MetadataError md = None)"

text \<open>
  A change that is accepted has its effect; one that is not may have it or not. A volume is
  only extended to a size that is not smaller, and only 404 means that there is none.
\<close>

definition changes_store :: "'w VolcEngin \<Rightarrow> (nat \<Rightarrow> 'w \<Rightarrow> bool) \<Rightarrow> ('w \<Rightarrow> store) \<Rightarrow> bool" where
  "changes_store volc ok view \<longleftrightarrow> (\<forall>k w v. ok k w \<longrightarrow>
     (let ((err, resp), w') = sdk_DeleteVolume (svcClients volc) v w
      in ok k w' \<and> effect False (accepted err resp \<or> err \<noteq> None \<and> is_not_found resp) ((view w)(v := None)) (view w) (view w')) \<and>
     (\<forall>nd a. nd \<noteq> [] \<longrightarrow> view w v = Some a \<longrightarrow> av_holder a = None \<longrightarrow>
       (let ((err, resp), w') = sdk_AttachVolume (svcClients volc) nd v w
        in ok k w' \<and> effect False (accepted err resp) ((view w)(v \<mapsto> a\<lparr>av_holder := Some nd\<rparr>)) (view w) (view w'))) \<and>
     (\<forall>nd. let ((err, resp), w') = sdk_DetachVolume (svcClients volc) nd v w
        in ok k w' \<and> effect False (accepted err resp) (release v nd (view w)) (view w) (view w')) \<and>
     (\<forall>gb. let ((err, resp), w') = sdk_ExtendVolume (svcClients volc) v (FormatInt (sint gb)) w
        in ok k w' \<and> (\<not> accepted err resp \<and> view w' = view w \<or>
          (\<forall>a. view w v = Some a \<longrightarrow> sint (av_size a) \<le> sint (gb * GB)) \<and>
          effect False (accepted err resp) (resize v (gb * GB) (view w)) (view w) (view w'))))"

definition service_keeps :: "'w VolcEngin \<Rightarrow> (nat \<Rightarrow> 'w \<Rightarrow> bool) \<Rightarrow> ('w \<Rightarrow> store) \<Rightarrow> bool" where
  "service_keeps volc ok view \<longleftrightarrow>
     reads_store volc ok view \<and> time_keeps volc ok view \<and> creates_in_store volc ok view \<and> changes_store volc ok view"

section \<open>Looking volumes up\<close>

lemma wp_volume_of_output: "P (Inr (Some (listed x gb))) w \<Longrightarrow> wp (volume_of_output x gb) P w"
  by (auto simp: volume_of_output_def listed_def)

lemma wp_first_volume:
  assumes "vs = [] \<Longrightarrow> P (Inr None) w" and "\<And>e. P (Inl e) w"
    and "\<And>x xs sz gb. vs = Some x # xs \<Longrightarrow> VolumeForDescribeVolumesOutput_Size x = Some sz \<Longrightarrow> ParseInt64 sz = Some gb \<Longrightarrow>
      P (Inr (Some (listed x gb))) w"
  shows "wp (first_volume what vs) P w"
  using assms by (auto simp: first_volume_def intro!: wp_volume_of_output split: list.split option.split)

lemma service_readD:
  assumes "service_keeps volc ok view" and "ok k w" and "sdk_DescribeVolumes (svcClients volc) inp w = (r, w')"
  shows "ok k w'" and "view w' = view w"
    and "inp = by_id_input v \<Longrightarrow> answered r \<Longrightarrow> DescribeVolumesOutput_Volumes (snd r) = [] \<Longrightarrow> view w v = None"
    and "inp = by_id_input v \<Longrightarrow> answered r \<Longrightarrow> DescribeVolumesOutput_Volumes (snd r) = Some x # xs \<Longrightarrow>
      VolumeForDescribeVolumesOutput_VolumeId x = Some v \<and> tells (view w) x"
    and "inp = by_name_input n \<Longrightarrow> answered r \<Longrightarrow> DescribeVolumesOutput_Volumes (snd r) = [] \<Longrightarrow> \<not> named (view w) n"
    and "inp = by_name_input n \<Longrightarrow> answered r \<Longrightarrow> DescribeVolumesOutput_Volumes (snd r) = Some x # xs \<Longrightarrow>
      VolumeForDescribeVolumesOutput_VolumeName x = Some n \<and> tells (view w) x"
proof -
  from assms(1,2) have *: "reads_store volc ok view" by (simp add: service_keeps_def)
  show "ok k w'" "view w' = view w" using * assms(2) unfolding reads_store_def Let_def case_prod_unfold by (metis assms(3) fst_conv snd_conv)+
  have id: "answered (fst d) \<longrightarrow> (case DescribeVolumesOutput_Volumes (snd (fst d)) of [] \<Rightarrow> view w v = None
      | p # _ \<Rightarrow> \<forall>x. p = Some x \<longrightarrow> VolumeForDescribeVolumesOutput_VolumeId x = Some v \<and> tells (view w) x)"
    if "d = sdk_DescribeVolumes (svcClients volc) (by_id_input v) w" for d
    using * assms(2) unfolding reads_store_def that Let_def case_prod_unfold by blast
  have name: "answered (fst d) \<longrightarrow> (case DescribeVolumesOutput_Volumes (snd (fst d)) of [] \<Rightarrow> \<not> named (view w) n
      | p # _ \<Rightarrow> \<forall>x. p = Some x \<longrightarrow> VolumeForDescribeVolumesOutput_VolumeName x = Some n \<and> tells (view w) x)"
    if "d = sdk_DescribeVolumes (svcClients volc) (by_name_input n) w" for d
    using * assms(2) unfolding reads_store_def that Let_def case_prod_unfold by blast
  show "inp = by_id_input v \<Longrightarrow> answered r \<Longrightarrow> DescribeVolumesOutput_Volumes (snd r) = [] \<Longrightarrow> view w v = None"
    and "inp = by_id_input v \<Longrightarrow> answered r \<Longrightarrow> DescribeVolumesOutput_Volumes (snd r) = Some x # xs \<Longrightarrow>
      VolumeForDescribeVolumesOutput_VolumeId x = Some v \<and> tells (view w) x"
    using id [OF refl] assms(3) by auto
  show "inp = by_name_input n \<Longrightarrow> answered r \<Longrightarrow> DescribeVolumesOutput_Volumes (snd r) = [] \<Longrightarrow> \<not> named (view w) n"
    and "inp = by_name_input n \<Longrightarrow> answered r \<Longrightarrow> DescribeVolumesOutput_Volumes (snd r) = Some x # xs \<Longrightarrow>
      VolumeForDescribeVolumesOutput_VolumeName x = Some n \<and> tells (view w) x"
    using name [OF refl] assms(3) by auto
qed

lemma tells_agrees:
  "tells m x \<Longrightarrow> VolumeForDescribeVolumesOutput_Size x = Some sz \<Longrightarrow> ParseInt64 sz = Some gb \<Longrightarrow>
    agrees (m (Volume_Id (listed x gb))) (listed x gb)"
  by (simp add: tells_def listed_def)

lemma client_by_id:
  assumes "service_keeps volc ok view" and "ok k w"
  shows "wp (VolcEngin_VolumeById volc v) (\<lambda>r w'. ok k w' \<and> view w' = view w \<and> (r = Inr None \<longrightarrow> view w v = None) \<and>
    (\<forall>vol. r = Inr (Some vol) \<longrightarrow> agrees (view w v) vol)) w"
proof -
  obtain err resp w' where d: "sdk_DescribeVolumes (svcClients volc) (by_id_input v) w = ((err, resp), w')"
    by (metis prod.exhaust)
  note D = service_readD [OF assms d]
  have "wp (first_volume what (DescribeVolumesOutput_Volumes resp)) (\<lambda>r w'. ok k w' \<and> view w' = view w \<and>
      (r = Inr None \<longrightarrow> view w v = None) \<and> (\<forall>vol. r = Inr (Some vol) \<longrightarrow> agrees (view w v) vol)) w'"
    if "answered (err, resp)" for what
  proof (rule wp_first_volume, goal_cases)
    case (3 x xs sz gb)
    have "VolumeForDescribeVolumesOutput_VolumeId x = Some v" "tells (view w) x" using D(4) that 3(1) by auto
    then show ?case using tells_agrees [OF _ 3(2,3)] D(1,2) by (auto simp: listed_def)
  qed (use D(1,2) D(3) [OF refl that] in simp_all)
  with D(1,2) d show ?thesis
    by (auto simp: VolcEngin_VolumeById_def wp_call by_id_input_def [symmetric] answered_def split: option.split)
qed

lemma client_by_name:
  assumes "service_keeps volc ok view" and "ok k w"
  shows "wp (VolcEngin_VolumeByName volc n) (\<lambda>r w'. ok k w' \<and> view w' = view w \<and> (r = Inr None \<longrightarrow> \<not> named (view w) n) \<and>
    (\<forall>vol. r = Inr (Some vol) \<longrightarrow> agrees (view w (Volume_Id vol)) vol \<and> Volume_Name vol = n)) w"
proof -
  obtain err resp w' where d: "sdk_DescribeVolumes (svcClients volc) (by_name_input n) w = ((err, resp), w')"
    by (metis prod.exhaust)
  note D = service_readD [OF assms d]
  have "wp (first_volume what (DescribeVolumesOutput_Volumes resp)) (\<lambda>r w'. ok k w' \<and> view w' = view w \<and>
      (r = Inr None \<longrightarrow> \<not> named (view w) n) \<and>
      (\<forall>vol. r = Inr (Some vol) \<longrightarrow> agrees (view w (Volume_Id vol)) vol \<and> Volume_Name vol = n)) w'"
    if "answered (err, resp)" for what
  proof (rule wp_first_volume, goal_cases)
    case (3 x xs sz gb)
    have "VolumeForDescribeVolumesOutput_VolumeName x = Some n" "tells (view w) x" using D(6) that 3(1) by auto
    then show ?case using tells_agrees [OF _ 3(2,3)] D(1,2) by (auto simp: listed_def)
  qed (use D(1,2) D(5) [OF refl that] in simp_all)
  with D(1,2) d show ?thesis
    by (auto simp: VolcEngin_VolumeByName_def wp_call by_name_input_def [symmetric] answered_def split: option.split)
qed

section \<open>Waiting\<close>

text \<open>What every round and every sleep keeps holds when the loop ends.\<close>

lemma wp_poll:
  assumes "\<And>u. I u \<Longrightarrow> wp rnd (\<lambda>_. I) u" and "\<And>u. I u \<Longrightarrow> I (sleep_ms sdk 500 u)" and "I w"
  shows "wp (poll sdk rnd) (\<lambda>_. I) w"
proof -
  have "fst res \<noteq> Panic \<longrightarrow> I (snd res)" if "poll sdk rnd w = Some res" for res
  proof -
    have "(\<forall>u. I u \<longrightarrow> wp rnd (\<lambda>_. I) u) \<longrightarrow> (\<forall>u. I u \<longrightarrow> I (sleep_ms sdk 500 u)) \<longrightarrow> I w \<longrightarrow> fst res \<noteq> Panic \<longrightarrow> I (snd res)"
    proof (rule poll.raw_induct [where P = "\<lambda>sdk rnd w res. (\<forall>u. I u \<longrightarrow> wp rnd (\<lambda>_. I) u) \<longrightarrow>
          (\<forall>u. I u \<longrightarrow> I (sleep_ms sdk 500 u)) \<longrightarrow> I w \<longrightarrow> fst res \<noteq> Panic \<longrightarrow> I (snd res)", OF _ that])
      fix f sdk rnd w res
      assume IH: "\<And>(sdk :: 'a sdk) rnd w res. f sdk rnd w = Some res \<Longrightarrow> (\<forall>u. I u \<longrightarrow> wp rnd (\<lambda>_. I) u) \<longrightarrow>
            (\<forall>u. I u \<longrightarrow> I (sleep_ms sdk 500 u)) \<longrightarrow> I w \<longrightarrow> fst res \<noteq> Panic \<longrightarrow> I (snd res)"
        and eq: "(case ctx_err (sdk :: 'a sdk) w of Some e \<Rightarrow> Some (Ret (Inl e), w)
          | None \<Rightarrow> (case rnd w of None \<Rightarrow> None | Some (Panic, w1) \<Rightarrow> Some (Panic, w1)
             | Some (Ret (Stop r), w1) \<Rightarrow> Some (Ret r, w1)
             | Some (Ret Again, w1) \<Rightarrow> f sdk rnd (sleep_ms sdk 500 w1))) = Some res"
      show "(\<forall>u. I u \<longrightarrow> wp rnd (\<lambda>_. I) u) \<longrightarrow> (\<forall>u. I u \<longrightarrow> I (sleep_ms sdk 500 u)) \<longrightarrow> I w \<longrightarrow>
          fst res \<noteq> Panic \<longrightarrow> I (snd res)"
      proof (intro impI)
        assume keep: "\<forall>u. I u \<longrightarrow> wp rnd (\<lambda>_. I) u" "\<forall>u. I u \<longrightarrow> I (sleep_ms sdk 500 u)" "I w" and res: "fst res \<noteq> Panic"
        show "I (snd res)"
        proof (cases "ctx_err sdk w")
          case (Some e)
          with eq keep(3) show ?thesis by auto
        next
          case None
          with eq res obtain x w1 where rw: "rnd w = Some (Ret x, w1)" by (auto split: option.splits outcome.splits)
          with keep have I: "I w1" by (auto simp: wp_def)
          show ?thesis
          proof (cases x)
            case Again
            with None rw eq have "f sdk rnd (sleep_ms sdk 500 w1) = Some res" by simp
            from IH [OF this] keep I res show ?thesis by blast
          qed (use None rw eq I in auto)
        qed
      qed
    qed
    with assms show ?thesis by blast
  qed
  then show ?thesis by (force simp: wp_def)
qed

lemma service_sleepD:
  assumes "service_keeps volc ok view" and "ok k w"
  shows "ok k (sleep_ms (svcClients volc) 500 w)" and "view (sleep_ms (svcClients volc) 500 w) = view w"
  using assms by (auto simp: service_keeps_def time_keeps_def)

lemma client_waits:
  assumes "service_keeps volc ok view" and "ok k w"
  shows "wp (WaitVolumeBeStatus volc v st) (\<lambda>_ w'. ok k w' \<and> view w' = view w) w"
    and "wp (WaitVolumeBeCreated volc v) (\<lambda>_ w'. ok k w' \<and> view w' = view w) w"
    and "wp (WaitVolumeBeExtended volc v sz) (\<lambda>_ w'. ok k w' \<and> view w' = view w) w"
proof -
  have round: "wp (bnd (VolcEngin_VolumeById volc v) f) (\<lambda>_ w'. ok k w' \<and> view w' = view w) u"
    if "ok k u \<and> view u = view w" "\<And>r u. ok k u \<and> view u = view w \<Longrightarrow> wp (f r) (\<lambda>_ w'. ok k w' \<and> view w' = view w) u"
    for f :: "error + Volume option \<Rightarrow> ('a, (error + unit) round) go" and u
    unfolding wp_bnd by (rule wp_mono [OF client_by_id [OF assms(1)]]) (use that in auto)
  have sleep: "ok k (sleep_ms (svcClients volc) 500 u) \<and> view (sleep_ms (svcClients volc) 500 u) = view w"
    if "ok k u \<and> view u = view w" for u
    using service_sleepD [OF assms(1), of k u] that by simp
  have start: "ok k w \<and> view w = view w" using assms(2) by simp
  show "wp (WaitVolumeBeStatus volc v st) (\<lambda>_ w'. ok k w' \<and> view w' = view w) w"
    unfolding WaitVolumeBeStatus_def status_round_def
    by (rule wp_poll [where I = "\<lambda>u. ok k u \<and> view u = view w", OF round sleep start]) (auto split: sum.split option.split)
  show "wp (WaitVolumeBeCreated volc v) (\<lambda>_ w'. ok k w' \<and> view w' = view w) w"
    unfolding WaitVolumeBeCreated_def created_round_def
    by (rule wp_poll [where I = "\<lambda>u. ok k u \<and> view u = view w", OF round sleep start]) (auto split: sum.split option.split)
  show "wp (WaitVolumeBeExtended volc v sz) (\<lambda>_ w'. ok k w' \<and> view w' = view w) w"
    unfolding WaitVolumeBeExtended_def extended_round_def
    by (rule wp_poll [where I = "\<lambda>u. ok k u \<and> view u = view w", OF round sleep start]) (auto split: sum.split option.split)
qed

text \<open>A wait whose outcome is turned into the answer of the call.\<close>

lemma wp_wait:
  assumes "wp m (\<lambda>_ w'. ok k w' \<and> view w' = st) w" and "\<And>e w'. ok k w' \<Longrightarrow> view w' = st \<Longrightarrow> P (Inl (h e)) w'"
    and "\<And>w'. ok k w' \<Longrightarrow> view w' = st \<Longrightarrow> wp f P w'"
  shows "wp (bndE m h (\<lambda>_. f)) P w"
  unfolding wp_bndE by (rule wp_mono [OF assms(1)]) (use assms(2,3) in \<open>auto split: sum.split\<close>)

section \<open>Changing volumes\<close>

text \<open>
  The three calls of the typed client that wait for a state: the answer is a success only
  if the request was accepted.
\<close>

lemma wp_change:
  assumes "service_keeps volc ok view" and "ok k w'" and "effect False (accepted None resp) new old (view w')"
  shows "wp (bnd (metadata_error resp) (\<lambda>merr. case merr of Some e \<Rightarrow> ret (Inl (t e))
      | None \<Rightarrow> bndE (WaitVolumeBeStatus volc v st) h (\<lambda>_. ret (Inr ()))))
    (\<lambda>r w'. ok k w' \<and> effect False (r = Inr ()) new old (view w')) w'"
proof -
  have wait: "wp (bndE (WaitVolumeBeStatus volc v st) h (\<lambda>_. ret (Inr ()))) (\<lambda>r w'. ok k w' \<and> effect False (r = Inr ()) new old (view w')) w'"
    if "accepted None resp"
    by (rule wp_wait [where ok = ok and k = k and view = view, OF client_waits(1) [OF assms(1,2)]]) (use that assms(3) in \<open>simp_all add: effect_def\<close>)
  show ?thesis
  proof (cases "accepted None resp")
    case True
    then have "resp = None \<or> (\<exists>md. resp = Some (Some md) \<and> MetadataError md = None)"
      by (auto simp: accepted_def split: option.splits)
    then show ?thesis using wait [OF True] by (auto simp: metadata_error_def simp del: wp_bndE)
  next
    case False
    then show ?thesis
      using assms(2,3) by (auto simp: metadata_error_def accepted_def effect_def simp del: wp_bndE split: option.splits)
  qed
qed

lemma service_changeD:
  assumes "service_keeps volc ok view" and "ok k w"
  shows "sdk_DeleteVolume (svcClients volc) v w = ((err, resp), w') \<Longrightarrow> ok k w' \<and>
      effect False (accepted err resp \<or> err \<noteq> None \<and> is_not_found resp) ((view w)(v := None)) (view w) (view w')"
    and "nd \<noteq> [] \<Longrightarrow> view w v = Some a \<Longrightarrow> av_holder a = None \<Longrightarrow>
      sdk_AttachVolume (svcClients volc) nd v w = ((err, resp), w') \<Longrightarrow> ok k w' \<and>
      effect False (accepted err resp) ((view w)(v \<mapsto> a\<lparr>av_holder := Some nd\<rparr>)) (view w) (view w')"
    and "sdk_DetachVolume (svcClients volc) nd v w = ((err, resp), w') \<Longrightarrow> ok k w' \<and>
      effect False (accepted err resp) (release v nd (view w)) (view w) (view w')"
    and "sdk_ExtendVolume (svcClients volc) v (FormatInt (sint gb)) w = ((err, resp), w') \<Longrightarrow> ok k w' \<and>
      (\<not> accepted err resp \<and> view w' = view w \<or> (\<forall>a. view w v = Some a \<longrightarrow> sint (av_size a) \<le> sint (gb * GB)) \<and>
       effect False (accepted err resp) (resize v (gb * GB) (view w)) (view w) (view w'))"
proof -
  have *: "changes_store volc ok view" using assms(1) by (simp add: service_keeps_def)
  note D = * [unfolded changes_store_def Let_def case_prod_unfold, rule_format, OF assms(2), of v]
  show "sdk_DeleteVolume (svcClients volc) v w = ((err, resp), w') \<Longrightarrow> ok k w' \<and>
      effect False (accepted err resp \<or> err \<noteq> None \<and> is_not_found resp) ((view w)(v := None)) (view w) (view w')"
    using D by simp
  show "nd \<noteq> [] \<Longrightarrow> view w v = Some a \<Longrightarrow> av_holder a = None \<Longrightarrow>
      sdk_AttachVolume (svcClients volc) nd v w = ((err, resp), w') \<Longrightarrow> ok k w' \<and>
      effect False (accepted err resp) ((view w)(v \<mapsto> a\<lparr>av_holder := Some nd\<rparr>)) (view w) (view w')"
    using D by auto
  show "sdk_DetachVolume (svcClients volc) nd v w = ((err, resp), w') \<Longrightarrow> ok k w' \<and>
      effect False (accepted err resp) (release v nd (view w)) (view w) (view w')"
    using D by (metis fst_conv snd_conv)
  show "sdk_ExtendVolume (svcClients volc) v (FormatInt (sint gb)) w = ((err, resp), w') \<Longrightarrow> ok k w' \<and>
      (\<not> accepted err resp \<and> view w' = view w \<or> (\<forall>a. view w v = Some a \<longrightarrow> sint (av_size a) \<le> sint (gb * GB)) \<and>
       effect False (accepted err resp) (resize v (gb * GB) (view w)) (view w) (view w'))"
    using D by (metis fst_conv snd_conv)
qed

lemma client_deletes:
  assumes "service_keeps volc ok view" and "ok k w"
  shows "wp (VolcEngin_DeleteVolume volc v)
    (\<lambda>r w'. ok k w' \<and> effect False (r = Inr ()) ((view w)(v := None)) (view w) (view w')) w"
proof -
  obtain err resp w' where c: "sdk_DeleteVolume (svcClients volc) v w = ((err, resp), w')" by (metis prod.exhaust)
  note D = service_changeD(1) [OF assms c]
  show ?thesis
  proof (cases err)
    case None
    with D have "effect False (accepted None resp) ((view w)(v := None)) (view w) (view w')" "ok k w'" by simp_all
    with None c show ?thesis
      by (auto simp: VolcEngin_DeleteVolume_def wp_call simp del: wp_bnd intro!: wp_change [OF assms(1)] iff: wp_bnd [of "call _"])
  next
    case (Some e)
    with D c show ?thesis by (auto simp: VolcEngin_DeleteVolume_def wp_call accepted_def effect_def)
  qed
qed

lemma client_attaches:
  assumes "service_keeps volc ok view" and "ok k w" and "nd \<noteq> []" and "view w v = Some a" and "av_holder a = None"
  shows "wp (VolcEngin_AttachVolume volc nd v)
    (\<lambda>r w'. ok k w' \<and> effect False (r = Inr ()) ((view w)(v \<mapsto> a\<lparr>av_holder := Some nd\<rparr>)) (view w) (view w')) w"
proof -
  obtain err resp w' where c: "sdk_AttachVolume (svcClients volc) nd v w = ((err, resp), w')" by (metis prod.exhaust)
  note D = service_changeD(2) [OF assms(1-5) c]
  show ?thesis
  proof (cases err)
    case None
    with D c show ?thesis
      by (auto simp: VolcEngin_AttachVolume_def wp_call simp del: wp_bnd intro!: wp_change [OF assms(1)] iff: wp_bnd [of "call _"])
  next
    case (Some e)
    with D c show ?thesis by (auto simp: VolcEngin_AttachVolume_def wp_call accepted_def effect_def)
  qed
qed

lemma client_detaches:
  assumes "service_keeps volc ok view" and "ok k w"
  shows "wp (VolcEngin_DetachVolume volc nd v)
    (\<lambda>r w'. ok k w' \<and> effect False (r = Inr ()) (release v nd (view w)) (view w) (view w')) w"
proof -
  obtain err resp w' where c: "sdk_DetachVolume (svcClients volc) nd v w = ((err, resp), w')" by (metis prod.exhaust)
  note D = service_changeD(3) [OF assms c]
  show ?thesis
  proof (cases err)
    case None
    with D c show ?thesis
      by (auto simp: VolcEngin_DetachVolume_def wp_call simp del: wp_bnd intro!: wp_change [OF assms(1)] iff: wp_bnd [of "call _"])
  next
    case (Some e)
    with D c show ?thesis by (auto simp: VolcEngin_DetachVolume_def wp_call accepted_def effect_def)
  qed
qed

lemma client_extends:
  assumes "service_keeps volc ok view" and "ok k w"
  shows "wp (VolcEngin_ExtendVolume volc v sz) (\<lambda>r w'. ok k w' \<and>
    (r \<noteq> Inr () \<and> view w' = view w \<or> (\<forall>a. view w v = Some a \<longrightarrow> sint (av_size a) \<le> sint (roundGB sz * GB)) \<and>
     effect False (r = Inr ()) (resize v (roundGB sz * GB) (view w)) (view w) (view w'))) w"
    (is "wp _ ?P w")
proof -
  obtain err resp w' where c: "sdk_ExtendVolume (svcClients volc) v (FormatInt (sint (roundGB sz))) w = ((err, resp), w')"
    by (metis prod.exhaust)
  note D = service_changeD(4) [OF assms c]
  have fails: "?P (Inl e) w'" for e using D by (auto simp: effect_def split: if_splits)
  have wait: "wp (bndE (WaitVolumeBeExtended volc v (roundGB sz * GB)) h (\<lambda>_. ret (Inr ()))) ?P w'" if "accepted err resp" for h
  proof -
    have k: "ok k w'" using D by simp
    show ?thesis
      by (rule wp_wait [where ok = ok and k = k and view = view, OF client_waits(3) [OF assms(1) k]])
        (use D that in \<open>auto simp: effect_def\<close>)
  qed
  show ?thesis
    unfolding VolcEngin_ExtendVolume_def wp_bnd [of "call _"] wp_call c
    using fails wait by (auto simp: accepted_def simp del: wp_bndE split: option.split)
qed

lemma client_creates:
  assumes "service_keeps volc ok view" and "ok (Suc k) w" and "\<not> named (view w) n"
  shows "wp (VolcEngin_CreateVolume volc n ty z sid sz) (\<lambda>r w'. ok k w' \<and>
    (r \<in> range Inl \<and> view w' = view w \<or> (\<exists>v. (r = Inr v \<or> \<not> False \<and> r \<in> range Inl) \<and> view w v = None \<and>
      view w' = (view w)(v \<mapsto> \<lparr>av_name = n, av_size = roundGB sz * GB, av_holder = None\<rparr>)))) w"
    (is "wp _ ?P w")
proof -
  let ?inp = "zero_CreateVolumeInput\<lparr>CreateVolumeInput_VolumeName := Some n, CreateVolumeInput_VolumeType := Some ty,
     CreateVolumeInput_Kind := Some ''data'', CreateVolumeInput_Size := Some (FormatInt (sint (roundGB sz))),
     CreateVolumeInput_ZoneId := Some z, CreateVolumeInput_SnapshotId := Some sid\<rparr>"
  obtain err resp w' where c: "sdk_CreateVolume (svcClients volc) ?inp w = ((err, resp), w')" by (metis prod.exhaust)
  have *: "creates_in_store volc ok view" using assms(1) by (simp add: service_keeps_def)
  have D: "ok k w' \<and> (view w' = view w \<and> (err \<noteq> None \<or> CreateVolumeOutput_VolumeId resp = None \<or>
      (case CreateVolumeOutput_Metadata resp of None \<Rightarrow> True | Some md \<Rightarrow> MetadataError md \<noteq> None)) \<or>
    (\<exists>v. CreateVolumeOutput_VolumeId resp \<in> {None, Some v} \<and> view w v = None \<and>
       view w' = (view w)(v \<mapsto> \<lparr>av_name = n, av_size = roundGB sz * GB, av_holder = None\<rparr>)))"
    using *[unfolded creates_in_store_def Let_def case_prod_unfold, rule_format, OF assms(2,3), of ?inp "roundGB sz"]
    by (simp add: c)
  then have k: "ok k w'" and fails: "?P (Inl e) w'" for e by auto
  have wait: "wp (bndE (WaitVolumeBeCreated volc v) h (\<lambda>_. bndE (WaitVolumeBeStatus volc v EBSStatusAvailable) h' (\<lambda>_. ret (Inr v)))) ?P w'"
    if "err = None" "CreateVolumeOutput_VolumeId resp = Some v" "CreateVolumeOutput_Metadata resp = Some md" "MetadataError md = None"
    for v md h h'
  proof -
    have made: "view w v = None" "view w' = (view w)(v \<mapsto> \<lparr>av_name = n, av_size = roundGB sz * GB, av_holder = None\<rparr>)"
      using D that by auto
    have end_at: "?P (Inl e) u" "?P (Inr v) u" if "ok k u" "view u = view w'" for e u
      using made that by auto
    have second: "wp (bndE (WaitVolumeBeStatus volc v EBSStatusAvailable) h' (\<lambda>_. ret (Inr v))) ?P u"
      if u: "ok k u" "view u = view w'" for u
      by (rule wp_wait [where ok = ok and k = k and view = view, OF client_waits(1) [OF assms(1) u(1)]])
        (use end_at u in \<open>simp_all only: wp_basic u(2)\<close>)
    show ?thesis
      by (rule wp_wait [where ok = ok and k = k and view = view, OF client_waits(2) [OF assms(1) k]])
        (use end_at second in blast)+
  qed
  show ?thesis
    unfolding VolcEngin_CreateVolume_def wp_bnd [of "call _"] wp_call c
    using fails wait by (auto simp del: wp_bndE split: option.split)
qed

lemma client_node:
  assumes "service_keeps volc ok view" and "ok k w"
  shows "wp (VolcEngin_NodeById volc n) (\<lambda>r w'. ok k w' \<and> view w' = view w) w"
proof -
  have "\<And>inp. let (r, w') = sdk_DescribeInstances (svcClients volc) inp w in ok k w' \<and> view w' = view w"
    using assms unfolding service_keeps_def reads_store_def by blast
  then show ?thesis
    by (auto simp: VolcEngin_NodeById_def wp_call Let_def case_prod_unfold split: option.split list.split)
qed

lemma client_keeps_contract:
  assumes "service_keeps volc ok view"
  shows "volume_cloud (VolcEngin_Cloud tk volc) ok view False (\<lambda>s. roundGB s * GB)"
proof (unfold_locales, goal_cases)
  case (1 k w)
  then show ?case using assms by (simp add: service_keeps_def time_keeps_def)
next
  case (2 k w v)
  from client_by_id [OF assms this, of v] show ?case by (auto simp: VolcEngin_Cloud_def elim!: wp_mono)
next
  case (3 k w n)
  from client_by_name [OF assms this, of n] show ?case by (auto simp: VolcEngin_Cloud_def elim!: wp_mono)
qed (simp_all only: VolcEngin_Cloud_def Cloud.select_convs, (rule client_node client_creates client_deletes client_attaches
    client_detaches client_extends; (rule assms)?; assumption)+)

end
