(* ===== verification/Client_Refines.thy ===== *)
theory Client_Refines
  imports Client_Store
begin

text \<open>
  The controller service on the cloud client refines the abstract store of volumes; and the
  small service of \<open>Sim_SDK\<close> keeps what is asked of a service, which shows that the
  hypotheses can hold and what a run looks like.
\<close>

section \<open>The property\<close>

text \<open>C5: The controller service refines the abstract store on the real cloud client too. On any
  service that keeps the documented contract \<open>service_keeps\<close>, whatever requests arrive one
  after another and however long the service takes to settle them, the volumes are those of
  a run of the store in which every request that succeeds has taken its effect, sizes rounded
  up to whole GB, and one that fails has taken it or changed nothing: no volume under a name
  in use, none taken from its node. So names stay unique, and one request more leaves a volume
  that it does not delete with its name, not smaller, and with its node, unless it is a
  ControllerUnpublishVolume of that volume from that node.\<close>

theorem client_refines_store:
  assumes "service_keeps volc ok view" and "ok (length ps + 1) (world s)"
    and "run_ops tk d (VolcEngin_Cloud tk volc) ps s = Some (Ret rs, s1)"
  shows "vol_steps False (\<lambda>sz. roundGB sz * GB) ps (map (\<lambda>r. r = Inr ()) rs) (view (world s)) (view (world s1)) \<and>
    (unique_names (view (world s)) \<longrightarrow> unique_names (view (world s1))) \<and>
    (\<forall>p r s2 v a b. run_op tk d (VolcEngin_Cloud tk volc) p s1 = Some (Ret r, s2) \<longrightarrow>
      view (world s1) v = Some a \<longrightarrow> view (world s2) v = Some b \<longrightarrow>
      av_name b = av_name a \<and> sint (av_size a) \<le> sint (av_size b) \<and>
      (\<forall>n. av_holder a = Some n \<longrightarrow> av_holder b = Some n \<or>
         (\<exists>req. p = OpUnpublish req \<and> vu_VolumeId req = v \<and> vu_NodeId req = n)))"
proof -
  note contract = client_keeps_contract [OF assms(1), of tk]
  have "wp (run_ops tk d (VolcEngin_Cloud tk volc) ps) (\<lambda>rs s'. ok 1 (world s') \<and>
      vol_steps False (\<lambda>sz. roundGB sz * GB) ps (map (\<lambda>r. r = Inr ()) rs) (view (world s)) (view (world s'))) s"
    using volume_cloud.run_ops_steps [OF contract assms(2)] .
  then have ok: "ok (Suc 0) (world s1)"
    and steps: "vol_steps False (\<lambda>sz. roundGB sz * GB) ps (map (\<lambda>r. r = Inr ()) rs) (view (world s)) (view (world s1))"
    using assms(3) by (simp_all add: wp_def)
  have one: "\<exists>c. vol_step False (\<lambda>sz. roundGB sz * GB) p c (view (world s1)) (view (world s2))"
    if "run_op tk d (VolcEngin_Cloud tk volc) p s1 = Some (Ret r, s2)" for p r s2
    using volume_cloud.run_op_step [OF contract ok, of tk d p] that
    by (auto simp: wp_def volume_cloud.reaches_def [OF contract])
  show ?thesis
    using steps vol_steps_unique [OF steps] one vol_step_keeps by blast
qed

section \<open>The small service keeps the contract\<close>

definition sim_at :: "sim \<Rightarrow> string \<Rightarrow> Volume option" where
  "sim_at w u = find (\<lambda>v. Volume_Id v = u) (sim_vols w)"

definition sim_avol :: "sim \<Rightarrow> Volume \<Rightarrow> avol" where
  "sim_avol w v = \<lparr>av_name = Volume_Name v, av_size = sim_size w v * GB,
     av_holder = (if Volume_Status v = StatusDetaching \<or> Volume_NodeId v = [] then None else Some (Volume_NodeId v))\<rparr>"

definition sim_store :: "sim \<Rightarrow> store" where
  "sim_store w u = (case sim_at w u of None \<Rightarrow> None | Some v \<Rightarrow> if Volume_Status v = StatusDeleted then None else Some (sim_avol w v))"

text \<open>Every id is made from the name; only an attached volume has a node.\<close>

definition sim_fine :: "Volume \<Rightarrow> bool" where
  "sim_fine v \<longleftrightarrow> Volume_Id v = ''vol-'' @ Volume_Name v \<and> (Volume_Status v = StatusAvailable \<longrightarrow> Volume_NodeId v = []) \<and>
     (Volume_Status v = StatusAttached \<longrightarrow> Volume_NodeId v \<noteq> [])"

definition sim_ok :: "nat \<Rightarrow> sim \<Rightarrow> bool" where
  "sim_ok k w \<longleftrightarrow> distinct (map Volume_Id (sim_vols w)) \<and> (\<forall>v\<in>set (sim_vols w). sim_fine v)"

lemma find_id_map: "(\<And>v. Volume_Id (f v) = Volume_Id v) \<Longrightarrow>
    find (\<lambda>v. Volume_Id v = u) (map f vs) = map_option f (find (\<lambda>v. Volume_Id v = u) vs)"
  by (induction vs) auto

lemma find_SomeD: "find P xs = Some x \<Longrightarrow> x \<in> set xs \<and> P x"
  by (induction xs) (auto split: if_splits)

lemma find_id_filter: "distinct (map Volume_Id vs) \<Longrightarrow> find (\<lambda>v. Volume_Id v = u) (filter P vs) =
    (case find (\<lambda>v. Volume_Id v = u) vs of None \<Rightarrow> None | Some v \<Rightarrow> if P v then Some v else None)"
  by (induction vs) (auto simp: find_None_iff image_iff dest!: find_SomeD split: option.split)

lemma find_filter_Nil: "filter P vs = [] \<Longrightarrow> find P vs = None"
  by (auto simp: find_None_iff filter_empty_conv)

lemma find_id_in: "distinct (map Volume_Id vs) \<Longrightarrow> v \<in> set vs \<Longrightarrow> find (\<lambda>x. Volume_Id x = Volume_Id v) vs = Some v"
  by (induction vs) (auto simp: image_iff)

lemma sim_at_SomeD:
  assumes "sim_at w u = Some v"
  shows "v \<in> set (sim_vols w)" and "Volume_Id v = u"
  using assms by (auto simp: sim_at_def dest: find_SomeD)

lemma sim_output_fields:
  "VolumeForDescribeVolumesOutput_VolumeId (sim_output v) = Some (Volume_Id v)"
  "VolumeForDescribeVolumesOutput_VolumeName (sim_output v) = Some (Volume_Name v)"
  "VolumeForDescribeVolumesOutput_Size (sim_output v) = Some (FormatInt (sint (Volume_Capacity v)))"
  by (simp_all add: sim_output_def)

lemma sim_listed: "listed (sim_output v) (Volume_Capacity v) = sim_view v"
  by (cases "Volume_Status v") (simp_all add: listed_def sim_output_def sim_view_def StatusFromString_def EBSStatus_defs)

lemma sim_agrees:
  assumes "sim_ok k w" and "v \<in> set (sim_vols w)"
  shows "agrees (sim_store w (Volume_Id v)) (sim_view v)"
proof -
  have "sim_at w (Volume_Id v) = Some v" using assms find_id_in by (auto simp: sim_ok_def sim_at_def)
  moreover have "sim_fine v" using assms by (simp add: sim_ok_def)
  ultimately show ?thesis
    by (cases "Volume_Status v") (auto simp: sim_store_def agrees_def sim_avol_def sim_view_def sim_size_def sim_fine_def)
qed

lemma sim_tells: "sim_ok k w \<Longrightarrow> v \<in> set (sim_vols w) \<Longrightarrow> tells (sim_store w) (sim_output v)"
  using ParseInt64_FormatInt [OF sint_i64_ge sint_i64_lt, of "Volume_Capacity v"] sim_agrees [of k w v] sim_listed [of v]
  by (auto simp: tells_def sim_output_fields)

lemma sim_reads_store: "reads_store sim_volc sim_ok sim_store"
proof -
  have hits: "filter (\<lambda>v. Some (Volume_Id v) \<in> set (DescribeVolumesInput_VolumeIds (by_id_input u)) \<or>
        Some (Volume_Name v) = DescribeVolumesInput_VolumeName (by_id_input u)) vs = filter (\<lambda>v. Volume_Id v = u) vs"
    "filter (\<lambda>v. Some (Volume_Id v) \<in> set (DescribeVolumesInput_VolumeIds (by_name_input u)) \<or>
        Some (Volume_Name v) = DescribeVolumesInput_VolumeName (by_name_input u)) vs = filter (\<lambda>v. Volume_Name v = u) vs" for u vs
    by (auto simp: by_id_input_def by_name_input_def zero_DescribeVolumesInput_def intro!: filter_cong)
  have id: "case map (Some \<circ> sim_output) (filter (\<lambda>v. Volume_Id v = u) (sim_vols w)) of [] \<Rightarrow> sim_store w u = None
      | p # _ \<Rightarrow> \<forall>x. p = Some x \<longrightarrow> VolumeForDescribeVolumesOutput_VolumeId x = Some u \<and> tells (sim_store w) x"
    if "sim_ok k w" for k w u
  proof (cases "filter (\<lambda>v. Volume_Id v = u) (sim_vols w)")
    case Nil
    then show ?thesis using find_filter_Nil [OF Nil] by (simp add: sim_store_def sim_at_def)
  next
    case (Cons y ys)
    then have "y \<in> set (sim_vols w)" "Volume_Id y = u" by (auto simp: filter_eq_Cons_iff)
    with Cons sim_tells [OF that] show ?thesis by (auto simp: sim_output_fields)
  qed
  have name: "case map (Some \<circ> sim_output) (filter (\<lambda>v. Volume_Name v = n) (sim_vols w)) of [] \<Rightarrow> \<not> named (sim_store w) n
      | p # _ \<Rightarrow> \<forall>x. p = Some x \<longrightarrow> VolumeForDescribeVolumesOutput_VolumeName x = Some n \<and> tells (sim_store w) x"
    if "sim_ok k w" for k w n
  proof (cases "filter (\<lambda>v. Volume_Name v = n) (sim_vols w)")
    case Nil
    then have "\<forall>v\<in>set (sim_vols w). Volume_Name v \<noteq> n" by (simp add: filter_empty_conv)
    then have "\<not> named (sim_store w) n"
      by (auto simp: named_def sim_store_def sim_avol_def dest: sim_at_SomeD split: option.splits if_splits)
    with Nil show ?thesis by simp
  next
    case (Cons y ys)
    then have "y \<in> set (sim_vols w)" "Volume_Name y = n" by (auto simp: filter_eq_Cons_iff)
    with Cons sim_tells [OF that] show ?thesis by (auto simp: sim_output_fields)
  qed
  show ?thesis
    unfolding reads_store_def
    by (auto simp: sim_volc_def sim_sdk_def sim_instances_def sim_describe_def Let_def hits zero_DescribeVolumesOutput_def id name)
qed

text \<open>Time settles every volume into the state that the store shows already.\<close>

lemma sim_settle_fine: "sim_fine v \<Longrightarrow> sim_fine (sim_settle w v)"
  by (cases "Volume_Status v") (auto simp: sim_fine_def sim_settle_def split: option.split)

lemma sim_settle_avol:
  assumes "sim_fine v" and "Volume_Status v \<noteq> StatusDeleted"
  shows "sim_avol (sim_sleep ms w) (sim_settle w v) = sim_avol w v" and "Volume_Status (sim_settle w v) \<noteq> StatusDeleted"
  using assms by (cases "Volume_Status v"; auto simp: sim_avol_def sim_settle_def sim_size_def sim_sleep_def sim_fine_def split: option.split)+

lemma sim_settle_id [simp]: "Volume_Id (sim_settle w v) = Volume_Id v"
  by (cases "Volume_Status v") (auto simp: sim_settle_def)

lemma sim_time_keeps: "time_keeps sim_volc sim_ok sim_store"
proof -
  have ok: "sim_ok k (sim_sleep ms w)" if "sim_ok k w" for k ms w
    using that sim_settle_fine by (auto simp: sim_ok_def sim_sleep_def o_def distinct_map_filter)
  have "sim_at (sim_sleep ms w) u = (case sim_at w u of None \<Rightarrow> None
      | Some v \<Rightarrow> if Volume_Status v = StatusDeleted then None else Some (sim_settle w v))" if "sim_ok k w" for k ms w u
    using that by (auto simp: sim_at_def sim_sleep_def find_id_map find_id_filter sim_ok_def split: option.split)
  then have "sim_store (sim_sleep ms w) = sim_store w" if "sim_ok k w" for k ms w
    using that by (auto simp: sim_store_def fun_eq_iff sim_settle_avol sim_ok_def dest: sim_at_SomeD split: option.split)
  with ok show ?thesis by (auto simp: time_keeps_def sim_volc_def sim_sdk_def sim_ok_def)
qed

lemma sim_creates: "creates_in_store sim_volc sim_ok sim_store"
proof -
  have "sim_ok k (snd (sim_create inp w)) \<and> (\<exists>v. CreateVolumeOutput_VolumeId (snd (fst (sim_create inp w))) \<in> {None, Some v} \<and>
      sim_store w v = None \<and>
      sim_store (snd (sim_create inp w)) = (sim_store w)(v \<mapsto> \<lparr>av_name = n, av_size = gb * GB, av_holder = None\<rparr>))"
    if ok: "sim_ok (Suc k) w" and new: "\<not> named (sim_store w) n" and inp: "CreateVolumeInput_VolumeName inp = Some n"
      "CreateVolumeInput_Size inp = Some (FormatInt (sint gb))" for k w inp n gb
  proof -
    let ?u = "''vol-'' @ n" and ?w = "snd (sim_create inp w)"
    let ?v = "\<lparr>Volume_Id = ?u, Volume_Name = n, Volume_Status = StatusUnknown, Volume_Capacity = gb, Volume_NodeId = [],
      Volume_ZoneId = opt_str (CreateVolumeInput_ZoneId inp), Volume_VolumeType = opt_str (CreateVolumeInput_VolumeType inp)\<rparr>"
    have w: "?w = w\<lparr>sim_vols := ?v # filter (\<lambda>v. Volume_Id v \<noteq> ?u) (sim_vols w)\<rparr>"
      using ParseInt64_FormatInt [OF sint_i64_ge sint_i64_lt, of gb] inp by (simp add: sim_create_def opt_str_def Let_def)
    have out: "CreateVolumeOutput_VolumeId (snd (fst (sim_create inp w))) = Some ?u"
      using inp by (simp add: sim_create_def opt_str_def Let_def)
    have none: "sim_store w ?u = None"
    proof (rule ccontr)
      assume "sim_store w ?u \<noteq> None"
      then obtain v where v: "sim_at w ?u = Some v" "sim_store w ?u = Some (sim_avol w v)"
        by (auto simp: sim_store_def split: option.splits if_splits)
      have "sim_fine v" "Volume_Id v = ?u" using sim_at_SomeD [OF v(1)] ok by (auto simp: sim_ok_def)
      then have "av_name (sim_avol w v) = n" by (simp add: sim_fine_def sim_avol_def)
      with v(2) new show False by (auto simp: named_def)
    qed
    have "sim_at ?w u = (if u = ?u then Some ?v else sim_at w u)" for u
      using ok by (auto simp: w sim_at_def find_id_filter sim_ok_def dest: find_SomeD split: option.split)
    then have "sim_store ?w = (sim_store w)(?u \<mapsto> \<lparr>av_name = n, av_size = gb * GB, av_holder = None\<rparr>)"
      by (auto simp: sim_store_def sim_avol_def sim_size_def w fun_eq_iff split: option.split)
    moreover have "sim_ok k ?w" using ok by (auto simp: w sim_ok_def sim_fine_def distinct_map_filter)
    ultimately show ?thesis using none out by blast
  qed
  then show ?thesis
    unfolding creates_in_store_def Let_def case_prod_unfold sim_fields(1) sim_fields(4) by blast
qed

lemma sim_at_update: "(\<And>v. Volume_Id (f v) = Volume_Id v) \<Longrightarrow>
    sim_at (sim_update x f w) u = (if u = x then map_option f (sim_at w u) else sim_at w u)"
  by (auto simp: sim_at_def sim_update_def find_id_map dest: find_SomeD intro!: option.map_ident_strong split: if_splits)
    (cases "find (\<lambda>v. Volume_Id v = u) (sim_vols w)"; auto dest: find_SomeD)+

text \<open>An accepted request changes one volume that is there, and nothing else of the store.\<close>

lemma sim_store_update:
  assumes "sim_ok k w" and "sim_at w v = Some x" and "Volume_Status x \<noteq> StatusDeleted" and "\<And>x. Volume_Id (f x) = Volume_Id x"
    and "sim_fine (f x)" and "\<And>y. Volume_Id y \<noteq> v \<Longrightarrow> sim_avol w' y = sim_avol w y"
    and "sim_vols w' = sim_vols w"
  shows "sim_ok k (sim_update v f w')"
    and "sim_store (sim_update v f w') =
      (sim_store w)(v := if Volume_Status (f x) = StatusDeleted then None else Some (sim_avol w' (f x)))"
proof -
  have x: "x \<in> set (sim_vols w)" "Volume_Id x = v" using sim_at_SomeD [OF assms(2)] by auto
  have "y = x" if "y \<in> set (sim_vols w)" "Volume_Id y = v" for y
    using assms(1) that x by (auto simp: sim_ok_def distinct_map inj_on_def)
  then show "sim_ok k (sim_update v f w')"
    using assms(1,4,5,7) by (auto simp: sim_ok_def sim_update_def o_def if_distrib [of Volume_Id] cong: if_cong)
  have same: "sim_at w' = sim_at w" by (simp add: sim_at_def fun_eq_iff assms(7))
  have target: "sim_avol (sim_update v f w') y = sim_avol w' y" for y by (simp add: sim_avol_def sim_size_def sim_update_def)
  show "sim_store (sim_update v f w') =
      (sim_store w)(v := if Volume_Status (f x) = StatusDeleted then None else Some (sim_avol w' (f x)))"
    using assms(2,4,6)
    by (auto simp: sim_store_def fun_eq_iff sim_at_update same target dest: sim_at_SomeD split: option.split)
qed

lemma sim_request_cases:
  obtains (refused) c where "sim_request v fits g w = sim_refuse c w" "c = 404 \<Longrightarrow> sim_store w v = None" "c = 404 \<or> c = 409"
    "c = 409 \<Longrightarrow> \<exists>x. sim_at w v = Some x \<and> \<not> fits x"
  | (taken) x where "sim_request v fits g w = sim_answer (g w)" "sim_at w v = Some x" "Volume_Status x \<noteq> StatusDeleted" "fits x"
proof (cases "sim_at w v")
  case None
  then show ?thesis using refused [of 404] by (simp add: sim_request_def sim_store_def sim_at_def)
next
  case (Some x)
  then show ?thesis
    using refused [of 404] refused [of 409] taken [of x]
    by (cases "Volume_Status x = StatusDeleted"; cases "fits x") (simp_all add: sim_request_def sim_store_def sim_at_def)
qed

lemma sim_refuse_simps [simp]:
  "\<not> accepted (fst (fst (sim_refuse c w))) r" "snd (sim_refuse c w) = w" "fst (fst (sim_refuse c w)) \<noteq> None"
  "is_not_found (snd (fst (sim_refuse c w))) \<longleftrightarrow> c = 404"
  by (auto simp: sim_refuse_def accepted_def is_not_found_def)

lemma sim_answer_simps [simp]:
  "accepted (fst (fst (sim_answer w))) (snd (fst (sim_answer w)))" "snd (sim_answer w) = w"
  by (auto simp: sim_answer_def accepted_def ok_meta_def)

lemma effect_refused: "effect False False new old old"
  by (simp add: effect_def)

lemma sim_fine_in: "sim_ok k w \<Longrightarrow> sim_at w v = Some x \<Longrightarrow> sim_fine x"
  by (auto simp: sim_ok_def dest: sim_at_SomeD)

lemma sim_delete_keeps:
  assumes "sim_ok k w"
  shows "sim_ok k (snd (sim_delete v w)) \<and> effect False (accepted (fst (fst (sim_delete v w))) (snd (fst (sim_delete v w))) \<or>
      fst (fst (sim_delete v w)) \<noteq> None \<and> is_not_found (snd (fst (sim_delete v w))))
    ((sim_store w)(v := None)) (sim_store w) (sim_store (snd (sim_delete v w)))"
proof -
  let ?f = "\<lambda>v. v\<lparr>Volume_Status := StatusDeleted\<rparr>"
  show ?thesis
  proof (cases rule: sim_request_cases [of v "\<lambda>_. True" "sim_update v ?f" w])
    case (refused c)
    then have "c = 404" "(sim_store w)(v := None) = sim_store w" by (auto simp: fun_eq_iff)
    with refused assms show ?thesis by (simp add: sim_delete_def effect_def)
  next
    case (taken x)
    have "sim_fine (?f x)" using sim_fine_in [OF assms taken(2)] by (simp add: sim_fine_def)
    with sim_store_update [OF assms taken(2,3), of ?f w] taken(1) show ?thesis by (simp add: sim_delete_def effect_def)
  qed
qed

lemma sim_attach_keeps:
  assumes "sim_ok k w" and "nd \<noteq> []" and "sim_store w v = Some a" and "av_holder a = None"
  shows "sim_ok k (snd (sim_attach nd v w)) \<and> effect False (accepted (fst (fst (sim_attach nd v w))) (snd (fst (sim_attach nd v w))))
    ((sim_store w)(v \<mapsto> a\<lparr>av_holder := Some nd\<rparr>)) (sim_store w) (sim_store (snd (sim_attach nd v w)))"
proof -
  let ?f = "\<lambda>v. v\<lparr>Volume_Status := StatusUnknown, Volume_NodeId := nd\<rparr>"
  show ?thesis
  proof (cases rule: sim_request_cases [of v "\<lambda>v. Volume_Status v = StatusAvailable" "sim_update v ?f" w])
    case (refused c)
    with assms(1) show ?thesis by (simp add: sim_attach_def effect_refused)
  next
    case (taken x)
    have "sim_fine (?f x)" using sim_fine_in [OF assms(1) taken(2)] by (simp add: sim_fine_def)
    moreover have "a\<lparr>av_holder := Some nd\<rparr> = sim_avol w (?f x)"
      using assms(2,3) taken by (auto simp: sim_store_def sim_avol_def sim_size_def)
    ultimately show ?thesis
      using sim_store_update [OF assms(1) taken(2,3), of ?f w] taken(1) by (simp add: sim_attach_def effect_def)
  qed
qed

lemma sim_detach_keeps:
  assumes "sim_ok k w"
  shows "sim_ok k (snd (sim_detach nd v w)) \<and> effect False (accepted (fst (fst (sim_detach nd v w))) (snd (fst (sim_detach nd v w))))
    (release v nd (sim_store w)) (sim_store w) (sim_store (snd (sim_detach nd v w)))"
proof -
  let ?f = "\<lambda>v. v\<lparr>Volume_Status := StatusDetaching\<rparr>"
  show ?thesis
  proof (cases rule: sim_request_cases [of v "\<lambda>v. Volume_NodeId v = nd \<and> Volume_Status v \<in> {StatusAttached, StatusUnknown}"
        "sim_update v ?f" w])
    case (refused c)
    with assms show ?thesis by (simp add: sim_detach_def effect_refused)
  next
    case (taken x)
    have "sim_fine (?f x)" using sim_fine_in [OF assms taken(2)] by (simp add: sim_fine_def)
    moreover have "release v nd (sim_store w) = (sim_store w)(v \<mapsto> sim_avol w (?f x))"
      using taken by (auto simp: release_def sim_store_def sim_avol_def sim_size_def fun_eq_iff)
    ultimately show ?thesis
      using sim_store_update [OF assms taken(2,3), of ?f w] taken(1) by (simp add: sim_detach_def effect_def)
  qed
qed

lemma sim_extend_keeps:
  assumes "sim_ok k w"
  shows "sim_ok k (snd (sim_extend v (FormatInt (sint gb)) w)) \<and>
    (\<not> accepted (fst (fst (sim_extend v (FormatInt (sint gb)) w))) (snd (fst (sim_extend v (FormatInt (sint gb)) w))) \<and>
       sim_store (snd (sim_extend v (FormatInt (sint gb)) w)) = sim_store w \<or>
     (\<forall>a. sim_store w v = Some a \<longrightarrow> sint (av_size a) \<le> sint (gb * GB)) \<and>
     effect False (accepted (fst (fst (sim_extend v (FormatInt (sint gb)) w))) (snd (fst (sim_extend v (FormatInt (sint gb)) w))))
       (resize v (gb * GB) (sim_store w)) (sim_store w) (sim_store (snd (sim_extend v (FormatInt (sint gb)) w))))"
proof -
  let ?f = "\<lambda>v. v\<lparr>Volume_Status := StatusExtending\<rparr>" and ?w = "w\<lparr>sim_target := (sim_target w)(v := Some gb)\<rparr>"
  let ?fits = "\<lambda>x. Volume_Status x \<noteq> StatusDetaching \<and> sint (sim_size w x * GB) \<le> sint (gb * GB)"
  have run: "sim_extend v (FormatInt (sint gb)) w = sim_request v ?fits
      (\<lambda>w. sim_update v ?f (w\<lparr>sim_target := (sim_target w)(v := Some gb)\<rparr>)) w"
    using ParseInt64_FormatInt [OF sint_i64_ge sint_i64_lt, of gb] by (simp add: sim_extend_def)
  show ?thesis
  proof (cases rule: sim_request_cases [of v ?fits "\<lambda>w. sim_update v ?f (w\<lparr>sim_target := (sim_target w)(v := Some gb)\<rparr>)" w])
    case (refused c)
    with assms show ?thesis by (simp add: run)
  next
    case (taken x)
    have "sim_fine (?f x)" using sim_fine_in [OF assms taken(2)] by (simp add: sim_fine_def)
    moreover have "sim_avol ?w y = sim_avol w y" if "Volume_Id y \<noteq> v" for y using that by (simp add: sim_avol_def sim_size_def)
    moreover have "resize v (gb * GB) (sim_store w) = (sim_store w)(v \<mapsto> sim_avol ?w (?f x))"
      using taken sim_at_SomeD [OF taken(2)] by (auto simp: resize_def sim_store_def sim_avol_def sim_size_def fun_eq_iff)
    moreover have "sint (av_size a) \<le> sint (gb * GB)" if "sim_store w v = Some a" for a
      using that taken by (auto simp: sim_store_def sim_avol_def)
    ultimately show ?thesis
      using sim_store_update [OF assms taken(2,3), of ?f ?w] taken(1) by (simp add: run effect_def)
  qed
qed

lemma sim_changes: "changes_store sim_volc sim_ok sim_store"
  unfolding changes_store_def Let_def case_prod_unfold sim_fields
  by (intro allI impI conjI; (erule sim_delete_keeps [THEN conjunct1] sim_delete_keeps [THEN conjunct2] sim_attach_keeps [THEN conjunct1]
      sim_attach_keeps [THEN conjunct2] sim_detach_keeps [THEN conjunct1] sim_detach_keeps [THEN conjunct2]
      sim_extend_keeps [THEN conjunct1] sim_extend_keeps [THEN conjunct2]; assumption?))

lemma sim_service_keeps: "service_keeps sim_volc sim_ok sim_store"
  unfolding service_keeps_def using sim_reads_store sim_time_keeps sim_creates sim_changes by blast

interpretation client_store: volume_cloud sim_cloud sim_ok sim_store False "\<lambda>s. roundGB s * GB"
  unfolding sim_cloud_def by (rule client_keeps_contract [OF sim_service_keeps])

section \<open>A run\<close>

text \<open>A volume is made, of 30 GB, and attached.\<close>

definition client_ops :: "op list" where
  "client_ops = [OpCreate (create_example ''pvc'' (30 * GB)), OpPublish (publish_example ''vol-pvc'' ''i-1'')]"

definition made_disk :: "Status \<Rightarrow> string \<Rightarrow> Volume" where
  "made_disk st node = \<lparr>Volume_Id = ''vol-pvc'', Volume_Name = ''pvc'', Volume_Status = st, Volume_Capacity = 30,
     Volume_NodeId = node, Volume_ZoneId = ''cn-beijing-a'', Volume_VolumeType = volumeTypeDefault\<rparr>"

lemma client_run:
  "run_ops default_topology_keys example_driver sim_cloud client_ops (idle_service (sim_start [] 60000)) =
     Some (Ret [Inr (), Inr ()], idle_service (sim_start [made_disk StatusAttached ''i-1''] 59000))"
proof -
  have size: "30 * GB \<noteq> 0" "roundGB (30 * GB) = 30" by code_simp+
  have parse: "ParseInt64 (FormatInt (sint (roundGB (30 * GB)))) = Some 30"
    using ParseInt64_FormatInt [OF sint_i64_ge sint_i64_lt, of 30] size(2) by simp
  have create: "run_op default_topology_keys example_driver sim_cloud (client_ops ! 0) (idle_service (sim_start [] 60000)) =
      Some (Ret (Inr ()), idle_service (sim_start [made_disk StatusAvailable []] 59500))"
    by (simp add: client_ops_def void_def ControllerSvc_CreateVolume_def guarded_free CreateVolume_body_def Let_def sim_run
        create_example_def request_zone_def getZoneId_def pickZone_def source_snapshot_def sim_create_def opt_str_def
        request_capacity_def getVolumeTypeWithDefault_def made_disk_def idle_service_def size(1) parse)
  have publish: "run_op default_topology_keys example_driver sim_cloud (client_ops ! 1)
      (idle_service (sim_start [made_disk StatusAvailable []] 59500)) =
      Some (Ret (Inr ()), idle_service (sim_start [made_disk StatusAttached ''i-1''] 59000))"
    by (simp add: client_ops_def void_def ControllerSvc_ControllerPublishVolume_def unguarded_def PublishVolume_body_def
        publish_example_def example_driver_def isValidVolumeCapabilities_iff mount_cap_def get_mode_def sim_run made_disk_def
        idle_service_def zero_InstanceForDescribeInstancesOutput_def)
  have two: "[client_ops ! 0, client_ops ! 1] = client_ops" by (simp add: client_ops_def)
  from create publish have "run_ops default_topology_keys example_driver sim_cloud [client_ops ! 0, client_ops ! 1]
      (idle_service (sim_start [] 60000)) = Some (Ret [Inr (), Inr ()], idle_service (sim_start [made_disk StatusAttached ''i-1''] 59000))"
    by (simp add: bnd_def)
  then show ?thesis unfolding two .
qed

theorem client_refines_store_witness:
  "vol_steps False (\<lambda>sz. roundGB sz * GB) client_ops [True, True] Map.empty (sim_store (sim_start [made_disk StatusAttached ''i-1''] 59000)) \<and>
   unique_names (sim_store (sim_start [made_disk StatusAttached ''i-1''] 59000)) \<and>
   sim_store (sim_start [made_disk StatusAttached ''i-1''] 59000) ''vol-pvc'' =
     Some \<lparr>av_name = ''pvc'', av_size = 30 * GB, av_holder = Some ''i-1''\<rparr>"
proof -
  have "sim_ok (length client_ops + 1) (world (idle_service (sim_start [] 60000)))"
    by (simp add: sim_ok_def sim_start_def idle_service_def)
  moreover have "sim_store (sim_start [] 60000) = Map.empty"
    by (simp add: sim_store_def sim_at_def sim_start_def fun_eq_iff)
  moreover have "unique_names Map.empty" by (simp add: unique_names_def)
  ultimately show ?thesis
    using client_refines_store [OF sim_service_keeps _ client_run [unfolded sim_cloud_def]]
    by (simp add: idle_service_def sim_store_def [of _ "''vol-pvc''"] sim_at_def sim_start_def made_disk_def sim_avol_def sim_size_def)
qed

end
