(* ===== verification/Create_Race.thy ===== *)
theory Create_Race
  imports EBS_Threads Client_Refines
begin

text \<open>
  Two volumes never get one name, however the requests interleave. CreateVolume looks its
  name up and creates in two separate calls; what makes the pair safe is the table of
  requests in flight. Proved for any cloud that keeps \<open>racing_cloud\<close>, the contract \<open>volume_cloud\<close>
  without the conditions that another goroutine may have falsified since they were checked.
\<close>

section \<open>A cloud that is used by many at once\<close>

text \<open>No volume that was not there, and none under another name.\<close>

definition no_new :: "store \<Rightarrow> store \<Rightarrow> bool" where
  "no_new m m' \<longleftrightarrow> (\<forall>v b. m' v = Some b \<longrightarrow> (\<exists>a. m v = Some a \<and> av_name a = av_name b))"

lemma no_new_simps [simp]: "no_new m m" "no_new m (m(v := None))" "no_new m (release v n m)" "no_new m (resize v sz m)"
  by (auto simp: no_new_def release_at resize_at)

lemma no_new_change: "m v = Some a \<Longrightarrow> av_name b = av_name a \<Longrightarrow> no_new m (m(v \<mapsto> b))"
  by (simp add: no_new_def)

lemma no_new_unique: "no_new m m' \<Longrightarrow> unique_names m \<Longrightarrow> unique_names m'"
  unfolding no_new_def unique_names_def by metis

lemma no_new_named: "no_new m m' \<Longrightarrow> named m' n \<Longrightarrow> named m n"
  unfolding no_new_def named_def by metis

locale racing_cloud = volume_cloud cl ok view False grant
  for cl :: "'w Cloud" and ok :: "nat \<Rightarrow> 'w \<Rightarrow> bool" and view :: "'w \<Rightarrow> store" and grant :: "int64 \<Rightarrow> int64" +
  assumes attaches_any: "ok k w \<Longrightarrow> wp (cloud_AttachVolume cl nd v) (\<lambda>_ w'. ok k w' \<and> no_new (view w) (view w')) w"
begin

text \<open>
  What a thread guarantees while it relies on the others: it makes no volume, except that one
  which owns a name makes one of that name, in a call before which the name was free. \<open>free\<close>:
  it has seen that its name is free, which the others, not owning it, leave so.
\<close>

definition makes :: "string option \<Rightarrow> store \<Rightarrow> store \<Rightarrow> bool" where
  "makes own m m' \<longleftrightarrow> no_new m m' \<or>
     (\<exists>n v a. own = Some n \<and> \<not> named m n \<and> av_name a = n \<and> m' = m(v \<mapsto> a))"

definition sees_free :: "string option \<Rightarrow> store \<Rightarrow> bool" where
  "sees_free own m \<longleftrightarrow> (\<forall>n. own = Some n \<longrightarrow> \<not> named m n)"

inductive tame :: "string option \<Rightarrow> bool \<Rightarrow> ('w, 'a) thread \<Rightarrow> bool" for own where
  Done: "tame own free (Done r)"
| Turn: "(\<And>k w th w'. ok (Suc k) w \<Longrightarrow> (free \<longrightarrow> sees_free own (view w)) \<Longrightarrow> m w = Some (Ret th, w') \<Longrightarrow>
      ok k w' \<and> makes own (view w) (view w') \<and>
      (tame own False th \<or> sees_free own (view w') \<and> tame own True th)) \<Longrightarrow> tame own free (Turn m)"

inductive_simps tame_Turn [simp]: "tame own free (Turn m)"

lemma tame_Done [simp]: "tame own free (Done r)"
  by (rule tame.Done)

lemma makes_same [simp]: "makes own m m"
  by (simp add: makes_def)

lemma makes_new: "\<not> named m n \<Longrightarrow> av_name a = n \<Longrightarrow> makes (Some n) m (m(v \<mapsto> a))"
  unfolding makes_def by blast

lemma makes_unique: "makes own m m' \<Longrightarrow> unique_names m \<Longrightarrow> unique_names m'"
  by (auto simp: makes_def intro: no_new_unique unique_names_new)

lemma makes_named: "makes own m m' \<Longrightarrow> own \<noteq> Some n \<Longrightarrow> named m' n \<Longrightarrow> named m n"
  by (auto simp: makes_def intro: no_new_named) (auto simp: named_def split: if_splits)

text \<open>The rules for one call.\<close>

lemma tame_turn:
  assumes "\<And>k w. ok (Suc k) w \<Longrightarrow> (free \<longrightarrow> sees_free own (view w)) \<Longrightarrow> wp m (\<lambda>x w'. ok k w' \<and> makes own (view w) (view w') \<and>
      (tame own False (f x) \<or> sees_free own (view w') \<and> tame own True (f x))) w"
  shows "tame own free (turn m f)"
  using assms by (auto simp: turn_def wp_def bnd_Ret_iff)

lemma tame_quiet:
  assumes "\<And>k w. ok k w \<Longrightarrow> wp m (\<lambda>_ w'. ok k w' \<and> no_new (view w) (view w')) w" and "\<And>x. tame own False (f x)"
  shows "tame own free (turn m f)"
proof (rule tame_turn)
  fix k w
  assume "ok (Suc k) w"
  then have "ok k w" by (rule ok_Suc)
  from assms(1) [OF this] show "wp m (\<lambda>x w'. ok k w' \<and> makes own (view w) (view w') \<and>
      (tame own False (f x) \<or> sees_free own (view w') \<and> tame own True (f x))) w"
    by (rule wp_mono) (simp add: makes_def assms(2))
qed

lemma tame_quietE:
  "(\<And>k w. ok k w \<Longrightarrow> wp m (\<lambda>_ w'. ok k w' \<and> no_new (view w) (view w')) w) \<Longrightarrow> (\<And>x. tame own False (f x)) \<Longrightarrow>
    tame own free (turnE m h f)"
  unfolding turnE_def by (rule tame_quiet) (auto split: sum.split)

text \<open>The calls that make no volume.\<close>

lemma quiet_calls:
  assumes "ok k w"
  shows "wp (cloud_VolumeById cl v) (\<lambda>_ w'. ok k w' \<and> no_new (view w) (view w')) w"
    and "wp (cloud_NodeById cl n) (\<lambda>_ w'. ok k w' \<and> no_new (view w) (view w')) w"
    and "wp (cloud_DeleteVolume cl v) (\<lambda>_ w'. ok k w' \<and> no_new (view w) (view w')) w"
    and "wp (cloud_DetachVolume cl n v) (\<lambda>_ w'. ok k w' \<and> no_new (view w) (view w')) w"
    and "wp (cloud_ExtendVolume cl v sz) (\<lambda>_ w'. ok k w' \<and> no_new (view w) (view w')) w"
    and "wp (deref p) (\<lambda>_ w'. ok k w' \<and> no_new (view w) (view w')) w"
proof -
  have eff: "no_new m x" if "effect False s new m x" "no_new m new" for s new m x
    using that by (auto simp: effect_def split: if_splits)
  show "wp (cloud_VolumeById cl v) (\<lambda>_ w'. ok k w' \<and> no_new (view w) (view w')) w"
    by (rule wp_mono [OF by_id [OF assms]]) simp
  show "wp (cloud_NodeById cl n) (\<lambda>_ w'. ok k w' \<and> no_new (view w) (view w')) w"
    by (rule wp_mono [OF node [OF assms]]) simp
  show "wp (cloud_DeleteVolume cl v) (\<lambda>_ w'. ok k w' \<and> no_new (view w) (view w')) w"
    by (rule wp_mono [OF deletes [OF assms]]) (auto elim: eff)
  show "wp (cloud_DetachVolume cl n v) (\<lambda>_ w'. ok k w' \<and> no_new (view w) (view w')) w"
    by (rule wp_mono [OF detaches [OF assms]]) (auto elim: eff)
  show "wp (cloud_ExtendVolume cl v sz) (\<lambda>_ w'. ok k w' \<and> no_new (view w) (view w')) w"
    by (rule wp_mono [OF extends [OF assms]]) (auto elim: eff)
  show "wp (deref p) (\<lambda>_ w'. ok k w' \<and> no_new (view w) (view w')) w"
    using assms by simp
qed

lemmas tame_calls = quiet_calls [THEN tame_quietE] attaches_any [THEN tame_quietE]

text \<open>The handlers are tame; only CreateVolume owns a name.\<close>

lemma create_tame: "tame (Some (cv_Name req)) False (create_thread tk cl req)"
proof -
  let ?own = "Some (cv_Name req)"
  have make: "tame ?own True (turnE (cloud_CreateVolume cl (cv_Name req) ty z sid sz) h (\<lambda>v. Done (Inr (f v))))"
    for ty z sid sz h and f :: "string \<Rightarrow> csi_response"
  proof (unfold turnE_def, rule tame_turn)
    fix k w
    assume "ok (Suc k) w" and "True \<longrightarrow> sees_free ?own (view w)"
    then have free: "\<not> named (view w) (cv_Name req)" by (simp add: sees_free_def)
    from creates [OF \<open>ok (Suc k) w\<close> free, of ty z sid sz]
    show "wp (cloud_CreateVolume cl (cv_Name req) ty z sid sz)
       (\<lambda>r w'. ok k w' \<and> makes ?own (view w) (view w') \<and>
          (tame ?own False (case r of Inl e \<Rightarrow> Done (Inl (h e)) | Inr v \<Rightarrow> Done (Inr (f v))) \<or>
           sees_free ?own (view w') \<and> tame ?own True (case r of Inl e \<Rightarrow> Done (Inl (h e)) | Inr v \<Rightarrow> Done (Inr (f v))))) w"
      by (rule wp_mono) (use free in \<open>auto simp: makes_new split: sum.split\<close>)
  qed
  have look: "tame ?own False (turnE (cloud_VolumeByName cl (cv_Name req)) h (\<lambda>vol.
      case vol of Some v \<Rightarrow> Done (g v) | None \<Rightarrow> turnE (cloud_CreateVolume cl (cv_Name req) ty z sid sz) h' (\<lambda>v. Done (Inr (f v)))))"
    for ty z sid sz h h' and f :: "string \<Rightarrow> csi_response" and g
  proof (unfold turnE_def [of "cloud_VolumeByName cl (cv_Name req)"], rule tame_turn)
    fix k w
    assume "ok (Suc k) w"
    then have "ok k w" by (rule ok_Suc)
    show "wp (cloud_VolumeByName cl (cv_Name req)) (\<lambda>r w'. ok k w' \<and> makes ?own (view w) (view w') \<and>
        (tame ?own False (case r of Inl e \<Rightarrow> Done (Inl (h e)) | Inr vol \<Rightarrow> (case vol of Some v \<Rightarrow> Done (g v)
           | None \<Rightarrow> turnE (cloud_CreateVolume cl (cv_Name req) ty z sid sz) h' (\<lambda>v. Done (Inr (f v))))) \<or>
         sees_free ?own (view w') \<and> tame ?own True (case r of Inl e \<Rightarrow> Done (Inl (h e)) | Inr vol \<Rightarrow> (case vol of Some v \<Rightarrow> Done (g v)
           | None \<Rightarrow> turnE (cloud_CreateVolume cl (cv_Name req) ty z sid sz) h' (\<lambda>v. Done (Inr (f v))))))) w"
      by (rule wp_mono [OF by_name [OF \<open>ok k w\<close>]])
        (auto simp: sees_free_def make split: sum.split option.split)
  qed
  show ?thesis by (simp add: create_thread_def Let_def look split: sum.split)
qed

lemma others_tame:
  "tame None False (delete_thread cl v)" "tame None False (publish_thread d cl v nd)"
  "tame None False (unpublish_thread cl v nd)" "tame None False (expand_thread cl v sz)"
  by (auto simp: delete_thread_def publish_thread_def unpublish_thread_def expand_thread_def
      intro!: tame_calls quiet_calls [THEN tame_quiet] split: option.split)

definition own_name :: "op \<Rightarrow> string option" where
  "own_name p = (case p of OpCreate req \<Rightarrow> Some (cv_Name req) | _ \<Rightarrow> None)"

lemma own_name_simps [simp]:
  "own_name (OpCreate req) = Some (cv_Name req)" "own_name (OpDelete v) = None" "own_name (OpPublish pu) = None"
  "own_name (OpUnpublish up) = None" "own_name (OpExpand ex) = None"
  by (simp_all add: own_name_def)

lemma own_key: "own_name p = Some n \<Longrightarrow> op_key p = Some n"
  by (cases p) simp_all

lemma op_tame: "tame (own_name p) False (op_thread tk d cl p)"
  by (cases p) (simp_all add: create_tame others_tame)

text \<open>The invariant: each thread is tame, and what it has seen still holds.\<close>

definition steady :: "store \<Rightarrow> 'w job \<Rightarrow> bool" where
  "steady m j \<longleftrightarrow> (case j of Free \<Rightarrow> True
     | Busy p th \<Rightarrow> \<exists>free. tame (own_name p) free th \<and> (free \<longrightarrow> sees_free (own_name p) m))"

definition crowd_inv :: "nat \<Rightarrow> 'w crowd \<Rightarrow> bool" where
  "crowd_inv k p \<longleftrightarrow> ok k (crowd_world p) \<and> unique_names (view (crowd_world p)) \<and> pool_inv (table_view p) \<and>
     (\<forall>t. steady (view (crowd_world p)) (crowd_jobs p t))"

lemma steady_enter: "steady m (Busy o1 (op_thread tk d cl o1))"
  by (auto simp: steady_def intro: exI [of _ False] op_tame)

lemma proceed_inv:
  assumes inv: "crowd_inv (Suc k) p" and job: "crowd_jobs p t = Busy o1 (Turn m)" and run: "m (crowd_world p) = Some (Ret th, w)"
  shows "ok k w" and "unique_names (view w)" and "steady (view w) (((crowd_jobs p)(t := Busy o1 th)) u)"
proof -
  from inv have k: "ok (Suc k) (crowd_world p)" and un: "unique_names (view (crowd_world p))"
    and pool: "pool_inv (table_view p)" and all: "\<And>u. steady (view (crowd_world p)) (crowd_jobs p u)"
    by (simp_all add: crowd_inv_def)
  from all [of t] job obtain free where "tame (own_name o1) free (Turn m)" "free \<longrightarrow> sees_free (own_name o1) (view (crowd_world p))"
    by (auto simp: steady_def)
  with k run have after: "ok k w" "makes (own_name o1) (view (crowd_world p)) (view w)"
      "tame (own_name o1) False th \<or> sees_free (own_name o1) (view w) \<and> tame (own_name o1) True th"
    by simp_all
  show "ok k w" "unique_names (view w)" using after makes_unique un by blast+
  show "steady (view w) (((crowd_jobs p)(t := Busy o1 th)) u)"
  proof (cases "u = t")
    case True
    with after(3) show ?thesis by (auto simp: steady_def)
  next
    case False
    have "sees_free (own_name o2) (view w)" if "crowd_jobs p u = Busy o2 th2" "sees_free (own_name o2) (view (crowd_world p))" for o2 th2
    proof (unfold sees_free_def, intro allI impI)
      fix n
      assume n: "own_name o2 = Some n"
      have "own_name o1 \<noteq> Some n" using same_key [OF pool job that(1) own_key own_key [OF n]] False by blast
      with makes_named [OF after(2) this] that(2) n show "\<not> named (view w) n" by (auto simp: sees_free_def)
    qed
    with False all [of u] show ?thesis by (fastforce simp: steady_def split: job.splits)
  qed
qed

lemma crowd_step_inv:
  assumes "crowd_step tk d cl c p q" and "crowd_inv (if c then Suc k else k) p"
  shows "crowd_inv k q"
proof -
  from assms(2) have "pool_inv (table_view p)" by (simp add: crowd_inv_def)
  with crowd_step_table [OF assms(1)] have pool: "pool_inv (table_view q)" by (metis handler_step_inv)
  show ?thesis
    using assms(1)
  proof cases
    case (proceed t o1 m th w)
    with assms(2) have "crowd_inv (Suc k) p" by simp
    from proceed_inv [OF this proceed(3,4)] pool proceed(2) show ?thesis by (simp add: crowd_inv_def)
  qed (use assms(2) pool steady_enter in \<open>auto simp: crowd_inv_def steady_def [of _ Free]\<close>)
qed

lemma crowd_run_inv:
  "crowd_run tk d cl n p q \<Longrightarrow> crowd_inv (n + k) p \<Longrightarrow> crowd_inv k q"
proof (induction arbitrary: k rule: crowd_run.induct)
  case (on n p q c r)
  have "crowd_inv (if c then Suc k else k) q" using on(3) [of "if c then Suc k else k"] on(4) by (auto split: if_splits)
  with on(2) show ?case by (rule crowd_step_inv)
qed simp

lemma quiet_inv: "ok k w \<Longrightarrow> unique_names (view w) \<Longrightarrow> crowd_inv k (quiet w)"
  by (simp add: crowd_inv_def quiet_table quiet_def steady_def) (simp add: quiet_def [symmetric] quiet_table)

end

section \<open>The cloud client is such a cloud\<close>

text \<open>Asked of the service beside \<open>service_keeps\<close>: an attachment, whatever it does, makes no volume.\<close>

definition attach_makes_none :: "'w VolcEngin \<Rightarrow> (nat \<Rightarrow> 'w \<Rightarrow> bool) \<Rightarrow> ('w \<Rightarrow> store) \<Rightarrow> bool" where
  "attach_makes_none volc ok view \<longleftrightarrow> (\<forall>k w nd v. ok k w \<longrightarrow>
     (let (r, w') = sdk_AttachVolume (svcClients volc) nd v w in ok k w' \<and> no_new (view w) (view w')))"

lemma client_attaches_any:
  assumes "service_keeps volc ok view" and "attach_makes_none volc ok view" and "ok k w"
  shows "wp (VolcEngin_AttachVolume volc nd v) (\<lambda>_ w'. ok k w' \<and> no_new (view w) (view w')) w"
proof -
  obtain err resp w' where c: "sdk_AttachVolume (svcClients volc) nd v w = ((err, resp), w')" by (metis prod.exhaust)
  have D: "ok k w'" "no_new (view w) (view w')"
    using assms(2) [unfolded attach_makes_none_def Let_def case_prod_unfold, rule_format, OF assms(3), of nd v] c by simp_all
  have wait: "wp (bnd (metadata_error resp) (\<lambda>merr. case merr of Some e \<Rightarrow> ret (Inl (t e))
      | None \<Rightarrow> bndE (WaitVolumeBeStatus volc v st) h (\<lambda>_. ret (Inr ())))) (\<lambda>_ u. ok k u \<and> no_new (view w) (view u)) w'" for t st h
    by (rule wp_mono [OF wp_change [OF assms(1) D(1), where new = "view w'" and old = "view w'"]])
      (use D(2) in \<open>auto simp: effect_def split: if_splits\<close>)
  show ?thesis
  proof (cases err)
    case None
    with c wait show ?thesis
      by (simp add: VolcEngin_AttachVolume_def wp_call wp_bnd [of "call _"] del: wp_bnd)
  next
    case (Some e)
    with c D show ?thesis by (simp add: VolcEngin_AttachVolume_def wp_call)
  qed
qed

lemma client_races:
  assumes "service_keeps volc ok view" and "attach_makes_none volc ok view"
  shows "racing_cloud (VolcEngin_Cloud tk volc) ok view (\<lambda>s. roundGB s * GB)"
proof (rule racing_cloud.intro [OF client_keeps_contract [OF assms(1)]], unfold_locales)
  fix k w nd v
  assume "ok k w"
  from client_attaches_any [OF assms this]
  show "wp (cloud_AttachVolume (VolcEngin_Cloud tk volc) nd v) (\<lambda>_ w'. ok k w' \<and> no_new (view w) (view w')) w"
    by (simp add: VolcEngin_Cloud_def)
qed

lemma sim_attach_makes_none: "attach_makes_none sim_volc sim_ok sim_store"
proof -
  have "sim_ok k (snd (sim_attach nd v w)) \<and> no_new (sim_store w) (sim_store (snd (sim_attach nd v w)))" if ok: "sim_ok k w" for k nd v w
  proof -
    let ?f = "\<lambda>v. v\<lparr>Volume_Status := StatusUnknown, Volume_NodeId := nd\<rparr>"
    show ?thesis
    proof (cases rule: sim_request_cases [of v "\<lambda>v. Volume_Status v = StatusAvailable" "sim_update v ?f" w])
      case (refused c)
      with ok show ?thesis by (simp add: sim_attach_def)
    next
      case (taken x)
      have "sim_fine (?f x)" using sim_fine_in [OF ok taken(2)] by (simp add: sim_fine_def)
      moreover have "\<exists>a. sim_store w v = Some a \<and> av_name a = Volume_Name x"
        using taken by (auto simp: sim_store_def sim_avol_def)
      ultimately show ?thesis
        using sim_store_update [OF ok taken(2,3), of ?f w] taken(1)
        by (auto simp: sim_attach_def sim_avol_def intro: no_new_change)
    qed
  qed
  then show ?thesis unfolding attach_makes_none_def Let_def case_prod_unfold sim_fields by blast
qed

interpretation client_race: racing_cloud sim_cloud sim_ok sim_store "\<lambda>s. roundGB s * GB"
  unfolding sim_cloud_def by (rule client_races [OF sim_service_keeps sim_attach_makes_none])

section \<open>Properties\<close>

text \<open>C2: However concurrent requests interleave, no two volumes get the same name: CreateVolume,
  DeleteVolume, ControllerPublishVolume, ControllerUnpublishVolume and ControllerExpandVolume
  requests in any number, each with the others' calls of the cloud between its own, leave
  the names unique although looking a name up and creating the volume are separate calls;
  and a key is in the table of requests in flight just as long as a request holds it.
  (On the cloud client, from the contract \<open>racing_cloud\<close>, which it keeps on every service
  that keeps the store of volumes.)\<close>

theorem concurrent_creates_unique:
  assumes "service_keeps volc ok view" and "attach_makes_none volc ok view" and "ok n w" and "unique_names (view w)"
    and "crowd_run tk d (VolcEngin_Cloud tk volc) n (quiet w) q"
  shows "unique_names (view (crowd_world q)) \<and>
    (\<forall>k. inFlight (crowd_table q) k \<noteq> None \<longleftrightarrow> (\<exists>t p th. crowd_jobs q t = Busy p th \<and> op_key p = Some k))"
proof -
  note race = client_races [OF assms(1,2), of tk]
  have "racing_cloud.crowd_inv ok view 0 q"
    using racing_cloud.crowd_run_inv [OF race assms(5), of 0] racing_cloud.quiet_inv [OF race assms(3,4)] by simp
  then have "unique_names (view (crowd_world q))" and pool: "pool_inv (table_view q)"
    by (simp_all add: racing_cloud.crowd_inv_def [OF race])
  with table_holds [OF pool] show ?thesis by simp
qed

text \<open>
  Two requests that are served at once, and a third for the name of the first, which finds it
  busy: both look their names up before either creates.
\<close>

definition wish :: "string \<Rightarrow> op" where
  "wish n = OpCreate (create_example n (30 * GB))"

definition making :: "string \<Rightarrow> (sim, error + csi_response) thread" where
  "making n = turnE (cloud_CreateVolume sim_cloud n volumeTypeDefault ''cn-beijing-a'' [] (30 * GB))
     (WrapError (''failed to create volume '' @ n @ '': '')) (\<lambda>v.
       Done (Inr (VolumeResp (created_volume default_topology_keys sim_cloud (create_example n (30 * GB)) [] v (30 * GB) ''cn-beijing-a''))))"

lemma looks:
  assumes "find (\<lambda>v. Volume_Name v = n) (sim_vols w) = None" and "crowd_jobs p t = Busy (wish n) (op_thread default_topology_keys example_driver sim_cloud (wish n))"
    and "crowd_world p = w"
  shows "crowd_step default_topology_keys example_driver sim_cloud True p (p\<lparr>crowd_jobs := (crowd_jobs p)(t := Busy (wish n) (making n)), crowd_world := w\<rparr>)"
proof -
  have size: "30 * GB \<noteq> 0" by code_simp
  have zone: "cloud_Zone sim_cloud = ''cn-beijing-a''" by (simp add: sim_cloud_def VolcEngin_Cloud_def sim_fields)
  have args: "request_zone default_topology_keys sim_cloud (create_example n (30 * GB)) = ''cn-beijing-a''"
    "source_snapshot (create_example n (30 * GB)) = Inr []" "request_capacity (create_example n (30 * GB)) = 30 * GB"
    "getVolumeTypeWithDefault (create_example n (30 * GB)) = volumeTypeDefault" "cv_Name (create_example n (30 * GB)) = n"
    by (simp_all add: create_example_def request_zone_def getZoneId_def pickZone_def source_snapshot_def request_capacity_def
        getVolumeTypeWithDefault_def size zone)
  have "\<exists>h f. op_thread default_topology_keys example_driver sim_cloud (wish n) = turnE (cloud_VolumeByName sim_cloud n) h f \<and> f None = making n"
    unfolding wish_def op_thread.simps create_thread_def Let_def args making_def
    by (simp only: if_False list.distinct sum.case) (intro exI conjI, rule refl, simp)
  then obtain h f where th: "op_thread default_topology_keys example_driver sim_cloud (wish n) = turnE (cloud_VolumeByName sim_cloud n) h f"
      "f None = making n" by blast
  have "cloud_VolumeByName sim_cloud n w = Some (Ret (Inr None), w)"
    using assms(1) by (simp add: sim_cloud_def VolcEngin_Cloud_def sim_reads)
  from proceed_turnE [of p t "wish n" "cloud_VolumeByName sim_cloud n" h f None w] this assms(2,3) th show ?thesis by simp
qed

lemma makes_it:
  "cloud_CreateVolume sim_cloud n volumeTypeDefault ''cn-beijing-a'' [] (30 * GB) w = Some (Ret (Inr v), w') \<Longrightarrow>
    crowd_jobs p t = Busy (wish n) (making n) \<Longrightarrow> crowd_world p = w \<Longrightarrow>
    \<exists>r. crowd_step default_topology_keys example_driver sim_cloud True p
      (p\<lparr>crowd_jobs := (crowd_jobs p)(t := Busy (wish n) (Done r)), crowd_world := w'\<rparr>)"
  unfolding making_def by (drule proceed_turnE) auto

lemma sim_makes:
  "cloud_CreateVolume sim_cloud ''b'' volumeTypeDefault ''cn-beijing-a'' [] (30 * GB) (sim_start [] 60000) =
    Some (Ret (Inr ''vol-b''), sim_start [sim_disk ''b'' StatusAvailable [] 30] 59500)"
  "cloud_CreateVolume sim_cloud ''a'' volumeTypeDefault ''cn-beijing-a'' [] (30 * GB) (sim_start [sim_disk ''b'' StatusAvailable [] 30] 59500) =
    Some (Ret (Inr ''vol-a''), sim_start [sim_disk ''a'' StatusAvailable [] 30, sim_disk ''b'' StatusAvailable [] 30] 59000)"
proof -
  have size: "roundGB (30 * GB) = 30" by code_simp
  have parse: "ParseInt64 (FormatInt (sint (roundGB (30 * GB)))) = Some 30"
    using ParseInt64_FormatInt [OF sint_i64_ge sint_i64_lt, of 30] size by simp
  show "cloud_CreateVolume sim_cloud ''b'' volumeTypeDefault ''cn-beijing-a'' [] (30 * GB) (sim_start [] 60000) =
    Some (Ret (Inr ''vol-b''), sim_start [sim_disk ''b'' StatusAvailable [] 30] 59500)"
    by (simp add: sim_run sim_create_def opt_str_def Let_def parse volumeTypeDefault_def)
  show "cloud_CreateVolume sim_cloud ''a'' volumeTypeDefault ''cn-beijing-a'' [] (30 * GB) (sim_start [sim_disk ''b'' StatusAvailable [] 30] 59500) =
    Some (Ret (Inr ''vol-a''), sim_start [sim_disk ''a'' StatusAvailable [] 30, sim_disk ''b'' StatusAvailable [] 30] 59000)"
    by (simp add: sim_run sim_create_def opt_str_def Let_def parse volumeTypeDefault_def)
qed

definition both_made :: "sim" where
  "both_made = sim_start [sim_disk ''a'' StatusAvailable [] 30, sim_disk ''b'' StatusAvailable [] 30] 59000"

lemma race_run:
  "\<exists>q. crowd_run default_topology_keys example_driver sim_cloud 4 (quiet (sim_start [] 60000)) q \<and> crowd_world q = both_made \<and>
     inFlight (crowd_table q) ''a'' \<noteq> None"
proof -
  let ?step = "crowd_step default_topology_keys example_driver sim_cloud"
  let ?run = "crowd_run default_topology_keys example_driver sim_cloud"
  let ?w = "sim_start [] 60000" and ?w1 = "sim_start [sim_disk ''b'' StatusAvailable [] 30] 59500"
  let ?th = "\<lambda>n. op_thread default_topology_keys example_driver sim_cloud (wish n)"
  let ?p = "\<lambda>ks js w. \<lparr>crowd_table = \<lparr>inFlight = ks\<rparr>, crowd_jobs = js, crowd_world = w\<rparr>"
  let ?a = "[''a'' \<mapsto> True]" and ?ab = "[''a'' \<mapsto> True, ''b'' \<mapsto> True]"
  let ?j1 = "(\<lambda>_. Free)(0 := Busy (wish ''a'') (?th ''a''))"
  let ?j2 = "?j1(1 := Busy (wish ''b'') (?th ''b''))"
  let ?j3 = "?j2(0 := Busy (wish ''a'') (making ''a''))"
  let ?j4 = "?j3(1 := Busy (wish ''b'') (making ''b''))"
  have fine: "op_check example_driver (wish n) = None" "op_key (wish n) = Some n" if "n \<noteq> []" for n
    using that by (simp_all add: wish_def create_example_def)
  have s1: "?step False (quiet ?w) (?p ?a ?j1 ?w)"
    using crowd_step.enter [of "quiet ?w" 0 example_driver "wish ''a''" "''a''" "\<lparr>inFlight = ?a\<rparr>"] fine [of "''a''"]
    by (simp add: quiet_def NewInFlight_def Insert_def)
  have s2: "?step False (?p ?a ?j1 ?w) (?p ?a ?j1 ?w)"
    using crowd_step.bounce [of "?p ?a ?j1 ?w" 2 example_driver "wish ''a''" "''a''" "\<lparr>inFlight = ?a\<rparr>"] fine [of "''a''"]
    by (simp add: Insert_def)
  have s3: "?step False (?p ?a ?j1 ?w) (?p ?ab ?j2 ?w)"
    using crowd_step.enter [of "?p ?a ?j1 ?w" 1 example_driver "wish ''b''" "''b''" "\<lparr>inFlight = ?ab\<rparr>"] fine [of "''b''"]
    by (simp add: Insert_def)
  have s4: "?step True (?p ?ab ?j2 ?w) (?p ?ab ?j3 ?w)"
    using looks [of "''a''" ?w "?p ?ab ?j2 ?w" 0] by (simp add: sim_start_def)
  have s5: "?step True (?p ?ab ?j3 ?w) (?p ?ab ?j4 ?w)"
    using looks [of "''b''" ?w "?p ?ab ?j3 ?w" 1] by (simp add: sim_start_def)
  obtain r where s6: "?step True (?p ?ab ?j4 ?w) (?p ?ab (?j4(1 := Busy (wish ''b'') (Done r))) ?w1)"
    using makes_it [OF sim_makes(1), of "?p ?ab ?j4 ?w" 1] by auto
  obtain r' where s7: "?step True (?p ?ab (?j4(1 := Busy (wish ''b'') (Done r))) ?w1)
      (?p ?ab (?j4(1 := Busy (wish ''b'') (Done r), 0 := Busy (wish ''a'') (Done r'))) both_made)"
    using makes_it [OF sim_makes(2), of "?p ?ab (?j4(1 := Busy (wish ''b'') (Done r))) ?w1" 0] by (auto simp: both_made_def)
  note on = crowd_run.on
  note r3 = on [OF on [OF on [OF crowd_run.here s1] s2] s3, unfolded if_False]
  note r7 = on [OF on [OF on [OF on [OF r3 s4] s5] s6] s7, unfolded if_True]
  have four: "4 = Suc (Suc (Suc (Suc 0)))" by simp
  show ?thesis unfolding four by (intro exI conjI, rule r7) simp_all
qed

theorem concurrent_creates_unique_witness:
  "unique_names (sim_store both_made) \<and> (\<exists>v a. sim_store both_made v = Some a \<and> av_name a = ''a'') \<and>
   (\<exists>v a. sim_store both_made v = Some a \<and> av_name a = ''b'')"
proof -
  obtain q where q: "crowd_run default_topology_keys example_driver (VolcEngin_Cloud default_topology_keys sim_volc) 4
      (quiet (sim_start [] 60000)) q" "crowd_world q = both_made"
    using race_run unfolding sim_cloud_def by blast
  have "sim_ok 4 (sim_start [] 60000)" by (simp add: sim_ok_def sim_start_def)
  moreover have "sim_store (sim_start [] 60000) = Map.empty" by (simp add: sim_store_def sim_at_def sim_start_def fun_eq_iff)
  moreover have "unique_names Map.empty" by (simp add: unique_names_def)
  ultimately have "unique_names (sim_store both_made)"
    using concurrent_creates_unique [OF sim_service_keeps sim_attach_makes_none _ _ q(1)] q(2) by simp
  moreover have "\<exists>a. sim_store both_made ''vol-a'' = Some a \<and> av_name a = ''a''" "\<exists>a. sim_store both_made ''vol-b'' = Some a \<and> av_name a = ''b''"
    by (simp_all add: both_made_def sim_store_def sim_at_def sim_start_def sim_disk_def sim_avol_def)
  ultimately show ?thesis by blast
qed

end
