(* ===== verification/Attach_Limit.thy ===== *)
theory Attach_Limit
  imports Create_Race
begin

text \<open>
  The limit of volumes on a node. ControllerPublishVolume counts the volumes of the node and
  attaches in two separate calls, and is under no key of the table of requests in flight: the
  limit holds when requests are served one after another, and can be exceeded when two are
  served at once.
\<close>

section \<open>Counting the volumes of a node\<close>

definition held :: "store \<Rightarrow> string \<Rightarrow> string set" where
  "held m n = {v. \<exists>a. m v = Some a \<and> av_holder a = Some n}"

definition within :: "int \<Rightarrow> store \<Rightarrow> bool" where
  "within limit m \<longleftrightarrow> (\<forall>n. finite (held m n) \<and> int (card (held m n)) \<le> limit)"

lemma within_fewer: "within limit m \<Longrightarrow> (\<And>n. held m' n \<subseteq> held m n) \<Longrightarrow> within limit m'"
  unfolding within_def by (metis card_mono finite_subset of_nat_mono order_trans)

lemma within_hold:
  assumes "within limit m" and "m v = Some a" and "av_holder a = None" and "int (card (held m nd)) < limit"
  shows "within limit (m(v \<mapsto> a\<lparr>av_holder := Some nd\<rparr>))"
proof -
  have "held (m(v \<mapsto> a\<lparr>av_holder := Some nd\<rparr>)) n = (if n = nd then insert v (held m n) else held m n)" for n
    using assms(2,3) by (auto simp: held_def)
  moreover have "card (insert v (held m nd)) \<le> Suc (card (held m nd))" by (rule card_insert_le_m1) simp_all
  ultimately show ?thesis using assms(1,4) by (auto simp: within_def)
qed

text \<open>Only ControllerPublishVolume gives a volume to a node.\<close>

lemma vol_step_within:
  assumes "vol_step strict grant p b m m'" and "within limit m"
    and "\<And>req. p = OpPublish req \<Longrightarrow> m' = m \<or> int (card (held m (vp_NodeId req))) < limit"
  shows "within limit m'"
  using assms
proof (induction rule: vol_step.induct)
  case (publish m req a)
  from publish(4) [OF refl] show ?case
  proof
    assume "m(vp_VolumeId req \<mapsto> a\<lparr>av_holder := Some (vp_NodeId req)\<rparr>) = m"
    then show ?thesis using publish(3) by simp
  qed (rule within_hold [OF publish(3,1,2)])
qed (auto elim!: within_fewer simp: held_def release_at resize_at split: if_splits)

section \<open>One request after another\<close>

text \<open>A cloud whose description of a node lists at least the volumes that it has.\<close>

locale counting_cloud = volume_cloud cl ok view strict grant
  for cl :: "'w Cloud" and ok :: "nat \<Rightarrow> 'w \<Rightarrow> bool" and view :: "'w \<Rightarrow> store" and strict :: bool and grant :: "int64 \<Rightarrow> int64" +
  assumes counts: "ok k w \<Longrightarrow> wp (cloud_NodeById cl n) (\<lambda>r _. \<forall>info. r = Inr (Some info) \<longrightarrow>
    card (held (view w) n) \<le> length (InstanceForDescribeInstancesOutput_Volumes info)) w"
begin

lemma publish_counts:
  assumes "ok k w"
  shows "wp (PublishVolume_body d cl v nd) (\<lambda>_ w'. view w' = view w \<or> int (card (held (view w) nd)) < sint (maxVolumesPerNode d)) w"
proof -
  let ?P = "\<lambda>w'. view w' = view w \<or> int (card (held (view w) nd)) < sint (maxVolumesPerNode d)"
  have node: "wp (bndE (cloud_NodeById cl nd) h (\<lambda>nodeInfo. bnd (deref nodeInfo) (\<lambda>info.
         if sint (maxVolumesPerNode d) \<le> int (length (InstanceForDescribeInstancesOutput_Volumes info)) then fails FailedPrecondition t
         else bndE (cloud_AttachVolume cl nd v) h' (\<lambda>_. ret (Inr Map.empty))))) (\<lambda>_. ?P) w1"
    if "ok k w1" "view w1 = view w" for w1 h t h'
    unfolding wp_bndE [of "cloud_NodeById cl _"]
  proof (rule wp_mono [OF wp_conj [OF node [OF that(1), of nd] counts [OF that(1), of nd]]])
    fix r w2
    assume r: "(ok k w2 \<and> view w2 = view w1) \<and> (\<forall>info. r = Inr (Some info) \<longrightarrow>
        card (held (view w1) nd) \<le> length (InstanceForDescribeInstancesOutput_Volumes info))"
    have "wp (bndE (cloud_AttachVolume cl nd v) h' (\<lambda>_. ret (Inr Map.empty))) (\<lambda>_. ?P) w2"
      if "\<not> sint (maxVolumesPerNode d) \<le> int (length (InstanceForDescribeInstancesOutput_Volumes info))" "r = Inr (Some info)" for info
      using r that \<open>view w1 = view w\<close> by (intro wp_True) auto
    with r that(2) show "case r of Inl e \<Rightarrow> ?P w2 | Inr x \<Rightarrow> wp (bnd (deref x) (\<lambda>info.
         if sint (maxVolumesPerNode d) \<le> int (length (InstanceForDescribeInstancesOutput_Volumes info)) then fails FailedPrecondition t
         else bndE (cloud_AttachVolume cl nd v) h' (\<lambda>_. ret (Inr Map.empty)))) (\<lambda>_. ?P) w2"
      by (auto simp del: wp_bndE split: sum.split)
  qed
  show ?thesis
    unfolding PublishVolume_body_def wp_bndE [of "cloud_VolumeById cl _"]
  proof (rule wp_VolumeById [OF assms], goal_cases)
    case (3 vol w1)
    then show ?case by (auto intro: node simp del: wp_bndE)
  qed simp_all
qed

lemma run_op_within:
  assumes "ok (Suc k) (world s)" and "within (sint (maxVolumesPerNode d)) (view (world s))"
  shows "wp (run_op tk d cl p) (\<lambda>_ s'. ok k (world s') \<and> within (sint (maxVolumesPerNode d)) (view (world s'))) s"
proof -
  have "wp (run_op tk d cl p) (\<lambda>_ s'. \<forall>req. p = OpPublish req \<longrightarrow> view (world s') = view (world s) \<or>
      int (card (held (view (world s)) (vp_NodeId req))) < sint (maxVolumesPerNode d)) s"
  proof (cases p)
    case (OpPublish req)
    with publish_counts [OF ok_Suc [OF assms(1)], of d "vp_VolumeId req" "vp_NodeId req"] show ?thesis
      by (auto simp: wp_void ControllerSvc_ControllerPublishVolume_def intro!: wp_unguarded elim!: wp_mono split: option.split)
  qed (auto intro: wp_True)
  from wp_mono [OF wp_conj [OF this run_op_step [OF assms(1)]]] show ?thesis
    by (rule wp_mono) (auto simp: reaches_def elim!: vol_step_within [OF _ assms(2)])
qed

lemma run_ops_within:
  "ok (length ps + k) (world s) \<Longrightarrow> within (sint (maxVolumesPerNode d)) (view (world s)) \<Longrightarrow>
     wp (run_ops tk d cl ps) (\<lambda>_ s'. within (sint (maxVolumesPerNode d)) (view (world s'))) s"
proof (induction ps arbitrary: s)
  case (Cons p ps)
  have start: "ok (Suc (length ps + k)) (world s)" using Cons.prems by simp
  show ?case
    unfolding run_ops.simps wp_bnd
    by (rule wp_mono [OF run_op_within [OF start Cons.prems(2)]], rule wp_mono [OF Cons.IH]) simp_all
qed simp

end

text \<open>Asked of the service beside \<open>service_keeps\<close>: the first description of a node lists its volumes.\<close>

definition node_input :: "string \<Rightarrow> DescribeInstancesInput" where
  "node_input n = zero_DescribeInstancesInput\<lparr>DescribeInstancesInput_InstanceIds := [Some n],
     DescribeInstancesInput_PageNumber := Some 1, DescribeInstancesInput_PageSize := Some 10\<rparr>"

definition lists_held :: "'w VolcEngin \<Rightarrow> (nat \<Rightarrow> 'w \<Rightarrow> bool) \<Rightarrow> ('w \<Rightarrow> store) \<Rightarrow> bool" where
  "lists_held volc ok view \<longleftrightarrow> (\<forall>k w n. ok k w \<longrightarrow>
     (let ((err, resp), _) = sdk_DescribeInstances (svcClients volc) (node_input n) w in
      err = None \<longrightarrow>
      (case DescribeInstancesOutput_Instances resp of
         Some i # _ \<Rightarrow> card (held (view w) n) \<le> length (InstanceForDescribeInstancesOutput_Volumes i)
       | _ \<Rightarrow> True)))"

lemma client_counts:
  assumes "service_keeps volc ok view" and "lists_held volc ok view"
  shows "counting_cloud (VolcEngin_Cloud tk volc) ok view False (\<lambda>s. roundGB s * GB)"
proof (rule counting_cloud.intro [OF client_keeps_contract [OF assms(1)]], unfold_locales)
  fix k w n
  assume k: "ok k w"
  obtain err resp w' where d: "sdk_DescribeInstances (svcClients volc) (node_input n) w = ((err, resp), w')" by (metis prod.exhaust)
  have "case DescribeInstancesOutput_Instances resp of
      Some i # _ \<Rightarrow> card (held (view w) n) \<le> length (InstanceForDescribeInstancesOutput_Volumes i) | _ \<Rightarrow> True" if "err = None"
    using assms(2) k d that unfolding lists_held_def Let_def case_prod_unfold by (metis fst_conv snd_conv)
  with d show "wp (cloud_NodeById (VolcEngin_Cloud tk volc) n) (\<lambda>r _. \<forall>info. r = Inr (Some info) \<longrightarrow>
      card (held (view w) n) \<le> length (InstanceForDescribeInstancesOutput_Volumes info)) w"
    by (auto simp: VolcEngin_Cloud_def VolcEngin_NodeById_def wp_call node_input_def [symmetric] split: option.split list.split)
qed

lemma sim_lists_held: "lists_held sim_volc sim_ok sim_store"
proof -
  have "card (held (sim_store w) n) \<le> length (filter (\<lambda>v. Volume_NodeId v = n \<and> Volume_Status v \<noteq> StatusDeleted) (sim_vols w))"
    for w n
  proof -
    let ?l = "filter (\<lambda>v. Volume_NodeId v = n \<and> Volume_Status v \<noteq> StatusDeleted) (sim_vols w)"
    have "held (sim_store w) n \<subseteq> Volume_Id ` set ?l"
    proof
      fix v
      assume "v \<in> held (sim_store w) n"
      then obtain x where "sim_at w v = Some x" "Volume_Status x \<noteq> StatusDeleted" "Volume_NodeId x = n"
        by (auto simp: held_def sim_store_def sim_avol_def split: option.splits if_splits)
      with sim_at_SomeD [OF this(1)] show "v \<in> Volume_Id ` set ?l" by auto
    qed
    then have "card (held (sim_store w) n) \<le> card (Volume_Id ` set ?l)" by (rule card_mono [rotated]) simp
    also have "\<dots> \<le> length ?l" using card_image_le card_length order_trans by blast
    finally show ?thesis .
  qed
  then show ?thesis
    by (simp add: lists_held_def sim_volc_def sim_sdk_def sim_instances_def sim_instance_volumes node_input_def
        zero_DescribeInstancesInput_def zero_DescribeInstancesOutput_def)
qed

interpretation client_count: counting_cloud sim_cloud sim_ok sim_store False "\<lambda>s. roundGB s * GB"
  unfolding sim_cloud_def by (rule client_counts [OF sim_service_keeps sim_lists_held])

section \<open>Properties\<close>

text \<open>C8: The attach limit holds for requests that are served one after another: whatever they
  are, if no node has more volumes than \<open>maxVolumesPerNode\<close> before, none has after. (On the
  cloud client, from the contract \<open>counting_cloud\<close>: the service lists the volumes of a node
  when it describes it.)\<close>

theorem publish_keeps_limit:
  assumes "service_keeps volc ok view" and "lists_held volc ok view" and "ok (length ps) (world s)"
    and "within (sint (maxVolumesPerNode d)) (view (world s))"
    and "run_ops tk d (VolcEngin_Cloud tk volc) ps s = Some (Ret rs, s1)"
  shows "within (sint (maxVolumesPerNode d)) (view (world s1))"
proof -
  have "wp (run_ops tk d (VolcEngin_Cloud tk volc) ps) (\<lambda>_ s'. within (sint (maxVolumesPerNode d)) (view (world s'))) s"
    using counting_cloud.run_ops_within [OF client_counts [OF assms(1,2)], of ps 0 s d tk] assms(3,4) by simp
  with assms(5) show ?thesis by (simp add: wp_def)
qed

text \<open>Two free volumes, and a driver that allows one volume per node.\<close>

definition one_each :: Driver where
  "one_each = example_driver\<lparr>maxVolumesPerNode := 1\<rparr>"

definition two_free :: sim where
  "two_free = sim_start [sim_disk ''a'' StatusAvailable [] 20, sim_disk ''b'' StatusAvailable [] 20] 60000"

definition one_taken :: sim where
  "one_taken = sim_start [sim_disk ''a'' StatusAttached ''i-1'' 20, sim_disk ''b'' StatusAvailable [] 20] 59500"

definition both_taken :: sim where
  "both_taken = sim_start [sim_disk ''a'' StatusAttached ''i-1'' 20, sim_disk ''b'' StatusAttached ''i-1'' 20] 59000"

lemma one_each_limit: "sint (maxVolumesPerNode one_each) = 1"
  by (simp add: one_each_def)

lemma held_examples:
  "held (sim_store two_free) n = {}" "held (sim_store one_taken) n = (if n = ''i-1'' then {''vol-a''} else {})"
  "held (sim_store both_taken) n = (if n = ''i-1'' then {''vol-a'', ''vol-b''} else {})"
  by (auto simp: held_def two_free_def one_taken_def both_taken_def sim_store_def sim_at_def sim_start_def sim_disk_def sim_avol_def)

lemma sim_attaches:
  "cloud_AttachVolume sim_cloud ''i-1'' ''vol-a'' two_free = Some (Ret (Inr ()), one_taken)"
  "cloud_AttachVolume sim_cloud ''i-1'' ''vol-b'' one_taken = Some (Ret (Inr ()), both_taken)"
  by (simp_all add: sim_run two_free_def one_taken_def both_taken_def)

definition wants :: "string \<Rightarrow> op" where
  "wants v = OpPublish (publish_example v ''i-1'')"

lemma wants_run:
  "run_ops default_topology_keys one_each sim_cloud [wants ''vol-a'', wants ''vol-b''] (idle_service two_free) =
     Some (Ret [Inr (), Inl (StatusError FailedPrecondition (''volume attached to the node exceed limit '' @ FormatInt 1))],
       idle_service one_taken)"
proof -
  have "run_op default_topology_keys one_each sim_cloud (wants ''vol-a'') (idle_service two_free) = Some (Ret (Inr ()), idle_service one_taken)"
    by (simp add: wants_def void_def ControllerSvc_ControllerPublishVolume_def unguarded_def PublishVolume_body_def
        publish_example_def one_each_def example_driver_def isValidVolumeCapabilities_iff mount_cap_def get_mode_def sim_run
        two_free_def one_taken_def idle_service_def)
  moreover have "run_op default_topology_keys one_each sim_cloud (wants ''vol-b'') (idle_service one_taken) =
      Some (Ret (Inl (StatusError FailedPrecondition (''volume attached to the node exceed limit '' @ FormatInt 1))), idle_service one_taken)"
    by (simp add: wants_def void_def ControllerSvc_ControllerPublishVolume_def unguarded_def PublishVolume_body_def
        publish_example_def one_each_def example_driver_def isValidVolumeCapabilities_iff mount_cap_def get_mode_def sim_run
        one_taken_def idle_service_def)
  ultimately show ?thesis by (simp add: bnd_def)
qed

theorem publish_keeps_limit_witness:
  "within 1 (sim_store one_taken) \<and> held (sim_store one_taken) ''i-1'' = {''vol-a''}"
proof -
  have "sim_ok (length [wants ''vol-a'', wants ''vol-b'']) (world (idle_service two_free))"
    by (simp add: sim_ok_def two_free_def sim_start_def sim_disk_def sim_fine_def idle_service_def)
  moreover have "within (sint (maxVolumesPerNode one_each)) (sim_store (world (idle_service two_free)))"
    by (simp add: within_def held_examples one_each_limit idle_service_def)
  ultimately show ?thesis
    using publish_keeps_limit [OF sim_service_keeps sim_lists_held _ _ wants_run [unfolded sim_cloud_def]]
    by (simp add: one_each_limit held_examples idle_service_def)
qed

section \<open>Two at once\<close>

text \<open>A publishing thread that has counted, and is about to attach.\<close>

definition attaching :: "string \<Rightarrow> (sim, error + csi_response) thread" where
  "attaching v = turnE (cloud_AttachVolume sim_cloud ''i-1'' v) (\<lambda>e. StatusError Internal (''attach volume failed: '' @ error_text e))
     (\<lambda>_. Done (Inr (PublishContextResp Map.empty)))"

lemma attaches_next:
  "crowd_jobs p t = Busy o1 (attaching v) \<Longrightarrow> cloud_AttachVolume sim_cloud ''i-1'' v (crowd_world p) = Some (Ret (Inr ()), w) \<Longrightarrow>
    crowd_step tk d cl True p (p\<lparr>crowd_jobs := (crowd_jobs p)(t := Busy o1 (Done (Inr (PublishContextResp Map.empty)))), crowd_world := w\<rparr>)"
  unfolding attaching_def by (drule (1) proceed_turnE)

lemma counts_first:
  assumes "v \<in> {''vol-a'', ''vol-b''}" and "crowd_jobs p t = Busy (wants v) (op_thread default_topology_keys one_each sim_cloud (wants v))"
    and "crowd_world p = two_free"
  shows "crowd_run default_topology_keys one_each sim_cloud 3 p (p\<lparr>crowd_jobs := (crowd_jobs p)(t := Busy (wants v) (attaching v))\<rparr>)"
proof -
  let ?step = "crowd_step default_topology_keys one_each sim_cloud True"
  let ?at = "\<lambda>th. p\<lparr>crowd_jobs := (crowd_jobs p)(t := Busy (wants v) th), crowd_world := two_free\<rparr>"
  have same: "?at th = p\<lparr>crowd_jobs := (crowd_jobs p)(t := Busy (wants v) th)\<rparr>" for th using assms(3) by (cases p) simp
  let ?i = "sim_instance ''i-1'' two_free"
  have vol: "\<exists>x. cloud_VolumeById sim_cloud v two_free = Some (Ret (Inr (Some x)), two_free) \<and> Volume_Status x = StatusAvailable"
    using assms(1) by (auto simp: sim_run two_free_def)
  then obtain x where x: "cloud_VolumeById sim_cloud v two_free = Some (Ret (Inr (Some x)), two_free)" "Volume_Status x = StatusAvailable"
    by blast
  have node: "cloud_NodeById sim_cloud ''i-1'' two_free = Some (Ret (Inr (Some ?i)), two_free)" by (simp add: sim_run two_free_def)
  have few: "\<not> sint (maxVolumesPerNode one_each) \<le> int (length (InstanceForDescribeInstancesOutput_Volumes ?i))"
    by (simp add: one_each_limit sim_run two_free_def)
  define count where "count = (\<lambda>info :: InstanceForDescribeInstancesOutput. if sint (maxVolumesPerNode one_each) \<le> int (length (InstanceForDescribeInstancesOutput_Volumes info)) then
           Done (Inl (StatusError FailedPrecondition (''volume attached to the node exceed limit '' @ FormatInt (sint (maxVolumesPerNode one_each)))))
         else attaching v)"
  define ask where "ask = (turnE (cloud_NodeById sim_cloud ''i-1'') (\<lambda>_. StatusError NotFound (''get node by id '' @ ''i-1'' @ '' failed''))
      (\<lambda>nodeInfo. turn (deref nodeInfo) count))"
  have "\<exists>h f. op_thread default_topology_keys one_each sim_cloud (wants v) = turnE (cloud_VolumeById sim_cloud v) h f \<and> f (Some x) = ask"
    unfolding wants_def publish_example_def op_thread.simps publish_thread_def volume_publish_request.select_convs
    by (intro exI conjI, rule refl) (simp add: x(2) ask_def count_def attaching_def cong: if_cong)
  then obtain h f where th: "op_thread default_topology_keys one_each sim_cloud (wants v) = turnE (cloud_VolumeById sim_cloud v) h f"
      "f (Some x) = ask" by blast
  have s1: "?step p (?at ask)"
    using proceed_turnE [of p t "wants v" "cloud_VolumeById sim_cloud v" h f "Some x" two_free] assms(2,3) x(1) th by simp
  have s2: "?step (?at ask) (?at (turn (deref (Some ?i)) count))"
    using proceed_turnE [of "?at ask" t "wants v" "cloud_NodeById sim_cloud ''i-1''"
        "\<lambda>_. StatusError NotFound (''get node by id '' @ ''i-1'' @ '' failed'')" "\<lambda>nodeInfo. turn (deref nodeInfo) count" "Some ?i" two_free] node by (simp add: ask_def)
  have s3: "?step (?at (turn (deref (Some ?i)) count)) (?at (count ?i))"
    using proceed_turn [of "?at (turn (deref (Some ?i)) count)" t "wants v" "deref (Some ?i)" count ?i two_free] by simp
  have "count ?i = attaching v" using few by (simp only: count_def if_False)
  then show ?thesis
    using crowd_run.on [OF crowd_run.on [OF crowd_run.on [OF crowd_run.here s1] s2] s3, unfolded if_True]
    by (simp add: numeral_3_eq_3 same)
qed

text \<open>C9: The attach limit is not kept when two requests are served at once: a driver that allows
  one volume per node is asked to publish two volumes on the same node; each handler counts
  before the other attaches, both report success, and the node has two. The sequence is one
  of the interleavings of \<open>publish_thread\<close>, which no key of the table of requests in flight
  keeps apart.\<close>

theorem publish_limit_races:
  "\<exists>q. crowd_run default_topology_keys one_each sim_cloud 8 (quiet two_free) q \<and>
     within (sint (maxVolumesPerNode one_each)) (sim_store two_free) \<and>
     crowd_jobs q 0 = Busy (wants ''vol-a'') (Done (Inr (PublishContextResp Map.empty))) \<and>
     crowd_jobs q 1 = Busy (wants ''vol-b'') (Done (Inr (PublishContextResp Map.empty))) \<and>
     held (sim_store (crowd_world q)) ''i-1'' = {''vol-a'', ''vol-b''} \<and>
     \<not> within (sint (maxVolumesPerNode one_each)) (sim_store (crowd_world q))"
proof -
  let ?step = "crowd_step default_topology_keys one_each sim_cloud"
  let ?run = "crowd_run default_topology_keys one_each sim_cloud"
  let ?th = "\<lambda>v. op_thread default_topology_keys one_each sim_cloud (wants v)"
  let ?p = "\<lambda>a b w. \<lparr>crowd_table = NewInFlight, crowd_jobs = (\<lambda>_. Free)(0 := a, Suc 0 := b), crowd_world = w\<rparr>"
  let ?a = "Busy (wants ''vol-a'')" and ?b = "Busy (wants ''vol-b'')" and ?done = "Done (Inr (PublishContextResp Map.empty))"
  have fine: "op_check one_each (wants v) = None" "op_key (wants v) = None" if "v \<noteq> []" for v
    using that by (simp_all add: wants_def publish_example_def one_each_def example_driver_def isValidVolumeCapabilities_iff mount_cap_def get_mode_def)
  have idem: "(\<lambda>_. Free)(0 := a, Suc 0 := Free) = (\<lambda>_. Free)(0 := a)" for a :: "sim job" by auto
  have s1: "?step False (quiet two_free) (?p (?a (?th ''vol-a'')) Free two_free)"
    using crowd_step.enter_unkeyed [of "quiet two_free" 0 one_each "wants ''vol-a''"] fine [of "''vol-a''"] by (simp add: quiet_def idem)
  have s2: "?step False (?p (?a (?th ''vol-a'')) Free two_free) (?p (?a (?th ''vol-a'')) (?b (?th ''vol-b'')) two_free)"
    using crowd_step.enter_unkeyed [of "?p (?a (?th ''vol-a'')) Free two_free" "Suc 0" one_each "wants ''vol-b''"] fine [of "''vol-b''"] by simp
  have r3: "?run 3 (?p (?a (?th ''vol-a'')) (?b (?th ''vol-b'')) two_free) (?p (?a (attaching ''vol-a'')) (?b (?th ''vol-b'')) two_free)"
    using counts_first [of "''vol-a''" "?p (?a (?th ''vol-a'')) (?b (?th ''vol-b'')) two_free" 0] by (simp add: fun_upd_twist)
  have r4: "?run 3 (?p (?a (attaching ''vol-a'')) (?b (?th ''vol-b'')) two_free) (?p (?a (attaching ''vol-a'')) (?b (attaching ''vol-b'')) two_free)"
    using counts_first [of "''vol-b''" "?p (?a (attaching ''vol-a'')) (?b (?th ''vol-b'')) two_free" "Suc 0"] by simp
  have s5: "?step True (?p (?a (attaching ''vol-a'')) (?b (attaching ''vol-b'')) two_free) (?p (?a ?done) (?b (attaching ''vol-b'')) one_taken)"
    using attaches_next [of "?p (?a (attaching ''vol-a'')) (?b (attaching ''vol-b'')) two_free" 0 "wants ''vol-a''" "''vol-a''" one_taken] sim_attaches(1)
    by (simp add: fun_upd_twist)
  have s6: "?step True (?p (?a ?done) (?b (attaching ''vol-b'')) one_taken) (?p (?a ?done) (?b ?done) both_taken)"
    using attaches_next [of "?p (?a ?done) (?b (attaching ''vol-b'')) one_taken" "Suc 0" "wants ''vol-b''" "''vol-b''" both_taken] sim_attaches(2)
    by simp
  note run = crowd_run_trans
  have "?run 8 (quiet two_free) (?p (?a ?done) (?b ?done) both_taken)"
    using run [OF crowd_step_run(1) [OF s6] run [OF crowd_step_run(1) [OF s5] run [OF r4 run [OF r3
      run [OF crowd_step_run(2) [OF s2] crowd_step_run(2) [OF s1]]]]]] by simp
  then show ?thesis
    by (intro exI conjI, assumption) (simp_all add: within_def held_examples one_each_limit exI [of _ "''i-1''"])
qed

end
