(* ===== verification/Services_Facts.thy ===== *)
theory Services_Facts
  imports Services
begin

text \<open>Which requests the plugins refuse as unimplemented, against the capabilities that they announce.\<close>

section \<open>Requests that are refused\<close>

text \<open>The request is refused as unimplemented in every state, by the service or for want of one.\<close>

definition refuses :: "'s services \<Rightarrow> csi_request \<Rightarrow> bool" where
  "refuses sv req \<longleftrightarrow>
     (case handler_of sv (service_of (method_of req)) of
        None \<Rightarrow> True
      | Some h \<Rightarrow> \<forall>s. h req s = Some (Ret (Inl (StatusError Unimplemented [])), s))"

text \<open>An answer whose status code is not \<open>Unimplemented\<close>.\<close>

definition answered :: "error + 'a \<Rightarrow> bool" where
  "answered r \<longleftrightarrow> (case r of Inl e \<Rightarrow> error_code e \<noteq> Unimplemented | Inr x \<Rightarrow> True)"

text \<open>The request is never answered so: in no state and whatever the calls of the handler give.\<close>

definition serves :: "'s services \<Rightarrow> csi_request \<Rightarrow> bool" where
  "serves sv req \<longleftrightarrow>
     (case handler_of sv (service_of (method_of req)) of
        None \<Rightarrow> False
      | Some h \<Rightarrow> \<forall>s. wp (h req) (\<lambda>r _. answered r) s)"

lemma serves_not_refuses: "serves sv req \<Longrightarrow> \<not> refuses sv req"
  by (fastforce simp: serves_def refuses_def wp_def answered_def split: option.splits)

text \<open>What the CSI specification asks of a plugin that announces a capability.\<close>

fun controller_methods :: "controller_rpc \<Rightarrow> csi_method set" where
  "controller_methods CREATE_DELETE_VOLUME = {CreateVolume_M, DeleteVolume_M}"
| "controller_methods PUBLISH_UNPUBLISH_VOLUME = {ControllerPublishVolume_M, ControllerUnpublishVolume_M}"
| "controller_methods LIST_VOLUMES = {ListVolumes_M}"
| "controller_methods GET_CAPACITY = {GetCapacity_M}"
| "controller_methods CREATE_DELETE_SNAPSHOT = {CreateSnapshot_M, DeleteSnapshot_M}"
| "controller_methods LIST_SNAPSHOTS = {ListSnapshots_M}"
| "controller_methods CLONE_VOLUME = {CreateVolume_M}"
| "controller_methods PUBLISH_READONLY = {ControllerPublishVolume_M}"
| "controller_methods CS_EXPAND_VOLUME = {ControllerExpandVolume_M}"
| "controller_methods CS_UNKNOWN = {}"

fun node_methods :: "node_rpc \<Rightarrow> csi_method set" where
  "node_methods STAGE_UNSTAGE_VOLUME = {NodeStageVolume_M, NodeUnstageVolume_M}"
| "node_methods GET_VOLUME_STATS = {NodeGetVolumeStats_M}"
| "node_methods NS_EXPAND_VOLUME = {NodeExpandVolume_M}"
| "node_methods NS_UNKNOWN = {}"

definition announced :: "CSIDriver \<Rightarrow> csi_method set" where
  "announced d = (\<Union>c\<in>set (CSCap d). controller_methods c) \<union> (\<Union>n\<in>set (NSCap d). node_methods n)"

lemma wp_answer: "wp (answer f m) P s \<longleftrightarrow> wp m (\<lambda>r s'. P (case r of Inl e \<Rightarrow> Inl e | Inr x \<Rightarrow> Inr (f x)) s') s"
  unfolding answer_def wp_bndE by (auto simp: wp_def split: sum.split)

lemma wp_at_controller:
  "wp (at_controller m) P s \<longleftrightarrow> wp m (\<lambda>r t. P r (s\<lparr>controller_table := flights t, outside := world t\<rparr>))
     \<lparr>flights = controller_table s, world = outside s\<rparr>"
  by (auto simp: wp_def at_controller_def split: option.split)

lemma wp_at_node:
  "wp (at_node m) P s \<longleftrightarrow> wp m (\<lambda>r t. P r (s\<lparr>node_table := flights t, outside := world t\<rparr>))
     \<lparr>flights = node_table s, world = outside s\<rparr>"
  by (auto simp: wp_def at_node_def split: option.split)

text \<open>Rules to walk through a handler, whatever its calls give.\<close>

lemma wp_guarded_any: "(\<And>s'. P (Inl busy) s') \<Longrightarrow> wp body (\<lambda>r _. \<forall>s'. P r s') (world s) \<Longrightarrow> wp (guarded key busy body) P s"
  by (rule wp_guarded) (auto elim: wp_mono)

lemma wp_unguarded_any: "wp body (\<lambda>r _. \<forall>s'. P r s') (world s) \<Longrightarrow> wp (unguarded body) P s"
  by (rule wp_unguarded) (auto elim: wp_mono)

lemma wp_bnd_err_any:
  "(\<And>e w1. P (Inl (g e)) w1) \<Longrightarrow> (\<And>w1. wp k P w1) \<Longrightarrow> wp (bnd_err m g k) P w"
  unfolding bnd_err_def wp_bnd by (rule wp_True) (simp split: option.split)

lemma wp_bnd_os: "wp (bnd_os m h f) P w \<longleftrightarrow> wp m (\<lambda>r w1. case r of Inl e \<Rightarrow> P (Inl (h (os_err e))) w1 | Inr x \<Rightarrow> wp (f x) P w1) w"
  unfolding bnd_os_def wp_bnd by (auto simp: wp_def split: sum.split)

lemma wp_bnd_os_any: "(\<And>e w1. P (Inl (h (os_err e))) w1) \<Longrightarrow> (\<And>x w1. wp (f x) P w1) \<Longrightarrow> wp (bnd_os m h f) P w"
  unfolding wp_bnd_os by (rule wp_True) (simp split: sum.split)

lemma wp_with_defer: "(\<And>r w w'. P r w \<Longrightarrow> P r w') \<Longrightarrow> wp m P w \<Longrightarrow> wp (with_defer c m) P w"
  by (auto simp: wp_def with_defer_def split: option.splits)

lemma answered_simps [simp]:
  "answered (Inr x)" "answered (Inl e) \<longleftrightarrow> error_code e \<noteq> Unimplemented"
  "answered (case r of Inl e \<Rightarrow> Inl e | Inr x \<Rightarrow> Inr (f x)) \<longleftrightarrow> answered r"
  "(\<forall>e. r = Inl e \<longrightarrow> error_code e \<noteq> Unimplemented) \<longleftrightarrow> answered r"
  by (auto simp: answered_def split: sum.split)

lemma wp_bndE_answered:
  assumes "wp m (\<lambda>r _. \<forall>e. r = Inl e \<longrightarrow> error_code (h e) \<noteq> Unimplemented) w"
    and "\<And>x w1. wp (f x) (\<lambda>r _. answered r) w1"
  shows "wp (bndE m h f) (\<lambda>r _. answered r) w"
  unfolding wp_bndE using assms by (auto elim!: wp_mono split: sum.splits)

lemma wp_trivial [simp]: "wp m (\<lambda>_ _. True) w"
  by (rule wp_True) simp

lemmas answered_rules = wp_guarded_any wp_unguarded_any wp_bnd_any wp_bndE_answered wp_bnd_err_any wp_bnd_os_any
  wp_with_defer

lemma answer_unimplemented:
  "answer f (ret (Inl (StatusError Unimplemented []))) s = Some (Ret (Inl (StatusError Unimplemented [])), s)"
  by (simp add: answer_def bndE_def bnd_def)

section \<open>The EBS plugin\<close>

lemma ebs_handlers:
  "handler_of (fst (ebs_Run tk h d endpoint cl w)) Identity = Some (ebs_identity (NewIdentitySvc d))"
  "handler_of (fst (ebs_Run tk h d endpoint cl w)) Controller = Some (ebs_controller tk (NewControllerSvc d cl))"
  "handler_of (fst (ebs_Run tk h d endpoint cl w)) Node = Some (ebs_node (NewNodeSvc d h cl))"
  by (simp_all add: ebs_Run_def Let_def handler_of_def)

lemma service_of_simps [simp]:
  "service_of GetPluginInfo_M = Identity" "service_of Probe_M = Identity" "service_of GetPluginCapabilities_M = Identity"
  "service_of CreateVolume_M = Controller" "service_of DeleteVolume_M = Controller"
  "service_of ControllerPublishVolume_M = Controller" "service_of ControllerUnpublishVolume_M = Controller"
  "service_of ValidateVolumeCapabilities_M = Controller" "service_of ListVolumes_M = Controller"
  "service_of GetCapacity_M = Controller" "service_of ControllerGetCapabilities_M = Controller"
  "service_of CreateSnapshot_M = Controller" "service_of DeleteSnapshot_M = Controller" "service_of ListSnapshots_M = Controller"
  "service_of ControllerExpandVolume_M = Controller" "service_of ControllerGetVolume_M = Controller"
  "service_of NodeStageVolume_M = Node" "service_of NodeUnstageVolume_M = Node" "service_of NodePublishVolume_M = Node"
  "service_of NodeUnpublishVolume_M = Node" "service_of NodeGetVolumeStats_M = Node" "service_of NodeExpandVolume_M = Node"
  "service_of NodeGetCapabilities_M = Node" "service_of NodeGetInfo_M = Node"
  by (simp_all add: service_of_def)

text \<open>The errors of the cloud client are its own texts, those of the SDK inside them.\<close>

lemma client_snapshots_answered: "wp (cloud_GetSnapshotByName (VolcEngin_Cloud tk volc) n) (\<lambda>r _. answered r) w"
  unfolding VolcEngin_Cloud_def Cloud.simps VolcEngin_GetSnapshotByName_def ebsSnapshotResponseToStruct_def
  by (auto simp del: wp_bnd intro!: answered_rules split: option.split list.split)

lemma existing_volume_answered: "answered (existing_volume tk cl req sid ty c z v)"
  by (simp add: existing_volume_def)

lemma source_snapshot_answered: "source_snapshot req = Inl e \<Longrightarrow> error_code e \<noteq> Unimplemented"
  by (auto simp: source_snapshot_def split: option.splits content_source.splits)

lemmas ebs_controller_text = ebs_controller_def NewControllerSvc_def wp_answer wp_at_controller not_mine_def
  ControllerSvc_CreateVolume_def CreateVolume_body_def Let_def ControllerSvc_DeleteVolume_def DeleteVolume_body_def
  ControllerSvc_ControllerPublishVolume_def PublishVolume_body_def ControllerSvc_ControllerUnpublishVolume_def UnpublishVolume_body_def
  ControllerSvc_ValidateVolumeCapabilities_def ControllerSvc_ControllerGetCapabilities_def
  ControllerSvc_CreateSnapshot_def validateCreateSnapshotRequest_def CreateSnapshot_body_def ControllerSvc_DeleteSnapshot_def
  validateDeleteSnapshotRequest_def ControllerSvc_ListSnapshots_def ControllerSvc_ControllerExpandVolume_def ExpandVolume_body_def

lemma ebs_controller_answered:
  assumes "method_of req \<notin> {ListVolumes_M, GetCapacity_M, ControllerGetVolume_M}" and "req \<noteq> ListSnapshotsReq []"
  shows "wp (ebs_controller tk (NewControllerSvc d (VolcEngin_Cloud tk volc)) req) (\<lambda>r _. answered r) s"
  using assms
  by (cases req) (auto simp: ebs_controller_text existing_volume_answered simp del: wp_bnd wp_bndE
      intro!: answered_rules client_snapshots_answered
      dest: source_snapshot_answered split: option.split sum.split)

lemma GetMetrics_answered: "wp (GetMetrics p) (\<lambda>r _. answered r) w"
  by (auto simp: GetMetrics_def os_err_def simp del: wp_bnd intro!: answered_rules)

lemmas ebs_node_text = ebs_node_def NewNodeSvc_def wp_answer wp_at_node not_mine_def node_busy_def
  NodeSvc_NodeStageVolume_def StageVolume_body_def StageVolume_mount_def NodeSvc_NodeUnstageVolume_def UnstageVolume_body_def
  NodeSvc_NodePublishVolume_def NodePublishVolume_body_def publish_mount_def NodeSvc_NodeUnpublishVolume_def
  NodeSvc_NodeGetVolumeStats_def NodeSvc_NodeExpandVolume_def NodeExpandVolume_body_def
  NodeSvc_NodeGetCapabilities_def NodeSvc_NodeGetInfo_def resize_snapshot_def Let_def

lemma ebs_node_answered: "wp (ebs_node (NewNodeSvc d h cl) req) (\<lambda>r _. answered r) s"
  by (cases req) (auto simp: ebs_node_text GetMetrics_answered simp del: wp_bnd wp_bndE intro!: answered_rules
      split: option.split sum.split os_error.split bool.split)

lemma ebs_identity_answered: "wp (ebs_identity (NewIdentitySvc d) req) (\<lambda>r _. answered r) s"
  by (cases req) (simp_all add: ebs_identity_def NewIdentitySvc_def wp_answer not_mine_def GetPluginInfo_def Probe_def
      ebs_GetPluginCapabilities_def)

definition ebs_gap :: "csi_request \<Rightarrow> bool" where
  "ebs_gap req \<longleftrightarrow> method_of req \<in> {ListVolumes_M, GetCapacity_M, ControllerGetVolume_M} \<or> req = ListSnapshotsReq []"

lemma service_of_iff:
  "service_of m = Identity \<longleftrightarrow> m \<in> {GetPluginInfo_M, Probe_M, GetPluginCapabilities_M}"
  "service_of m = Node \<longleftrightarrow> m \<in> {NodeStageVolume_M, NodeUnstageVolume_M, NodePublishVolume_M, NodeUnpublishVolume_M,
     NodeGetVolumeStats_M, NodeExpandVolume_M, NodeGetCapabilities_M, NodeGetInfo_M}"
  by (cases m; simp)+

lemma ebs_requests:
  "if ebs_gap req then refuses (fst (ebs_Run tk h d endpoint (VolcEngin_Cloud tk volc) w)) req
    else serves (fst (ebs_Run tk h d endpoint (VolcEngin_Cloud tk volc) w)) req"
  (is "if _ then refuses ?sv req else _")
proof (cases "ebs_gap req")
  case True
  then have "service_of (method_of req) = Controller" and
    "ebs_controller tk (NewControllerSvc d (VolcEngin_Cloud tk volc)) req s = Some (Ret (Inl (StatusError Unimplemented [])), s)" for s
    by (auto simp: ebs_gap_def ebs_controller_def NewControllerSvc_def answer_unimplemented ControllerSvc_ListVolumes_def
        ControllerSvc_GetCapacity_def ControllerSvc_ControllerGetVolume_def ControllerSvc_ListSnapshots_def answer_def
        bndE_def bnd_def at_controller_def elim!: method_of.elims)
  with True show ?thesis by (simp add: refuses_def ebs_handlers)
next
  case False
  then have "serves ?sv req"
    unfolding serves_def
    by (cases "service_of (method_of req)")
      (auto simp: ebs_handlers ebs_gap_def intro!: ebs_identity_answered ebs_node_answered ebs_controller_answered)
  with False show ?thesis by simp
qed

section \<open>The NAS plugin\<close>

lemma CreateDest_answered: "wp (CreateDest p) (\<lambda>r _. answered r) w"
  by (auto simp: CreateDest_def os_err_def simp del: wp_bnd intro!: answered_rules split: sum.split os_error.split node.split)

lemma nas_delete_answered: "wp (nas_DeleteVolume d h env v) (\<lambda>r _. answered r) s"
proof -
  have archive: "wp (\<lambda>w. bnd_os (Rename p (q w)) (\<lambda>e. StatusError Internal (t w e)) (\<lambda>_. ret (Inr ())) w) (\<lambda>r _. answered r) w"
    for p q t and w :: "'a os"
    by (auto simp: wp_def bnd_os_def bnd_def split: option.splits outcome.splits sum.splits)
  have arch: "wp (archive_or_remove env v a mp n) (\<lambda>r _. answered r) w" for a mp n w
    unfolding archive_or_remove_def Let_def
    by (auto simp: archive simp del: wp_bnd intro!: answered_rules split: option.split bool.split)
  have "wp (delete_sub_path h env v srv p o' a) (\<lambda>r _. answered r) w" for srv p o' a w
    by (auto simp: delete_sub_path_def Let_def nas_mount_error_def nas_internal_def arch simp del: wp_bnd wp_bndE
        split: prod.split intro!: answered_rules)
  then show ?thesis
    unfolding nas_DeleteVolume_def Let_def
    by (auto simp del: wp_bnd intro!: answered_rules split: sum.split option.split)
qed

lemma nas_create_answered: "wp (nas_CreateVolume d h req) (\<lambda>r _. answered r) s"
proof -
  have "na_VolumeAs args = ''subpath''" if "getNasVolumeArgs ps = Inr args" for ps args
    using that by (auto simp: getNasVolumeArgs_def Let_def split: if_splits)
  moreover have "wp (provision_dir h args v o' n) (\<lambda>r _. answered r) w" for args v o' n w
    by (auto simp: provision_dir_def Let_def nas_mount_error_def nas_internal_def simp del: wp_bnd wp_bndE
        split: sum.split intro!: answered_rules)
  ultimately show ?thesis
    by (auto simp: nas_CreateVolume_def Let_def simp del: wp_bnd wp_bndE intro!: answered_rules split: prod.split sum.split)
qed

lemma nas_handlers:
  assumes "nas_Run h None (Inr env) d endpoint = Some (sv, args)"
  shows "handler_of sv Identity = Some (nas_identity d)" "handler_of sv Controller = Some (nas_controller d h env)"
    "handler_of sv Node = Some (nas_node d h)"
  using assms by (auto simp: nas_Run_def nas_NewControllerServer_def Let_def handler_of_def)

definition nas_gap :: "csi_request \<Rightarrow> bool" where
  "nas_gap req \<longleftrightarrow> method_of req \<in> {ControllerPublishVolume_M, ControllerUnpublishVolume_M, ListVolumes_M, GetCapacity_M,
    CreateSnapshot_M, DeleteSnapshot_M, ListSnapshots_M, ControllerExpandVolume_M, ControllerGetVolume_M,
    NodeStageVolume_M, NodeUnstageVolume_M, NodeExpandVolume_M}"

lemma nas_node_answered: "\<not> nas_gap req \<Longrightarrow> wp (nas_node d h req) (\<lambda>r _. answered r) s"
  by (cases req) (auto simp: nas_gap_def nas_node_def wp_answer not_mine_def nas_NodePublishVolume_def Let_def nas_NodeUnpublishVolume_def
      nas_NodeGetVolumeStats_def GetMetrics_answered nas_NodeGetCapabilities_def nas_NodeGetInfo_def nas_mount_error_def nas_internal_def
      simp del: wp_bnd wp_bndE intro!: answered_rules split: option.split os_error.split prod.split sum.split)

lemma nas_controller_answered: "\<not> nas_gap req \<Longrightarrow> wp (nas_controller d h env req) (\<lambda>r _. answered r) s"
  by (cases req) (auto simp: nas_gap_def nas_controller_def wp_answer not_mine_def nas_create_answered nas_delete_answered
      nas_ValidateVolumeCapabilities_def nas_ControllerGetCapabilities_def)

lemma nas_identity_answered: "wp (nas_identity d req) (\<lambda>r _. answered r) s"
  by (cases req) (simp_all add: nas_identity_def wp_answer not_mine_def nas_GetPluginInfo_def nas_Probe_def nas_GetPluginCapabilities_def)

lemma nas_requests:
  assumes "nas_Run h None (Inr env) d endpoint = Some (sv, args)"
  shows "if nas_gap req then refuses sv req else serves sv req"
proof (cases "nas_gap req")
  case True
  then have "service_of (method_of req) = Controller \<and> (\<forall>s. nas_controller d h env req s = Some (Ret (Inl (StatusError Unimplemented [])), s)) \<or>
    service_of (method_of req) = Node \<and> (\<forall>s. nas_node d h req s = Some (Ret (Inl (StatusError Unimplemented [])), s))"
    by (cases req) (auto simp: nas_gap_def nas_controller_def nas_node_def answer_unimplemented nas_unimplemented_def)
  with True show ?thesis by (auto simp: refuses_def nas_handlers [OF assms])
next
  case False
  then have "serves sv req"
    unfolding serves_def
    by (cases "service_of (method_of req)")
      (auto simp: nas_handlers [OF assms] intro!: nas_identity_answered nas_node_answered nas_controller_answered)
  with False show ?thesis by simp
qed

section \<open>The TOS plugin\<close>

lemma tos_handlers:
  "handler_of (fst (tos_Run h env order d endpoint)) Identity = Some (tos_identity d)"
  "handler_of (fst (tos_Run h env order d endpoint)) Controller = None"
  "handler_of (fst (tos_Run h env order d endpoint)) Node = Some (tos_node d h env order)"
  by (simp_all add: tos_Run_def Let_def handler_of_def)

definition tos_gap :: "csi_request \<Rightarrow> bool" where
  "tos_gap req \<longleftrightarrow> service_of (method_of req) = Controller \<or>
     method_of req \<in> {NodeStageVolume_M, NodeUnstageVolume_M, NodeGetVolumeStats_M, NodeExpandVolume_M}"

lemma wp_defer_on_error: "(\<And>e w w'. P (Inl e) w \<Longrightarrow> P (Inl e) w') \<Longrightarrow> wp m P w \<Longrightarrow> wp (defer_on_error c m) P w"
  by (auto simp: wp_def defer_on_error_def split: option.splits outcome.splits sum.splits)

lemma createCredentialFile_answered: "wp (createCredentialFile env b secrets) (\<lambda>r _. answered r) w"
  unfolding createCredentialFile_def Let_def
  by (auto simp del: wp_bnd intro!: answered_rules split: sum.split os_error.split)

lemma tos_publish_answered: "wp (tos_NodePublishVolume h env attributes req) (\<lambda>r _. answered r) s"
  unfolding tos_NodePublishVolume_def make_sub_path_def mount_target_def Let_def
  by (auto simp: internal_def os_err_def createCredentialFile_answered simp del: wp_bnd wp_bndE
      intro!: answered_rules wp_defer_on_error split: option.split)

lemma tos_node_answered: "\<not> tos_gap req \<Longrightarrow> wp (tos_node d h env order req) (\<lambda>r _. answered r) s"
  by (cases req) (auto simp: tos_gap_def tos_node_def wp_answer not_mine_def tos_publish_answered tos_NodeUnpublishVolume_def
      tos_NodeGetCapabilities_def tos_NodeGetInfo_def simp del: wp_bnd wp_bndE intro!: answered_rules split: option.split)

lemma tos_identity_answered: "wp (tos_identity d req) (\<lambda>r _. answered r) s"
  by (cases req) (simp_all add: tos_identity_def wp_answer not_mine_def tos_GetPluginInfo_def tos_Probe_def tos_GetPluginCapabilities_def)

lemma tos_requests:
  "if tos_gap req then refuses (fst (tos_Run h env order d endpoint)) req
    else serves (fst (tos_Run h env order d endpoint)) req" (is "if _ then refuses ?sv req else _")
proof (cases "tos_gap req")
  case True
  then have "service_of (method_of req) = Controller \<or> service_of (method_of req) = Node \<and>
      (\<forall>s. tos_node d h env order req s = Some (Ret (Inl (StatusError Unimplemented [])), s))"
    by (cases req) (auto simp: tos_gap_def tos_node_def answer_unimplemented tos_unimplemented_def)
  with True show ?thesis by (auto simp: refuses_def tos_handlers)
next
  case False
  then have "serves ?sv req"
    unfolding serves_def
    by (cases "service_of (method_of req)")
      (auto simp: tos_handlers tos_gap_def intro!: tos_identity_answered tos_node_answered)
  with False show ?thesis by simp
qed

section \<open>What is announced is there\<close>


lemma ebs_announced: "announced (csi_driver (ebs_NewDriver n v i mx rs)) = {CreateVolume_M, DeleteVolume_M,
   ControllerPublishVolume_M, ControllerUnpublishVolume_M, ControllerExpandVolume_M, CreateSnapshot_M, DeleteSnapshot_M,
   ListSnapshots_M, NodeStageVolume_M, NodeUnstageVolume_M, NodeGetVolumeStats_M, NodeExpandVolume_M}"
  by (auto simp: announced_def)

lemma nas_announced: "announced (nas_csi (nas_NewDriver n v i c)) = {CreateVolume_M, DeleteVolume_M, ControllerExpandVolume_M,
   NodeGetVolumeStats_M}"
  by (auto simp: announced_def nas_NewDriver_def Let_def)

lemma tos_announced: "announced (tos_NewDriver n v i) = {}"
  by (auto simp: announced_def tos_NewDriver_def Let_def zero_CSIDriver_def)

text \<open>One answer settles which of the two it is.\<close>

lemma requests_split:
  "(\<And>req. if gap req then refuses sv req else serves sv req) \<Longrightarrow>
    (\<forall>req. refuses sv req \<longleftrightarrow> gap req) \<and> (\<forall>req. serves sv req \<longleftrightarrow> \<not> gap req)"
  using serves_not_refuses by meson

text \<open>C16: What the plugins announce and what they refuse. For each of the three plugins a request either
  is refused as unimplemented in every state, or is never answered with the code
  Unimplemented, whatever the state is and whatever the cloud, the node and the cluster answer; and the
  requests that are refused are exactly those of the plugin's list. Of the requests that the
  CSI specification ties to a capability announced by the EBS driver, the list has one: ListSnapshots
  without a snapshot id. The NAS driver announces the expansion of volumes and refuses every
  request for it, and nothing else that it announces. The TOS driver announces nothing. The controller
  service is announced exactly by the plugins whose server has one registered.\<close>

theorem announced_is_implemented:
  "let ebs = ebs_Run tk h (ebs_NewDriver n v i mx rs) endpoint (VolcEngin_Cloud tk volc) w;
       tos = tos_Run h tenv order (tos_NewDriver n v i) endpoint
   in (\<forall>req. refuses (fst ebs) req \<longleftrightarrow> ebs_gap req) \<and> (\<forall>req. serves (fst ebs) req \<longleftrightarrow> \<not> ebs_gap req) \<and>
      {req. method_of req \<in> announced (csi_driver (ebs_NewDriver n v i mx rs)) \<and> ebs_gap req} = {ListSnapshotsReq []} \<and>
      (\<forall>req. refuses (fst tos) req \<longleftrightarrow> tos_gap req) \<and> (\<forall>req. serves (fst tos) req \<longleftrightarrow> \<not> tos_gap req) \<and>
      announced (tos_NewDriver n v i) = {} \<and>
      (case nas_Run h None (Inr env) (nas_NewDriver n v i c) endpoint of
         None \<Rightarrow> False
       | Some (nas, nas_args) \<Rightarrow>
           (\<forall>req. refuses nas req \<longleftrightarrow> nas_gap req) \<and> (\<forall>req. serves nas req \<longleftrightarrow> \<not> nas_gap req) \<and>
           {req. method_of req \<in> announced (nas_csi (nas_NewDriver n v i c)) \<and> nas_gap req} =
             {req. method_of req = ControllerExpandVolume_M} \<and>
           sa_cs nas_args = (CONTROLLER_SERVICE \<in> set (projr nas_GetPluginCapabilities))) \<and>
      sa_cs (fst (snd ebs)) = (CONTROLLER_SERVICE \<in> set (projr ebs_GetPluginCapabilities)) \<and>
      sa_cs (snd tos) = (CONTROLLER_SERVICE \<in> set (projr tos_GetPluginCapabilities))"
proof -
  obtain nas nas_args where run: "nas_Run h None (Inr env) (nas_NewDriver n v i c) endpoint = Some (nas, nas_args)"
    by (auto simp: nas_Run_def nas_NewControllerServer_def Let_def)
  then have args: "sa_cs nas_args" by (auto simp: nas_Run_def nas_NewControllerServer_def Let_def start_args_of_def)
  have ebs: "{req. method_of req \<in> announced (csi_driver (ebs_NewDriver n v i mx rs)) \<and> ebs_gap req} = {ListSnapshotsReq []}"
    unfolding ebs_announced ebs_gap_def by auto
  have nas: "{req. method_of req \<in> announced (nas_csi (nas_NewDriver n v i c)) \<and> nas_gap req} =
      {req. method_of req = ControllerExpandVolume_M}"
    unfolding nas_announced nas_gap_def by auto
  note split = requests_split [OF ebs_requests [of _ tk h "ebs_NewDriver n v i mx rs" endpoint volc w]]
    requests_split [OF tos_requests [of _ h tenv order "tos_NewDriver n v i" endpoint]] requests_split [OF nas_requests [OF run]]
  show ?thesis
    unfolding Let_def run option.case prod.case ebs nas tos_announced using split args
    by (simp add: nas_GetPluginCapabilities_def ebs_GetPluginCapabilities_def
        tos_GetPluginCapabilities_def ebs_Run_def tos_Run_def start_args_of_def Let_def)
qed

section \<open>The services side by side\<close>

text \<open>A request to one service leaves the other's table alone, and an RPC through the
  interceptor has the effect and the answer of its handler.\<close>

lemma ebs_controller_keeps_node_table: "keeps node_table (ebs_controller tk cs req)"
proof -
  have ans: "keeps node_table (answer f (at_controller m))" for f :: "'b \<Rightarrow> csi_response" and m :: "('a service, error + 'b) go"
    by (auto simp: keeps_def answer_def bndE_def bnd_def at_controller_def split: option.splits outcome.splits sum.splits)
  have rets: "keeps node_table (answer f (ret x) :: ('a plugin, error + csi_response) go)" for f :: "'b \<Rightarrow> csi_response" and x
    by (auto simp: keeps_def answer_def bndE_def bnd_def split: sum.splits)
  show ?thesis
    by (cases req) (simp_all add: ebs_controller_def ans rets not_mine_def keeps_def [of _ panic])
qed

lemma rpc_handler:
  "handler_of sv (service_of (method_of req)) = Some hdl \<Longrightarrow>
   \<exists>f. rpc sq sr names sv req = Some f \<and>
     (\<forall>s r s'. f s = Some (Ret r, s') \<longrightarrow> hdl req (served s) = Some (Ret r, served s'))"
  by (auto simp: rpc_def logGRPC_Some)

end
