(* ===== verification/EBS_Node_Facts.thy ===== *)
theory EBS_Node_Facts
  imports EBS_Node
begin

text \<open>
  What the node service guarantees: a system disk is never formatted, staging and
  publishing mount only what is described, an expansion that is reported done has been
  measured. Shown for every cloud, every mount library and every script of faults.
\<close>

section \<open>Reading calls leave the tree alone\<close>

lemma next_fault_store [simp]: "store (next_fault m) = store m" "mtab (next_fault m) = mtab m"
  by (simp_all add: next_fault_def)

lemma sys_keeps_store:
  assumes "\<And>m. store (snd (f m)) = store m \<and> mtab (snd (f m)) = mtab m"
  shows "keeps store (sys f)" "keeps mtab (sys f)"
  using assms by (auto simp: keeps_def sys_def split: option.splits)

lemma reads_keep [intro]:
  "keeps store (Lstat p)" "keeps store (Stat p)" "keeps store (EvalSymlinks p)"
  "keeps store (ReadFile p)" "keeps store (ReadDir p)" "keeps store (Statfs p)"
  "keeps mtab (Lstat p)" "keeps mtab (Stat p)" "keeps mtab (EvalSymlinks p)"
  "keeps mtab (ReadFile p)" "keeps mtab (ReadDir p)" "keeps mtab (Statfs p)"
  unfolding Lstat_def Stat_def EvalSymlinks_def ReadFile_def ReadDir_def Statfs_def
  by (auto intro!: sys_keeps_store)

lemma returns_sys: "returns (sys f) m"
  by (auto simp: returns_def sys_def split: option.split)

lemma reads_return [intro]:
  "returns (Lstat p) m" "returns (Stat p) m" "returns (EvalSymlinks p) m" "returns (ReadFile p) m"
  "returns (ReadDir p) m" "returns (Statfs p) m" "returns (Remove p) m" "returns (Rename p q) m"
  "returns (OpenCreate p) m" "returns (WriteFile p c) m"
  by (simp_all add: Lstat_def Stat_def EvalSymlinks_def ReadFile_def ReadDir_def Statfs_def Remove_def
      Rename_def OpenCreate_def WriteFile_def returns_sys)

lemma bnd_err_Ret [go_ret]:
  "bnd_err m h f w = Some (Ret (Inr y), w') \<longleftrightarrow> fst (m w) = None \<and> f (snd (m w)) = Some (Ret (Inr y), w')"
  by (auto simp: bnd_err_def bnd_def split: option.splits)

lemma bnd_os_Ret [go_ret]:
  "bnd_os m h f w = Some (Ret (Inr y), w') \<longleftrightarrow>
     (\<exists>x w1. m w = Some (Ret (Inr x), w1) \<and> f x w1 = Some (Ret (Inr y), w'))"
  by (auto simp: bnd_os_def bnd_def split: option.splits outcome.splits sum.splits)

section \<open>The device of a volume\<close>

lemma keeps_glob_serial [intro]: "keeps store (glob_serial ns)"
  by (induction ns) (auto intro!: keeps_bnd)

lemma keeps_find_serial [intro]: "keeps store (find_serial s ns)"
  by (induction ns) (auto intro!: keeps_bnd split: sum.split)

lemma keeps_device: "keeps store (GetDeviceByVolumeID v)"
  unfolding GetDeviceByVolumeID_def getDeviceSerial_def resolve_link_def bnd_os_def Let_def
  by (auto intro!: keeps_bnd reads_keep split: sum.split node.split os_error.split option.split)

lemma find_serial_found:
  "find_serial s ns m = Some (Ret d, m') \<Longrightarrow> d \<noteq> [] \<Longrightarrow>
     \<exists>n\<in>set ns. d = path_join [''/dev'', n] \<and>
       (\<exists>m1 body. ReadFile (''/sys/block/'' @ n @ ''/serial'') m1 = Some (Ret (Inr body), m') \<and> TrimSpace body = s)"
proof (induction ns arbitrary: m)
  case (Cons n ns)
  from Cons.prems obtain r m1 where r: "ReadFile (''/sys/block/'' @ n @ ''/serial'') m = Some (Ret r, m1)"
    by (auto simp: go_ret)
  show ?case
  proof (cases "\<exists>body. r = Inr body \<and> TrimSpace body = s")
    case True
    then obtain body where "r = Inr body" "TrimSpace body = s" by blast
    moreover from this Cons.prems r have "d = path_join [''/dev'', n]" "m1 = m'" by (auto simp: bnd_def)
    ultimately show ?thesis using r by (intro bexI [of _ n] conjI exI [of _ m] exI [of _ body]) auto
  next
    case False
    with Cons.prems(1) r have "find_serial s ns m1 = Some (Ret d, m')"
      by (auto simp: bnd_def split: sum.splits if_splits)
    from Cons.IH [OF this Cons.prems(2)] show ?thesis by auto
  qed
qed simp


definition example_machine :: "(location \<times> node) list \<Rightarrow> machine" where
  "example_machine nodes = \<lparr>store = nodes, mtab = [], faults = (\<lambda>_. None),
     fs_sizes = (\<lambda>_. \<lparr>Bavail = 10, Bsize = 4096, Blocks = 5242880, Bfree = 20, Files = 100, Ffree = 50\<rparr>)\<rparr>"

definition disk_machine :: machine where
  "disk_machine = example_machine
     [(([], [''sys'']), Dir), (([], [''sys'', ''block'']), Dir), (([], [''sys'', ''block'', ''vdb'']), Dir),
      (([], [''sys'', ''block'', ''vdb'', ''serial'']), File ''123 '')]"

lemma disk_found: "\<exists>m'. GetDeviceByVolumeID ''vol-123'' disk_machine = Some (Ret (Inr ''/dev/vdb''), m')"
proof -
  have "map_option fst (GetDeviceByVolumeID ''vol-123'' disk_machine) = Some (Ret (Inr ''/dev/vdb''))"
    by code_simp
  then show ?thesis by (auto simp: map_option_case split: option.splits)
qed


section \<open>Staging\<close>

lemma sys_ends: "\<exists>r m'. sys f m = Some (Ret r, m')"
  by (cases "faults m 0") (auto simp: sys_def split: prod.split)

lemma no_faults: "faults m = (\<lambda>_. None) \<Longrightarrow> sys f m = Some (Ret (fst (f m)), snd (f m))"
proof -
  assume none: "faults m = (\<lambda>_. None)"
  then have "next_fault m = m" by (cases m) (simp add: next_fault_def)
  then show ?thesis using none by (simp add: sys_def)
qed

lemma outcome_known: "map_option fst res = Some r \<Longrightarrow> \<exists>m. res = Some (r, m)"
  by (cases res) auto

lemma CheckDevice_system:
  assumes "d = ''/dev/vda'' \<or> d = ''/dev/vda1''"
  shows "\<exists>e m'. CheckDeviceAvailable h d m = Some (Ret (Inl e), m')"
proof -
  have "d \<noteq> []" using assms by auto
  moreover obtain r m1 where "Stat d m = Some (Ret r, m1)"
    unfolding Stat_def using sys_ends by blast
  ultimately show ?thesis using assms by (auto simp: CheckDeviceAvailable_def bnd_def)
qed

text \<open>C25: The system disk is never formatted: when the device found for the volume is
  \<open>/dev/vda\<close> or \<open>/dev/vda1\<close>, NodeStageVolume answers FailedPrecondition. The answer is the
  same for every \<open>FormatAndMount\<close>, so it is not called.\<close>

theorem stage_spares_system_disk:
  assumes "st_VolumeId req \<noteq> []" "st_VolumeId req \<notin> running_keys (flights s)"
    and "st_VolumeCapability req = Some c" "isValidVolumeCapabilities d [c]" "\<not> is_block c"
    and "st_StagingTargetPath req \<noteq> []"
    and "cloud_DevicePathByVolId cl (st_VolumeId req) (world s) = Some (Ret dev, w1)"
    and "dev = ''/dev/vda'' \<or> dev = ''/dev/vda1''"
  shows "\<exists>msg s'. \<forall>fmt. NodeSvc_NodeStageVolume d cl (h\<lparr>mnt_FormatAndMount := fmt\<rparr>) req s =
    Some (Ret (Inl (StatusError FailedPrecondition msg)), s')"
proof -
  from CheckDevice_system [OF assms(8), of h w1] obtain e m' where
    check: "CheckDeviceAvailable h dev w1 = Some (Ret (Inl e), m')" by blast
  have same: "CheckDeviceAvailable (h\<lparr>mnt_FormatAndMount := fmt\<rparr>) dev = CheckDeviceAvailable h dev" for fmt
  proof -
    have "run (h\<lparr>mnt_FormatAndMount := fmt\<rparr>) = run h" by (rule ext) (simp add: run_def)
    then show ?thesis by (simp add: CheckDeviceAvailable_def cong: if_cong)
  qed
  have "dev \<noteq> []" using assms(8) by auto
  with assms check show ?thesis
    by (auto simp: NodeSvc_NodeStageVolume_def guarded_free StageVolume_body_def StageVolume_mount_def
        Let_def bnd_def bndE_def same)
qed

definition stage_example :: "string \<Rightarrow> access_type option \<Rightarrow> node_stage_request" where
  "stage_example v ty = \<lparr>st_VolumeId = v, st_StagingTargetPath = ''/staging'',
     st_VolumeCapability = Some \<lparr>AccessType = ty, AccessMode = Some SINGLE_NODE_WRITER\<rparr>,
     st_VolumeContext = Map.empty\<rparr>"

definition ext4 :: "access_type option" where
  "ext4 = Some (MountAccess \<lparr>FsType = ''ext4'', MountFlags = []\<rparr>)"

text \<open>A mount library that does what it is told and finds nothing mounted; a cloud that finds one device.\<close>

definition quiet_host :: "'x os host" where
  "quiet_host = \<lparr>exec_output = (\<lambda>args m. ((None, ''0''), m)), mnt_Mount = (\<lambda>src tgt ty opts m. (None, m)),
     mnt_Unmount = (\<lambda>tgt m. (None, m)), mnt_IsLikelyNotMountPoint = (\<lambda>p m. ((True, None), m)),
     mnt_IsNotMountPoint = (\<lambda>p m. ((False, None), m)), mnt_CleanupMountPoint = (\<lambda>p e m. (None, m)),
     mnt_PathExists = (\<lambda>p m. ((True, None), m)), mnt_GetDeviceNameFromMount = (\<lambda>p m. (([], None), m)),
     mnt_FormatAndMount = (\<lambda>src tgt ty opts m. (None, m)), resize_NeedResize = (\<lambda>dev p m. ((False, None), m)),
     resize_Resize = (\<lambda>dev p m. ((True, None), m)), quantity_AsInt64 = Some\<rparr>"

lemma quiet_simps:
  "exec_output quiet_host args m = ((None, ''0''), m)" "mnt_Mount quiet_host src tgt ty opts m = (None, m)"
  "mnt_Unmount quiet_host tgt m = (None, m)" "mnt_IsLikelyNotMountPoint quiet_host p m = ((True, None), m)"
  "mnt_IsNotMountPoint quiet_host p m = ((False, None), m)"
  "mnt_GetDeviceNameFromMount quiet_host p m = (([], None), m)" "resize_Resize quiet_host dev p m = ((True, None), m)"
  "quantity_AsInt64 quiet_host = Some"
  by (simp_all add: quiet_host_def)

definition device_cloud :: "string \<Rightarrow> 'x os Cloud" where
  "device_cloud dev =
     \<lparr>cloud_CreateVolume = (\<lambda>_ _ _ _ _. ret (Inl (PlainError []))), cloud_ExtendVolume = (\<lambda>_ _. ret (Inl (PlainError []))),
      cloud_DeleteVolume = (\<lambda>_. ret (Inl (PlainError []))), cloud_DevicePathByVolId = (\<lambda>_. ret dev),
      cloud_AttachVolume = (\<lambda>_ _. ret (Inl (PlainError []))), cloud_DetachVolume = (\<lambda>_ _. ret (Inl (PlainError []))),
      cloud_NodeById = (\<lambda>_. ret (Inr None)), cloud_DescribeInstanceTypes = (\<lambda>_. ret (Inr None)),
      cloud_VolumeById = (\<lambda>_. ret (Inr None)), cloud_VolumeByName = (\<lambda>_. ret (Inr None)),
      cloud_CreateSnapshot = (\<lambda>_ _. ret (Inr None)), cloud_DeleteSnapshot = (\<lambda>_. ret (Inr ())),
      cloud_GetSnapshotByName = (\<lambda>_. ret (Inr None)), cloud_GetSnapshotByID = (\<lambda>_. ret (Inr None)),
      cloud_Region = [], cloud_Zone = [], cloud_Topology = Map.empty\<rparr>"

definition idle_node :: "machine service" where
  "idle_node = \<lparr>flights = NewInFlight, world = example_machine
     [(([], [''dev'', ''vda'']), BlockDevice), (([], [''dev'', ''vdb'']), BlockDevice),
      (([], [''target'']), Dir)]\<rparr>"

definition node_driver :: Driver where
  "node_driver = ebs_NewDriver [] ''v1.0.0'' ''i-node'' 15 3"

theorem stage_spares_system_disk_witness:
  "\<exists>msg s'. NodeSvc_NodeStageVolume node_driver (device_cloud ''/dev/vda'') quiet_host (stage_example ''vol-1'' ext4)
     idle_node = Some (Ret (Inl (StatusError FailedPrecondition msg)), s')"
proof -
  have "\<exists>msg s'. \<forall>fmt. NodeSvc_NodeStageVolume node_driver (device_cloud ''/dev/vda'')
      (quiet_host\<lparr>mnt_FormatAndMount := fmt\<rparr>) (stage_example ''vol-1'' ext4) idle_node =
      Some (Ret (Inl (StatusError FailedPrecondition msg)), s')"
    by (rule stage_spares_system_disk [where c = "\<lparr>AccessType = ext4, AccessMode = Some SINGLE_NODE_WRITER\<rparr>"
          and dev = "''/dev/vda''" and ?w1.0 = "world idle_node"])
      (simp_all add: stage_example_def idle_node_def running_keys_def NewInFlight_def node_driver_def
        isValidVolumeCapabilities_iff get_mode_def ext4_def is_block_def device_cloud_def)
  then obtain msg s' where run: "\<And>fmt. NodeSvc_NodeStageVolume node_driver (device_cloud ''/dev/vda'')
      (quiet_host\<lparr>mnt_FormatAndMount := fmt\<rparr>) (stage_example ''vol-1'' ext4) idle_node =
      Some (Ret (Inl (StatusError FailedPrecondition msg)), s')" by blast
  have "quiet_host\<lparr>mnt_FormatAndMount := mnt_FormatAndMount quiet_host\<rparr> = (quiet_host :: machine host)" by simp
  with run [of "mnt_FormatAndMount quiet_host"] show ?thesis by (metis (no_types))
qed

text \<open>C31: NodeStageVolume panics on a capability that names neither a block nor a mount access
  type, once its device is available and not staged yet: \<open>GetMount()\<close> is nil there and its
  \<open>FsType\<close> is read.\<close>

theorem stage_panics_without_access_type:
  assumes "st_VolumeId req \<noteq> []" "st_VolumeId req \<notin> running_keys (flights s)"
    and "st_VolumeCapability req = Some c" "isValidVolumeCapabilities d [c]" "AccessType c = None"
    and "st_StagingTargetPath req \<noteq> []"
    and "cloud_DevicePathByVolId cl (st_VolumeId req) (world s) = Some (Ret dev, w1)" "dev \<noteq> []"
    and "CheckDeviceAvailable h dev w1 = Some (Ret (Inr ()), w2)"
    and "createTargetMountPoint (st_StagingTargetPath req) False w2 = Some (Ret (Inr ()), w3)"
    and "mnt_GetDeviceNameFromMount h (st_StagingTargetPath req) w3 = ((other, None), w4)" "other \<noteq> dev"
  shows "NodeSvc_NodeStageVolume d cl h req s = Some (Panic, s\<lparr>world := w4\<rparr>)"
  using assms
  by (simp add: NodeSvc_NodeStageVolume_def guarded_free StageVolume_body_def StageVolume_mount_def Let_def
      bnd_def bndE_def is_block_def fs_type_def get_mount_def)

theorem stage_panics_without_access_type_witness:
  "\<exists>s'. NodeSvc_NodeStageVolume node_driver (device_cloud ''/dev/vdb'') quiet_host (stage_example ''vol-1'' None)
     idle_node = Some (Panic, s')"
proof -
  let ?m = "world idle_node"
  have stat: "Stat ''/dev/vdb'' ?m = Some (Ret (Inr BlockDevice), ?m)"
  proof -
    have "stat_node ?m (comps ''/dev/vdb'') = Inr BlockDevice" by code_simp
    then show ?thesis by (simp add: Stat_def no_faults idle_node_def example_machine_def)
  qed
  have check: "CheckDeviceAvailable quiet_host ''/dev/vdb'' ?m = Some (Ret (Inr ()), ?m)"
  proof -
    have "TrimSpace ''0'' = ''0''" by code_simp
    then show ?thesis
      by (simp add: CheckDeviceAvailable_def stat run_def bnd_def quiet_simps)
  qed
  have "map_option fst (createTargetMountPoint ''/staging'' False ?m) = Some (Ret (Inr ()))" by code_simp
  from outcome_known [OF this] obtain m1 where
    dir: "createTargetMountPoint ''/staging'' False ?m = Some (Ret (Inr ()), m1)" by blast
  have "NodeSvc_NodeStageVolume node_driver (device_cloud ''/dev/vdb'') quiet_host (stage_example ''vol-1'' None)
      idle_node = Some (Panic, idle_node\<lparr>world := m1\<rparr>)"
    by (rule stage_panics_without_access_type [where c = "\<lparr>AccessType = None, AccessMode = Some SINGLE_NODE_WRITER\<rparr>"
          and dev = "''/dev/vdb''" and ?w1.0 = ?m and ?w2.0 = ?m and ?w3.0 = m1 and other = "[]"])
      (simp_all add: check dir stage_example_def node_driver_def isValidVolumeCapabilities_iff get_mode_def
        device_cloud_def quiet_simps, simp add: idle_node_def running_keys_def NewInFlight_def)
  then show ?thesis by blast
qed

section \<open>Publishing\<close>

lemma publish_mount_Inr:
  assumes "publish_mount cl h req c w = Some (Ret (Inr ()), w')"
  shows "\<exists>src fs w1 w0. mnt_Mount h src (np_TargetPath req) fs
      (mount_opts c @ (if np_Readonly req then [''ro''] else []) @ [''bind'']) w1 = (None, w') \<and>
    (if is_block c then cloud_DevicePathByVolId cl (np_VolumeId req) w0 = Some (Ret src, w1) \<and> src \<noteq> []
     else src = np_StagingTargetPath req \<and> mnt_IsNotMountPoint h src w0 = ((False, None), w1))"
proof (cases "is_block c")
  case True
  with assms obtain dev w1 where "cloud_DevicePathByVolId cl (np_VolumeId req) w = Some (Ret dev, w1)" "dev \<noteq> []"
    "mnt_Mount h dev (np_TargetPath req) []
      (mount_opts c @ (if np_Readonly req then [''ro''] else []) @ [''bind'']) w1 = (None, w')"
    by (auto simp: publish_mount_def Let_def go_ret prod_eq_iff split: if_splits)
  then show ?thesis unfolding if_P [OF True] by blast
next
  case False
  obtain n e w1 where pt: "mnt_IsNotMountPoint h (np_StagingTargetPath req) w = ((n, e), w1)"
    by (metis prod.exhaust)
  with assms False have "\<not> n" "e = None"
    by (auto simp: publish_mount_def Let_def go_ret split: option.splits if_splits)
  moreover from this assms False pt obtain fs where
    "mnt_Mount h (np_StagingTargetPath req) (np_TargetPath req) fs
      (mount_opts c @ (if np_Readonly req then [''ro''] else []) @ [''bind'']) w1 = (None, w')"
    by (auto simp: publish_mount_def Let_def go_ret fs_type_def deref_def prod_eq_iff split: option.splits)
  moreover have "mnt_IsNotMountPoint h (np_StagingTargetPath req) w = ((False, None), w1)"
    using pt calculation(1,2) by simp
  ultimately show ?thesis unfolding if_not_P [OF False] by blast
qed

text \<open>C28: When NodePublishVolume succeeds, the target was found mounted already, or exactly one
  mount ended the call: a bind mount with the capability's options, read-only exactly when
  it was asked for, of the volume's device for a block volume, and else of the staging path
  after that was found to be mounted.\<close>

theorem node_publish_mounts:
  assumes "NodeSvc_NodePublishVolume d cl h req s = Some (Ret (Inr ()), s')"
    and "np_VolumeCapability req = Some c"
  shows "(\<exists>w. mnt_IsLikelyNotMountPoint h (np_TargetPath req) w = ((False, None), world s')) \<or>
    (\<exists>src fs w1 w0. mnt_Mount h src (np_TargetPath req) fs
      (mount_opts c @ (if np_Readonly req then [''ro''] else []) @ [''bind'']) w1 = (None, world s') \<and>
    (if is_block c then cloud_DevicePathByVolId cl (np_VolumeId req) w0 = Some (Ret src, w1) \<and> src \<noteq> []
     else src = np_StagingTargetPath req \<and> mnt_IsNotMountPoint h src w0 = ((False, None), w1)))"
proof -
  from assms obtain w' where body: "NodePublishVolume_body d cl h req (world s) = Some (Ret (Inr ()), w')"
    and s': "s' = s\<lparr>world := w'\<rparr>"
    by (auto simp: NodeSvc_NodePublishVolume_def guarded_Inr split: if_splits)
  from body assms(2) obtain w1 where
    ct: "createTargetMountPoint (np_TargetPath req) (is_block c) (world s) = Some (Ret (Inr ()), w1)"
    by (auto simp: NodePublishVolume_body_def bndE_Inr_iff split: if_splits)
  obtain n e w2 where pt: "mnt_IsLikelyNotMountPoint h (np_TargetPath req) w1 = ((n, e), w2)"
    by (metis prod.exhaust)
  have rest: "if n then publish_mount cl h req c w2 = Some (Ret (Inr ()), w') else w' = w2" and e: "e = None"
    using body assms(2) ct pt
    by (auto simp: NodePublishVolume_body_def bndE_Inr_iff bnd_def split: if_splits option.splits)
  show ?thesis
  proof (cases n)
    case True
    with rest publish_mount_Inr [of cl h req c w2 w'] s' show ?thesis by simp
  next
    case False
    with rest pt e s' have "mnt_IsLikelyNotMountPoint h (np_TargetPath req) w1 = ((False, None), world s')"
      by simp
    then show ?thesis by blast
  qed
qed

definition node_publish_example :: node_publish_request where
  "node_publish_example = \<lparr>np_VolumeId = ''vol-1'', np_StagingTargetPath = ''/staging'', np_TargetPath = ''/target'',
     np_VolumeCapability = Some \<lparr>AccessType = ext4, AccessMode = Some SINGLE_NODE_WRITER\<rparr>, np_Readonly = True,
     np_VolumeContext = Map.empty, np_Secrets = Map.empty\<rparr>"

theorem node_publish_mounts_witness:
  "\<exists>s' src fs w1. NodeSvc_NodePublishVolume node_driver (device_cloud ''/dev/vdb'') quiet_host node_publish_example
       idle_node = Some (Ret (Inr ()), s') \<and>
     mnt_Mount quiet_host src ''/target'' fs [''ro'', ''bind''] w1 = (None, world s')"
proof -
  have "map_option fst (createTargetMountPoint ''/target'' False (world idle_node)) = Some (Ret (Inr ()))"
    by code_simp
  from outcome_known [OF this] obtain m1 where
    dir: "createTargetMountPoint ''/target'' False (world idle_node) = Some (Ret (Inr ()), m1)" by blast
  have free: "''vol-1'' \<notin> running_keys (flights idle_node)"
    by (simp add: idle_node_def running_keys_def NewInFlight_def)
  have "\<exists>s'. NodeSvc_NodePublishVolume node_driver (device_cloud ''/dev/vdb'') quiet_host node_publish_example
       idle_node = Some (Ret (Inr ()), s')"
    by (simp add: NodeSvc_NodePublishVolume_def node_publish_example_def guarded_free [OF free]
        NodePublishVolume_body_def node_driver_def isValidVolumeCapabilities_iff get_mode_def is_block_def ext4_def
        bndE_def bnd_def dir quiet_simps publish_mount_def Let_def fs_type_def get_mount_def bnd_err_def)
  then obtain s' where run: "NodeSvc_NodePublishVolume node_driver (device_cloud ''/dev/vdb'') quiet_host
      node_publish_example idle_node = Some (Ret (Inr ()), s')" by blast
  from node_publish_mounts [OF run, of "\<lparr>AccessType = ext4, AccessMode = Some SINGLE_NODE_WRITER\<rparr>"] run
  show ?thesis
    by (auto simp: node_publish_example_def quiet_simps mount_opts_def get_mount_flags_def get_mount_def ext4_def)
qed

section \<open>Rounding to 53 bits\<close>

lemma bit_len_bounds: "0 < n \<Longrightarrow> 2 ^ (bit_len n - 1) \<le> n \<and> n < 2 ^ bit_len n \<and> 0 < bit_len n"
proof (induction n rule: bit_len.induct)
  case (1 n)
  show ?case
  proof (cases "n div 2 = 0")
    case True
    then have "n = 1" using 1 by simp
    then show ?thesis by (simp add: bit_len.simps)
  next
    case False
    then have IH: "2 ^ (bit_len (n div 2) - 1) \<le> n div 2" "n div 2 < 2 ^ bit_len (n div 2)" "0 < bit_len (n div 2)"
      using 1 by auto
    obtain k where k: "bit_len (n div 2) = Suc k" using IH(3) by (cases "bit_len (n div 2)") auto
    have "bit_len n = Suc (Suc k)" using 1 k by (subst bit_len.simps) simp
    moreover have "p \<le> n div 2 \<Longrightarrow> n div 2 < 2 * p \<Longrightarrow> 2 * p \<le> n \<and> n < 4 * p" for p :: nat by arith
    ultimately show ?thesis using IH(1,2) k by simp
  qed
qed

lemma bit_len_eq: "2 ^ k \<le> n \<Longrightarrow> n < 2 ^ Suc k \<Longrightarrow> bit_len n = Suc k"
proof -
  assume n: "2 ^ k \<le> n" "n < 2 ^ Suc k"
  then have "0 < n" by (metis gr0I le_zero_eq power_not_zero zero_neq_numeral)
  from bit_len_bounds [OF this] obtain j where j: "bit_len n = Suc j" "2 ^ j \<le> n" "n < 2 ^ Suc j"
    by (cases "bit_len n") auto
  from n j have "(2 :: nat) ^ k < 2 ^ Suc j" "(2 :: nat) ^ j < 2 ^ Suc k" by linarith+
  then have "k = j" by (simp only: power_strict_increasing_iff)
  with j show ?thesis by simp
qed

lemma round53_bounds:
  "round53 k * 2 ^ 53 \<le> k * (2 ^ 53 + 1)" "k * (2 ^ 53 - 1) \<le> round53 k * 2 ^ 53"
proof -
  have "round53 k * 2 ^ 53 \<le> k * (2 ^ 53 + 1) \<and> k * (2 ^ 53 - 1) \<le> round53 k * 2 ^ 53"
  proof (cases "bit_len k \<le> 53")
    case True
    then have "round53 k = k" by (simp add: round53_def)
    then show ?thesis by simp
  next
    case False
    define t where "t = bit_len k - 54"
    define q r where "q = k div 2 ^ Suc t" and "r = k mod 2 ^ Suc t"
    have len: "bit_len k = t + 54" using False by (simp add: t_def)
    have "0 < k" using False by (cases k) (simp_all add: bit_len.simps)
    then have big: "2 ^ t * 2 ^ 53 \<le> k" using bit_len_bounds [of k] len by (simp add: power_add)
    have k: "k = q * 2 ^ Suc t + r" by (simp only: q_def r_def div_mult_mod_eq)
    have r: "r < 2 * 2 ^ t" by (simp add: r_def)
    have R: "round53 k = (if r > 2 ^ t \<or> r = 2 ^ t \<and> odd q then q + 1 else q) * 2 ^ Suc t"
      using False len by (simp add: round53_def Let_def q_def r_def)
    have "round53 k \<le> k + 2 ^ t \<and> k \<le> round53 k + 2 ^ t"
      using R k r by (auto simp: algebra_simps)
    then have "round53 k * 2 ^ 53 \<le> (k + 2 ^ t) * 2 ^ 53" "k * 2 ^ 53 \<le> (round53 k + 2 ^ t) * 2 ^ 53"
      by simp_all
    with big show ?thesis by (simp add: algebra_simps)
  qed
  then show "round53 k * 2 ^ 53 \<le> k * (2 ^ 53 + 1)" "k * (2 ^ 53 - 1) \<le> round53 k * 2 ^ 53" by simp_all
qed

lemma fl_bounds:
  assumes "0 \<le> i"
  shows "fl i * 2 ^ 53 \<le> i * (2 ^ 53 + 1)" and "i * (2 ^ 53 - 1) \<le> fl i * 2 ^ 53" and "0 \<le> fl i"
proof -
  have nat: "int (nat i) = i" using assms by simp
  have fl: "fl i = int (round53 (nat i))" using assms by (simp add: fl_def)
  have "int (round53 (nat i) * 2 ^ 53) \<le> int (nat i * (2 ^ 53 + 1))"
    "int (nat i * (2 ^ 53 - 1)) \<le> int (round53 (nat i) * 2 ^ 53)"
    by (rule iffD2 [OF of_nat_le_iff round53_bounds(1)], rule iffD2 [OF of_nat_le_iff round53_bounds(2)])
  then show "fl i * 2 ^ 53 \<le> i * (2 ^ 53 + 1)" "i * (2 ^ 53 - 1) \<le> fl i * 2 ^ 53"
    unfolding fl of_nat_mult nat by simp_all
  show "0 \<le> fl i" using assms by (simp add: fl_def)
qed

lemma large_enough:
  assumes "filesystem_large_enough g (fl c)" and "0 \<le> sint g" and "0 \<le> c"
  shows "9 * (sint g * 2 ^ 30) * (2 ^ 53 - 1) \<le> 10 * c * (2 ^ 53 + 1)"
proof -
  define p where "p = sint g * nine_tenths"
  have p: "0 \<le> p" "9 * sint g * 2 ^ 53 \<le> 10 * p" using assms(2) by (simp_all add: p_def nine_tenths_def)
  have "p * (2 ^ 53 - 1) \<le> fl p * 2 ^ 53" by (rule fl_bounds(2) [OF p(1)])
  moreover have "fl p \<le> fl c * 2 ^ 23" using assms(1) by (simp add: filesystem_large_enough_def p_def)
  moreover have "fl c * 2 ^ 53 \<le> c * (2 ^ 53 + 1)" by (rule fl_bounds(1) [OF assms(3)])
  ultimately have "p * (2 ^ 53 - 1) \<le> c * (2 ^ 53 + 1) * 2 ^ 23" by simp
  with p(2) show ?thesis by simp
qed

text \<open>C29: When NodeExpandVolume succeeds, the volume is a block volume (by its capability, its
  path or its file type), or the library has resized the file system and it was measured
  afterwards: its capacity is at least nine tenths of the requested size rounded up to GB,
  up to one part in 2^52 (the rounding of \<open>float64\<close>).\<close>

theorem node_expand_measured:
  assumes "NodeSvc_NodeExpandVolume cl h req s = Some (Ret (Inr ()), s')"
    and "quantity_AsInt64 h = Some"
  shows "(\<exists>c. ne_VolumeCapability req = Some c \<and> is_block c) \<or> Contains (ne_VolumePath req) BLOCKVOLUMEPREFIX \<or>
    (\<exists>w. isBlockDevice (ne_VolumePath req) w = Some (Ret (Inr True), world s')) \<or>
    (\<exists>n w dev w1 b. FsInfo (ne_VolumePath req) w = Some (Ret (Inr n), world s') \<and>
      resize_Resize h dev (ne_VolumePath req) w1 = ((b, None), w) \<and>
      (0 \<le> sint (roundGB (get_required_bytes (ne_CapacityRange req))) \<and> 0 \<le> sint (fst (snd n)) \<longrightarrow>
        9 * (sint (roundGB (get_required_bytes (ne_CapacityRange req))) * 2 ^ 30) * (2 ^ 53 - 1)
          \<le> 10 * sint (fst (snd n)) * (2 ^ 53 + 1)))"
proof -
  let ?p = "ne_VolumePath req" and ?g = "roundGB (get_required_bytes (ne_CapacityRange req))"
  from assms(1) obtain w' where body: "NodeExpandVolume_body cl h req (world s) = Some (Ret (Inr ()), w')"
    and w': "world s' = w'"
    by (auto simp: NodeSvc_NodeExpandVolume_def unguarded_Some split: if_splits)
  from body obtain dev w1 where dev: "cloud_DevicePathByVolId cl (ne_VolumeId req) (world s) = Some (Ret dev, w1)" "dev \<noteq> []"
    by (auto simp: NodeExpandVolume_body_def Let_def go_ret split: if_splits)
  show ?thesis
  proof (cases "(\<exists>c. ne_VolumeCapability req = Some c \<and> is_block c) \<or> Contains ?p BLOCKVOLUMEPREFIX")
    case False
    then have nb: "\<not> (case ne_VolumeCapability req of Some c \<Rightarrow> is_block c | None \<Rightarrow> False)"
      by (auto split: option.splits)
    from body dev nb False obtain r w2 where blk: "isBlockDevice ?p w1 = Some (Ret r, w2)"
      by (auto simp: NodeExpandVolume_body_def Let_def bnd_def split: if_splits option.splits outcome.splits)
    have r: "r = Inr False \<or> r = Inr True \<and> w2 = w'"
      using body dev nb False blk
      by (auto simp: NodeExpandVolume_body_def Let_def bnd_def split: sum.splits bool.splits)
    show ?thesis
    proof (cases "r = Inr True")
      case True
      with r blk w' show ?thesis by auto
    next
      case f: False
      obtain b e w3 where rz: "resize_Resize h dev ?p w2 = ((b, e), w3)" by (metis prod.exhaust)
      have e: "e = None" and cap: "\<exists>c. getDiskCapacity h ?p w3 = Some (Ret (Inr c), w') \<and> filesystem_large_enough ?g c"
        using body dev nb False blk r f rz
        by (auto simp: NodeExpandVolume_body_def Let_def bnd_Ret bnd_def bndE_def
            split: option.splits outcome.splits sum.splits if_splits)
      from cap obtain c where c: "getDiskCapacity h ?p w3 = Some (Ret (Inr c), w')" "filesystem_large_enough ?g c" by blast
      from c(1) obtain x w4 where x: "FsInfo ?p w3 = Some (Ret x, w4)" by (auto simp: getDiskCapacity_def go_ret)
      with c(1) assms(2) obtain n where n: "FsInfo ?p w3 = Some (Ret (Inr n), w')" "c = fl (sint (fst (snd n)))"
        by (cases x) (auto simp: getDiskCapacity_def bnd_def)
      with large_enough [of ?g "sint (fst (snd n))"] c(2) w' rz e show ?thesis by blast
    qed
  qed auto
qed

definition node_expand_example :: node_expand_request where
  "node_expand_example = \<lparr>ne_VolumeId = ''vol-1'', ne_VolumePath = ''/target'',
     ne_CapacityRange = Some \<lparr>RequiredBytes = 21474836480, LimitBytes = 0\<rparr>, ne_VolumeCapability = None\<rparr>"

lemma isBlockDevice_True: "isBlockDevice p w = Some (Ret (Inr True), m) \<Longrightarrow> stat_node m (comps p) = Inr BlockDevice"
  by (auto simp: isBlockDevice_def Stat_def sys_def bnd_def split: option.splits sum.splits)

theorem node_expand_measured_witness:
  "NodeSvc_NodeExpandVolume (device_cloud ''/dev/vdb'') quiet_host node_expand_example idle_node =
      Some (Ret (Inr ()), idle_node) \<and>
   (\<exists>n w. FsInfo ''/target'' w = Some (Ret (Inr n), world idle_node) \<and>
      (0 \<le> sint (roundGB 21474836480) \<and> 0 \<le> sint (fst (snd n)) \<longrightarrow>
        9 * (sint (roundGB 21474836480) * 2 ^ 30) * (2 ^ 53 - 1) \<le> 10 * sint (fst (snd n)) * (2 ^ 53 + 1)))"
proof -
  let ?m = "world idle_node"
  have nf: "faults ?m = (\<lambda>_. None)" and sizes: "fs_sizes ?m =
      (\<lambda>_. \<lparr>Bavail = 10, Bsize = 4096, Blocks = 5242880, Bfree = 20, Files = 100, Ffree = 50\<rparr>)"
    by (simp_all add: idle_node_def example_machine_def)
  have st: "stat_node ?m (comps ''/target'') = Inr Dir" by code_simp
  have np: "\<not> Contains ''/target'' BLOCKVOLUMEPREFIX" by code_simp
  have blk: "isBlockDevice ''/target'' ?m = Some (Ret (Inr False), ?m)"
    by (simp add: isBlockDevice_def Stat_def no_faults [OF nf] bnd_def st)
  have info: "FsInfo ''/target'' ?m = Some (Ret (Inr (10 * 4096, 21474836480, 21474754560, 100, 50, 50)), ?m)"
    by (simp add: FsInfo_def Statfs_def no_faults [OF nf] bnd_def st sizes)
  have g: "roundGB 21474836480 = 20" by (simp add: roundGB_def GB_def i64_div_def signed_divide_int_def)
  have large: "filesystem_large_enough 20 (fl 21474836480)"
    using bit_len_eq [of 57 162129586585337860] bit_len_eq [of 34 21474836480]
    by (simp add: filesystem_large_enough_def fl_def nine_tenths_def round53_def Let_def)
  have run: "NodeSvc_NodeExpandVolume (device_cloud ''/dev/vdb'') quiet_host node_expand_example idle_node =
      Some (Ret (Inr ()), idle_node)"
    by (simp add: NodeSvc_NodeExpandVolume_def unguarded_def NodeExpandVolume_body_def Let_def node_expand_example_def
        get_required_bytes_def g bnd_def bndE_def np blk quiet_simps getDiskCapacity_def info large device_cloud_def)
  have "\<not> (\<exists>w. isBlockDevice ''/target'' w = Some (Ret (Inr True), ?m))"
    using isBlockDevice_True [of "''/target''"] st by fastforce
  with node_expand_measured [OF run] np run show ?thesis
    by (simp add: quiet_simps node_expand_example_def get_required_bytes_def) blast
qed

end
