(* ===== verification/Responses.thy ===== *)
theory Responses
  imports Services_Facts EBS_Controller_Facts EBS_Node_Facts
begin

text \<open>
  The type of the EBS plugin: which response belongs to which request, with the fields that
  the CSI specification requires of it and how they depend on the request.
\<close>

section \<open>Well-formed answers\<close>

definition created_for :: "topology_keys \<Rightarrow> 'w Cloud \<Rightarrow> create_volume_request \<Rightarrow> csi_volume \<Rightarrow> bool" where
  "created_for tk cl r v \<longleftrightarrow>
     cv_Name r \<noteq> [] \<and> cv_VolumeCapabilities r \<noteq> [] \<and> ContentSource v = cv_ContentSource r \<and>
     sint (request_capacity r) \<le> sint (CapacityBytes v) \<and>
     map Segments (AccessibleTopology v) = [[TopologyRegionKey tk \<mapsto> cloud_Region cl, TopologyZoneKey tk \<mapsto> request_zone tk cl r]] \<and>
     request_zone tk cl r \<noteq> [] \<and> source_snapshot r = Inr (attr (VolumeContext v) SnapshotID)"

definition usable :: "Driver \<Rightarrow> volume_capability option \<Rightarrow> bool" where
  "usable d vc \<longleftrightarrow> (case vc of None \<Rightarrow> False | Some c \<Rightarrow> isValidVolumeCapabilities d [c])"

definition well_formed :: "topology_keys \<Rightarrow> 'w Cloud \<Rightarrow> Driver \<Rightarrow> csi_request \<Rightarrow> csi_response \<Rightarrow> bool" where
  "well_formed tk cl d req resp \<longleftrightarrow>
     (case req of
        GetPluginInfoReq \<Rightarrow>
          (case resp of PluginInfoResp n v \<Rightarrow> n \<noteq> [] \<and> v \<noteq> [] \<and> n = Name (csi_driver d) \<and> v = Version (csi_driver d) | _ \<Rightarrow> False)
      | ProbeReq \<Rightarrow> resp = ReadyResp True
      | GetPluginCapabilitiesReq \<Rightarrow> resp = PluginCapabilitiesResp [CONTROLLER_SERVICE, VOLUME_ACCESSIBILITY_CONSTRAINTS]
      | CreateVolumeReq r \<Rightarrow> (case resp of VolumeResp v \<Rightarrow> created_for tk cl r v | _ \<Rightarrow> False)
      | DeleteVolumeReq v \<Rightarrow> v \<noteq> [] \<and> resp = EmptyResp
      | ControllerPublishVolumeReq r \<Rightarrow>
          vp_VolumeId r \<noteq> [] \<and> vp_NodeId r \<noteq> [] \<and> usable d (vp_VolumeCapability r) \<and> resp = PublishContextResp Map.empty
      | ControllerUnpublishVolumeReq r \<Rightarrow> vu_VolumeId r \<noteq> [] \<and> vu_NodeId r \<noteq> [] \<and> resp = EmptyResp
      | ValidateVolumeCapabilitiesReq r \<Rightarrow>
          vc_VolumeId r \<noteq> [] \<and> vc_VolumeCapabilities r \<noteq> [] \<and>
          resp = ConfirmedResp (if isValidVolumeCapabilities d (vc_VolumeCapabilities r)
            then Some \<lparr>cf_VolumeContext = vc_VolumeContext r, cf_VolumeCapabilities = vc_VolumeCapabilities r,
              cf_Parameters = vc_Parameters r\<rparr> else None)
      | ControllerGetCapabilitiesReq \<Rightarrow> resp = ControllerCapabilitiesResp (CSCap (csi_driver d))
      | CreateSnapshotReq r \<Rightarrow>
          (case resp of
             SnapshotResp sn \<Rightarrow> cs_Name r \<noteq> [] \<and> cs_SourceVolumeId r \<noteq> [] \<and> cn_SourceVolumeId sn = cs_SourceVolumeId r
           | _ \<Rightarrow> False)
      | DeleteSnapshotReq v \<Rightarrow> v \<noteq> [] \<and> resp = EmptyResp
      | ListSnapshotsReq v \<Rightarrow> (case resp of SnapshotsResp sns \<Rightarrow> v \<noteq> [] \<and> length sns \<le> 1 | _ \<Rightarrow> False)
      | ControllerExpandVolumeReq r \<Rightarrow>
          (case resp of
             ExpandResp e \<Rightarrow> ex_VolumeId r \<noteq> [] \<and> er_NodeExpansionRequired e \<and>
               (size_ok (get_required_bytes (ex_CapacityRange r)) \<longrightarrow>
                 sint (get_required_bytes (ex_CapacityRange r)) \<le> sint (er_CapacityBytes e))
           | _ \<Rightarrow> False)
      | NodeStageVolumeReq r \<Rightarrow>
          (case st_VolumeCapability r of
             None \<Rightarrow> False
           | Some c \<Rightarrow> st_VolumeId r \<noteq> [] \<and> isValidVolumeCapabilities d [c] \<and> (is_block c \<or> st_StagingTargetPath r \<noteq> []) \<and>
               resp = EmptyResp)
      | NodeUnstageVolumeReq v t \<Rightarrow> v \<noteq> [] \<and> t \<noteq> [] \<and> resp = EmptyResp
      | NodePublishVolumeReq r \<Rightarrow>
          np_VolumeId r \<noteq> [] \<and> np_StagingTargetPath r \<noteq> [] \<and> np_TargetPath r \<noteq> [] \<and> usable d (np_VolumeCapability r) \<and>
          resp = EmptyResp
      | NodeUnpublishVolumeReq v t \<Rightarrow> v \<noteq> [] \<and> t \<noteq> [] \<and> resp = EmptyResp
      | NodeGetVolumeStatsReq v p \<Rightarrow>
          (case resp of UsageResp b i \<Rightarrow> v \<noteq> [] \<and> p \<noteq> [] \<and> us_Used i = us_Total i - us_Available i | _ \<Rightarrow> False)
      | NodeExpandVolumeReq r \<Rightarrow> ne_VolumeId r \<noteq> [] \<and> ne_VolumePath r \<noteq> [] \<and> resp = EmptyResp
      | NodeGetCapabilitiesReq \<Rightarrow> resp = NodeCapabilitiesResp (NSCap (csi_driver d))
      | NodeGetInfoReq \<Rightarrow>
          resp = NodeInfoResp \<lparr>ni_NodeId = NodeID (csi_driver d),
            ni_MaxVolumesPerNode = maxVolumesPerNode d - reserveVolumesPerNode d, ni_Segments = cloud_Topology cl\<rparr>
      | _ \<Rightarrow> False)"

section \<open>The handlers answer so\<close>

lemma create_answer:
  "wp (ControllerSvc_CreateVolume tk cl r) (\<lambda>x s'. case x of Inl e \<Rightarrow> True | Inr v \<Rightarrow> created_for tk cl r v) s"
proof -
  have "created_for tk cl r v"
    if name: "cv_Name r \<noteq> []" "cv_VolumeCapabilities r \<noteq> []"
      and b: "CreateVolume_body tk cl r w = Some (Ret (Inr v), w')" for v w w'
    using b
    by (cases rule: CreateVolume_body_Inr)
      (auto simp: name created_for_def created_volume_def existing_volume_Inr attr_def)
  then show ?thesis by (auto simp: wp_def CreateVolume_Inr split: sum.split)
qed

lemma expand_answer:
  "wp (ControllerSvc_ControllerExpandVolume cl r) (\<lambda>x s'. case x of Inl e \<Rightarrow> True | Inr v \<Rightarrow>
     ex_VolumeId r \<noteq> [] \<and> er_NodeExpansionRequired v \<and> (size_ok (get_required_bytes (ex_CapacityRange r)) \<longrightarrow>
       sint (get_required_bytes (ex_CapacityRange r)) \<le> sint (er_CapacityBytes v))) s"
proof -
  let ?sz = "get_required_bytes (ex_CapacityRange r)"
  have "er_NodeExpansionRequired v \<and> (size_ok ?sz \<longrightarrow> sint ?sz \<le> sint (er_CapacityBytes v))"
    if b: "ExpandVolume_body cl (ex_VolumeId r) ?sz w = Some (Ret (Inr v), w')" for v w w'
    using b
  proof (cases rule: ExpandVolume_body_Inr)
    case (enough vol)
    have "size_ok ?sz \<Longrightarrow> roundGB ?sz * GB = Volume_Capacity vol \<Longrightarrow> sint ?sz \<le> sint (Volume_Capacity vol)"
      using roundGB_bounds(1) [of ?sz] sint_roundGB_GB [of ?sz] by auto
    with enough show ?thesis by auto
  qed simp
  then show ?thesis
    by (auto simp: wp_def ControllerSvc_ControllerExpandVolume_def unguarded_Some split: sum.split if_splits)
qed

text \<open>The text of the handlers that do not look at what the calls gave, and the rules to walk through it.\<close>

lemmas controller_text = ebs_controller_def NewControllerSvc_def wp_answer wp_at_controller well_formed_def usable_def not_mine_def
  ControllerSvc_ControllerPublishVolume_def PublishVolume_body_def ControllerSvc_ControllerUnpublishVolume_def UnpublishVolume_body_def
  ControllerSvc_DeleteVolume_def DeleteVolume_body_def ControllerSvc_ValidateVolumeCapabilities_def newCSISnapshot_def
  ControllerSvc_CreateSnapshot_def validateCreateSnapshotRequest_def CreateSnapshot_body_def ControllerSvc_DeleteSnapshot_def
  validateDeleteSnapshotRequest_def ControllerSvc_ListSnapshots_def ControllerSvc_ListVolumes_def ControllerSvc_GetCapacity_def
  ControllerSvc_ControllerGetVolume_def ControllerSvc_ControllerGetCapabilities_def

lemmas node_text = ebs_node_def NewNodeSvc_def wp_answer wp_at_node well_formed_def usable_def not_mine_def
  NodeSvc_NodeStageVolume_def StageVolume_body_def StageVolume_mount_def NodeSvc_NodeUnstageVolume_def UnstageVolume_body_def
  NodeSvc_NodePublishVolume_def NodePublishVolume_body_def publish_mount_def NodeSvc_NodeUnpublishVolume_def
  NodeSvc_NodeGetVolumeStats_def NodeSvc_NodeExpandVolume_def NodeExpandVolume_body_def
  NodeSvc_NodeGetCapabilities_def NodeSvc_NodeGetInfo_def resize_snapshot_def Let_def

lemmas any_outcome = wp_guarded_any wp_unguarded_any wp_bnd_any wp_bndE_any wp_bnd_err_any wp_bnd_os_any

lemma ebs_controller_answer:
  "wp (ebs_controller tk (NewControllerSvc d cl) req) (\<lambda>x s'. case x of Inl e \<Rightarrow> True | Inr r \<Rightarrow> well_formed tk cl d req r) s"
proof (cases req)
  case (CreateVolumeReq r)
  then show ?thesis by (auto simp: controller_text intro!: wp_mono [OF create_answer] split: sum.split)
next
  case (ControllerExpandVolumeReq r)
  then show ?thesis by (auto simp: controller_text intro!: wp_mono [OF expand_answer] split: sum.split)
qed (auto simp: controller_text simp del: wp_bnd wp_bndE intro!: any_outcome split: option.split)

lemma ebs_identity_answer:
  "wp (ebs_identity (NewIdentitySvc d) req) (\<lambda>x s'. case x of Inl e \<Rightarrow> True | Inr r \<Rightarrow> well_formed tk cl d req r) s"
  by (cases req) (simp_all add: ebs_identity_def NewIdentitySvc_def wp_answer well_formed_def not_mine_def GetPluginInfo_def
      Probe_def ebs_GetPluginCapabilities_def)

lemma GetMetrics_answer:
  "wp (GetMetrics p) (\<lambda>x s'. case x of Inl e \<Rightarrow> True | Inr (b, i) \<Rightarrow> us_Used i = us_Total i - us_Available i) s"
proof -
  have "wp (bnd_os (FsInfo p) (\<lambda>e. e) k) P s"
    if k: "\<And>v t u i f w. wp (k (v, t, u, i, f, i - f)) P w" and err: "\<And>e w. P (Inl e) w"
    for k :: "_ \<Rightarrow> ('a os, error + volume_usage \<times> volume_usage) go" and P
    unfolding wp_bnd_os FsInfo_def wp_bnd by (rule wp_True) (auto simp: k err split: sum.split)
  then show ?thesis by (auto simp: GetMetrics_def)
qed

lemma ebs_node_answer:
  "wp (ebs_node (NewNodeSvc d h cl) req) (\<lambda>x s'. case x of Inl e \<Rightarrow> True | Inr r \<Rightarrow> well_formed tk cl d req r) s"
proof (cases req)
  case (NodeGetVolumeStatsReq v p)
  then show ?thesis
    by (auto simp: node_text simp del: wp_bnd wp_bndE intro!: any_outcome wp_mono [OF GetMetrics_answer]
        split: option.split sum.split)
qed (auto simp: node_text simp del: wp_bnd wp_bndE intro!: any_outcome
    split: option.split sum.split os_error.split bool.split)

section \<open>The answers of the plugin\<close>

text \<open>C15: The EBS plugin is typed. Whatever RPC its server takes, and whatever the cloud and the node
  do, an answer that is not an error has the form the CSI specification gives to that RPC, with
  its required fields filled from the request: a plugin name and version, a created volume
  with one topology of region and zone, the content source of the request and at least the
  requested size, a snapshot of the volume asked for, an expanded size that is not below the
  requested one (for a size that can be rounded up to GB without overflow), the very capabilities
  that were sent when they are confirmed. A request without its ids, its capability or its paths
  gets nothing but an error; the one path that is not asked for is the staging path of a block volume in
  NodeStageVolume, which has nothing to stage. Request and answer leave one line each in the log, under the
  name of the method.\<close>

theorem ebs_answers_well_formed:
  assumes "rpc strip_q strip_r full_name (fst (ebs_Run tk h d endpoint cl w)) req = Some f"
    and "f s = Some (Ret (Inr r), s')"
  shows "well_formed tk cl d req r \<and>
    log_lines s' = log_lines s @
      [LogRequest (full_name (method_of req)) (strip_q req), LogReturn (full_name (method_of req)) (strip_r r)]"
proof -
  have ok: "wp (the (handler_of (fst (ebs_Run tk h d endpoint cl w)) svc) req)
      (\<lambda>x s'. case x of Inl e \<Rightarrow> True | Inr r \<Rightarrow> well_formed tk cl d req r) t" for svc t
    by (cases svc) (simp_all add: ebs_handlers ebs_controller_answer ebs_identity_answer ebs_node_answer)
  obtain hd' where h: "handler_of (fst (ebs_Run tk h d endpoint cl w)) (service_of (method_of req)) = Some hd'"
    and f: "f = logGRPC strip_q strip_r (full_name (method_of req)) hd' req"
    using assms(1) by (auto simp: rpc_def)
  from assms(2) show ?thesis
    using ok [of "service_of (method_of req)" "served s"] by (auto simp: f h logGRPC_Some wp_def)
qed

text \<open>A creation at a cloud that gives every volume the same id.\<close>

definition one_id_cloud :: "'x os Cloud" where
  "one_id_cloud = (device_cloud [])
     \<lparr>cloud_CreateVolume := (\<lambda>_ _ _ _ _. ret (Inr ''vol-1'')), cloud_Region := ''cn-beijing'', cloud_Zone := ''cn-beijing-a''\<rparr>"

theorem ebs_answers_well_formed_witness:
  "\<exists>s' v. the (rpc (\<lambda>_. []) (\<lambda>_. []) (\<lambda>_. ''m'') (fst (ebs_Run default_topology_keys quiet_host example_driver [] one_id_cloud
       (example_machine []))) (CreateVolumeReq (create_example ''pvc'' 1)))
     \<lparr>log_lines = [], served = \<lparr>controller_table = NewInFlight, node_table = NewInFlight, outside = example_machine []\<rparr>\<rparr> =
       Some (Ret (Inr (VolumeResp v)), s') \<and>
     VolumeId v = ''vol-1'' \<and> created_for default_topology_keys (one_id_cloud :: machine Cloud) (create_example ''pvc'' 1) v \<and>
     log_lines s' = [LogRequest ''m'' [], LogReturn ''m'' []]"
proof -
  let ?run = "fst (ebs_Run default_topology_keys quiet_host example_driver [] one_id_cloud (example_machine []))"
  let ?req = "CreateVolumeReq (create_example ''pvc'' 1)"
  let ?s = "\<lparr>log_lines = [], served = \<lparr>controller_table = NewInFlight, node_table = NewInFlight, outside = example_machine []\<rparr>\<rparr>"
  obtain f where f: "rpc (\<lambda>_. []) (\<lambda>_. []) (\<lambda>_. ''m'') ?run ?req = Some f" by (simp add: rpc_def ebs_handlers)
  have "\<exists>s' v. f ?s = Some (Ret (Inr (VolumeResp v)), s') \<and> VolumeId v = ''vol-1''"
    using f
    by (auto simp: rpc_def ebs_handlers logGRPC_Some ebs_controller_def NewControllerSvc_def answer_def bndE_def bnd_def
        at_controller_def ControllerSvc_CreateVolume_def create_example_def guarded_free running_keys_def NewInFlight_def
        CreateVolume_body_def Let_def request_zone_def getZoneId_def attr_def pickZone_def one_id_cloud_def source_snapshot_def
        device_cloud_def created_volume_def split: option.splits)
  then obtain s' v where run: "f ?s = Some (Ret (Inr (VolumeResp v)), s')" "VolumeId v = ''vol-1''" by blast
  from ebs_answers_well_formed [OF f run(1)] run show ?thesis by (simp add: f well_formed_def)
qed

end
