(* ===== verification/Nas_Paths.thy ===== *)
theory Nas_Paths
  imports Nas
begin

text \<open>
  The pure part of the NAS plugin: mount options, storage-class parameters and the NFS
  paths that CreateVolume writes down and DeleteVolume and the node take apart again.
\<close>

section \<open>Mount options\<close>

definition is_vers :: "string \<Rightarrow> bool" where
  "is_vers x \<longleftrightarrow> HasPrefix x ''vers=''"

lemma parse_options_fold:
  "foldl (\<lambda>(v, acc) x. if HasPrefix x ''vers='' then (drop 5 x, acc) else (v, acc @ [x])) (v, acc) xs =
     ((if filter is_vers xs = [] then v else drop 5 (last (filter is_vers xs))),
      acc @ filter (\<lambda>x. \<not> is_vers x) xs)"
  by (induction xs arbitrary: v acc) (auto simp: is_vers_def)

text \<open>Mount options: the list is re-split at commas; the last \<open>vers=\<close> option decides the
  NFS version if it names a known one, otherwise the version is 3; every other option is
  kept, in order, and no \<open>vers=\<close> option remains.\<close>

theorem parseMountOptions_spec:
  "parseMountOptions opts =
     (if opts = [] then ([], [])
      else let xs = split_char CHR '','' (join '','' opts); vs = filter is_vers xs
           in (if vs \<noteq> [] \<and> drop 5 (last vs) \<in> {''3'', ''4'', ''4.0'', ''4.1'', ''4.2''} then drop 5 (last vs) else ''3'',
               join '','' (filter (\<lambda>x. \<not> is_vers x) xs)))"
  unfolding parseMountOptions_def parse_options_fold Let_def valid_nfs_version_def by auto

section \<open>Storage-class parameters\<close>

lemma clean_sub_path_cases: "clean_sub_path s = [] \<or> HasPrefix (clean_sub_path s) ''/''"
proof -
  have cut: "take (length s - 1) s = [] \<or> HasPrefix (take (length s - 1) s) ''/''" if "HasPrefix s ''/''" for s
  proof (cases s)
    case (Cons c t)
    with that have "c = CHR ''/''" by (simp add: HasPrefix_def)
    with Cons show ?thesis by (cases t) (simp_all add: HasPrefix_def)
  qed (use that in \<open>simp add: HasPrefix_def\<close>)
  have pre: "HasPrefix (CHR ''/'' # s) ''/''" by (simp add: HasPrefix_def)
  show ?thesis
    using cut [of s] cut [OF pre] pre by (auto simp: clean_sub_path_def Let_def)
qed

section \<open>Paths\<close>

lemma comps_plain: "\<forall>x\<in>set (comps p). plain x"
  unfolding comps_def by (rule clean_parts_split_plain)

lemma comps_abs_path [simp]: "\<forall>x\<in>set xs. plain x \<Longrightarrow> comps (abs_path xs) = xs"
  by (cases "xs = []") (simp_all add: comps_def split_abs_path)

lemma Clean_slash: "Clean (CHR ''/'' # p) = abs_path (comps p)"
  by (simp add: Clean_rooted comps_def)

lemma comps_slash [simp]: "comps (CHR ''/'' # p) = comps p"
  by (simp add: comps_def)

lemma comps_Nil [simp]: "comps [] = []"
  by (simp add: comps_def)

lemma path_join_slash: "path_join [CHR ''/'' # f, s] = abs_path (comps (f @ CHR ''/'' # s))"
  by (simp add: path_join_Cons Clean_slash)

lemma comps_append_slash:
  "\<forall>x\<in>set xs. plain x \<Longrightarrow> xs \<noteq> [] \<Longrightarrow> comps (join ''/'' xs @ CHR ''/'' # s) = clean_parts True (xs @ split_char CHR ''/'' s)"
  by (simp add: comps_def split_char_append_sep split_join_plain)

text \<open>
  The two pieces that \<open>getNfsPathDetail\<close> cuts a clean path into join to that path again.
\<close>

lemma detail_join:
  assumes "\<forall>x\<in>set ps. plain x" and "getNfsPathDetail (abs_path ps) = (fsId, subPath)"
  shows "path_join [CHR ''/'' # fsId, subPath] = abs_path ps"
proof -
  consider "ps = []" | x where "ps = [x]" | x y ys where "ps = x # y # ys"
    by (metis neq_Nil_conv)
  then show ?thesis
  proof cases
    case 1
    then show ?thesis using assms(2) by (simp add: getNfsPathDetail_def split_abs_path path_join_slash)
  next
    case (2 x)
    then have "fsId = x" "subPath = []" using assms by (simp_all add: getNfsPathDetail_def split_abs_path)
    with 2 assms(1) show ?thesis using path_join_abs_Nil [of "[x]"] by (simp add: abs_path_def)
  next
    case (3 x y ys)
    then have d: "fsId = x" "subPath = CHR ''/'' # join ''/'' (y # ys)"
      using assms by (simp_all add: getNfsPathDetail_def split_abs_path)
    have "split_char CHR ''/'' subPath = [] # y # ys"
      using assms(1) 3 split_join_plain [of "y # ys"] unfolding d by simp
    moreover have "path_join [abs_path [x], subPath] = abs_path (clean_parts True ([x] @ split_char CHR ''/'' subPath))"
      using assms(1) 3 by (intro path_join_abs) simp
    moreover have "clean_parts True ([x] @ [] # y # ys) = x # y # ys"
      using assms(1) 3 clean_parts_plain_append [of "y # ys" True "[x, []]"] clean_parts_snoc_Nil [of True "[x]"] by simp
    ultimately show ?thesis using 3 d(1) by (simp add: abs_path_def)
  qed
qed

text \<open>\<open>getNfsPathDetail\<close> undoes the path that CreateVolume builds: of a file system id
  and a sub-path that is empty or starts with a slash, it gives back both.\<close>

theorem getNfsPathDetail_roundtrip:
  assumes "CHR ''/'' \<notin> set fsId" and "subPath = [] \<or> HasPrefix subPath ''/''"
  shows "getNfsPathDetail (CHR ''/'' # fsId @ subPath) = (fsId, subPath)"
proof (cases subPath)
  case Nil
  then show ?thesis using assms(1) by (simp add: getNfsPathDetail_def)
next
  case (Cons c s)
  then have c: "c = CHR ''/''" using assms(2) by (simp add: HasPrefix_def)
  obtain y ys where y: "split_char CHR ''/'' s = y # ys" by (cases "split_char CHR ''/'' s") auto
  have "join ''/'' (y # ys) = s" using join_split_char [of "CHR ''/''" s] y by simp
  with Cons c y show ?thesis
    by (simp add: getNfsPathDetail_def split_char_append assms(1))
qed

theorem getNfsPathDetail_roundtrip_witness:
  "getNfsPathDetail ''/enas-1/a/b'' = (''enas-1'', ''/a/b'')"
  using getNfsPathDetail_roundtrip [of "''enas-1''" "''/a/b''"] by (simp add: HasPrefix_def)

text \<open>The path in the volume context, as components.\<close>

lemma created_path:
  assumes "plain pvName"
  shows "path_join [path_join [CHR ''/'' # fsId, sub], pvName] = abs_path (comps (fsId @ CHR ''/'' # sub) @ [pvName])"
  using path_join_abs_plain [OF comps_plain assms] by (simp add: path_join_slash)

lemma TrimSuffix_abs_path:
  assumes "\<forall>x\<in>set xs. plain x" and "xs \<noteq> []"
  shows "TrimSuffix (abs_path xs) ''/'' = abs_path xs"
proof -
  obtain ys x where xs: "xs = ys @ [x]" using assms(2) by (cases xs rule: rev_cases) auto
  have p: "plain x" using assms(1) xs by simp
  then have "x \<noteq> []" by (simp add: plain_def)
  moreover from this have "last x \<noteq> CHR ''/''" using p last_in_set [of x] unfolding plain_def by metis
  ultimately have "last (abs_path xs) \<noteq> CHR ''/''" unfolding xs abs_path_snoc by simp
  then show ?thesis by (simp add: TrimSuffix_single)
qed

text \<open>How DeleteVolume takes a clean path apart: the last component, and the path before it.\<close>

lemma cut_path:
  assumes "\<forall>x\<in>set ps. plain x" and "plain x"
  shows "LastIndexChar (abs_path (ps @ [x])) CHR ''/'' = (if ps = [] then 0 else int (length (abs_path ps)))"
    and "(let p = take (nat (LastIndexChar (abs_path (ps @ [x])) CHR ''/'')) (abs_path (ps @ [x]))
          in if p = [] then ''/'' else p) = abs_path ps"
proof -
  have x: "CHR ''/'' \<notin> set x" using assms(2) by (simp add: plain_def)
  show pos: "LastIndexChar (abs_path (ps @ [x])) CHR ''/'' = (if ps = [] then 0 else int (length (abs_path ps)))"
    using LastIndexChar_append [OF x, of "[]"] LastIndexChar_append [OF x, of "abs_path ps"]
    by (simp add: abs_path_snoc)
  have "abs_path ps \<noteq> []" by (simp add: abs_path_def)
  then show "(let p = take (nat (LastIndexChar (abs_path (ps @ [x])) CHR ''/'')) (abs_path (ps @ [x]))
      in if p = [] then ''/'' else p) = abs_path ps"
    unfolding pos by (auto simp: abs_path_snoc Let_def) (simp add: abs_path_def)
qed

end
