(* ===== verification/Nas_Facts.thy ===== *)
theory Nas_Facts
  imports Nas_Paths EBS_Node_Facts
begin

text \<open>
  What the NAS controller does to the file server: CreateVolume makes the directory that
  the volume names and loses nothing, DeleteVolume removes that directory and nothing
  else. The mounter is a parameter; \<open>nfs_host\<close> states what is documented of \<open>mount\<close>,
  \<open>umount\<close> and \<open>grep /proc/mounts\<close>.
\<close>

section \<open>Relations that every step keeps\<close>

definition runs :: "('w \<Rightarrow> 'w \<Rightarrow> bool) \<Rightarrow> ('w, 'a) go \<Rightarrow> bool" where
  "runs R c \<longleftrightarrow> (\<forall>w r w'. c w = Some (r, w') \<longrightarrow> R w w')"

lemma runsD: "runs R c \<Longrightarrow> c w = Some (r, w') \<Longrightarrow> R w w'"
  by (simp add: runs_def)

locale step_order =
  fixes R :: "'w \<Rightarrow> 'w \<Rightarrow> bool"
  assumes refl: "R w w" and trans: "R u v \<Longrightarrow> R v w \<Longrightarrow> R u w"
begin

lemma basic [intro]: "runs R (ret x)" "runs R panic" "runs R (fails c m)" "runs R (deref p)" "runs R (\<lambda>w. Some (res, w))"
  by (auto simp: runs_def refl deref_def split: option.splits)

lemma bnd [intro]: "runs R c \<Longrightarrow> (\<And>x. runs R (f x)) \<Longrightarrow> runs R (Prelude.bnd c f)"
proof -
  assume c: "runs R c" and f: "\<And>x. runs R (f x)"
  show ?thesis
    unfolding runs_def
  proof (intro allI impI)
    fix w r w' assume "Prelude.bnd c f w = Some (r, w')"
    then consider "c w = Some (Panic, w')" | x w1 where "c w = Some (Ret x, w1)" "f x w1 = Some (r, w')"
      by (auto simp: bnd_def split: option.splits outcome.splits)
    then show "R w w'"
      using c f trans unfolding runs_def by cases blast+
  qed
qed

lemma bndE [intro]: "runs R c \<Longrightarrow> (\<And>x. runs R (f x)) \<Longrightarrow> runs R (Prelude.bndE c h f)"
  unfolding bndE_def by (rule bnd) (auto split: sum.splits)

lemma call [intro]: "(\<And>w. R w (snd (f w))) \<Longrightarrow> runs R (Prelude.call f)"
  by (simp add: runs_def)

lemma bnd_err [intro]: "(\<And>w. R w (snd (c w))) \<Longrightarrow> runs R f \<Longrightarrow> runs R (Util.bnd_err c h f)"
  unfolding bnd_err_def by (rule bnd) (auto split: option.splits)

lemma bnd_os [intro]: "runs R c \<Longrightarrow> (\<And>x. runs R (f x)) \<Longrightarrow> runs R (Util.bnd_os c h f)"
  unfolding bnd_os_def by (rule bnd) (auto split: sum.splits)

end

text \<open>Only directories are added, where nothing was.\<close>

definition adds_dirs :: "'x os \<Rightarrow> 'x os \<Rightarrow> bool" where
  "adds_dirs m m' \<longleftrightarrow>
     (\<exists>ls. store m' = map (\<lambda>l. (l, Dir)) ls @ store m \<and> (\<forall>l\<in>set ls. map_of (store m) l = None))"

lemma adds_dirs_same: "store m' = store m \<Longrightarrow> adds_dirs m m'"
  by (auto simp: adds_dirs_def intro!: exI [of _ "[]"])

lemma map_of_dirs: "map_of (map (\<lambda>l. (l, Dir)) ls @ s) l = (if l \<in> set ls then Some Dir else map_of s l)"
  by (induction ls) auto

lemma adds_dirs_trans: "adds_dirs u v \<Longrightarrow> adds_dirs v w \<Longrightarrow> adds_dirs u w"
proof -
  assume "adds_dirs u v" "adds_dirs v w"
  then obtain ks ls where k: "store v = map (\<lambda>l. (l, Dir)) ks @ store u" "\<forall>l\<in>set ks. map_of (store u) l = None"
    and l: "store w = map (\<lambda>l. (l, Dir)) ls @ store v" "\<forall>l\<in>set ls. map_of (store v) l = None"
    by (auto simp: adds_dirs_def)
  have "map_of (store u) x = None" if "x \<in> set ls" for x
    using l(2) that unfolding k(1) map_of_dirs by (metis option.distinct(1))
  with k l(1) show ?thesis unfolding adds_dirs_def by (intro exI [of _ "ls @ ks"]) auto
qed

lemma adds_dirs_map_of:
  "adds_dirs m m' \<Longrightarrow> map_of (store m') l = map_of (store m) l \<or> map_of (store m) l = None \<and> map_of (store m') l = Some Dir"
  unfolding adds_dirs_def by (elim exE conjE) (simp only: map_of_dirs, simp)

lemma adds_dirs_set:
  "adds_dirs m m' \<Longrightarrow> set (store m) \<subseteq> set (store m')"
  by (auto simp: adds_dirs_def)

interpretation adding: step_order adds_dirs
  by unfold_locales (auto intro: adds_dirs_same adds_dirs_trans)

interpretation table: step_order "\<lambda>m m'. mtab m' = mtab m"
  by unfold_locales auto

lemma runs_keeps: "keeps store c \<Longrightarrow> runs adds_dirs c" "keeps mtab c \<Longrightarrow> runs (\<lambda>m m'. mtab m' = mtab m) c"
  by (auto simp: runs_def keeps_def intro: adds_dirs_same)

section \<open>Making directories\<close>

lemma mkdirs_runs: "adds_dirs m (snd (mkdirs ds xs m)) \<and> mtab (snd (mkdirs ds xs m)) = mtab m"
proof (induction ds xs m rule: mkdirs.induct)
  case (2 ds x xs m)
  have new: "adds_dirs m ((next_fault m)\<lparr>store := (loc m (ds @ [x]), Dir) # store m\<rparr>)"
    if "node_at m (ds @ [x]) = None"
    using that by (auto simp: adds_dirs_def node_at_def split: if_splits intro!: exI [of _ "[loc m (ds @ [x])]"])
  show ?case
    using 2 new
    by (auto simp: Let_def intro: adds_dirs_same adds_dirs_trans split: sum.split node.split os_error.split option.split)
qed (simp add: adds_dirs_same)

lemma mkdirs_made:
  "xs = [] \<longrightarrow> stat_node m ds = Inr Dir \<Longrightarrow> mkdirs ds xs m = (Inr (), m') \<Longrightarrow> stat_node m' (ds @ xs) = Inr Dir"
proof (induction ds xs m rule: mkdirs.induct)
  case (2 ds x xs m)
  have new: "stat_node ((next_fault m)\<lparr>store := (loc m p, Dir) # store m\<rparr>) p = Inr Dir" for p
    by (simp add: stat_node_def follow.simps node_at_def loc_def)
  show ?case
    using 2 new [of "ds @ [x]"]
    by (auto simp: Let_def split: sum.splits node.splits os_error.splits option.splits if_splits)
qed simp

lemma MkdirAll_runs: "runs adds_dirs (MkdirAll p)" "runs (\<lambda>m m'. mtab m' = mtab m) (MkdirAll p)"
  by (auto simp: runs_def MkdirAll_def mkdirs_runs)

lemma reading_runs:
  "runs adds_dirs (Stat p)" "runs adds_dirs (Lstat p)"
  "runs (\<lambda>m m'. mtab m' = mtab m) (Stat p)" "runs (\<lambda>m m'. mtab m' = mtab m) (Lstat p)"
  by (auto intro!: runs_keeps)

lemma CreateDest_runs: "runs adds_dirs (CreateDest p)" "runs (\<lambda>m m'. mtab m' = mtab m) (CreateDest p)"
  unfolding CreateDest_def
  by (auto intro!: adding.bnd adding.bnd_os table.bnd table.bnd_os MkdirAll_runs reading_runs
      split: sum.splits node.splits os_error.splits)

lemma IsFileExisting_runs:
  "runs adds_dirs (IsFileExisting p)" "runs (\<lambda>m m'. mtab m' = mtab m) (IsFileExisting p)"
  unfolding IsFileExisting_def by (auto intro!: adding.bnd table.bnd reading_runs)

lemma MkdirAll_made:
  assumes "MkdirAll p m = Some (Ret (Inr x), m')" and "comps p \<noteq> []"
  shows "stat_node m' (comps p) = Inr Dir"
  using assms mkdirs_made [of "comps p" m "[]" m'] by (simp add: MkdirAll_def prod_eq_iff)

lemma stat_node_Dir: "stat_node m xs = Inr Dir \<Longrightarrow> node_at m xs = Some Dir \<or> (\<exists>t. node_at m xs = Some (Symlink t))"
  by (auto simp: stat_node_def follow.simps [of 255] split: option.splits node.splits)

text \<open>Where directories are made: on the way to a path, through the table of mounts.\<close>

definition dirs_to :: "(string list \<times> location) list \<Rightarrow> string \<Rightarrow> location set" where
  "dirs_to mt p = {resolve mt q | q. prefix q (comps p)}"

definition keys :: "'x os \<Rightarrow> location set" where
  "keys m = fst ` set (store m)"

definition keys_in :: "location set \<Rightarrow> 'x os \<Rightarrow> 'x os \<Rightarrow> bool" where
  "keys_in L m m' \<longleftrightarrow> keys m' \<subseteq> keys m \<union> L"

lemma keys_same: "store m' = store m \<Longrightarrow> keys m' = keys m"
  by (simp add: keys_def)

lemma keys_in_same: "store m' = store m \<Longrightarrow> keys_in L m m'"
  by (simp add: keys_in_def keys_def)

lemma keys_in_trans: "keys_in K u v \<Longrightarrow> keys_in L v w \<Longrightarrow> keys_in (K \<union> L) u w"
  unfolding keys_in_def by blast

lemma keys_in_mono: "keys_in K u v \<Longrightarrow> K \<subseteq> L \<Longrightarrow> keys_in L u v"
  by (auto simp: keys_in_def)

lemma mkdirs_keys: "keys_in {resolve (mtab m) (ds @ ys) | ys. prefix ys xs} m (snd (mkdirs ds xs m))"
proof (induction ds xs m rule: mkdirs.induct)
  case (2 ds x xs m)
  let ?way = "\<lambda>ds xs. {resolve (mtab m) (ds @ ys) | ys. prefix ys xs}"
  have deeper: "?way (ds @ [x]) xs \<subseteq> ?way ds (x # xs)"
  proof
    fix l assume "l \<in> ?way (ds @ [x]) xs"
    then obtain ys where "prefix ys xs" "l = resolve (mtab m) (ds @ x # ys)" by auto
    then show "l \<in> ?way ds (x # xs)" by (intro CollectI exI [of _ "x # ys"]) simp
  qed
  define m1 where "m1 = (next_fault m)\<lparr>store := (loc m (ds @ [x]), Dir) # store m\<rparr>"
  have "prefix [x] (x # xs)" by simp
  then have "loc m (ds @ [x]) \<in> ?way ds (x # xs)" unfolding loc_def by blast
  then have new: "keys_in (?way ds (x # xs)) m m1" by (simp add: m1_def keys_in_def keys_def)
  have tab: "mtab m1 = mtab m" by (simp add: m1_def next_fault_def)
  show ?case
  proof (cases "stat_node m (ds @ [x])")
    case (Inr n)
    then show ?thesis using 2(2) [OF refl Inr] deeper by (cases n) (auto intro: keys_in_same keys_in_mono)
  next
    case (Inl e)
    then show ?thesis
      using 2(1) [OF refl Inl] keys_in_trans [OF new keys_in_mono [OF _ deeper]] tab
      by (cases e) (auto simp: m1_def Let_def next_fault_def intro: keys_in_same split: option.split)
  qed
qed (simp add: keys_in_same)

lemma MkdirAll_keys: "MkdirAll p m = Some (r, m') \<Longrightarrow> keys_in (dirs_to (mtab m) p) m m'"
  using mkdirs_keys [of m "[]" "comps p"] by (auto simp: MkdirAll_def dirs_to_def)

lemma CreateDest_keys:
  assumes "CreateDest p m = Some (r, m')"
  shows "keys_in (dirs_to (mtab m) p) m m'"
proof -
  obtain x m1 where l: "Lstat p m = Some (Ret x, m1)" unfolding Lstat_def using sys_ends by blast
  have m1: "store m1 = store m" "mtab m1 = mtab m" using l reads_keep(1,7) [of p] unfolding keeps_def by blast+
  show ?thesis
    using assms l m1 keys_same [OF m1(1)] MkdirAll_keys [of p m1]
    by (auto simp: CreateDest_def bnd_def bnd_os_def keys_in_def split: sum.splits os_error.splits node.splits option.splits outcome.splits)
qed

section \<open>The mounter\<close>

text \<open>
  What \<open>mount\<close>, \<open>umount\<close>, the mount-point test and \<open>grep\<close> are documented to do: a mount of
  \<open>server:path\<close> that succeeds puts the exported directory, which exists, on top of the
  target directory; an unmount that succeeds takes the newest mount off the target; what
  fails changes nothing; a test sees the table of mounts.
\<close>

definition mounts_nfs :: "'x os host \<Rightarrow> bool" where
  "mounts_nfs h \<longleftrightarrow>
     (\<forall>srv p t opts m. srv \<noteq> [] \<and> CHR ''/'' \<notin> set srv \<and> HasPrefix p ''/'' \<longrightarrow>
        (let r = mnt_Mount h (srv @ CHR '':'' # p) t ''nfs'' opts m
         in store (snd r) = store m \<and>
            mtab (snd r) = (if fst r = None then (comps t, (srv, comps p)) # mtab m else mtab m)))"

definition unmounts :: "'x os host \<Rightarrow> bool" where
  "unmounts h \<longleftrightarrow>
     (\<forall>t m. let r = mnt_Unmount h t m
        in store (snd r) = store m \<and>
           (if fst r = None
            then comps t \<in> fst ` set (mtab m) \<and>
              mtab (snd r) = takeWhile (\<lambda>x. fst x \<noteq> comps t) (mtab m) @ tl (dropWhile (\<lambda>x. fst x \<noteq> comps t) (mtab m))
            else mtab (snd r) = mtab m))"

definition tests_mounts :: "'x os host \<Rightarrow> bool" where
  "tests_mounts h \<longleftrightarrow>
     (\<forall>t m. let r = mnt_IsLikelyNotMountPoint h t m
        in store (snd r) = store m \<and> mtab (snd r) = mtab m \<and> (\<not> fst (fst r) \<longrightarrow> comps t \<in> fst ` set (mtab m)))"

definition greps_mounts :: "'x os host \<Rightarrow> bool" where
  "greps_mounts h \<longleftrightarrow>
     (\<forall>args m. store (snd (exec_output h (''grep'' # args) m)) = store m \<and>
        mtab (snd (exec_output h (''grep'' # args) m)) = mtab m) \<and>
     (\<forall>p m m'. mtab m = mtab m' \<longrightarrow>
        fst (exec_output h [''grep'', p, ''/proc/mounts''] m) = fst (exec_output h [''grep'', p, ''/proc/mounts''] m'))"

definition nfs_host :: "'x os host \<Rightarrow> bool" where
  "nfs_host h \<longleftrightarrow> mounts_nfs h \<and> unmounts h \<and> tests_mounts h \<and> greps_mounts h"

definition nfs_server :: "string \<Rightarrow> bool" where
  "nfs_server srv \<longleftrightarrow> srv \<noteq> [] \<and> CHR ''/'' \<notin> set srv"

lemma Mount_effect:
  assumes "nfs_host h" and "nfs_server srv" and "HasPrefix p ''/''"
  shows "store (snd (mnt_Mount h (srv @ CHR '':'' # p) t ''nfs'' opts m)) = store m"
    and "mtab (snd (mnt_Mount h (srv @ CHR '':'' # p) t ''nfs'' opts m)) =
       (if fst (mnt_Mount h (srv @ CHR '':'' # p) t ''nfs'' opts m) = None then (comps t, (srv, comps p)) # mtab m else mtab m)"
  using assms unfolding nfs_host_def nfs_server_def mounts_nfs_def Let_def by blast+

lemma Unmount_effect:
  assumes "nfs_host h"
  shows "store (snd (mnt_Unmount h t m)) = store m"
    and "fst (mnt_Unmount h t m) = None \<Longrightarrow> comps t \<in> fst ` set (mtab m) \<and>
       mtab (snd (mnt_Unmount h t m)) =
         takeWhile (\<lambda>x. fst x \<noteq> comps t) (mtab m) @ tl (dropWhile (\<lambda>x. fst x \<noteq> comps t) (mtab m))"
    and "fst (mnt_Unmount h t m) \<noteq> None \<Longrightarrow> mtab (snd (mnt_Unmount h t m)) = mtab m"
  using assms unfolding nfs_host_def unmounts_def Let_def by (meson)+

lemma Unmount_top:
  "nfs_host h \<Longrightarrow> mtab m = (comps t, d) # mt \<Longrightarrow> fst (mnt_Unmount h t m) = None \<Longrightarrow>
     mtab (snd (mnt_Unmount h t m)) = mt"
  using Unmount_effect(2) [of h t m] by simp

lemma test_effect:
  assumes "nfs_host h"
  shows "store (snd (mnt_IsLikelyNotMountPoint h t m)) = store m"
    and "mtab (snd (mnt_IsLikelyNotMountPoint h t m)) = mtab m"
    and "\<not> fst (fst (mnt_IsLikelyNotMountPoint h t m)) \<Longrightarrow> comps t \<in> fst ` set (mtab m)"
  using assms unfolding nfs_host_def tests_mounts_def Let_def by blast+

lemma grep_effect:
  assumes "nfs_host h"
  shows "store (snd (exec_output h (''grep'' # args) m)) = store m"
    and "mtab (snd (exec_output h (''grep'' # args) m)) = mtab m"
  using assms unfolding nfs_host_def greps_mounts_def by blast+

text \<open>No line of the table of mounts matches the path.\<close>

definition unlisted :: "'x os host \<Rightarrow> string \<Rightarrow> 'x os \<Rightarrow> bool" where
  "unlisted h p m \<longleftrightarrow> fst (fst (exec_output h [''grep'', p, ''/proc/mounts''] m)) \<noteq> None"

lemma unlisted_mtab: "nfs_host h \<Longrightarrow> mtab m' = mtab m \<Longrightarrow> unlisted h p m' = unlisted h p m"
  unfolding nfs_host_def greps_mounts_def unlisted_def by metis

section \<open>Mounting an NFS path\<close>

lemma abs_path_slash [simp]: "HasPrefix (abs_path xs) ''/''"
  by (simp add: HasPrefix_def abs_path_def)

lemma slash_prefix [simp]: "HasPrefix (CHR ''/'' # s) ''/''"
  by (simp add: HasPrefix_def)

lemma isNfsPathMounted_runs:
  "nfs_host h \<Longrightarrow> runs adds_dirs (isNfsPathMounted h mp p)"
  "nfs_host h \<Longrightarrow> runs (\<lambda>m m'. mtab m' = mtab m) (isNfsPathMounted h mp p)"
  unfolding isNfsPathMounted_def
  by (auto intro!: adding.bnd table.bnd adding.call table.call adds_dirs_same simp: grep_effect split: prod.splits)

lemma isNfsPathMounted_listed:
  "isNfsPathMounted h mp p m = Some (Ret True, m') \<Longrightarrow> \<not> unlisted h mp m"
  by (auto simp: isNfsPathMounted_def unlisted_def go_ret split: prod.splits)

lemma createNasSubDir_runs:
  assumes "nfs_host h" and "nfs_server srv"
  shows "runs adds_dirs (createNasSubDir h srv fsId sub v opts vid)"
  using assms unfolding createNasSubDir_def Let_def
  by (auto intro!: adding.bnd adding.bndE adding.bnd_err adding.call CreateDest_runs adds_dirs_same
      simp: Mount_effect Unmount_effect test_effect split: prod.splits)

lemma createNasSubDir_effect:
  assumes "nfs_host h" and "nfs_server srv" and "comps (path_join [TempMntPath, vid]) \<notin> fst ` set (mtab m)"
    and "createNasSubDir h srv fsId sub v opts vid m = Some (Ret (Inr x), m')"
  shows "mtab m' = mtab m"
    and "keys_in (dirs_to (mtab m) (path_join [TempMntPath, vid]) \<union>
      dirs_to ((comps (path_join [TempMntPath, vid]), (srv, comps (CHR ''/'' # fsId))) # mtab m)
        (path_join [path_join [TempMntPath, vid], sub])) m m'"
proof -
  define tmp where "tmp = path_join [TempMntPath, vid]"
  define src where "src = srv @ CHR '':'' # CHR ''/'' # fsId"
  define test where "test = mnt_IsLikelyNotMountPoint h tmp"
  define unmount where "unmount = mnt_Unmount h tmp"
  from assms(4) obtain y1 m1 y2 m2 y3 m3 where
    dest: "CreateDest tmp m = Some (Ret (Inr y1), m1)" and
    gone: "(if \<not> fst (fst (test m1)) then bnd_err unmount (\<lambda>e. e) (ret (Inr ())) else ret (Inr ())) (snd (test m1))
       = Some (Ret (Inr y2), m2)" and
    mount: "fst (mnt_Mount h src tmp ''nfs'' (nfs_options v opts) m2) = None" and
    sub: "CreateDest (path_join [tmp, sub]) (snd (mnt_Mount h src tmp ''nfs'' (nfs_options v opts) m2)) = Some (Ret (Inr y3), m3)" and
    undo: "fst (unmount m3) = None" "m' = snd (unmount m3)"
    unfolding createNasSubDir_def Let_def go_ret tmp_def [symmetric] src_def test_def unmount_def
    by (auto simp: go_ret case_prod_unfold)
  have 1: "mtab m1 = mtab m" by (rule runsD [OF CreateDest_runs(2) dest])
  then have "fst (fst (test m1))" using assms(1,3) test_effect(3) [of h tmp m1] unfolding test_def tmp_def by auto
  with gone have "m2 = snd (test m1)" by simp
  then have 2: "mtab m2 = mtab m" using 1 test_effect(2) [OF assms(1)] by (simp add: test_def)
  have "mtab (snd (mnt_Mount h src tmp ''nfs'' (nfs_options v opts) m2)) = (comps tmp, (srv, comps (CHR ''/'' # fsId))) # mtab m"
    using Mount_effect(2) [OF assms(1,2), of "CHR ''/'' # fsId"] mount 2 by (simp add: src_def)
  note mounted = this
  then have "mtab m3 = (comps tmp, (srv, comps (CHR ''/'' # fsId))) # mtab m"
    using runsD [OF CreateDest_runs(2) sub] by simp
  then show "mtab m' = mtab m" using Unmount_top [OF assms(1)] undo unfolding unmount_def by blast
  have "store m2 = store m1" using \<open>m2 = snd (test m1)\<close> test_effect(1) [OF assms(1)] by (simp add: test_def)
  then have "keys_in (dirs_to (mtab m) tmp) m (snd (mnt_Mount h src tmp ''nfs'' (nfs_options v opts) m2))"
    using CreateDest_keys [OF dest] Mount_effect(1) [OF assms(1,2), of "CHR ''/'' # fsId"] by (simp add: keys_in_def keys_def src_def)
  from keys_in_trans [OF this CreateDest_keys [OF sub]]
  show "keys_in (dirs_to (mtab m) (path_join [TempMntPath, vid]) \<union>
      dirs_to ((comps (path_join [TempMntPath, vid]), (srv, comps (CHR ''/'' # fsId))) # mtab m)
        (path_join [path_join [TempMntPath, vid], sub])) m m'"
    using undo Unmount_effect(1) [OF assms(1)] mounted by (simp add: keys_in_def keys_def unmount_def tmp_def)
qed

text \<open>The mount of \<open>nfsPath\<close> of the server that \<open>doNfsMount\<close> puts on the table.\<close>

lemma doNfsMount_runs:
  assumes "nfs_host h" and "nfs_server srv"
  shows "runs adds_dirs (doNfsMount h srv fsId sub v opts mp vid)"
proof -
  have src: "HasPrefix (path_join [CHR ''/'' # fsId, sub]) ''/''" by (simp add: path_join_slash)
  show ?thesis
    unfolding doNfsMount_def Let_def
    using assms src
    by (auto intro!: adding.bnd adding.bndE adding.bnd_os adding.bnd_err adding.call adding.basic MkdirAll_runs IsFileExisting_runs
        isNfsPathMounted_runs createNasSubDir_runs adds_dirs_same simp: Mount_effect split: option.splits)
qed

lemma doNfsMount_effect:
  assumes "nfs_host h" and "nfs_server srv" and "comps (path_join [TempMntPath, vid]) \<notin> fst ` set (mtab m)"
    and "doNfsMount h srv fsId sub v opts mp vid m = Some (Ret (Inr x), m')"
  shows "mtab m' = mtab m \<and> \<not> unlisted h mp m \<or>
     mtab m' = (comps mp, (srv, comps (path_join [CHR ''/'' # fsId, sub]))) # mtab m"
    and "keys_in (dirs_to (mtab m) mp \<union> dirs_to (mtab m) (path_join [TempMntPath, vid]) \<union>
      dirs_to ((comps (path_join [TempMntPath, vid]), (srv, comps (CHR ''/'' # fsId))) # mtab m)
        (path_join [path_join [TempMntPath, vid], sub])) m m'"
proof -
  define p where "p = path_join [''/'' @ fsId, sub]"
  define mount where "mount = mnt_Mount h (srv @ '':'' @ p) mp ''nfs'' (nfs_options v opts)"
  have p: "HasPrefix p ''/''" by (simp add: p_def path_join_slash)
  from assms(4) obtain ex y m1 m2 b m3 where
    exist: "IsFileExisting mp m = Some (Ret ex, m1)" and
    made: "(if ex then ret (Inr ()) else bnd_os (MkdirAll mp) (\<lambda>e. e) (\<lambda>_. ret (Inr ()))) m1 = Some (Ret (Inr y), m2)" and
    seen: "isNfsPathMounted h mp p m2 = Some (Ret b, m3)" and
    rest: "(if b then ret (Inr ()) else bnd (call mount) (\<lambda>err. case err of None \<Rightarrow> ret (Inr ())
       | Some e \<Rightarrow> if p \<noteq> ''/'' then bndE (createNasSubDir h srv fsId sub v opts vid) (\<lambda>e. e) (\<lambda>_. bnd_err mount (\<lambda>e. e) (ret (Inr ())))
         else ret (Inl e))) m3 = Some (Ret (Inr x), m')"
    unfolding doNfsMount_def Let_def p_def [symmetric] mount_def [symmetric] bndE_Inr_iff bnd_Ret_iff by blast
  have "mtab m1 = mtab m" by (rule runsD [OF IsFileExisting_runs(2) exist])
  moreover have "mtab m2 = mtab m1"
    using made MkdirAll_runs(2) [of mp] by (cases ex) (auto simp: go_ret runs_def)
  ultimately have 2: "mtab m2 = mtab m" by simp
  have 3: "mtab m3 = mtab m" using runsD [OF isNfsPathMounted_runs(2) [OF assms(1)] seen] 2 by simp
  have top: "mtab (snd (mount u)) = (comps mp, (srv, comps p)) # mtab u" if "fst (mount u) = None" for u
    using Mount_effect(2) [OF assms(1,2) p] that by (simp add: mount_def)
  have fail: "mtab (snd (mount u)) = mtab u" if "fst (mount u) \<noteq> None" for u
    using Mount_effect(2) [OF assms(1,2) p] that by (simp add: mount_def)
  define K where "K = dirs_to (mtab m) (path_join [TempMntPath, vid]) \<union>
      dirs_to ((comps (path_join [TempMntPath, vid]), (srv, comps (CHR ''/'' # fsId))) # mtab m)
        (path_join [path_join [TempMntPath, vid], sub])"
  have same: "store (snd (mount u)) = store u" for u using Mount_effect(1) [OF assms(1,2) p] by (simp add: mount_def)
  have "store m1 = store m" using exist reads_keep(2) [of mp] by (auto simp: IsFileExisting_def bnd_Ret_iff keeps_def)
  moreover have "keys_in (dirs_to (mtab m1) mp) m1 m2"
    using made MkdirAll_keys [of mp m1] by (cases ex) (auto simp: go_ret keys_in_same)
  moreover have "store m3 = store m2"
    using seen grep_effect(1) [OF assms(1)] by (auto simp: isNfsPathMounted_def bnd_Ret_iff split: prod.splits)
  ultimately have keys3: "keys_in (dirs_to (mtab m) mp) m m3"
    using \<open>mtab m1 = mtab m\<close> by (simp add: keys_in_def keys_def)
  have "(mtab m' = mtab m \<and> \<not> unlisted h mp m \<or>
      mtab m' = (comps mp, (srv, comps (path_join [CHR ''/'' # fsId, sub]))) # mtab m) \<and> keys_in K m3 m'"
  proof (cases b)
    case True
    then have "\<not> unlisted h mp m" 
      using isNfsPathMounted_listed [of h mp p m2 m3] seen unlisted_mtab [OF assms(1) 2] by simp
    with True rest 3 show ?thesis by (simp add: keys_in_same)
  next
    case False
    show ?thesis
    proof (cases "fst (mount m3)")
      case None
      with False rest top [OF None] 3 same [of m3] show ?thesis by (simp add: bnd_def p_def keys_in_same)
    next
      case (Some e)
      with False rest obtain z m4 where sub: "createNasSubDir h srv fsId sub v opts vid (snd (mount m3)) = Some (Ret (Inr z), m4)"
        and again: "fst (mount m4) = None" "m' = snd (mount m4)"
        by (auto simp: bnd_def go_ret split: if_splits)
      have tab: "mtab (snd (mount m3)) = mtab m" using fail Some 3 by simp
      with createNasSubDir_effect [OF assms(1,2) _ sub] assms(3)
      have "mtab m4 = mtab m" "keys_in K (snd (mount m3)) m4" by (simp_all add: K_def)
      with top [OF again(1)] again(2) same [of m3] same [of m4] show ?thesis by (simp add: p_def keys_in_def keys_def)
    qed
  qed
  then show "mtab m' = mtab m \<and> \<not> unlisted h mp m \<or>
      mtab m' = (comps mp, (srv, comps (path_join [CHR ''/'' # fsId, sub]))) # mtab m"
    and "keys_in (dirs_to (mtab m) mp \<union> dirs_to (mtab m) (path_join [TempMntPath, vid]) \<union>
      dirs_to ((comps (path_join [TempMntPath, vid]), (srv, comps (CHR ''/'' # fsId))) # mtab m)
        (path_join [path_join [TempMntPath, vid], sub])) m m'"
    using keys_in_trans [OF keys3, of K m'] by (simp_all add: K_def Un_assoc)
qed

lemmas doNfsMount_mtab = doNfsMount_effect(1)

section \<open>CreateVolume\<close>

lemma mount_root: "MntRootPath = abs_path [''csi-persistentvolumes'']"
  by (simp add: MntRootPath_def abs_path_def)

lemma volume_mount_point:
  "plain n \<Longrightarrow> path_join [MntRootPath, n] = abs_path [''csi-persistentvolumes'', n]"
  using path_join_abs_plain [of "[''csi-persistentvolumes'']" n] by (simp add: mount_root plain_def)

lemma plain_root [simp]: "plain ''csi-persistentvolumes''"
  by (simp add: plain_def)

lemma seen_through_mount:
  assumes "mtab m = (mp, d, r) # mt" and "stat_node m (mp @ xs) = Inr Dir" and "r @ xs \<noteq> []"
  shows "map_of (store m) (d, r @ xs) = Some Dir \<or> (\<exists>t. map_of (store m) (d, r @ xs) = Some (Symlink t))"
  using stat_node_Dir [OF assms(2)] assms(1,3) by (auto simp: node_at_def loc_def)

lemma provision_dir_made:
  assumes host: "nfs_host h" and srv: "nfs_server (na_Server args)" and n: "plain n"
    and free: "comps (path_join [MntRootPath, n]) \<notin> fst ` set (mtab m)"
      "comps (path_join [TempMntPath, n]) \<notin> fst ` set (mtab m)"
    and run: "provision_dir h args v opts n m = Some (Ret (Inr x), m')"
  defines "l \<equiv> (na_Server args, comps (path_join [CHR ''/'' # na_FsID args, na_SubPath args]) @ [n])"
  shows "mtab m' = mtab m"
    and "map_of (store m') l = Some Dir \<or> (\<exists>t. map_of (store m') l = Some (Symlink t))"
proof -
  define mp where "mp = path_join [MntRootPath, n]"
  define full where "full = path_join [mp, n]"
  have mp: "comps mp = [''csi-persistentvolumes'', n]" using n by (simp add: mp_def volume_mount_point)
  have full: "comps full = comps mp @ [n]"
    using n path_join_abs_plain [of "[''csi-persistentvolumes'', n]" n] by (simp add: full_def mp_def volume_mount_point)
  from run obtain y m1 z m2 where
    mount: "doNfsMount h (na_Server args) (na_FsID args) (na_SubPath args) v opts mp n m = Some (Ret (Inr y), m1)" and
    made: "MkdirAll full m1 = Some (Ret (Inr z), m2)" and
    undo: "fst (mnt_Unmount h mp m2) = None" "m' = snd (mnt_Unmount h mp m2)"
    unfolding provision_dir_def Let_def full_def mp_def
    by (auto simp: go_ret split: sum.splits) (metis old.unit.exhaust sum.exhaust)
  have 2: "mtab m2 = mtab m1" by (rule runsD [OF MkdirAll_runs(2) made])
  have "comps mp \<in> fst ` set (mtab m2)" using Unmount_effect(2) [OF host undo(1)] by simp
  with doNfsMount_mtab [OF host srv free(2) mount] free(1) 2
  have top: "mtab m2 = (comps mp, fst l, butlast (snd l)) # mtab m" unfolding l_def mp_def by auto
  then show "mtab m' = mtab m" using Unmount_top [OF host] undo by blast
  have "stat_node m2 (comps mp @ [n]) = Inr Dir" using MkdirAll_made [OF made] full by simp
  from seen_through_mount [OF top this] Unmount_effect(1) [OF host, of mp m2] undo(2)
  show "map_of (store m') l = Some Dir \<or> (\<exists>t. map_of (store m') l = Some (Symlink t))"
    by (simp add: l_def)
qed

lemma provision_dir_runs:
  "nfs_host h \<Longrightarrow> nfs_server (na_Server args) \<Longrightarrow> runs adds_dirs (provision_dir h args v opts n)"
  unfolding provision_dir_def Let_def
  by (auto intro!: adding.bndE adding.bnd adding.bnd_err adding.call adding.basic doNfsMount_runs MkdirAll_runs adds_dirs_same
      simp: Unmount_effect split: sum.splits)

lemma capability_flags_runs: "runs adds_dirs (capability_flags cs)"
  by (induction cs) (auto intro!: adding.bnd)

lemma capability_flags_same: "capability_flags cs m = Some (r, m') \<Longrightarrow> m' = m"
proof (induction cs arbitrary: r m')
  case (Cons c cs)
  then show ?case by (cases "get_mount c") (auto simp: bnd_def split: option.splits outcome.splits)
qed simp

lemma getNasVolumeArgs_Inr:
  "getNasVolumeArgs ps = Inr args \<Longrightarrow>
     na_Server args = attr ps ''server'' \<and> na_Server args \<noteq> [] \<and> na_FsID args = attr ps ''fsId'' \<and>
     na_SubPath args = clean_sub_path (attr ps ''subPath'') \<and> na_VolumeAs args = ''subpath'' \<and>
     na_ArchiveOnDelete args = (case ps ''archiveOnDelete'' of None \<Rightarrow> ''true'' | Some v \<Rightarrow> v) \<and> CHR ''/'' \<notin> set (na_FsID args)"
  by (auto simp: getNasVolumeArgs_def Let_def Contains_char split: if_splits option.splits)

definition the_attr :: "csi_volume \<Rightarrow> string \<Rightarrow> string" where
  "the_attr vol k = attr (VolumeContext vol) k"

lemma nas_CreateVolume_Inr:
  assumes "nas_CreateVolume d h req m = Some (Ret (Inr vol), m')" and "nas_Config d = Some c"
    and "AssumeRoleName c \<noteq> VCIInstanceRoleForVKE"
  obtains args v opts x where "getNasVolumeArgs (cv_Parameters req) = Inr args"
    and "provision_dir h args v opts (cv_Name req) m = Some (Ret (Inr x), m')"
    and "VolumeContext vol = [''archiveOnDelete'' \<mapsto> na_ArchiveOnDelete args, ''volumeAs'' \<mapsto> na_VolumeAs args,
      ''path'' \<mapsto> path_join [path_join [''/'' @ na_FsID args, na_SubPath args], cv_Name req],
      ''server'' \<mapsto> na_Server args, ''fsId'' \<mapsto> na_FsID args]"
    and "VolumeId vol = cv_Name req"
proof -
  from assms(1) obtain flags m0 where flags: "capability_flags (cv_VolumeCapabilities req) m = Some (Ret flags, m0)"
    by (auto simp: nas_CreateVolume_def Let_def go_ret)
  then have "m0 = m" by (rule capability_flags_same)
  with assms flags show thesis
    by (auto simp: nas_CreateVolume_def Let_def bnd_Ret go_ret split: sum.splits prod.splits if_splits intro: that)
qed

text \<open>C19: NAS CreateVolume, by a plugin that does not run under the VCI role (there nothing is made),
  of a volume whose name is one plain path component: when it reports a volume, the directory that
  the volume context names exists on the file server (or a link that was seen as one), the table of
  mounts is what it was, and nothing on any file system was lost or changed; directories were added at
  most. Nothing has to be known of faults, of the mount options or of what was there; the two mount
  points must be free.\<close>

theorem nas_create_makes_directory:
  assumes "nfs_host h" and "nfs_server (attr (cv_Parameters req) ''server'')" and "plain (cv_Name req)"
    and "nas_Config d = Some c" and "AssumeRoleName c \<noteq> VCIInstanceRoleForVKE"
    and "comps (path_join [MntRootPath, cv_Name req]) \<notin> fst ` set (mtab m)"
    and "comps (path_join [TempMntPath, cv_Name req]) \<notin> fst ` set (mtab m)"
    and "nas_CreateVolume d h req m = Some (Ret (Inr vol), m')"
  shows "\<exists>n. map_of (store m') (the_attr vol ''server'', comps (the_attr vol ''path'')) = Some n \<and>
       (n = Dir \<or> (\<exists>t. n = Symlink t)) \<and> mtab m' = mtab m \<and> adds_dirs m m'"
proof -
  obtain args v opts x where args: "getNasVolumeArgs (cv_Parameters req) = Inr args"
    and run: "provision_dir h args v opts (cv_Name req) m = Some (Ret (Inr x), m')"
    and vol: "VolumeContext vol = [''archiveOnDelete'' \<mapsto> na_ArchiveOnDelete args, ''volumeAs'' \<mapsto> na_VolumeAs args,
      ''path'' \<mapsto> path_join [path_join [''/'' @ na_FsID args, na_SubPath args], cv_Name req],
      ''server'' \<mapsto> na_Server args, ''fsId'' \<mapsto> na_FsID args]"
    using nas_CreateVolume_Inr [OF assms(8,4,5)] by metis
  have srv: "nfs_server (na_Server args)" using getNasVolumeArgs_Inr [OF args] assms(2) by simp
  have "comps (the_attr vol ''path'') = comps (path_join [CHR ''/'' # na_FsID args, na_SubPath args]) @ [cv_Name req]"
    unfolding the_attr_def vol attr_def using created_path [OF assms(3)] assms(3) comps_plain
    by (simp add: path_join_slash [symmetric]) (simp add: path_join_slash)
  moreover have "the_attr vol ''server'' = na_Server args" by (simp add: the_attr_def vol attr_def)
  ultimately show ?thesis
    using provision_dir_made [OF assms(1) srv assms(3,6,7) run]
      runsD [OF provision_dir_runs [OF assms(1) srv] run] by auto
qed

section \<open>A mounter\<close>

text \<open>
  A mounter that satisfies these laws: it mounts what the server exports, lists its mounts
  by their target, and finds a line by its text.
\<close>

definition sim_unmount :: "string list \<Rightarrow> 'x os \<Rightarrow> error option \<times> 'x os" where
  "sim_unmount t m =
     (if list_ex (\<lambda>x. fst x = t) (mtab m)
      then (None, m\<lparr>mtab := takeWhile (\<lambda>x. fst x \<noteq> t) (mtab m) @ tl (dropWhile (\<lambda>x. fst x \<noteq> t) (mtab m))\<rparr>)
      else (Some (PlainError ''not mounted''), m))"

definition sim_mount :: "string \<Rightarrow> string list \<Rightarrow> 'x os \<Rightarrow> error option \<times> 'x os" where
  "sim_mount src t m =
     (let srv = butlast (takeWhile (\<lambda>c. c \<noteq> CHR ''/'') src); xs = comps (dropWhile (\<lambda>c. c \<noteq> CHR ''/'') src)
      in if node_at m t = Some Dir \<and> (xs = [] \<or> map_of (store m) (srv, xs) = Some Dir)
         then (None, m\<lparr>mtab := (t, (srv, xs)) # mtab m\<rparr>)
         else (Some (PlainError ''mount failed''), m))"

definition sim_host :: "'x os host" where
  "sim_host = quiet_host\<lparr>
     exec_output := (\<lambda>args m.
       case args of
         [prog, p, file] \<Rightarrow>
           (case find (\<lambda>x. Contains (abs_path (fst x)) p) (mtab m) of
              None \<Rightarrow> ((Some (PlainError ''exit status 1''), []), m)
            | Some x \<Rightarrow> ((None, fst (snd x) @ '':'' @ abs_path (snd (snd x)) @ '' '' @ abs_path (fst x)), m))
       | _ \<Rightarrow> ((Some (PlainError ''exit status 2''), []), m)),
     mnt_Mount := (\<lambda>src tgt ty opts. sim_mount src (comps tgt)),
     mnt_Unmount := (\<lambda>tgt. sim_unmount (comps tgt)),
     mnt_IsLikelyNotMountPoint := (\<lambda>p m. ((\<not> list_ex (\<lambda>x. fst x = comps p) (mtab m), None), m))\<rparr>"

lemma sim_source:
  assumes "CHR ''/'' \<notin> set srv" and "HasPrefix p ''/''"
  shows "takeWhile (\<lambda>c. c \<noteq> CHR ''/'') (srv @ CHR '':'' # p) = srv @ '':''"
    and "dropWhile (\<lambda>c. c \<noteq> CHR ''/'') (srv @ CHR '':'' # p) = p"
proof -
  obtain q where p: "p = CHR ''/'' # q" using assms(2) by (cases p) (auto simp: HasPrefix_def)
  show "takeWhile (\<lambda>c. c \<noteq> CHR ''/'') (srv @ CHR '':'' # p) = srv @ '':''"
    using takeWhile_notin [of "CHR ''/''" "srv @ '':''" q] assms(1) by (simp add: p)
  show "dropWhile (\<lambda>c. c \<noteq> CHR ''/'') (srv @ CHR '':'' # p) = p"
    using assms(1) unfolding p by (induction srv) auto
qed

lemma sim_host_laws: "nfs_host (sim_host :: 'x os host)"
  unfolding nfs_host_def
proof (intro conjI)
  show "mounts_nfs (sim_host :: 'x os host)"
    by (auto simp: mounts_nfs_def sim_host_def sim_mount_def sim_source Let_def)
  show "unmounts (sim_host :: 'x os host)"
    by (auto simp: unmounts_def sim_host_def sim_unmount_def Let_def list_ex_iff intro: rev_image_eqI)
  show "tests_mounts (sim_host :: 'x os host)"
    by (auto simp: tests_mounts_def sim_host_def Let_def list_ex_iff intro: rev_image_eqI)
  show "greps_mounts (sim_host :: 'x os host)"
    by (auto simp: greps_mounts_def sim_host_def split: list.split option.split)
qed

definition nas_driver :: nas_Driver where
  "nas_driver = nas_NewDriver [] ''v1'' ''node-1'' (Some zero_Config)"

definition nas_params :: attributes where
  "nas_params = [''server'' \<mapsto> ''nfs.local'', ''fsId'' \<mapsto> ''enas-1'', ''subPath'' \<mapsto> ''/data/'']"

definition nas_request :: create_volume_request where
  "nas_request = \<lparr>cv_Name = ''pvc-1'', cv_CapacityRange = None, cv_VolumeCapabilities =
     [\<lparr>AccessType = Some (MountAccess \<lparr>FsType = [], MountFlags = [''vers=4.0'']\<rparr>), AccessMode = Some MULTI_NODE_MULTI_WRITER\<rparr>],
     cv_Parameters = nas_params, cv_ContentSource = None, cv_Accessibility = None\<rparr>"

definition nas_machine :: machine where
  "nas_machine = example_machine [((''nfs.local'', [''enas-1'']), Dir), ((''nfs.local'', [''enas-1'', ''old'']), File ''x'')]"

lemma nas_example_created:
  "\<exists>vol m'. nas_CreateVolume nas_driver sim_host nas_request nas_machine = Some (Ret (Inr vol), m')"
proof -
  have "(case nas_CreateVolume nas_driver sim_host nas_request nas_machine of Some (Ret (Inr vol), m') \<Rightarrow> True | _ \<Rightarrow> False)"
    by code_simp
  then show ?thesis by (auto split: option.splits prod.splits outcome.splits sum.splits)
qed

theorem nas_create_makes_directory_witness:
  "\<exists>vol m' n. nas_CreateVolume nas_driver sim_host nas_request nas_machine = Some (Ret (Inr vol), m') \<and>
     map_of (store m') (the_attr vol ''server'', comps (the_attr vol ''path'')) = Some n"
proof -
  obtain vol m' where run: "nas_CreateVolume nas_driver sim_host nas_request nas_machine = Some (Ret (Inr vol), m')"
    using nas_example_created by blast
  moreover have "nfs_server (attr (cv_Parameters nas_request) ''server'')" "plain (cv_Name nas_request)"
      "comps (path_join [MntRootPath, cv_Name nas_request]) \<notin> fst ` set (mtab nas_machine)"
      "comps (path_join [TempMntPath, cv_Name nas_request]) \<notin> fst ` set (mtab nas_machine)"
      "nas_Config nas_driver = Some zero_Config" "AssumeRoleName zero_Config \<noteq> VCIInstanceRoleForVKE"
    by (simp_all add: nas_request_def nas_params_def attr_def nfs_server_def plain_def nas_machine_def example_machine_def
        nas_driver_def nas_NewDriver_def Let_def zero_Config_def VCIInstanceRoleForVKE_def)
  ultimately show ?thesis using nas_create_makes_directory [OF sim_host_laws] by blast
qed

end
