(* ===== verification/Nas_Delete.thy ===== *)
theory Nas_Delete
  imports Nas_Facts
begin

text \<open>
  NAS DeleteVolume: what it can reach on the file server, what it leaves, and how it undoes
  CreateVolume.
\<close>

section \<open>Removing and renaming below a mount\<close>

definition tree_at :: "string \<Rightarrow> string list \<Rightarrow> location set" where
  "tree_at srv xs = {l. fst l = srv \<and> prefix xs (snd l)}"

lemma tree_at_iff: "(d, xs @ ys) \<in> tree_at srv xs \<longleftrightarrow> d = srv"
  by (simp add: tree_at_def)

lemma restrict_map_le: "f |` A \<subseteq>\<^sub>m f"
  by (auto simp: map_le_def restrict_map_def split: if_splits)

lemma map_of_filter_key: "map_of (filter (\<lambda>(l, n). P l) s) l = (if P l then map_of s l else None)"
  by (induction s) auto

lemma below_tree:
  assumes "mtab m = (mp, srv, ps) # mt" and "below (mtab m) (mp @ xs) l"
  shows "l \<in> tree_at srv (ps @ xs)"
proof -
  from assms(2) obtain p where p: "resolve (mtab m) p = l" "prefix (mp @ xs) p"
    by (auto simp: below_def paths_of_def list_ex_iff)
  then obtain r where "p = mp @ xs @ r" by (auto simp: prefix_def)
  with p(1) assms(1) show ?thesis by (auto simp: tree_at_def)
qed

lemma tree_below:
  assumes "mtab m = (mp, srv, ps) # mt" and "l \<in> tree_at srv (ps @ xs)"
  shows "below (mtab m) (mp @ xs) l"
proof -
  from assms(2) obtain r where l: "l = (srv, ps @ xs @ r)" by (cases l) (auto simp: tree_at_def prefix_def)
  then have "mp @ xs @ r \<in> set (paths_of (mtab m) l)" by (simp add: paths_of_def assms(1))
  then show ?thesis unfolding below_def list_ex_iff by (rule bexI [rotated]) (simp add: prefix_def)
qed

lemma RemoveAll_tree:
  assumes "RemoveAll p m = Some (r, m')" and "mtab m = (mp, srv, ps) # mt" and "comps p = mp @ xs" and "p \<noteq> []"
  shows "map_of (store m) |` (- tree_at srv (ps @ xs)) \<subseteq>\<^sub>m map_of (store m')" and "mtab m' = mtab m"
    and "r = Ret (Inr ()) \<Longrightarrow> fst ` set (store m') \<inter> tree_at srv (ps @ xs) = {}"
proof -
  obtain P where P: "store m' = filter (\<lambda>(l, n). \<not> below (mtab m) (mp @ xs) l \<or> P l) (store m)"
    and free: "r = Ret (Inr ()) \<Longrightarrow> P = pinned (mtab m) (mp @ xs) \<and> \<not> list_ex (\<lambda>(q, _). prefix (mp @ xs) q) (mtab m)"
    using assms(1,3,4) by (auto simp: RemoveAll_def split: option.splits if_splits)
  show "map_of (store m) |` (- tree_at srv (ps @ xs)) \<subseteq>\<^sub>m map_of (store m')"
    unfolding map_le_def
  proof
    fix l assume "l \<in> dom (map_of (store m) |` (- tree_at srv (ps @ xs)))"
    then have l: "l \<notin> tree_at srv (ps @ xs)" by (auto simp: restrict_map_def split: if_splits)
    then have "\<not> below (mtab m) (mp @ xs) l" using below_tree [OF assms(2)] by blast
    with l show "(map_of (store m) |` (- tree_at srv (ps @ xs))) l = map_of (store m') l"
      unfolding P map_of_filter_key [where P = "\<lambda>l. \<not> below (mtab m) (mp @ xs) l \<or> P l"] by simp
  qed
  show "mtab m' = mtab m" using assms(1,4) by (auto simp: RemoveAll_def split: option.splits)
  assume "r = Ret (Inr ())"
  then have none: "\<not> list_ex (\<lambda>(q, _). prefix (mp @ xs) q) (mtab m)" and P': "P = pinned (mtab m) (mp @ xs)"
    using free by auto
  have "\<not> pinned (mtab m) (mp @ xs) l" for l
    using none prefix_order.trans by (fastforce simp: pinned_def list_ex_iff)
  then show "fst ` set (store m') \<inter> tree_at srv (ps @ xs) = {}"
    unfolding P P' using tree_below [OF assms(2)] by auto
qed

section \<open>Taking the path apart\<close>

lemma delete_sub_path_split:
  assumes "\<forall>y\<in>set ps. plain y" and "plain x" and "getNfsPathDetail (abs_path ps) = (fsId, subPath)"
  shows "delete_sub_path h env vid srv (abs_path (ps @ [x])) opts arch =
     bndE (doNfsMount h srv fsId subPath ''3'' opts (path_join [MntRootPath, vid @ ''-delete'']) vid)
       (nas_mount_error (''DeleteVolume: '' @ vid) srv (''nfsPath: '' @ abs_path ps) ''3'' opts
          (path_join [MntRootPath, vid @ ''-delete'']))
       (\<lambda>_. with_defer (mnt_Unmount h (path_join [MntRootPath, vid @ ''-delete'']))
          (archive_or_remove env vid arch (path_join [MntRootPath, vid @ ''-delete'']) x))"
proof -
  have x: "x \<noteq> []" "CHR ''/'' \<notin> set x" using assms(2) by (auto simp: plain_def)
  have "2 \<le> length (abs_path (ps @ [x]))"
    using x(1) by (cases x) (simp_all add: abs_path_snoc)
  then have "abs_path (ps @ [x]) \<noteq> ''/''" "abs_path (ps @ [x]) \<noteq> []" by auto
  moreover have trim: "TrimSuffix (abs_path (ps @ [x])) ''/'' = abs_path (ps @ [x])"
    using assms(1,2) by (intro TrimSuffix_abs_path) auto
  moreover have "0 \<le> LastIndexChar (abs_path (ps @ [x])) CHR ''/''" using cut_path(1) [OF assms(1,2)] by simp
  ultimately show ?thesis
    unfolding delete_sub_path_def Let_def trim cut_path(2) [OF assms(1,2), unfolded Let_def]
      Base_abs_path [OF assms(2), of ps] assms(3) by simp
qed

section \<open>DeleteVolume\<close>

lemma archive_or_remove_remove:
  assumes "archive_or_remove env vid (Some a) mp x m = Some (r, m')" and b: "ParseBool a = Some False"
    and "mtab m = (comps mp, srv, ps) # mt" and "comps (path_join [mp, x]) = comps mp @ [x]" and "path_join [mp, x] \<noteq> []"
  shows "map_of (store m) |` (- tree_at srv (ps @ [x])) \<subseteq>\<^sub>m map_of (store m')" and "mtab m' = mtab m"
    and "r = Ret (Inr ()) \<Longrightarrow> map_of (store m') (srv, ps @ [x]) \<noteq> Some Dir"
proof -
  define p where "p = path_join [mp, x]"
  obtain st m1 where st: "Stat p m = Some (Ret st, m1)"
    unfolding Stat_def using sys_ends by blast
  have m1: "store m1 = store m" "mtab m1 = mtab m"
    using st reads_keep(2,8) [of p] unfolding keeps_def by blast+
  consider (none) "st = Inl NotExist" "r = Ret (Inr ())" "m' = m1"
    | (rm) q where "RemoveAll p m1 = Some (q, m')" "r = Ret (Inr ()) \<Longrightarrow> q = Ret (Inr ())"
    using assms(1) st b unfolding archive_or_remove_def Let_def p_def [symmetric]
    by (auto simp: bnd_def bnd_os_def split: if_splits option.splits outcome.splits sum.splits)
  note outcome = this
  show "map_of (store m) |` (- tree_at srv (ps @ [x])) \<subseteq>\<^sub>m map_of (store m')"
    using outcome
  proof cases
    case none
    then show ?thesis by (auto simp: m1 map_le_def)
  next
    case (rm q)
    then show ?thesis
      using RemoveAll_tree(1) [OF rm(1), of "comps mp" srv ps mt "[x]"] assms m1 by (simp add: p_def)
  qed
  show "mtab m' = mtab m"
    using outcome
  proof cases
    case (rm q)
    then show ?thesis
      using RemoveAll_tree(2) [OF rm(1), of "comps mp" srv ps mt "[x]"] assms m1 by (simp add: p_def)
  qed (simp add: m1)
  assume ok: "r = Ret (Inr ())"
  show "map_of (store m') (srv, ps @ [x]) \<noteq> Some Dir"
    using outcome
  proof cases
    case none
    then have "stat_node m (comps p) = Inl NotExist \<or> stat_node (next_fault m) (comps p) = Inl NotExist"
      using st by (auto simp: Stat_def sys_def split: option.splits)
    moreover have "loc m (comps p) = (srv, ps @ [x])" using assms(3,4) by (simp add: loc_def p_def)
    ultimately show ?thesis
      using none m1 by (auto simp: stat_node_def follow.simps [of 255] node_at_def loc_def)
  next
    case (rm q)
    then have "fst ` set (store m') \<inter> tree_at srv (ps @ [x]) = {}"
      using RemoveAll_tree(3) [OF rm(1), of "comps mp" srv ps mt "[x]"] ok assms m1 by (simp add: p_def)
    then show ?thesis by (fastforce simp: tree_at_def dest: map_of_SomeD)
  qed
qed

lemma plain_delete: "CHR ''/'' \<notin> set vid \<Longrightarrow> plain (vid @ ''-delete'')"
  by (auto simp: plain_def append_eq_Cons_conv)

lemma delete_mount_point:
  assumes "CHR ''/'' \<notin> set vid"
  shows "comps (path_join [MntRootPath, vid @ ''-delete'']) = [''csi-persistentvolumes'', vid @ ''-delete'']"
    and "plain x \<Longrightarrow> path_join [path_join [MntRootPath, vid @ ''-delete''], x] =
      abs_path [''csi-persistentvolumes'', vid @ ''-delete'', x]"
proof -
  note p = plain_delete [OF assms]
  then show "comps (path_join [MntRootPath, vid @ ''-delete'']) = [''csi-persistentvolumes'', vid @ ''-delete'']"
    by (simp add: volume_mount_point)
  show "plain x \<Longrightarrow> path_join [path_join [MntRootPath, vid @ ''-delete''], x] =
      abs_path [''csi-persistentvolumes'', vid @ ''-delete'', x]"
    using p path_join_abs_plain [of "[''csi-persistentvolumes'', vid @ ''-delete'']" x] by (simp add: volume_mount_point)
qed

lemma delete_sub_path_effect:
  assumes host: "nfs_host h" and srv: "nfs_server srv"
    and path: "\<forall>y\<in>set ps. plain y" "plain x" and vid: "CHR ''/'' \<notin> set vid"
    and free: "unlisted h (path_join [MntRootPath, vid @ ''-delete'']) m"
      "comps (path_join [TempMntPath, vid]) \<notin> fst ` set (mtab m)"
    and arch: "ParseBool a = Some False"
    and run: "delete_sub_path h env vid srv (abs_path (ps @ [x])) opts (Some a) m = Some (r, m')"
  shows "map_of (store m) |` (- tree_at srv (ps @ [x])) \<subseteq>\<^sub>m map_of (store m')"
    and "r = Ret (Inr ()) \<Longrightarrow> map_of (store m') (srv, ps @ [x]) \<noteq> Some Dir"
proof -
  define mp where "mp = path_join [MntRootPath, vid @ ''-delete'']"
  obtain fsId sub where d: "getNfsPathDetail (abs_path ps) = (fsId, sub)" by fastforce
  have export: "comps (path_join [CHR ''/'' # fsId, sub]) = ps" using detail_join [OF path(1) d] path(1) by simp
  have full: "comps (path_join [mp, x]) = comps mp @ [x]" "path_join [mp, x] \<noteq> []"
    unfolding mp_def delete_mount_point(2) [OF vid path(2)] delete_mount_point(1) [OF vid]
    using plain_delete [OF vid] path(2) comps_abs_path [of "[''csi-persistentvolumes'', vid @ ''-delete'', x]"]
    by (simp, simp add: abs_path_def)
  note split = run [unfolded delete_sub_path_split [OF path d] mp_def [symmetric]]
  obtain q m1 where mount: "doNfsMount h srv fsId sub ''3'' opts mp vid m = Some (q, m1)"
    using split by (auto simp: bndE_def bnd_def split: option.splits)
  have grow: "map_of (store m) \<subseteq>\<^sub>m map_of (store m1)"
    using adds_dirs_map_of [OF runsD [OF doNfsMount_runs [OF host srv] mount]] unfolding map_le_def by (metis domIff)
  then have shrink: "map_of (store m) |` (- tree_at srv (ps @ [x])) \<subseteq>\<^sub>m map_of (store m2)"
    if "map_of (store m1) |` (- tree_at srv (ps @ [x])) \<subseteq>\<^sub>m map_of (store m2)" for m2
    using that by (auto simp: map_le_def restrict_map_def dom_def split: if_splits)
  have "(map_of (store m) |` (- tree_at srv (ps @ [x])) \<subseteq>\<^sub>m map_of (store m')) \<and>
    (r = Ret (Inr ()) \<longrightarrow> map_of (store m') (srv, ps @ [x]) \<noteq> Some Dir)"
  proof (cases "q = Ret (Inr ())")
    case False
    then have "m' = m1" "r \<noteq> Ret (Inr ())"
      using split mount by (auto simp: bndE_def bnd_def split: outcome.splits sum.splits)
    then show ?thesis using shrink [OF restrict_map_le] by simp
  next
    case True
    with split mount obtain m2 where work: "archive_or_remove env vid (Some a) mp x m1 = Some (r, m2)"
      and m': "m' = snd (mnt_Unmount h mp m2)"
      by (auto simp: bndE_def bnd_def with_defer_def split: option.splits)
    have top: "mtab m1 = (comps mp, srv, ps) # mtab m"
      using doNfsMount_mtab [OF host srv free(2) mount [unfolded True]] free(1) unfolding export mp_def by blast
    note effect = archive_or_remove_remove [OF work arch top full]
    show ?thesis using effect(1,3) shrink Unmount_effect(1) [OF host] unfolding m' by simp
  qed
  then show "map_of (store m) |` (- tree_at srv (ps @ [x])) \<subseteq>\<^sub>m map_of (store m')"
    and "r = Ret (Inr ()) \<Longrightarrow> map_of (store m') (srv, ps @ [x]) \<noteq> Some Dir" by blast+
qed

text \<open>The persistent volume of a volume that is a path of a server, with its \<open>archiveOnDelete\<close>.\<close>

definition sub_path_pv :: "persistent_volume \<Rightarrow> string \<Rightarrow> string \<Rightarrow> string option \<Rightarrow> bool" where
  "sub_path_pv pv srv path arch \<longleftrightarrow>
     (case pv_Attributes pv of
        None \<Rightarrow> False
      | Some a \<Rightarrow> a ''server'' = Some srv \<and> a ''path'' = Some path \<and> a ''archiveOnDelete'' = arch \<and>
          (a ''volumeAs'' = None \<or> a ''volumeAs'' = Some ''subpath'')) \<and> pv_StorageClassName pv \<noteq> []"

lemma DeleteVolume_sub_path:
  assumes "nas_Config d = Some c" and "AssumeRoleName c \<noteq> VCIInstanceRoleForVKE"
    and "get_pv env vid m = (Inr pv, m)" and "sub_path_pv pv srv path arch"
  shows "nas_DeleteVolume d h env vid m =
    delete_sub_path h env vid srv path (join '','' (pv_MountOptions pv)) arch m"
  using assms by (auto simp: nas_DeleteVolume_def sub_path_pv_def bnd_Ret bnd_def split: option.splits)

text \<open>C20: NAS DeleteVolume of a volume that is not archived: its \<open>archiveOnDelete\<close> parses as false, its
  path is clean and below the root of the server (for \<open>//\<close> see C24), and the plugin does not run under
  the VCI role (there nothing is deleted). No line of the table of mounts matches the mount point of the
  deletion (a match makes the code skip the mount, see the findings) and the temporary mount point is
  free. Then, however it ends, by success, by an error or half way through a removal, every file outside
  the volume's own directory, on every file system, is still there unchanged; and when it reports
  success that directory is gone.\<close>

theorem nas_delete_confined:
  assumes "nfs_host h" and "nfs_server srv" and "nas_Config d = Some c" and "AssumeRoleName c \<noteq> VCIInstanceRoleForVKE"
    and "get_pv env vid m = (Inr pv, m)" and "sub_path_pv pv srv (abs_path (ps @ [x])) (Some a)" and "ParseBool a = Some False"
    and "\<forall>y\<in>set ps. plain y" and "plain x" and "CHR ''/'' \<notin> set vid"
    and "unlisted h (path_join [MntRootPath, vid @ ''-delete'']) m"
    and "comps (path_join [TempMntPath, vid]) \<notin> fst ` set (mtab m)"
    and "nas_DeleteVolume d h env vid m = Some (r, m')"
  shows "(map_of (store m) |` (- tree_at srv (ps @ [x])) \<subseteq>\<^sub>m map_of (store m')) \<and>
     (r \<noteq> Ret (Inr ()) \<or> map_of (store m') (srv, ps @ [x]) \<noteq> Some Dir)"
proof -
  have "delete_sub_path h env vid srv (abs_path (ps @ [x])) (join '','' (pv_MountOptions pv)) (Some a) m = Some (r, m')"
    using DeleteVolume_sub_path [OF assms(3-6), of h] assms(13) by simp
  from delete_sub_path_effect [OF assms(1,2,8-12,7) this] show ?thesis by blast
qed

definition nas_pv :: "string \<Rightarrow> persistent_volume" where
  "nas_pv path = \<lparr>pv_MountOptions = [], pv_Attributes = Some [''server'' \<mapsto> ''nfs.local'', ''path'' \<mapsto> path,
     ''archiveOnDelete'' \<mapsto> ''false'', ''volumeAs'' \<mapsto> ''subpath''], pv_StorageClassName = ''nas''\<rparr>"

definition one_pv :: "persistent_volume \<Rightarrow> 'w nas_env" where
  "one_pv pv = \<lparr>get_pv = (\<lambda>_ w. (Inr pv, w)), now_stamp = (\<lambda>_. ''.2024-01-02-03:04:05'')\<rparr>"

definition nas_full_machine :: machine where
  "nas_full_machine = example_machine [((''nfs.local'', [''enas-1'']), Dir), ((''nfs.local'', [''enas-1'', ''old'']), File ''x''),
     ((''nfs.local'', [''enas-1'', ''pvc-1'']), Dir), ((''nfs.local'', [''enas-1'', ''pvc-1'', ''f'']), File ''y'')]"

lemma nas_example_deleted:
  "\<exists>m'. nas_DeleteVolume nas_driver sim_host (one_pv (nas_pv ''/enas-1/pvc-1'')) ''pvc-1'' nas_full_machine = Some (Ret (Inr ()), m')"
proof -
  have "map_option fst (nas_DeleteVolume nas_driver sim_host (one_pv (nas_pv ''/enas-1/pvc-1'')) ''pvc-1'' nas_full_machine) =
      Some (Ret (Inr ()))"
    by code_simp
  then show ?thesis by (rule outcome_known)
qed

lemma nas_driver_Config: "nas_Config nas_driver = Some zero_Config" "AssumeRoleName zero_Config \<noteq> VCIInstanceRoleForVKE"
  by (simp_all add: nas_driver_def nas_NewDriver_def Let_def zero_Config_def VCIInstanceRoleForVKE_def)

theorem nas_delete_confined_witness:
  "\<exists>m'. nas_DeleteVolume nas_driver sim_host (one_pv (nas_pv ''/enas-1/pvc-1'')) ''pvc-1'' nas_full_machine = Some (Ret (Inr ()), m') \<and>
     map_of (store m') (''nfs.local'', [''enas-1'', ''pvc-1'']) \<noteq> Some Dir"
proof -
  obtain m' where run: "nas_DeleteVolume nas_driver sim_host (one_pv (nas_pv ''/enas-1/pvc-1'')) ''pvc-1'' nas_full_machine =
      Some (Ret (Inr ()), m')"
    using nas_example_deleted by blast
  have "get_pv (one_pv (nas_pv ''/enas-1/pvc-1'')) ''pvc-1'' nas_full_machine = (Inr (nas_pv ''/enas-1/pvc-1''), nas_full_machine)"
    by (simp add: one_pv_def)
  moreover have "sub_path_pv (nas_pv ''/enas-1/pvc-1'') ''nfs.local'' (abs_path ([''enas-1''] @ [''pvc-1''])) (Some ''false'')"
      "ParseBool ''false'' = Some False"
    by (simp_all add: sub_path_pv_def nas_pv_def abs_path_def ParseBool_def)
  moreover have "unlisted sim_host (path_join [MntRootPath, ''pvc-1'' @ ''-delete'']) nas_full_machine"
      "comps (path_join [TempMntPath, ''pvc-1'']) \<notin> fst ` set (mtab nas_full_machine)"
    by (simp_all add: unlisted_def sim_host_def nas_full_machine_def example_machine_def)
  moreover have "nfs_server ''nfs.local''" "\<forall>y\<in>set [''enas-1'']. plain y" "plain ''pvc-1''" "CHR ''/'' \<notin> set ''pvc-1''"
    by (simp_all add: nfs_server_def plain_def)
  ultimately have "Ret (Inr ()) \<noteq> Ret (Inr () :: error + unit) \<or> map_of (store m') (''nfs.local'', [''enas-1''] @ [''pvc-1'']) \<noteq> Some Dir"
    using nas_delete_confined [OF sim_host_laws _ nas_driver_Config _ _ _ _ _ _ _ _ run] by blast
  with run show ?thesis by auto
qed

section \<open>Create, then delete\<close>

definition pv_of :: "csi_volume \<Rightarrow> string list \<Rightarrow> string \<Rightarrow> persistent_volume" where
  "pv_of vol opts sc = \<lparr>pv_MountOptions = opts, pv_Attributes = Some (VolumeContext vol), pv_StorageClassName = sc\<rparr>"

text \<open>C21: DeleteVolume undoes CreateVolume. The storage class says \<open>archiveOnDelete\<close> false, the plugin
  does not run under the VCI role, the volume's name is one plain path component, its two mount points
  are free, and no line of the table of mounts matches the mount point of the deletion (with a stale mount
  listed there the deletion would skip its mount). Then, given the persistent volume that CreateVolume's
  answer describes, whatever its mount options are, a deletion that reports success has removed the
  directory that was made, and every file that was there before the creation and not in that directory is
  there unchanged.\<close>

theorem nas_delete_undoes_create:
  assumes "nfs_host h" and "nfs_server (attr (cv_Parameters req) ''server'')" and "plain (cv_Name req)"
    and "cv_Parameters req ''archiveOnDelete'' = Some a" and "ParseBool a = Some False" and "sc \<noteq> []"
    and "nas_Config d = Some c" and "AssumeRoleName c \<noteq> VCIInstanceRoleForVKE"
    and "comps (path_join [MntRootPath, cv_Name req]) \<notin> fst ` set (mtab m)"
    and "comps (path_join [TempMntPath, cv_Name req]) \<notin> fst ` set (mtab m)"
    and "unlisted h (path_join [MntRootPath, cv_Name req @ ''-delete'']) m"
    and "nas_CreateVolume d h req m = Some (Ret (Inr vol), m1)"
    and "get_pv env (VolumeId vol) m1 = (Inr (pv_of vol mopts sc), m1)"
    and "nas_DeleteVolume d h env (VolumeId vol) m1 = Some (Ret (Inr ()), m2)"
  shows "map_of (store m2) (the_attr vol ''server'', comps (the_attr vol ''path'')) \<noteq> Some Dir \<and>
    (map_of (store m) |` (- tree_at (the_attr vol ''server'') (comps (the_attr vol ''path''))) \<subseteq>\<^sub>m map_of (store m2))"
proof -
  obtain args v opts x where args: "getNasVolumeArgs (cv_Parameters req) = Inr args"
    and run: "provision_dir h args v opts (cv_Name req) m = Some (Ret (Inr x), m1)"
    and vol: "VolumeContext vol = [''archiveOnDelete'' \<mapsto> na_ArchiveOnDelete args, ''volumeAs'' \<mapsto> na_VolumeAs args,
      ''path'' \<mapsto> path_join [path_join [''/'' @ na_FsID args, na_SubPath args], cv_Name req],
      ''server'' \<mapsto> na_Server args, ''fsId'' \<mapsto> na_FsID args]" and id: "VolumeId vol = cv_Name req"
    using nas_CreateVolume_Inr [OF assms(12,7,8)] by metis
  note args_of = getNasVolumeArgs_Inr [OF args]
  define ps where "ps = comps (na_FsID args @ CHR ''/'' # na_SubPath args)"
  have ps: "\<forall>y\<in>set ps. plain y" unfolding ps_def by (rule comps_plain)
  have srv: "nfs_server (na_Server args)" using args_of assms(2) by simp
  have path: "path_join [path_join [''/'' @ na_FsID args, na_SubPath args], cv_Name req] = abs_path (ps @ [cv_Name req])"
    using created_path [OF assms(3)] by (simp add: ps_def)
  have names: "the_attr vol ''server'' = na_Server args" "comps (the_attr vol ''path'') = ps @ [cv_Name req]"
    using ps assms(3) by (simp_all add: the_attr_def vol attr_def path [simplified])
  have pv: "sub_path_pv (pv_of vol mopts sc) (na_Server args) (abs_path (ps @ [cv_Name req])) (Some a)"
    using args_of assms(4,6) path by (simp add: sub_path_pv_def pv_of_def vol)
  have tab: "mtab m1 = mtab m" by (rule provision_dir_made(1) [OF assms(1) srv assms(3,9,10) run])
  have grow: "map_of (store m) \<subseteq>\<^sub>m map_of (store m1)"
    using adds_dirs_map_of [OF runsD [OF provision_dir_runs [OF assms(1) srv] run]] unfolding map_le_def by (metis domIff)
  have vid: "CHR ''/'' \<notin> set (cv_Name req)" using assms(3) by (simp add: plain_def)
  have free: "unlisted h (path_join [MntRootPath, cv_Name req @ ''-delete'']) m1"
      "comps (path_join [TempMntPath, cv_Name req]) \<notin> fst ` set (mtab m1)"
    using assms(10,11) unlisted_mtab [OF assms(1) tab] tab by simp_all
  have del: "delete_sub_path h env (cv_Name req) (na_Server args) (abs_path (ps @ [cv_Name req])) (join '','' mopts)
      (Some a) m1 = Some (Ret (Inr ()), m2)"
    using DeleteVolume_sub_path [OF assms(7,8,13) pv, of h] assms(14) by (simp add: id pv_of_def)
  note effect = delete_sub_path_effect [OF assms(1) srv ps assms(3) vid free assms(5) del]
  have "map_of (store m) |` (- tree_at (na_Server args) (ps @ [cv_Name req])) \<subseteq>\<^sub>m map_of (store m2)"
    using effect(1) grow by (auto simp: map_le_def restrict_map_def dom_def split: if_splits)
  with effect(2) show ?thesis by (simp add: names)
qed

definition remove_request :: create_volume_request where
  "remove_request = nas_request\<lparr>cv_Parameters := nas_params(''archiveOnDelete'' \<mapsto> ''false'')\<rparr>"

lemma nas_example_round:
  "\<exists>vol m1 m2. nas_CreateVolume nas_driver sim_host remove_request nas_machine = Some (Ret (Inr vol), m1) \<and>
     nas_DeleteVolume nas_driver sim_host (one_pv (pv_of vol [] ''nas'')) (VolumeId vol) m1 = Some (Ret (Inr ()), m2)"
proof -
  have "(case nas_CreateVolume nas_driver sim_host remove_request nas_machine of
      Some (Ret (Inr vol), m1) \<Rightarrow>
        map_option fst (nas_DeleteVolume nas_driver sim_host (one_pv (pv_of vol [] ''nas'')) (VolumeId vol) m1) =
          Some (Ret (Inr ()))
    | _ \<Rightarrow> False)"
    by code_simp
  then show ?thesis by (auto split: option.splits prod.splits outcome.splits sum.splits)
qed

theorem nas_delete_undoes_create_witness:
  "\<exists>vol m1 m2. nas_CreateVolume nas_driver sim_host remove_request nas_machine = Some (Ret (Inr vol), m1) \<and>
     nas_DeleteVolume nas_driver sim_host (one_pv (pv_of vol [] ''nas'')) (VolumeId vol) m1 = Some (Ret (Inr ()), m2) \<and>
     map_of (store m2) (the_attr vol ''server'', comps (the_attr vol ''path'')) \<noteq> Some Dir"
proof -
  obtain vol m1 m2 where create: "nas_CreateVolume nas_driver sim_host remove_request nas_machine = Some (Ret (Inr vol), m1)"
    and delete: "nas_DeleteVolume nas_driver sim_host (one_pv (pv_of vol [] ''nas'')) (VolumeId vol) m1 = Some (Ret (Inr ()), m2)"
    using nas_example_round by blast
  have "nfs_server (attr (cv_Parameters remove_request) ''server'')" "plain (cv_Name remove_request)"
      "cv_Parameters remove_request ''archiveOnDelete'' = Some ''false''" "ParseBool ''false'' = Some False" "''nas'' \<noteq> []"
      "comps (path_join [MntRootPath, cv_Name remove_request]) \<notin> fst ` set (mtab nas_machine)"
      "comps (path_join [TempMntPath, cv_Name remove_request]) \<notin> fst ` set (mtab nas_machine)"
      "unlisted sim_host (path_join [MntRootPath, cv_Name remove_request @ ''-delete'']) nas_machine"
      "get_pv (one_pv (pv_of vol [] ''nas'')) (VolumeId vol) m1 = (Inr (pv_of vol [] ''nas''), m1)"
    by (simp_all add: remove_request_def nas_request_def nas_params_def attr_def nfs_server_def plain_def nas_machine_def
        example_machine_def one_pv_def unlisted_def sim_host_def ParseBool_def)
  with nas_delete_undoes_create [OF sim_host_laws _ _ _ _ _ nas_driver_Config _ _ _ create _ delete] create delete
  show ?thesis by blast
qed

section \<open>Archiving\<close>

lemma map_of_moved:
  assumes "\<forall>(l, n)\<in>set s. l \<in> tree_at d to \<longrightarrow> l = (d, to)" and "\<not> prefix from to" and "\<not> prefix to from"
  shows "map_of (map (\<lambda>(l, k). (move_entry (d, from) (d, to) l, k)) (filter (\<lambda>(l, k). l \<noteq> (d, to)) s)) (d, to @ rest) =
    map_of s (d, from @ rest)"
  using assms(1)
proof (induction s)
  case (Cons e s)
  obtain a b n where e: "e = ((a, b), n)" by (cases e) auto
  show ?case
  proof (cases "a = d \<and> prefix from b")
    case True
    then obtain r where "b = from @ r" by (auto simp: prefix_def)
    moreover have "(a, b) \<noteq> (d, to)" using True assms(2) by auto
    ultimately show ?thesis using Cons True by (simp add: e move_entry_def)
  next
    case False
    then have "(a, b) \<noteq> (d, from @ rest)" by auto
    moreover have "(a, b) \<noteq> (d, to @ rest) \<or> (a, b) = (d, to)"
      using Cons.prems by (auto simp: e tree_at_def)
    ultimately show ?thesis using Cons False by (auto simp: e move_entry_def)
  qed
qed simp

lemma map_of_unmoved:
  assumes "l \<notin> tree_at d from" and "l \<notin> tree_at d to"
  shows "map_of (map (\<lambda>(l, k). (move_entry (d, from) (d, to) l, k)) (filter (\<lambda>(l, k). l \<noteq> (d, to)) s)) l = map_of s l"
proof (induction s)
  case (Cons e s)
  obtain k n where e: "e = (k, n)" by (cases e)
  have "move_entry (d, from) (d, to) k = l \<longleftrightarrow> k = l"
    using assms by (cases k) (auto simp: move_entry_def tree_at_def)
  moreover have "l \<noteq> (d, to)" using assms(2) by (auto simp: tree_at_def)
  ultimately show ?case using Cons by (auto simp: e)
qed simp

text \<open>A missing \<open>archiveOnDelete\<close> archives.\<close>

definition archives :: "string option \<Rightarrow> bool" where
  "archives arch \<longleftrightarrow> (case arch of None \<Rightarrow> True | Some a \<Rightarrow> ParseBool a = Some True)"

lemma archive_moves:
  assumes "mtab m = (comps mp, srv, ps) # mt"
    and "comps (path_join [mp, x]) = comps mp @ [x]"
    and "comps (path_join [mp, ''archived-'' @ x @ stamp]) = comps mp @ [''archived-'' @ x @ stamp]"
    and "\<And>w. now_stamp env w = stamp" and "x \<noteq> ''archived-'' @ x @ stamp"
    and "\<forall>(l, n)\<in>set (store m). l \<in> tree_at srv (ps @ [''archived-'' @ x @ stamp]) \<longrightarrow> l = (srv, ps @ [''archived-'' @ x @ stamp])"
    and "archives arch"
    and "map_of (store m) (srv, ps @ [x]) = Some Dir"
    and "archive_or_remove env vid arch mp x m = Some (Ret (Inr ()), m')"
  shows "map_of (store m') (srv, ps @ (''archived-'' @ x @ stamp) # rest) = map_of (store m) (srv, ps @ x # rest)"
    and "l \<notin> tree_at srv (ps @ [x]) \<Longrightarrow> l \<notin> tree_at srv (ps @ [''archived-'' @ x @ stamp]) \<Longrightarrow>
      map_of (store m') l = map_of (store m) l"
proof -
  define p where "p = path_join [mp, x]"
  define to where "to = ''archived-'' @ x @ stamp"
  define q where "q = path_join [mp, to]"
  obtain st m1 where st: "Stat p m = Some (Ret st, m1)"
    unfolding Stat_def using sys_ends by blast
  have m1: "store m1 = store m" "mtab m1 = mtab m"
    using st reads_keep(2,8) [of p] unfolding keeps_def by blast+
  have loc: "loc u (comps p) = (srv, ps @ [x])" "loc u (comps q) = (srv, ps @ [to])" if "mtab u = mtab m" for u
    using that assms(1-3) by (simp_all add: loc_def p_def q_def to_def)
  have dir: "node_at u (comps p) = Some Dir" if "mtab u = mtab m" "store u = store m" for u
    using loc(1) [OF that(1)] that(2) assms(8) by (simp add: node_at_def)
  then have "stat_node (next_fault m) (comps p) = Inr Dir"
    using dir [of "next_fault m"] by (simp add: stat_node_def follow.simps [of 255])
  then have "st \<noteq> Inl NotExist"
    using st by (auto simp: Stat_def sys_def split: option.splits)
  with assms(7,9) st obtain u where "Rename p q m1 = Some (Ret (Inr u), m')"
    unfolding archive_or_remove_def Let_def p_def [symmetric] q_def to_def
    by (auto simp: bnd_def bnd_os_def archives_def assms(4) split: option.splits outcome.splits sum.splits)
  moreover have "comps p \<noteq> comps q" using assms(2,3,5) by (simp add: p_def q_def to_def)
  ultimately have moved: "store m' = map (\<lambda>(l, k). (move_entry (srv, ps @ [x]) (srv, ps @ [to]) l, k))
      (filter (\<lambda>(l, k). l \<noteq> (srv, ps @ [to])) (store m))"
    using dir m1 loc [of m1] loc [of "next_fault m1"] dir [of "next_fault m1"]
    by (auto simp: Rename_def sys_def Let_def split: option.splits if_splits)
  with map_of_moved [of "store m" srv "ps @ [to]" "ps @ [x]" rest] assms(5,6)
  show "map_of (store m') (srv, ps @ (''archived-'' @ x @ stamp) # rest) = map_of (store m) (srv, ps @ x # rest)"
    by (auto simp: to_def prefix_def)
  show "map_of (store m') l = map_of (store m) l"
    if "l \<notin> tree_at srv (ps @ [x])" "l \<notin> tree_at srv (ps @ [''archived-'' @ x @ stamp])"
    unfolding moved by (rule map_of_unmoved) (use that in \<open>simp_all add: to_def\<close>)
qed

text \<open>The directories on the way to the mount points of a deletion are not on the server.\<close>

definition off_server :: "string \<Rightarrow> string \<Rightarrow> 'x os \<Rightarrow> bool" where
  "off_server srv vid m \<longleftrightarrow>
     list_all (\<lambda>q. fst (loc m q) \<noteq> srv)
       (prefixes (comps (path_join [MntRootPath, vid @ ''-delete''])) @ prefixes (comps (path_join [TempMntPath, vid])))"

lemma detail_comps:
  assumes "\<forall>y\<in>set ps. plain y" and "getNfsPathDetail (abs_path ps) = (fsId, sub)"
  obtains zs where "comps (CHR ''/'' # fsId) @ zs = ps"
    and "\<And>xs. \<forall>y\<in>set xs. plain y \<Longrightarrow> comps (path_join [abs_path xs, sub]) = xs @ zs"
proof -
  consider "ps = []" | x where "ps = [x]" | x y ys where "ps = x # y # ys"
    by (metis neq_Nil_conv)
  then show thesis
  proof cases
    case 1
    then have "fsId = []" "sub = []" using assms(2) by (simp_all add: getNfsPathDetail_def split_abs_path)
    with 1 show thesis by (intro that [of "[]"]) (simp_all add: path_join_abs_Nil)
  next
    case (2 x)
    then have "fsId = x" "sub = []" using assms by (simp_all add: getNfsPathDetail_def split_abs_path)
    moreover have "comps (CHR ''/'' # x) = [x]" using comps_abs_path [of "[x]"] assms(1) 2 by (simp add: abs_path_def)
    ultimately show thesis using 2 by (intro that [of "[]"]) (simp_all add: path_join_abs_Nil)
  next
    case (3 x y ys)
    then have d: "fsId = x" "sub = CHR ''/'' # join ''/'' (y # ys)"
      using assms by (simp_all add: getNfsPathDetail_def split_abs_path)
    then have d: "fsId = x" "sub = abs_path (y # ys)" by (simp_all only: abs_path_def append_Cons append_Nil)
    have "comps (CHR ''/'' # x) = [x]" using comps_abs_path [of "[x]"] assms(1) 3 by (simp add: abs_path_def)
    moreover have "comps (path_join [abs_path xs, sub]) = xs @ y # ys" if "\<forall>z\<in>set xs. plain z" for xs
    proof -
      have "split_char CHR ''/'' sub = [] # y # ys" using split_abs_path [of "y # ys"] assms(1) 3 d by simp
      then have "path_join [abs_path xs, sub] = abs_path (clean_parts True ((xs @ [[]]) @ y # ys))"
        using path_join_abs [OF that, of sub] by simp
      also have "clean_parts True ((xs @ [[]]) @ y # ys) = xs @ y # ys"
        using assms(1) 3 that by (subst clean_parts_plain_append) simp_all
      finally have p: "path_join [abs_path xs, sub] = abs_path (xs @ y # ys)" .
      have "\<forall>z\<in>set (xs @ y # ys). plain z" using assms(1) 3 that by auto
      then show ?thesis unfolding p by (rule comps_abs_path)
    qed
    ultimately show thesis using 3 d by (intro that [of "y # ys"]) simp_all
  qed
qed

text \<open>So the mount makes no directory below a path that goes further than the export.\<close>

lemma doNfsMount_off:
  assumes host: "nfs_host h" and srv: "nfs_server srv" and free: "comps (path_join [TempMntPath, vid]) \<notin> fst ` set (mtab m)"
    and ps: "\<forall>y\<in>set ps. plain y" and d: "getNfsPathDetail (abs_path ps) = (fsId, sub)" and off: "off_server srv vid m"
    and mount: "doNfsMount h srv fsId sub v opts (path_join [MntRootPath, vid @ ''-delete'']) vid m = Some (Ret (Inr x), m')"
  shows "keys m' \<inter> tree_at srv (ps @ [to]) \<subseteq> keys m"
proof -
  define tmp where "tmp = path_join [TempMntPath, vid]"
  have far: "resolve (mtab m) q \<notin> tree_at srv (ps @ [to])"
    if "prefix q (comps (path_join [MntRootPath, vid @ ''-delete''])) \<or> prefix q (comps tmp)" for q
    using off that unfolding off_server_def list_all_iff tree_at_def loc_def tmp_def by auto
  obtain zs where zs: "comps (CHR ''/'' # fsId) @ zs = ps"
    and join: "\<And>xs. \<forall>y\<in>set xs. plain y \<Longrightarrow> comps (path_join [abs_path xs, sub]) = xs @ zs"
    using detail_comps [OF ps d] by blast
  have "tmp = abs_path (comps tmp)"
    unfolding tmp_def TempMntPath_def path_join_slash using comps_plain by simp
  then have deep: "comps (path_join [tmp, sub]) = comps tmp @ zs" using join [of "comps tmp"] comps_plain by metis
  have "l \<notin> tree_at srv (ps @ [to])" if l: "l \<in> dirs_to ((comps tmp, (srv, comps (CHR ''/'' # fsId))) # mtab m) (path_join [tmp, sub])" for l
  proof -
    from l obtain q where q: "prefix q (comps tmp @ zs)" and l: "l = resolve ((comps tmp, (srv, comps (CHR ''/'' # fsId))) # mtab m) q"
      unfolding dirs_to_def deep by blast
    show ?thesis
    proof (cases "prefix (comps tmp) q")
      case True
      then obtain r where r: "q = comps tmp @ r" by (auto simp: prefix_def)
      with q have "prefix r zs" by simp
      then have "length (comps (CHR ''/'' # fsId) @ r) \<le> length ps" using zs prefix_length_le [of r zs] by auto
      then show ?thesis using l r by (auto simp: tree_at_def dest: prefix_length_le)
    next
      case False
      with q have "prefix q (comps tmp)" by (auto simp: prefix_append)
      with False l far show ?thesis by simp
    qed
  qed
  moreover have "l \<notin> tree_at srv (ps @ [to])"
    if "l \<in> dirs_to (mtab m) (path_join [MntRootPath, vid @ ''-delete'']) \<union> dirs_to (mtab m) tmp" for l
    using that far by (auto simp: dirs_to_def)
  ultimately show ?thesis
    using doNfsMount_effect(2) [OF host srv free mount] unfolding keys_in_def tmp_def by blast
qed

text \<open>C23: NAS DeleteVolume of a volume that is archived: its \<open>archiveOnDelete\<close> is missing or parses as
  true, its path is clean and below the root of the server, the plugin does not run under the VCI role, no
  line of the table of mounts matches the mount point of the deletion, the temporary mount point is
  free, the node's directories of both are not themselves on that server, and nothing is there yet at
  the name \<open>archived-\<close>, volume name and time stamp (what the clock reads) next to the volume's directory. If the directory is
  there and the deletion reports success, then everything in it is found again, at the same place,
  below that name, and every file outside of it is there unchanged.\<close>

theorem nas_archive_keeps:
  assumes "nfs_host h" and "nfs_server srv" and "nas_Config d = Some c" and "AssumeRoleName c \<noteq> VCIInstanceRoleForVKE"
    and "get_pv env vid m = (Inr pv, m)" and "sub_path_pv pv srv (abs_path (ps @ [x])) arch" and "archives arch"
    and "\<forall>y\<in>set ps. plain y" and "plain x" and "CHR ''/'' \<notin> set vid"
    and "unlisted h (path_join [MntRootPath, vid @ ''-delete'']) m"
    and "comps (path_join [TempMntPath, vid]) \<notin> fst ` set (mtab m)" and "off_server srv vid m"
    and "\<And>w. now_stamp env w = stamp" and "CHR ''/'' \<notin> set stamp"
    and "keys m \<inter> tree_at srv (ps @ [''archived-'' @ x @ stamp]) = {}"
    and "map_of (store m) (srv, ps @ [x]) = Some Dir"
    and "nas_DeleteVolume d h env vid m = Some (Ret (Inr ()), m')"
  shows "(\<forall>rest n. map_of (store m) (srv, ps @ x # rest) = Some n \<longrightarrow>
        map_of (store m') (srv, ps @ (''archived-'' @ x @ stamp) # rest) = Some n) \<and>
     (map_of (store m) |` (- tree_at srv (ps @ [x])) \<subseteq>\<^sub>m map_of (store m'))"
proof -
  define mp where "mp = path_join [MntRootPath, vid @ ''-delete'']"
  define to where "to = ''archived-'' @ x @ stamp"
  obtain fsId sub where d: "getNfsPathDetail (abs_path ps) = (fsId, sub)" by fastforce
  have export: "comps (path_join [CHR ''/'' # fsId, sub]) = ps" using detail_join [OF assms(8) d] assms(8) by simp
  have "plain to" using assms(9,15) by (auto simp: to_def plain_def)
  then have to: "comps (path_join [mp, to]) = comps mp @ [to]" and x: "comps (path_join [mp, x]) = comps mp @ [x]"
    unfolding mp_def delete_mount_point(2) [OF assms(10) assms(9)] delete_mount_point(2) [OF assms(10) \<open>plain to\<close>]
      delete_mount_point(1) [OF assms(10)]
    using plain_delete [OF assms(10)] assms(9) comps_abs_path [of "[''csi-persistentvolumes'', vid @ ''-delete'', x]"]
      comps_abs_path [of "[''csi-persistentvolumes'', vid @ ''-delete'', to]"] by simp_all
  have "delete_sub_path h env vid srv (abs_path (ps @ [x])) (join '','' (pv_MountOptions pv)) arch m = Some (Ret (Inr ()), m')"
    using DeleteVolume_sub_path [OF assms(3-6), of h] assms(18) by simp
  note split = this [unfolded delete_sub_path_split [OF assms(8,9) d] mp_def [symmetric]]
  then obtain u m1 m2 where mount: "doNfsMount h srv fsId sub ''3'' (join '','' (pv_MountOptions pv)) mp vid m = Some (Ret (Inr u), m1)"
    and work: "archive_or_remove env vid arch mp x m1 = Some (Ret (Inr ()), m2)" and m': "m' = snd (mnt_Unmount h mp m2)"
    by (auto simp: bndE_Inr_iff with_defer_def split: option.splits)
  have top: "mtab m1 = (comps mp, srv, ps) # mtab m"
    using doNfsMount_mtab [OF assms(1,2,12) mount] assms(11) unfolding export mp_def by blast
  have grow: "map_of (store m1) l = Some n" if "map_of (store m) l = Some n" for l n
    using adds_dirs_map_of [OF runsD [OF doNfsMount_runs [OF assms(1,2)] mount], of l] that by auto
  have "keys m1 \<inter> tree_at srv (ps @ [to]) \<subseteq> keys m"
    using doNfsMount_off [OF assms(1,2,12,8) d assms(13) mount [unfolded mp_def]] .
  then have "keys m1 \<inter> tree_at srv (ps @ [to]) = {}" using assms(16) unfolding to_def by blast
  then have free: "\<forall>(l, n)\<in>set (store m1). l \<in> tree_at srv (ps @ [to]) \<longrightarrow> l = (srv, ps @ [to])"
    by (force simp: keys_def)
  have "x \<noteq> to" using arg_cong [of x to length] by (auto simp: to_def)
  note moved = archive_moves [OF top x to [unfolded to_def] assms(14) this [unfolded to_def] free [unfolded to_def] assms(7)
      grow [OF assms(17)] work]
  have store: "store m' = store m2" by (simp add: m' Unmount_effect(1) [OF assms(1)])
  have "map_of (store m') l = Some n" if "map_of (store m) l = Some n" "l \<notin> tree_at srv (ps @ [x])" for l n
  proof -
    have "l \<in> keys m" using that(1) by (force simp: keys_def dest: map_of_SomeD)
    then have "l \<notin> tree_at srv (ps @ [''archived-'' @ x @ stamp])" using assms(16) by blast
    then show ?thesis using moved(2) [OF that(2)] grow [OF that(1)] store by simp
  qed
  then have "map_of (store m) |` (- tree_at srv (ps @ [x])) \<subseteq>\<^sub>m map_of (store m')"
    by (auto simp: map_le_def restrict_map_def dom_def split: if_splits)
  moreover have "\<forall>rest n. map_of (store m) (srv, ps @ x # rest) = Some n \<longrightarrow>
      map_of (store m') (srv, ps @ (''archived-'' @ x @ stamp) # rest) = Some n"
    using moved(1) grow store by simp
  ultimately show ?thesis by blast
qed

definition archive_pv :: persistent_volume where
  "archive_pv = \<lparr>pv_MountOptions = [], pv_Attributes = Some [''server'' \<mapsto> ''nfs.local'', ''path'' \<mapsto> ''/enas-1/pvc-1''],
     pv_StorageClassName = ''nas''\<rparr>"

theorem nas_archive_keeps_witness:
  "\<exists>m'. nas_DeleteVolume nas_driver sim_host (one_pv archive_pv) ''pvc-1'' nas_full_machine = Some (Ret (Inr ()), m') \<and>
    map_of (store m') (''nfs.local'', [''enas-1'', ''archived-pvc-1.2024-01-02-03:04:05'', ''f'']) = Some (File ''y'')"
proof -
  have "map_option fst (nas_DeleteVolume nas_driver sim_host (one_pv archive_pv) ''pvc-1'' nas_full_machine) = Some (Ret (Inr ()))"
    by code_simp
  then have "\<exists>m'. nas_DeleteVolume nas_driver sim_host (one_pv archive_pv) ''pvc-1'' nas_full_machine = Some (Ret (Inr ()), m')"
    by (rule outcome_known)
  then obtain m' where run: "nas_DeleteVolume nas_driver sim_host (one_pv archive_pv) ''pvc-1'' nas_full_machine =
      Some (Ret (Inr ()), m')" ..
  have pv: "get_pv (one_pv archive_pv) ''pvc-1'' nas_full_machine = (Inr archive_pv, nas_full_machine)"
      "sub_path_pv archive_pv ''nfs.local'' (abs_path ([''enas-1''] @ [''pvc-1''])) None" "archives None"
    by (simp_all add: one_pv_def archive_pv_def sub_path_pv_def abs_path_def archives_def)
  have names: "nfs_server ''nfs.local''" "\<forall>y\<in>set [''enas-1'']. plain y" "plain ''pvc-1''" "CHR ''/'' \<notin> set ''pvc-1''"
    by (simp_all add: nfs_server_def plain_def)
  have tab: "mtab nas_full_machine = []" by (simp add: nas_full_machine_def example_machine_def)
  have free: "unlisted sim_host (path_join [MntRootPath, ''pvc-1'' @ ''-delete'']) nas_full_machine"
      "comps (path_join [TempMntPath, ''pvc-1'']) \<notin> fst ` set (mtab nas_full_machine)" "off_server ''nfs.local'' ''pvc-1'' nas_full_machine"
    by (simp_all add: unlisted_def sim_host_def tab off_server_def loc_def list_all_iff)
  have stamp: "\<And>w. now_stamp (one_pv archive_pv) w = ''.2024-01-02-03:04:05''" "CHR ''/'' \<notin> set ''.2024-01-02-03:04:05''"
    by (simp_all add: one_pv_def)
  have new: "keys nas_full_machine \<inter> tree_at ''nfs.local'' ([''enas-1''] @ [''archived-'' @ ''pvc-1'' @ ''.2024-01-02-03:04:05'']) = {}"
    by (auto simp: keys_def nas_full_machine_def example_machine_def tree_at_def)
  have dir: "map_of (store nas_full_machine) (''nfs.local'', [''enas-1''] @ [''pvc-1'']) = Some Dir"
    and content: "map_of (store nas_full_machine) (''nfs.local'', [''enas-1''] @ ''pvc-1'' # [''f'']) = Some (File ''y'')"
    by (simp_all add: nas_full_machine_def example_machine_def)
  from nas_archive_keeps [OF sim_host_laws names(1) nas_driver_Config pv names(2-4) free stamp new dir run] content run
  show ?thesis by auto
qed

section \<open>A path of two slashes\<close>

lemma two_slashes_split:
  "delete_sub_path h env vid srv ''//'' opts arch =
     bndE (doNfsMount h srv [] [] ''3'' opts (path_join [MntRootPath, vid @ ''-delete'']) vid)
       (nas_mount_error (''DeleteVolume: '' @ vid) srv (''nfsPath: '' @ ''/'') ''3'' opts (path_join [MntRootPath, vid @ ''-delete'']))
       (\<lambda>_. with_defer (mnt_Unmount h (path_join [MntRootPath, vid @ ''-delete'']))
          (archive_or_remove env vid arch (path_join [MntRootPath, vid @ ''-delete'']) ''/''))"
proof -
  have "TrimSuffix ''//'' ''/'' = ''/''" "Base ''/'' = ''/''" "LastIndexChar ''/'' CHR ''/'' = 0"
    "getNfsPathDetail ''/'' = ([], [])" by code_simp+
  then show ?thesis by (simp add: delete_sub_path_def Let_def)
qed

text \<open>Removing what is below the mount of a whole server: the mount point itself is busy.\<close>

lemma RemoveAll_server:
  assumes "mtab m = (comps p, srv, []) # mt" and "\<forall>q\<in>fst ` set mt. \<not> prefix (comps p) q" and "p \<noteq> []" and "faults m 0 = None"
  shows "\<exists>m'. RemoveAll p m = Some (Ret (Inl (OtherErr ''device or resource busy'')), m') \<and>
    keys m' \<inter> {l. fst l = srv} \<subseteq> {(srv, [])}"
proof -
  define m' where "m' = (next_fault m)\<lparr>store := filter (\<lambda>(l, n). \<not> below (mtab m) (comps p) l \<or> pinned (mtab m) (comps p) l) (store m)\<rparr>"
  have "RemoveAll p m = Some (Ret (Inl (OtherErr ''device or resource busy'')), m')"
    using assms(1,3,4) by (simp add: RemoveAll_def m'_def)
  moreover have "l = (srv, [])" if l: "l \<in> keys m'" "fst l = srv" for l
  proof -
    from l(1) have "\<not> below (mtab m) (comps p @ []) l \<or> pinned (mtab m) (comps p) l" by (auto simp: keys_def m'_def)
    moreover have "l \<in> tree_at srv ([] @ [])" using l(2) by (simp add: tree_at_def)
    ultimately have "pinned (mtab m) (comps p) l" using tree_below [OF assms(1)] by blast
    then obtain q mp' where q: "q \<in> set (paths_of (mtab m) l)" "prefix (comps p) q" "prefix q mp'" "mp' \<in> fst ` set (mtab m)"
      by (force simp: pinned_def list_ex_iff)
    then have "mp' = comps p" using assms(1,2) prefix_order.trans by auto
    then have "q = comps p" using q(2,3) by (simp add: prefix_order.antisym)
    then show ?thesis using q(1) assms(1) by (auto simp: paths_of_def)
  qed
  ultimately show ?thesis by blast
qed

text \<open>C24: The guard of DeleteVolume against a path that is \<open>/\<close> or empty lets \<open>//\<close> through: with that
  path in the persistent volume and \<open>archiveOnDelete\<close> false, the code mounts the root of the server and
  removes everything in it. On any node and any machine: when the mount of the deletion succeeds, is not
  skipped for a listed mount point and has no other mount below it, and the two calls after it meet no
  fault, every entry of the server is gone, and the answer is an error, that the mount point is busy.\<close>

theorem nas_two_slashes_remove_everything:
  assumes "nfs_host h" and "nfs_server srv" and "nas_Config d = Some c" and "AssumeRoleName c \<noteq> VCIInstanceRoleForVKE"
    and "get_pv env vid m = (Inr pv, m)" and "sub_path_pv pv srv ''//'' (Some a)" and "ParseBool a = Some False"
    and "CHR ''/'' \<notin> set vid" and "unlisted h (path_join [MntRootPath, vid @ ''-delete'']) m"
    and "comps (path_join [TempMntPath, vid]) \<notin> fst ` set (mtab m)"
    and "\<forall>q\<in>fst ` set (mtab m). \<not> prefix (comps (path_join [MntRootPath, vid @ ''-delete''])) q"
    and "doNfsMount h srv [] [] ''3'' (join '','' (pv_MountOptions pv)) (path_join [MntRootPath, vid @ ''-delete'']) vid m =
      Some (Ret (Inr ()), m1)"
    and "faults m1 0 = None" and "faults m1 1 = None"
  shows "\<exists>t m'. nas_DeleteVolume d h env vid m = Some (Ret (Inl (StatusError Internal (t @ ''device or resource busy''))), m') \<and>
    keys m' \<inter> {l. fst l = srv} \<subseteq> {(srv, [])}"
proof -
  define mp where "mp = path_join [MntRootPath, vid @ ''-delete'']"
  note mount = assms(12) [folded mp_def]
  have mp: "mp = abs_path [''csi-persistentvolumes'', vid @ ''-delete'']"
    using plain_delete [OF assms(8)] by (simp add: mp_def volume_mount_point)
  have ps: "\<forall>y\<in>set [''csi-persistentvolumes'', vid @ ''-delete'']. plain y" using plain_delete [OF assms(8)] by simp
  have same: "path_join [mp, ''/''] = mp" unfolding mp path_join_abs [OF ps] using ps by (simp add: clean_parts_def foldl_clean_plain)
  have "comps (path_join [CHR ''/'' # [], []]) = []" by (simp add: path_join_slash)
  then have top: "mtab m1 = (comps mp, srv, []) # mtab m"
    using doNfsMount_mtab [OF assms(1,2,10) mount] assms(9) unfolding mp_def by simp
  have "stat_node (next_fault m1) (comps mp) = Inr Dir"
    by (simp add: stat_node_def follow.simps [of 255] node_at_def loc_def next_fault_def top)
  then have st: "Stat mp m1 = Some (Ret (Inr Dir), next_fault m1)" using assms(13) by (simp add: Stat_def sys_def)
  have "mtab (next_fault m1) = (comps mp, srv, []) # mtab m" "faults (next_fault m1) 0 = None" "mp \<noteq> []"
    using top assms(14) by (simp_all add: next_fault_def mp abs_path_def)
  from RemoveAll_server [OF this(1) assms(11) [folded mp_def] this(3,2)]
  obtain m2 where rm: "RemoveAll mp (next_fault m1) = Some (Ret (Inl (OtherErr ''device or resource busy'')), m2)"
    and gone: "keys m2 \<inter> {l. fst l = srv} \<subseteq> {(srv, [])}" by blast
  have "archive_or_remove env vid (Some a) mp ''/'' m1 = Some (Ret (Inl (StatusError Internal
      (''volume '' @ vid @ '' remove path '' @ mp @ '' error: '' @ ''device or resource busy''))), m2)"
    unfolding archive_or_remove_def Let_def same
    using st rm assms(7) by (simp add: bnd_def bnd_os_def os_err_def)
  moreover have "nas_DeleteVolume d h env vid m =
      delete_sub_path h env vid srv ''//'' (join '','' (pv_MountOptions pv)) (Some a) m"
    by (rule DeleteVolume_sub_path [OF assms(3-6)])
  ultimately have "nas_DeleteVolume d h env vid m = Some (Ret (Inl (StatusError Internal
      ((''volume '' @ vid @ '' remove path '' @ mp @ '' error: '') @ ''device or resource busy''))), snd (mnt_Unmount h mp m2))"
    using mount unfolding two_slashes_split mp_def [symmetric] by (simp add: bndE_Inr with_defer_def)
  moreover have "keys (snd (mnt_Unmount h mp m2)) = keys m2" by (rule keys_same) (rule Unmount_effect(1) [OF assms(1)])
  ultimately show ?thesis using gone by metis
qed

lemma ends_so: "map_option (\<lambda>(r, u). (r, P u)) x = Some (r, True) \<Longrightarrow> \<exists>u. x = Some (r, u) \<and> P u"
  by auto

theorem nas_two_slashes_remove_everything_witness:
  "\<exists>t m'. nas_DeleteVolume nas_driver sim_host (one_pv (nas_pv ''//'')) ''pvc-1'' nas_full_machine =
      Some (Ret (Inl (StatusError Internal (t @ ''device or resource busy''))), m') \<and>
     keys nas_full_machine \<inter> {l. fst l = ''nfs.local''} \<noteq> {} \<and> keys m' \<inter> {l. fst l = ''nfs.local''} \<subseteq> {(''nfs.local'', [])}"
proof -
  have "map_option (\<lambda>(r, u). (r, faults u 0 = None \<and> faults u 1 = None)) (doNfsMount sim_host ''nfs.local'' [] [] ''3''
      (join '','' (pv_MountOptions (nas_pv ''//''))) (path_join [MntRootPath, ''pvc-1'' @ ''-delete'']) ''pvc-1'' nas_full_machine) =
      Some (Ret (Inr ()), True)"
    by code_simp
  from ends_so [OF this] obtain m1 where mount: "doNfsMount sim_host ''nfs.local'' [] [] ''3'' (join '','' (pv_MountOptions (nas_pv ''//'')))
      (path_join [MntRootPath, ''pvc-1'' @ ''-delete'']) ''pvc-1'' nas_full_machine = Some (Ret (Inr ()), m1)"
    and faults: "faults m1 0 = None" "faults m1 1 = None"
    by blast
  have pv: "get_pv (one_pv (nas_pv ''//'')) ''pvc-1'' nas_full_machine = (Inr (nas_pv ''//''), nas_full_machine)"
      "sub_path_pv (nas_pv ''//'') ''nfs.local'' ''//'' (Some ''false'')" "ParseBool ''false'' = Some False"
    by (simp_all add: one_pv_def nas_pv_def sub_path_pv_def ParseBool_def)
  have names: "nfs_server ''nfs.local''" "CHR ''/'' \<notin> set ''pvc-1''" by (simp_all add: nfs_server_def)
  have tab: "mtab nas_full_machine = []" by (simp add: nas_full_machine_def example_machine_def)
  have free: "unlisted sim_host (path_join [MntRootPath, ''pvc-1'' @ ''-delete'']) nas_full_machine"
      "comps (path_join [TempMntPath, ''pvc-1'']) \<notin> fst ` set (mtab nas_full_machine)"
      "\<forall>q\<in>fst ` set (mtab nas_full_machine). \<not> prefix (comps (path_join [MntRootPath, ''pvc-1'' @ ''-delete''])) q"
    by (simp_all add: unlisted_def sim_host_def tab)
  have "keys nas_full_machine \<inter> {l. fst l = ''nfs.local''} \<noteq> {}"
    by (auto simp: keys_def nas_full_machine_def example_machine_def)
  with nas_two_slashes_remove_everything [OF sim_host_laws names(1) nas_driver_Config pv names(2) free mount faults]
  show ?thesis by metis
qed

end
