(* ===== verification/Nas_Publish.thy ===== *)
theory Nas_Publish
  imports Nas_Delete
begin

text \<open>NAS NodePublishVolume: what it puts on the table of mounts.\<close>

lemma last_abs_path: "\<forall>y\<in>set ps. plain y \<Longrightarrow> ps \<noteq> [] \<Longrightarrow> \<not> HasSuffix (abs_path ps) ''/''"
proof -
  assume ps: "\<forall>y\<in>set ps. plain y" "ps \<noteq> []"
  have "abs_path ps \<noteq> []" by (simp add: abs_path_def)
  with TrimSuffix_abs_path [OF ps] show ?thesis
    by (metis HasSuffix_single TrimSuffix_single append_butlast_last_id append_self_conv not_Cons_self2)
qed

text \<open>What the test of the target leaves: a machine to mount on, or a target in use.\<close>

lemma publish_target:
  assumes "nfs_host h" and "mnt_IsLikelyNotMountPoint h t m = ((b, err), m1)"
    and "(case err of None \<Rightarrow> ret (Inr b)
       | Some NotExist \<Rightarrow> bnd_os (MkdirAll t) f (\<lambda>_. ret (Inr True))
       | Some (OtherErr e) \<Rightarrow> fails Internal (g e)) m1 = Some (Ret (Inr c), m2)"
  shows "adds_dirs m m2 \<and> mtab m2 = mtab m \<and> (c \<or> comps t \<in> fst ` set (mtab m))"
proof -
  have m1: "store m1 = store m" "mtab m1 = mtab m" and used: "\<not> b \<Longrightarrow> comps t \<in> fst ` set (mtab m)"
    using test_effect [OF assms(1), of t m] assms(2) by auto
  show ?thesis
  proof (cases err)
    case None
    then show ?thesis using assms(3) m1 used by (auto intro: adds_dirs_same)
  next
    case (Some e)
    then obtain u where "MkdirAll t m1 = Some (Ret (Inr u), m2)" "c"
      using assms(3) by (cases e) (auto simp: go_ret)
    with runsD [OF MkdirAll_runs(1)] runsD [OF MkdirAll_runs(2)] m1 show ?thesis
      by (metis adds_dirs_same adds_dirs_trans)
  qed
qed

lemma publish_export:
  assumes "\<forall>y\<in>set ps. plain y" and "(fsId, sub) = (if b then getNfsPathDetail (abs_path ps) else ([], abs_path ps))"
  shows "comps (path_join [CHR ''/'' # fsId, sub]) = ps"
proof (cases b)
  case True
  with detail_join [OF assms(1), of fsId sub] assms show ?thesis by simp
next
  case False
  with assms have "path_join [CHR ''/'' # fsId, sub] = abs_path ps"
    by (simp add: path_join_slash)
  with assms(1) show ?thesis by simp
qed

definition check_target :: "string \<Rightarrow> bool \<Rightarrow> os_error option \<Rightarrow> ('x os, error + bool) go" where
  "check_target t b err =
     (case err of
        None \<Rightarrow> ret (Inr b)
      | Some NotExist \<Rightarrow>
          bnd_os (MkdirAll t) (\<lambda>e. StatusError Internal (''mkdir targetPath err '' @ error_text e)) (\<lambda>_. ret (Inr True))
      | Some (OtherErr e) \<Rightarrow> fails Internal (''check targetPath mounted err: '' @ e))"

lemma NodePublishVolume_shape:
  assumes "np_VolumeId req \<noteq> []" and "np_TargetPath req \<noteq> []" and "np_VolumeCapability req = Some cap"
    and "attr (np_VolumeContext req) ''path'' = p" and "p \<noteq> []" and "\<not> HasSuffix p ''/''"
    and d: "(fsId, sub) = (if attr (np_VolumeContext req) ''fsId'' \<noteq> [] then getNfsPathDetail p else ([], p))"
  obtains v opts where "nas_NodePublishVolume h req =
     bnd (call (mnt_IsLikelyNotMountPoint h (np_TargetPath req))) (\<lambda>(b, err).
     bndE (check_target (np_TargetPath req) b err) (\<lambda>e. e) (\<lambda>c.
     if \<not> c then ret (Inr ())
     else bndE (doNfsMount h (attr (np_VolumeContext req) ''server'') fsId sub v opts (np_TargetPath req) (np_VolumeId req))
       (nas_mount_error (''NodePublishVolume: '' @ np_VolumeId req) (attr (np_VolumeContext req) ''server'')
         (''nfsPath: '' @ p) v opts (np_TargetPath req)) (\<lambda>_. ret (Inr ()))))"
proof -
  obtain v opts where o: "parseMountOptions (get_mount_flags (get_mount cap) @ (if np_Readonly req then [''ro''] else [])) = (v, opts)"
    by fastforce
  show thesis
    by (rule that [of "if v = [] then ''3'' else v" opts])
      (simp only: nas_NodePublishVolume_def Let_def assms(1-6) o d [symmetric] check_target_def prod.case if_False simp_thms option.case)
qed

text \<open>C22: NAS NodePublishVolume of a volume whose path is clean and not the root, with the
  temporary mount point of the volume free: when it reports success, either the target was in use as a
  mount point or listed in the table of mounts before, and the table is as it was, or the volume's
  path on the volume's server is now mounted on the target and nothing else has changed in
  the table. Files are never lost; directories are added at most.\<close>

theorem nas_publish_mounts:
  assumes "nfs_host h" and "nfs_server (attr (np_VolumeContext req) ''server'')"
    and "attr (np_VolumeContext req) ''path'' = abs_path ps" and "\<forall>y\<in>set ps. plain y" and "ps \<noteq> []"
    and "comps (path_join [TempMntPath, np_VolumeId req]) \<notin> fst ` set (mtab m)"
    and "nas_NodePublishVolume h req m = Some (Ret (Inr ()), m')"
  shows "adds_dirs m m' \<and>
    (mtab m' = (comps (np_TargetPath req), (attr (np_VolumeContext req) ''server'', ps)) # mtab m \<or>
     mtab m' = mtab m \<and> (comps (np_TargetPath req) \<in> fst ` set (mtab m) \<or> \<not> unlisted h (np_TargetPath req) m))"
proof -
  define t where "t = np_TargetPath req"
  define srv where "srv = attr (np_VolumeContext req) ''server''"
  obtain b err m1 where test: "mnt_IsLikelyNotMountPoint h t m = ((b, err), m1)" by (cases "mnt_IsLikelyNotMountPoint h t m") auto
  obtain cap where cap: "np_VolumeCapability req = Some cap" and ids: "np_VolumeId req \<noteq> []" "np_TargetPath req \<noteq> []"
    using assms(7) by (auto simp: nas_NodePublishVolume_def Let_def split: if_splits option.splits)
  obtain fsId sub where d: "(fsId, sub) = (if attr (np_VolumeContext req) ''fsId'' \<noteq> [] then getNfsPathDetail (abs_path ps) else ([], abs_path ps))"
    by (metis surj_pair)
  have "abs_path ps \<noteq> []" by (simp add: abs_path_def)
  from NodePublishVolume_shape [OF ids cap assms(3) this last_abs_path [OF assms(4,5)] d, of h]
  obtain v opts where shape: "nas_NodePublishVolume h req =
     bnd (call (mnt_IsLikelyNotMountPoint h t)) (\<lambda>(b, err).
     bndE (check_target t b err) (\<lambda>e. e) (\<lambda>c.
     if \<not> c then ret (Inr ())
     else bndE (doNfsMount h srv fsId sub v opts t (np_VolumeId req))
       (nas_mount_error (''NodePublishVolume: '' @ np_VolumeId req) srv
         (''nfsPath: '' @ abs_path ps) v opts t) (\<lambda>_. ret (Inr ()))))"
    unfolding t_def srv_def by metis
  obtain c m2 where target: "check_target t b err m1 = Some (Ret (Inr c), m2)"
    and rest: "(if \<not> c then ret (Inr ()) else bndE (doNfsMount h srv fsId sub v opts t (np_VolumeId req))
       (nas_mount_error (''NodePublishVolume: '' @ np_VolumeId req) srv
         (''nfsPath: '' @ abs_path ps) v opts t) (\<lambda>_. ret (Inr ()))) m2 = Some (Ret (Inr ()), m')"
    using assms(7) test unfolding shape by (auto simp: bnd_Ret_iff bndE_Inr_iff)
  note m2 = publish_target [OF assms(1) test target [unfolded check_target_def]]
  show ?thesis
  proof (cases c)
    case False
    with rest m2 show ?thesis by (simp add: t_def)
  next
    case True
    with rest obtain x where mount: "doNfsMount h srv fsId sub v opts t (np_VolumeId req) m2 = Some (Ret (Inr x), m')"
      by (auto simp: bndE_Inr_iff)
    have srv: "nfs_server srv" using assms(2) by (simp add: srv_def)
    have "adds_dirs m m'"
      using m2 runsD [OF doNfsMount_runs [OF assms(1) srv] mount] adds_dirs_trans by blast
    moreover have "mtab m' = mtab m \<and> \<not> unlisted h t m \<or> mtab m' = (comps t, (srv, ps)) # mtab m"
      using doNfsMount_mtab [OF assms(1) srv _ mount] assms(6) m2 publish_export [OF assms(4) d]
        unlisted_mtab [OF assms(1), of m2 m] by simp
    ultimately show ?thesis by (auto simp: t_def srv_def)
  qed
qed

definition nas_publish_request :: node_publish_request where
  "nas_publish_request = \<lparr>np_VolumeId = ''pvc-1'', np_StagingTargetPath = [], np_TargetPath = ''/target'',
     np_VolumeCapability = Some \<lparr>AccessType = Some (MountAccess \<lparr>FsType = [], MountFlags = []\<rparr>), AccessMode = Some MULTI_NODE_MULTI_WRITER\<rparr>,
     np_Readonly = False, np_VolumeContext = [''server'' \<mapsto> ''nfs.local'', ''path'' \<mapsto> ''/enas-1/pvc-1'', ''fsId'' \<mapsto> ''enas-1''],
     np_Secrets = Map.empty\<rparr>"

theorem nas_publish_mounts_witness:
  "\<exists>m'. nas_NodePublishVolume sim_host nas_publish_request nas_full_machine = Some (Ret (Inr ()), m') \<and>
     mtab m' = [([''target''], (''nfs.local'', [''enas-1'', ''pvc-1'']))]"
proof -
  have "map_option fst (nas_NodePublishVolume sim_host nas_publish_request nas_full_machine) = Some (Ret (Inr ()))"
    by code_simp
  then have "\<exists>m'. nas_NodePublishVolume sim_host nas_publish_request nas_full_machine = Some (Ret (Inr ()), m')"
    by (rule outcome_known)
  then obtain m' where run: "nas_NodePublishVolume sim_host nas_publish_request nas_full_machine = Some (Ret (Inr ()), m')" ..
  have req: "nfs_server (attr (np_VolumeContext nas_publish_request) ''server'')"
      "attr (np_VolumeContext nas_publish_request) ''path'' = abs_path [''enas-1'', ''pvc-1'']"
      "attr (np_VolumeContext nas_publish_request) ''server'' = ''nfs.local''"
      "np_TargetPath nas_publish_request = ''/target''"
    by (simp_all add: nas_publish_request_def nfs_server_def attr_def abs_path_def)
  have plain: "\<forall>y\<in>set [''enas-1'', ''pvc-1'']. plain y" "[''enas-1'', ''pvc-1''] \<noteq> []" by (simp_all add: plain_def)
  have free: "comps (path_join [TempMntPath, np_VolumeId nas_publish_request]) \<notin> fst ` set (mtab nas_full_machine)"
      "unlisted sim_host ''/target'' nas_full_machine" "mtab nas_full_machine = []"
    by (simp_all add: nas_full_machine_def example_machine_def unlisted_def sim_host_def)
  have "comps ''/target'' = [''target'']" by code_simp
  with nas_publish_mounts [OF sim_host_laws req(1,2) plain free(1) run] free(2,3) run req(3,4) show ?thesis by auto
qed

end
