(* ===== verification/Launcher.thy ===== *)
theory Launcher
  imports Tos
begin

text \<open>
  \<open>build/tosplugin/launcher.go\<close>: the launcher that runs the plugin's \<open>s3fs\<close> commands on the
  node. A request is its body, which may fail to be read; a response is its status and body
  (the handler sets the content type after it has written the header, which has no effect).
  The shell is the \<open>exec_output\<close> of the host.
\<close>

section \<open>The handler\<close>

record http_response =
  StatusCode :: nat
  RespBody :: string

definition generateHttpResponse :: "string \<Rightarrow> nat \<Rightarrow> (string \<times> string) list \<Rightarrow> http_response" where
  "generateHttpResponse result statusCode extra =
     \<lparr>StatusCode = statusCode, RespBody = Marshal_map ((''result'', result) # extra)\<rparr>"

definition execCmd :: "'w host \<Rightarrow> string \<Rightarrow> ('w, error + string) go" where
  "execCmd h cmd =
     bnd (call (exec_output h [''sh'', ''-c'', cmd])) (\<lambda>(err, output).
     ret (case err of
            Some e \<Rightarrow> Inl (PlainError (''command '' @ cmd @ '' failed: output '' @ output @ '', error: '' @ error_text e))
          | None \<Rightarrow> Inr output))"

definition launcherHandler :: "'w host \<Rightarrow> error + string \<Rightarrow> ('w, http_response) go" where
  "launcherHandler h request =
     (case request of
        Inl e \<Rightarrow> ret (generateHttpResponse ''failure'' 500 [(''errmsg'', ''read request body failed'')])
      | Inr body \<Rightarrow>
        (case Unmarshal_map body of
           None \<Rightarrow> ret (generateHttpResponse ''failure'' 500 [(''errmsg'', ''unmarshal request body failed'')])
         | Some bodyMap \<Rightarrow>
           (case bodyMap ''command'' of
              None \<Rightarrow> ret (generateHttpResponse ''failure'' 400
                [(''errmsg'', ''request body is empty. we need field '' @ [CHR 96] @ ''command'' @ [CHR 96])])
            | Some cmd \<Rightarrow>
                bnd (execCmd h cmd) (\<lambda>r.
                ret (case r of
                       Inl e \<Rightarrow> generateHttpResponse ''failure'' 500
                         [(''errmsg'', ''exec command '' @ cmd @ '' failed. output: , error: '' @ error_text e)]
                     | Inr output \<Rightarrow> generateHttpResponse ''success'' 200 [(''output'', output)])))))"

section \<open>The socket\<close>

definition isFileExisted :: "string \<Rightarrow> ('x os, bool) go" where
  "isFileExisted filename =
     bnd (Stat filename) (\<lambda>r. ret (case r of Inr n \<Rightarrow> True | Inl NotExist \<Rightarrow> False | Inl (OtherErr e) \<Rightarrow> True))"

definition SocketPath :: string where
  "SocketPath = ''/tmp/tosfs.sock''"

text \<open>The errors of the calls that make or remove are dropped.\<close>

definition prepareSocketDir :: "('x os, unit) go" where
  "prepareSocketDir =
     bnd (isFileExisted SocketPath) (\<lambda>there.
     if \<not> there then
       bnd (isFileExisted ''/tmp'') (\<lambda>dir.
       if \<not> dir then bnd (MkdirAll ''/tmp'') (\<lambda>_. ret ()) else ret ())
     else bnd (Remove SocketPath) (\<lambda>_. ret ()))"

section \<open>Plugin and launcher together\<close>

text \<open>
  The plugin's environment when its socket leads to a launcher on the host \<open>h\<close>: a post is
  a call of the handler.
\<close>

definition launched_post :: "'w host \<Rightarrow> string \<Rightarrow> 'w \<Rightarrow> (error + nat \<times> (error + string)) \<times> 'w" where
  "launched_post h body w =
     (case launcherHandler h (Inr body) w of
        Some (Ret r, w') \<Rightarrow> (Inr (StatusCode r, Inr (RespBody r)), w')
      | _ \<Rightarrow> (Inl (PlainError ''EOF''), w))"

definition launched_env :: "'w host \<Rightarrow> (string \<Rightarrow> string) \<Rightarrow> ('w \<Rightarrow> 'w) \<Rightarrow> 'w tos_env" where
  "launched_env h sha slp = \<lparr>sha256_hex = sha, post_launcher = launched_post h, sleep_200ms = slp\<rparr>"

lemma launcherHandler_command:
  "launcherHandler h (Inr (Marshal_map [(''command'', cmd)])) w =
    (let r = exec_output h [''sh'', ''-c'', cmd] w
     in Some (Ret (case fst (fst r) of
          None \<Rightarrow> generateHttpResponse ''success'' 200 [(''output'', snd (fst r))]
        | Some e \<Rightarrow> generateHttpResponse ''failure'' 500 [(''errmsg'', ''exec command '' @ cmd @ '' failed. output: , error: '' @
            error_text (PlainError (''command '' @ cmd @ '' failed: output '' @ snd (fst r) @ '', error: '' @ error_text e)))]),
        snd r))"
  using Unmarshal_Marshal [of "[(''command'', cmd)]"]
  by (simp add: launcherHandler_def execCmd_def bnd_def Let_def case_prod_unfold split: option.split)

text \<open>C37: The plugin and the launcher agree on the command: with the launcher behind the
  plugin's socket, \<open>mount\<close> runs one shell command on the node, the \<open>s3fs\<close> command of its
  options character by character, quotes and escapes included; it reports success just
  when the shell does.\<close>

theorem launcher_runs_command:
  "tos_mount (launched_env h sha slp) options mountPoint cred w =
    (let cmd = s3fs_command options mountPoint cred; r = exec_output h [''sh'', ''-c'', cmd] w
     in Some (Ret (case fst (fst r) of
          None \<Rightarrow> Inr ()
        | Some e \<Rightarrow> Inl (PlainError (''the response of launcher(action: s3fs) is: '' @
            Marshal_map [(''result'', ''failure''), (''errmsg'', ''exec command '' @ cmd @ '' failed. output: , error: command '' @ cmd @
              '' failed: output '' @ snd (fst r) @ '', error: '' @ error_text e)]))), snd r))"
  unfolding tos_mount_def Let_def
  by (simp add: launched_env_def launched_post_def launcherHandler_command bnd_def Let_def generateHttpResponse_def
      split: option.split)

end
