(* ===== verification/Tos_Facts.thy ===== *)
theory Tos_Facts
  imports Launcher Nas_Facts
begin

text \<open>What the TOS node plugin guarantees: its options, its waiting, its cleaning up.\<close>

section \<open>Options\<close>

text \<open>What the options are, as a function of the attributes and not of their order.\<close>

definition option_or :: "(string \<rightharpoonup> string) \<Rightarrow> string \<Rightarrow> string \<Rightarrow> string" where
  "option_or m k d = (case m k of None \<Rightarrow> d | Some v \<Rightarrow> v)"

definition options_of :: "(string \<rightharpoonup> string) \<Rightarrow> tosfsOptions \<Rightarrow> tosfsOptions outcome" where
  "options_of m o' =
     (let rest = o'\<lparr>Bucket := option_or m ''bucket'' (Bucket o'), Path := option_or m ''path'' (Path o'),
        AdditionalArgs := option_or m ''additional_args'' (AdditionalArgs o'),
        DbgLevel := option_or m ''dbglevel'' (DbgLevel o')\<rparr>
      in case m ''url'' of
           None \<Rightarrow> Ret rest
         | Some v \<Rightarrow> (case s3_url v of Ret u \<Rightarrow> Ret (rest\<lparr>URL := u\<rparr>) | Panic \<Rightarrow> Panic))"

abbreviation lower_keys :: "(string \<times> string) list \<Rightarrow> (string \<times> string) list" where
  "lower_keys \<equiv> map (\<lambda>(k, v). (ToLower k, v))"

lemma set_options_eq:
  "distinct (map fst (lower_keys kvs)) \<Longrightarrow> set_options kvs o' = options_of (map_of (lower_keys kvs)) o'"
proof (induction kvs arbitrary: o')
  case Nil
  show ?case by (simp add: options_of_def option_or_def Let_def)
next
  case (Cons kv kvs)
  obtain k v where kv: "kv = (k, v)" by fastforce
  have new: "map_of (lower_keys kvs) (ToLower k) = None"
    using Cons.prems by (force simp: kv map_of_eq_None_iff)
  have "distinct (map fst (lower_keys kvs))" using Cons.prems by (simp add: kv)
  note IH = Cons.IH [OF this]
  consider "ToLower k = ''url''" | "ToLower k = ''bucket''" | "ToLower k = ''path''" | "ToLower k = ''additional_args''"
    | "ToLower k = ''dbglevel''"
    | "ToLower k \<noteq> ''url''" "ToLower k \<noteq> ''bucket''" "ToLower k \<noteq> ''path''" "ToLower k \<noteq> ''additional_args''" "ToLower k \<noteq> ''dbglevel''"
    by blast
  then show ?case
    using new
    by cases (simp_all add: kv IH set_option_def options_of_def option_or_def Let_def split: outcome.split option.split)
qed

definition parsed_options :: "(string \<rightharpoonup> string) \<Rightarrow> (error + tosfsOptions) outcome" where
  "parsed_options m =
     (case options_of m zero_tosfsOptions of
        Panic \<Rightarrow> Panic
      | Ret o1 \<Rightarrow>
          (let o2 = (if DbgLevel o1 = [] then o1\<lparr>DbgLevel := ''err''\<rparr> else o1)
           in Ret (case validateTosfsOptions o2 of Some e \<Rightarrow> Inl e | None \<Rightarrow> Inr o2)))"

lemma parse_in_any_order:
  "distinct (map fst (lower_keys kvs)) \<Longrightarrow> parseTosfsOptions kvs w = Some (parsed_options (map_of (lower_keys kvs)), w)"
  by (simp add: parseTosfsOptions_def parsed_options_def set_options_eq Let_def split: outcome.split)

text \<open>C38: The options of a volume do not depend on the order in which Go visits the attribute
  map, as long as no two keys are equal up to case: the URL is rewritten to its S3 form, the
  debug level defaults to \<open>err\<close>, and both the URL and the bucket must be there.\<close>

theorem tos_options_order:
  assumes "distinct (map fst (lower_keys kvs))"
  shows "parseTosfsOptions kvs w = Some (parsed_options (map_of (lower_keys kvs)), w)"
  by (rule parse_in_any_order [OF assms])

definition tos_attributes :: "(string \<times> string) list" where
  "tos_attributes = [(''bucket'', ''b''), (''URL'', ''https://tos-cn.volces.com''), (''path'', ''d'')]"

theorem tos_options_order_witness:
  "\<forall>w. parseTosfsOptions tos_attributes w =
     Some (Ret (Inr \<lparr>URL = ''https://tos-s3-cn.volces.com'', Bucket = ''b'', Path = ''d'', DbgLevel = ''err'',
       AdditionalArgs = [], NotsupCompatDir = False\<rparr>), w)"
proof -
  have "distinct (map fst (lower_keys tos_attributes))" unfolding tos_attributes_def by code_simp
  note order = tos_options_order [OF this]
  have "parsed_options (map_of (lower_keys tos_attributes)) = Ret (Inr \<lparr>URL = ''https://tos-s3-cn.volces.com'',
      Bucket = ''b'', Path = ''d'', DbgLevel = ''err'', AdditionalArgs = [], NotsupCompatDir = False\<rparr>)"
    by code_simp
  then show ?thesis unfolding order by simp
qed

lemma set_options_panic:
  "(k, v) \<in> set kvs \<Longrightarrow> ToLower k = ''url'' \<Longrightarrow> s3_url v = Panic \<Longrightarrow> set_options kvs o' = Panic"
  by (induction kvs o' rule: set_options.induct) (auto simp: set_option_def Let_def split: outcome.split)

lemma short_url: "length v < 2 \<Longrightarrow> s3_url v = Panic"
proof -
  assume v: "length v < 2"
  have "\<not> sublist ''-s3'' v" "\<not> sublist ''tos'' v" using v by (auto dest!: sublist_length_le)
  then have "\<not> Contains v ''-s3''" "Index v ''tos'' < 0"
    using Index_nonneg_iff [of v "''tos''"] by (auto simp: Contains_sublist)
  moreover have "- 1 \<le> Index v ''tos''" by (induction v) (auto simp: Let_def)
  ultimately have "Index v ''tos'' = - 1" by linarith
  with v \<open>\<not> Contains v ''-s3''\<close> show ?thesis by (simp add: s3_url_def)
qed

text \<open>A URL attribute of fewer than two characters, an empty one say, panics the plugin,
  whatever the other attributes are and in whatever order they come: the slice that inserts
  \<open>-s3\<close> is out of range before the check for an empty URL is reached.\<close>

theorem tos_short_url_panics:
  assumes "validateNodePublishVolumeRequest req = None" and "(k, v) \<in> set kvs" and "ToLower k = ''url''" and "length v < 2"
  shows "tos_NodePublishVolume h env kvs req m = Some (Panic, m)"
  using set_options_panic [OF assms(2,3) short_url [OF assms(4)]]
  by (simp add: tos_NodePublishVolume_def assms(1) Let_def parseTosfsOptions_def bndE_Panic)

definition tos_request :: node_publish_request where
  "tos_request = \<lparr>np_VolumeId = ''v'', np_StagingTargetPath = [], np_TargetPath = ''/target'',
     np_VolumeCapability = Some \<lparr>AccessType = Some (MountAccess \<lparr>FsType = [], MountFlags = []\<rparr>), AccessMode = Some MULTI_NODE_MULTI_WRITER\<rparr>,
     np_Readonly = False, np_VolumeContext = Map.empty, np_Secrets = [''akId'' \<mapsto> ''id'', ''akSecret'' \<mapsto> ''key'']\<rparr>"

theorem tos_short_url_panics_witness:
  "\<forall>h env m. tos_NodePublishVolume h env [(''bucket'', ''b''), (''url'', [])] tos_request (m :: machine) = Some (Panic, m)"
proof -
  have "validateNodePublishVolumeRequest tos_request = None" "(''url'', []) \<in> set [(''bucket'', ''b''), (''url'', [])]"
    "ToLower ''url'' = ''url''" "length ([] :: string) < 2"
    by (simp_all add: validateNodePublishVolumeRequest_def tos_request_def ToLower_def to_lower_char_def)
  from tos_short_url_panics [OF this] show ?thesis by blast
qed

section \<open>Waiting for the mount\<close>

definition tested :: "'w host \<Rightarrow> 'w tos_env \<Rightarrow> string \<Rightarrow> nat \<Rightarrow> 'w \<Rightarrow> 'w" where
  "tested h env p n = ((\<lambda>w. sleep_200ms env (snd (mnt_IsLikelyNotMountPoint h p w))) ^^ n)"

lemma wait_mounted_returns: "\<exists>r w'. wait_mounted n h env p w = Some (Ret r, w')"
proof (induction n arbitrary: w)
  case (Suc n)
  then show ?case by (cases "mnt_IsLikelyNotMountPoint h p w") (auto simp: bnd_def split: option.split)
qed simp

lemma wait_mounted_Inr:
  "wait_mounted k h env p w = Some (Ret (Inr ()), w') \<longleftrightarrow>
    (\<exists>n<k. (\<forall>i<n. fst (mnt_IsLikelyNotMountPoint h p (tested h env p i w)) = (True, None)) \<and>
      mnt_IsLikelyNotMountPoint h p (tested h env p n w) = ((False, None), w'))"
proof (induction k arbitrary: w)
  case (Suc k)
  obtain b err u where t: "mnt_IsLikelyNotMountPoint h p w = ((b, err), u)" by (metis surj_pair)
  have step: "tested h env p (Suc n) w = tested h env p n (sleep_200ms env u)" for n
    by (simp add: tested_def funpow_Suc_right t del: funpow.simps)
  have zero: "tested h env p 0 w = w" by (simp add: tested_def)
  have "wait_mounted (Suc k) h env p w = Some (Ret (Inr ()), w') \<longleftrightarrow>
      (b, err) = (False, None) \<and> u = w' \<or>
      (b, err) = (True, None) \<and> wait_mounted k h env p (sleep_200ms env u) = Some (Ret (Inr ()), w')"
    by (auto simp: bnd_def t split: option.split)
  then show ?case
    unfolding Ex_less_Suc2 All_less_Suc2 step zero Suc.IH [of "sleep_200ms env u"] t by auto
qed simp

text \<open>\<open>checkTosMounted\<close> always comes back, after at most twenty tests, 200 ms apart; it
  reports success just when one of the twenty finds a mount and every earlier one has found
  none, without an error.\<close>

theorem checkTosMounted_spec:
  "(\<exists>r w'. checkTosMounted h env p w = Some (Ret r, w')) \<and>
   (checkTosMounted h env p w = Some (Ret (Inr ()), w') \<longleftrightarrow>
     (\<exists>n<20. (\<forall>i<n. fst (mnt_IsLikelyNotMountPoint h p (tested h env p i w)) = (True, None)) \<and>
       mnt_IsLikelyNotMountPoint h p (tested h env p n w) = ((False, None), w')))"
  unfolding checkTosMounted_def by (rule conjI [OF wait_mounted_returns wait_mounted_Inr])

text \<open>A mount that appears at the third test; the world counts the tests.\<close>

theorem checkTosMounted_spec_witness:
  "\<forall>(h :: nat host) (env :: nat tos_env). checkTosMounted (h\<lparr>mnt_IsLikelyNotMountPoint := \<lambda>p w. ((w < 2, None), Suc w)\<rparr>)
     (env\<lparr>sleep_200ms := \<lambda>w. w\<rparr>) ''/target'' 0 = Some (Ret (Inr ()), 3)"
proof (intro allI)
  fix h :: "nat host" and env :: "nat tos_env"
  let ?h = "h\<lparr>mnt_IsLikelyNotMountPoint := \<lambda>p w. ((w < 2, None), Suc w)\<rparr>" and ?env = "env\<lparr>sleep_200ms := \<lambda>w. w\<rparr>"
  have at: "tested ?h ?env p n w = n + w" for p n w by (induction n) (simp_all add: tested_def)
  have "\<exists>n<20. (\<forall>i<n. fst (mnt_IsLikelyNotMountPoint ?h ''/target'' (tested ?h ?env ''/target'' i 0)) = (True, None)) \<and>
      mnt_IsLikelyNotMountPoint ?h ''/target'' (tested ?h ?env ''/target'' n 0) = ((False, None), 3)"
    by (intro exI [of _ 2]) (simp add: at)
  then show "checkTosMounted ?h ?env ''/target'' 0 = Some (Ret (Inr ()), 3)"
    using checkTosMounted_spec [of ?h ?env "''/target''" 0 3] by blast
qed

lemma checkTosMounted_seen:
  "checkTosMounted h env p w = Some (Ret (Inr ()), w') \<Longrightarrow> \<exists>u. mnt_IsLikelyNotMountPoint h p u = ((False, None), w')"
  unfolding checkTosMounted_def wait_mounted_Inr by blast

section \<open>Publishing\<close>

lemma defer_on_error_Inr: "defer_on_error c m w = Some (Ret (Inr x), w') \<longleftrightarrow> m w = Some (Ret (Inr x), w')"
  by (auto simp: defer_on_error_def split: option.splits prod.splits outcome.splits sum.splits)

lemma defer_on_error_Inl:
  "defer_on_error c m w = Some (Ret (Inl e), w') \<longleftrightarrow> (\<exists>u. m w = Some (Ret (Inl e), u) \<and> w' = c u)"
  by (auto simp: defer_on_error_def split: option.splits prod.splits outcome.splits sum.splits)

text \<open>The handler up to the point from where on an error takes the mounts off.\<close>

definition tos_tmp_path :: "node_publish_request \<Rightarrow> string" where
  "tos_tmp_path req =
     path_join [''/tmp/tos_mnt/'', attr (np_VolumeContext req) ''csi.storage.k8s.io/pod.uid'' @ ''_'' @ np_VolumeId req]"

lemma mount_target_Inr:
  "mount_target h env options v t cred w = Some (Ret (Inr ()), w') \<Longrightarrow>
     \<exists>u. mnt_IsLikelyNotMountPoint h t u = ((False, None), w')"
proof -
  assume "mount_target h env options v t cred w = Some (Ret (Inr ()), w')"
  then obtain w1 where rest: "(case snd (fst (mnt_IsLikelyNotMountPoint h t w1)) of
        Some e \<Rightarrow> ret (Inl (os_err e))
      | None \<Rightarrow>
          if \<not> fst (fst (mnt_IsLikelyNotMountPoint h t w1)) then ret (Inr ())
          else bndE (tos_mount env options t cred) (internal ''mount failed: '') (\<lambda>_.
            bndE (checkTosMounted h env t) (\<lambda>e. StatusError Internal (''check targetPath mounted fail: '' @ error_text e @
              '', please check tos bucket existed and ak/sk is correct'')) (\<lambda>_. ret (Inr ()))))
        (snd (mnt_IsLikelyNotMountPoint h t w1)) = Some (Ret (Inr ()), w')"
    by (auto simp: mount_target_def bnd_os_Ret bnd_Ret_iff case_prod_unfold)
  show ?thesis
  proof (cases "snd (fst (mnt_IsLikelyNotMountPoint h t w1)) = None \<and> \<not> fst (fst (mnt_IsLikelyNotMountPoint h t w1))")
    case True
    with rest have "mnt_IsLikelyNotMountPoint h t w1 = ((False, None), w')" by (auto simp: prod_eq_iff)
    then show ?thesis ..
  next
    case False
    with rest obtain w2 where "checkTosMounted h env t w2 = Some (Ret (Inr ()), w')"
      by (auto simp: bndE_Inr_iff split: option.splits if_splits)
    then show ?thesis by (rule checkTosMounted_seen)
  qed
qed

text \<open>C34: TOS NodePublishVolume: when it reports success, the last thing it has done is to see
  the target as a mount point.\<close>

theorem tos_publish_sees_mount:
  assumes "tos_NodePublishVolume h env kvs req m = Some (Ret (Inr ()), m')"
  shows "\<exists>u. mnt_IsLikelyNotMountPoint h (np_TargetPath req) u = ((False, None), m')"
  using assms
  by (auto simp: tos_NodePublishVolume_def Let_def bnd_Ret_iff bndE_Inr_iff bnd_os_Ret defer_on_error_Inr case_prod_unfold
      dest!: mount_target_Inr split: option.splits)

section \<open>Failing\<close>

lemma bnd_os_Inl_iff:
  "bnd_os m h f w = Some (Ret (Inl e), w') \<longleftrightarrow>
     (\<exists>d. m w = Some (Ret (Inl d), w') \<and> e = h (os_err d)) \<or>
     (\<exists>x w1. m w = Some (Ret (Inr x), w1) \<and> f x w1 = Some (Ret (Inl e), w'))"
  by (auto simp: bnd_os_def bnd_def split: option.splits outcome.splits sum.splits)

lemma put_file_mtab: "mtab (snd (put_file xs c m)) = mtab m"
  by (auto simp: put_file_def drop_entry_def split: sum.split option.split node.split)

lemma WriteFile_runs: "runs (\<lambda>m m'. mtab m' = mtab m) (WriteFile p c)"
  unfolding WriteFile_def by (rule runs_keeps(2)) (auto simp: keeps_def sys_def put_file_mtab split: option.splits)

lemma createCredentialFile_runs: "runs (\<lambda>m m'. mtab m' = mtab m) (createCredentialFile env b secrets)"
  unfolding createCredentialFile_def Let_def
  by (auto intro!: table.bnd table.bnd_os WriteFile_runs reading_runs split: sum.splits os_error.splits)

lemma parseTosfsOptions_same: "parseTosfsOptions kvs m = Some (r, m') \<Longrightarrow> m' = m"
  by (auto simp: parseTosfsOptions_def Let_def split: outcome.splits)

text \<open>C35: TOS NodePublishVolume that fails: either the table of mounts is what it was, or the last
  two things it has done are to unmount the temporary directory and to unmount the target,
  whoever mounted the target.\<close>

theorem tos_failure_unmounts:
  assumes "tests_mounts h" and "tos_NodePublishVolume h env kvs req m = Some (Ret (Inl e), m')"
  shows "mtab m' = mtab m \<or>
    (\<exists>u. m' = snd (mnt_Unmount h (np_TargetPath req) (snd (mnt_Unmount h (tos_tmp_path req) u))))"
proof -
  have test: "mtab (snd (mnt_IsLikelyNotMountPoint h t w)) = mtab w" for t w
    using assms(1) by (auto simp: tests_mounts_def Let_def)
  have dir: "mtab w' = mtab w" if "MkdirAll p w = Some (r, w')" for p r w w'
    using runsD [OF MkdirAll_runs(2) that] .
  have cred: "mtab w' = mtab w" if "createCredentialFile env b sec w = Some (r, w')" for b sec r w w'
    using runsD [OF createCredentialFile_runs that] .
  show ?thesis
    using assms(2)
    by (auto simp: tos_NodePublishVolume_def Let_def bnd_Ret_iff bndE_Inl_iff bnd_os_Inl_iff defer_on_error_Inl case_prod_unfold
        tos_tmp_path_def test split: option.splits dest!: dir cred parseTosfsOptions_same)
qed

definition down_env :: "'w tos_env" where
  "down_env = \<lparr>sha256_hex = (\<lambda>_. ''h''), post_launcher = (\<lambda>_ w. (Inl (PlainError ''connection refused''), w)), sleep_200ms = (\<lambda>w. w)\<rparr>"

definition served_machine :: machine where
  "served_machine = (example_machine [(([], [''tmp'']), Dir), (([], [''target'']), Dir)])
     \<lparr>mtab := [([''target''], (''s3fs'', []))]\<rparr>"

lemma down_run:
  "case tos_NodePublishVolume sim_host down_env tos_attributes tos_request served_machine of
     Some (Ret (Inl e), m') \<Rightarrow> mtab m' = [] | _ \<Rightarrow> False"
  by code_simp

text \<open>A launcher that cannot be reached.\<close>

definition unreachable :: "('x os) tos_env \<Rightarrow> bool" where
  "unreachable env \<longleftrightarrow>
     (\<forall>body w. (\<exists>e. fst (post_launcher env body w) = Inl e) \<and> mtab (snd (post_launcher env body w)) = mtab w)"

lemma tos_mount_unreachable:
  assumes "unreachable env"
  shows "\<exists>e w'. tos_mount env options t cred w = Some (Ret (Inl e), w') \<and> mtab w' = mtab w"
proof -
  define body where "body = Marshal_map [(''command'', s3fs_command options t cred)]"
  obtain e where "fst (post_launcher env body w) = Inl e" "mtab (snd (post_launcher env body w)) = mtab w"
    using assms unfolding unreachable_def by blast
  then show ?thesis by (simp add: tos_mount_def bnd_def body_def)
qed

text \<open>C36: A repeated NodePublishVolume takes a working mount away. The target of the request is
  mounted, and the kubelet asks again at a time at which the launcher cannot be reached. If the steps before
  the launcher is asked go well (the request and its options are in order, the credential file and the temporary
  directory are there, and that directory is no mount point), then on any node with the documented mounter,
  whose unmounting of the target is not refused, the answer is an error and the newest mount of the
  target is off the table, all others staying. The deferred clean-up unmounts the target although this call
  never mounted it.\<close>

theorem tos_republish_takes_mount_away:
  assumes "tests_mounts h" and "unmounts h" and "unreachable env"
    and "mtab m = upper @ (comps (np_TargetPath req), d) # lower" and "comps (np_TargetPath req) \<notin> fst ` set upper"
    and "validateNodePublishVolumeRequest req = None"
    and "parseTosfsOptions kvs m = Some (Ret (Inr options), m)"
    and "createCredentialFile env (Bucket options) (np_Secrets req) m = Some (Ret (Inr cred), m1)"
    and "MkdirAll (tos_tmp_path req) m1 = Some (Ret (Inr ()), m2)"
    and "fst (mnt_IsLikelyNotMountPoint h (tos_tmp_path req) m2) = (True, None)"
    and "comps (tos_tmp_path req) \<notin> fst ` set (mtab m)"
    and "\<And>w. mtab w = mtab m \<Longrightarrow> fst (mnt_Unmount h (np_TargetPath req) w) = None"
  shows "\<exists>e m'. tos_NodePublishVolume h env kvs req m = Some (Ret (Inl e), m') \<and> mtab m' = upper @ lower"
proof -
  define tmp where "tmp = tos_tmp_path req"
  define t where "t = np_TargetPath req"
  define m3 where "m3 = snd (mnt_IsLikelyNotMountPoint h tmp m2)"
  have test: "mnt_IsLikelyNotMountPoint h tmp m2 = ((True, None), m3)"
    using assms(10) by (simp add: tmp_def m3_def prod_eq_iff)
  have "mtab m1 = mtab m" by (rule runsD [OF createCredentialFile_runs assms(8)])
  moreover have "mtab m2 = mtab m1" by (rule runsD [OF MkdirAll_runs(2) assms(9)])
  moreover have "mtab m3 = mtab m2" using assms(1) unfolding tests_mounts_def Let_def m3_def by blast
  ultimately have m3: "mtab m3 = mtab m" by simp
  obtain e m4 where mount: "tos_mount env (options\<lparr>Path := [], NotsupCompatDir := True\<rparr>) tmp cred m3 = Some (Ret (Inl e), m4)"
    and m4: "mtab m4 = mtab m"
    using tos_mount_unreachable [OF assms(3), of "options\<lparr>Path := [], NotsupCompatDir := True\<rparr>" tmp cred m3] m3 by auto
  have sub: "make_sub_path h env (options\<lparr>Path := [], NotsupCompatDir := True\<rparr>) True tmp (Path options) cred m3 =
      Some (Ret (Inl (internal ''mount failed: '' e)), m4)"
    by (simp add: make_sub_path_def bndE_def bnd_def mount)
  define m5 where "m5 = snd (mnt_Unmount h tmp m4)"
  have off: "if fst (mnt_Unmount h p w) = None
      then comps p \<in> fst ` set (mtab w) \<and> mtab (snd (mnt_Unmount h p w)) =
        takeWhile (\<lambda>x. fst x \<noteq> comps p) (mtab w) @ tl (dropWhile (\<lambda>x. fst x \<noteq> comps p) (mtab w))
      else mtab (snd (mnt_Unmount h p w)) = mtab w" for p w
    using assms(2) unfolding unmounts_def Let_def by blast
  have "mtab m5 = mtab m" using off [of tmp m4] assms(11) m4 by (auto simp: m5_def tmp_def split: if_splits)
  then have "mtab (snd (mnt_Unmount h t m5)) =
      takeWhile (\<lambda>x. fst x \<noteq> comps t) (mtab m) @ tl (dropWhile (\<lambda>x. fst x \<noteq> comps t) (mtab m))"
    using off [of t m5] assms(12) [of m5] by (simp add: t_def)
  also have "\<dots> = upper @ lower"
    using assms(5) unfolding assms(4) t_def by (induction upper) auto
  finally have gone: "mtab (snd (mnt_Unmount h t m5)) = upper @ lower" .
  have "tos_NodePublishVolume h env kvs req m =
      Some (Ret (Inl (internal ''mount failed: '' e)), snd (mnt_Unmount h t m5))"
    unfolding tos_NodePublishVolume_def assms(6) option.case Let_def tos_tmp_path_def [symmetric] tmp_def [symmetric]
    using assms(7-9) test sub
    by (simp add: bndE_Inr bnd_os_def bnd_Ret defer_on_error_def tmp_def bndE_Inl bnd_def m5_def t_def bndE_def)
  with gone show ?thesis by blast
qed

theorem tos_republish_takes_mount_away_witness:
  "\<exists>e m'. mtab served_machine = [([''target''], (''s3fs'', []))] \<and>
     tos_NodePublishVolume sim_host down_env tos_attributes tos_request served_machine = Some (Ret (Inl e), m') \<and> mtab m' = []"
proof -
  have target: "comps (np_TargetPath tos_request) = [''target'']" unfolding tos_request_def by code_simp
  have tmp: "comps (tos_tmp_path tos_request) = [''tmp'', ''tos_mnt'', ''_v'']" by code_simp
  have host: "tests_mounts (sim_host :: machine host)" "unmounts (sim_host :: machine host)"
    using sim_host_laws by (auto simp: nfs_host_def)
  have down: "unreachable (down_env :: (machine) tos_env)" by (simp add: unreachable_def down_env_def)
  have tab: "mtab served_machine = [] @ (comps (np_TargetPath tos_request), (''s3fs'', [])) # []"
    unfolding target by (simp add: served_machine_def)
  have valid: "validateNodePublishVolumeRequest tos_request = None"
    by (simp add: validateNodePublishVolumeRequest_def tos_request_def)
  define options where "options = \<lparr>URL = ''https://tos-s3-cn.volces.com'', Bucket = ''b'', Path = ''d'', DbgLevel = ''err'',
       AdditionalArgs = [], NotsupCompatDir = False\<rparr>"
  have opts: "parseTosfsOptions tos_attributes served_machine = Some (Ret (Inr options), served_machine)"
  proof -
    have "distinct (map fst (lower_keys tos_attributes))" unfolding tos_attributes_def by code_simp
    moreover have "parsed_options (map_of (lower_keys tos_attributes)) = Ret (Inr options)" unfolding options_def by code_simp
    ultimately show ?thesis by (simp only: parse_in_any_order)
  qed
  have "map_option fst (createCredentialFile down_env ''b'' (np_Secrets tos_request) served_machine) = Some (Ret (Inr ''/tmp/b_h''))"
    by code_simp
  then obtain m1 where "createCredentialFile down_env ''b'' (np_Secrets tos_request) served_machine = Some (Ret (Inr ''/tmp/b_h''), m1)"
    by (auto simp: map_option_case split: option.splits)
  then have cred: "createCredentialFile down_env (Bucket options) (np_Secrets tos_request) served_machine =
      Some (Ret (Inr ''/tmp/b_h''), m1)" by (simp add: options_def)
  have "map_option fst (MkdirAll (tos_tmp_path tos_request) (snd (the (createCredentialFile down_env ''b'' (np_Secrets tos_request) served_machine)))) =
      Some (Ret (Inr ()))" by code_simp
  then obtain m2 where dir: "MkdirAll (tos_tmp_path tos_request) m1 = Some (Ret (Inr ()), m2)"
    using cred by (auto simp: options_def map_option_case split: option.splits)
  have "mtab m2 = mtab served_machine"
    using runsD [OF MkdirAll_runs(2) dir] runsD [OF createCredentialFile_runs cred] by simp
  then have free: "fst (mnt_IsLikelyNotMountPoint sim_host (tos_tmp_path tos_request) m2) = (True, None)"
    by (simp add: sim_host_def tmp served_machine_def)
  have unmounted: "comps (tos_tmp_path tos_request) \<notin> fst ` set (mtab served_machine)"
    unfolding tmp by (simp add: served_machine_def)
  have "fst (mnt_Unmount sim_host (np_TargetPath tos_request) w) = None" if "mtab w = mtab served_machine" for w :: machine
    using that by (simp add: sim_host_def sim_unmount_def target served_machine_def)
  from tos_republish_takes_mount_away [OF host down tab _ valid opts cred dir free unmounted this]
  show ?thesis by (simp add: served_machine_def)
qed

theorem tos_failure_unmounts_witness:
  "\<exists>e m'. tos_NodePublishVolume sim_host down_env tos_attributes tos_request served_machine = Some (Ret (Inl e), m') \<and>
     (\<exists>u. m' = snd (mnt_Unmount sim_host ''/target'' (snd (mnt_Unmount sim_host (tos_tmp_path tos_request) u))))"
proof -
  obtain e m' where run: "tos_NodePublishVolume sim_host down_env tos_attributes tos_request served_machine = Some (Ret (Inl e), m')"
    and "mtab m' = []"
    using down_run by (auto split: option.splits prod.splits outcome.splits sum.splits)
  moreover have "tests_mounts (sim_host :: machine host)" using sim_host_laws by (auto simp: nfs_host_def)
  moreover have "mtab served_machine \<noteq> []" "np_TargetPath tos_request = ''/target''"
    by (simp_all add: served_machine_def tos_request_def)
  ultimately show ?thesis using tos_failure_unmounts [OF _ run] by metis
qed

definition up_machine :: machine where
  "up_machine = example_machine [(([], [''tmp'']), Dir)]"

text \<open>A launcher that mounts what it is told where the second argument of the command says.\<close>

definition up_env :: "('x os) tos_env" where
  "up_env = \<lparr>sha256_hex = (\<lambda>_. ''h''),
     post_launcher = (\<lambda>body m.
       case Unmarshal_map body of
         Some f \<Rightarrow> (case f ''command'' of
             Some cmd \<Rightarrow> (Inr (200, Inr []), m\<lparr>mtab := (comps (split_char CHR '' '' cmd ! 2), (''s3fs'', [])) # mtab m\<rparr>)
           | None \<Rightarrow> (Inr (400, Inr []), m))
       | None \<Rightarrow> (Inr (500, Inr []), m)), sleep_200ms = (\<lambda>w. w)\<rparr>"

theorem tos_publish_sees_mount_witness:
  "\<exists>u m'. tos_NodePublishVolume sim_host up_env tos_attributes tos_request up_machine = Some (Ret (Inr ()), m') \<and>
     mnt_IsLikelyNotMountPoint sim_host ''/target'' u = ((False, None), m')"
proof -
  have "map_option fst (tos_NodePublishVolume sim_host up_env tos_attributes tos_request up_machine) = Some (Ret (Inr ()))"
    by code_simp
  then have "\<exists>m'. tos_NodePublishVolume sim_host up_env tos_attributes tos_request up_machine = Some (Ret (Inr ()), m')"
    by (rule outcome_known)
  then obtain m' where run: "tos_NodePublishVolume sim_host up_env tos_attributes tos_request up_machine = Some (Ret (Inr ()), m')" ..
  moreover have "np_TargetPath tos_request = ''/target''" by (simp add: tos_request_def)
  ultimately show ?thesis using tos_publish_sees_mount [OF run] by metis
qed

end
