(* ===== verification/Node_Mounts.thy ===== *)
theory Node_Mounts
  imports Services_Facts EBS_Node_Facts
begin

text \<open>
  The node service of the EBS plugin against its specification, a table of mounts: what a
  request may do to the table, and what it must have done when it succeeds. Requests come
  one after another; between them devices and files may change. The mount library is a
  parameter, of which \<open>mount_host\<close> states what is documented.
\<close>

section \<open>The specification\<close>

text \<open>Newest first, a mount point with the device (or the place in a file system) seen there.\<close>

type_synonym mounts = "(string list \<times> location) list"

definition mounted :: "mounts \<Rightarrow> string \<Rightarrow> bool" where
  "mounted t p \<longleftrightarrow> comps p \<in> fst ` set t"

fun drop_mount :: "string list \<Rightarrow> mounts \<Rightarrow> mounts" where
  "drop_mount p [] = []"
| "drop_mount p (e # t) = (if fst e = p then t else e # drop_mount p t)"

definition is_block_request :: "volume_capability option \<Rightarrow> bool" where
  "is_block_request c \<longleftrightarrow> (case c of None \<Rightarrow> False | Some c \<Rightarrow> is_block c)"

text \<open>\<open>dev v d\<close>: \<open>d\<close> is a device of the volume \<open>v\<close>.\<close>

definition stage_step :: "(string \<Rightarrow> string \<Rightarrow> bool) \<Rightarrow> node_stage_request \<Rightarrow> bool \<Rightarrow> mounts \<Rightarrow> mounts \<Rightarrow> bool" where
  "stage_step dev r ok t t' \<longleftrightarrow>
     t' = t \<and> (ok \<longrightarrow> is_block_request (st_VolumeCapability r) \<or>
       (\<exists>d x. dev (st_VolumeId r) d \<and> (comps (st_StagingTargetPath r), d, x) \<in> set t)) \<or>
     \<not> is_block_request (st_VolumeCapability r) \<and>
       (\<exists>d. dev (st_VolumeId r) d \<and> t' = (comps (st_StagingTargetPath r), d, []) # t)"

definition publish_step :: "(string \<Rightarrow> string \<Rightarrow> bool) \<Rightarrow> node_publish_request \<Rightarrow> bool \<Rightarrow> mounts \<Rightarrow> mounts \<Rightarrow> bool" where
  "publish_step dev r ok t t' \<longleftrightarrow>
     t' = t \<and> (ok \<longrightarrow> mounted t (np_TargetPath r)) \<or>
     (\<exists>src. (if is_block_request (np_VolumeCapability r) then dev (np_VolumeId r) src
             else src = np_StagingTargetPath r \<and> mounted t src) \<and>
        t' = (comps (np_TargetPath r), resolve t (comps src)) # t)"

definition unpublish_step :: "string \<Rightarrow> bool \<Rightarrow> mounts \<Rightarrow> mounts \<Rightarrow> bool" where
  "unpublish_step p ok t t' \<longleftrightarrow> t' \<in> {t, drop_mount (comps p) t} \<and> (ok \<longrightarrow> \<not> mounted t' p)"

definition unstage_step :: "string \<Rightarrow> bool \<Rightarrow> mounts \<Rightarrow> mounts \<Rightarrow> bool" where
  "unstage_step p ok t t' \<longleftrightarrow> t' = t \<and> (ok \<longrightarrow> \<not> mounted t p) \<or> mounted t p \<and> t' = drop_mount (comps p) t"

definition mount_step :: "(string \<Rightarrow> string \<Rightarrow> bool) \<Rightarrow> csi_request \<Rightarrow> bool \<Rightarrow> mounts \<Rightarrow> mounts \<Rightarrow> bool" where
  "mount_step dev q ok t t' \<longleftrightarrow>
     (case q of
        NodeStageVolumeReq r \<Rightarrow> stage_step dev r ok t t'
      | NodePublishVolumeReq r \<Rightarrow> publish_step dev r ok t t'
      | NodeUnpublishVolumeReq v p \<Rightarrow> unpublish_step p ok t t'
      | NodeUnstageVolumeReq v p \<Rightarrow> unstage_step p ok t t'
      | _ \<Rightarrow> t' = t)"

text \<open>A run: the requests with whether they succeeded, and the tables before and after.\<close>

inductive mount_runs :: "(string \<Rightarrow> string \<Rightarrow> bool) \<Rightarrow> mounts \<Rightarrow> (csi_request \<times> bool) list \<Rightarrow> mounts \<Rightarrow> bool" for dev t where
  nothing: "mount_runs dev t [] t"
| request: "mount_runs dev t tr t1 \<Longrightarrow> mount_step dev q ok t1 t2 \<Longrightarrow> mount_runs dev t (tr @ [(q, ok)]) t2"

inductive_cases mount_runs_snocE: "mount_runs dev t (tr @ [(q, ok)]) t'"

section \<open>What the specification promises\<close>

text \<open>The path whose mounts a request may change, and the volume that it names.\<close>

fun path_of :: "csi_request \<Rightarrow> string option" where
  "path_of (NodeStageVolumeReq r) = Some (st_StagingTargetPath r)"
| "path_of (NodePublishVolumeReq r) = Some (np_TargetPath r)"
| "path_of (NodeUnpublishVolumeReq v p) = Some p"
| "path_of (NodeUnstageVolumeReq v p) = Some p"
| "path_of _ = None"

definition at_path :: "string list \<Rightarrow> mounts \<Rightarrow> mounts" where
  "at_path p t = filter (\<lambda>e. fst e = p) t"

lemma at_path_simps [simp]:
  "at_path p [] = []" "at_path p (e # t) = (if fst e = p then e # at_path p t else at_path p t)"
  by (simp_all add: at_path_def)

lemma at_path_drop [simp]: "q \<noteq> p \<Longrightarrow> at_path p (drop_mount q t) = at_path p t"
  by (induction t) auto

lemma drop_unmounted [simp]: "\<not> mounted t p \<Longrightarrow> drop_mount (comps p) t = t"
  by (induction t) (auto simp: mounted_def)

lemma mountedI: "(comps p, l) \<in> set t \<Longrightarrow> mounted t p"
  by (force simp: mounted_def)

lemma set_drop: "set (drop_mount p t) \<subseteq> set t"
  by (induction t) auto

lemma mount_step_elsewhere:
  "mount_step dev q ok t t' \<Longrightarrow> map_option comps (path_of q) \<noteq> Some p \<Longrightarrow> at_path p t' = at_path p t"
  by (cases q) (auto simp: mount_step_def stage_step_def publish_step_def unpublish_step_def unstage_step_def)

text \<open>What is seen at a mount point is on a device that was mounted before or is a staged volume's.\<close>

fun volume_of :: "csi_request \<Rightarrow> string option" where
  "volume_of (NodeStageVolumeReq r) = Some (st_VolumeId r)"
| "volume_of _ = None"

definition devices :: "mounts \<Rightarrow> string set" where
  "devices t = insert [] ((fst \<circ> snd) ` set t)"

lemma resolve_device: "fst (resolve t xs) \<in> devices t"
  by (induction t xs rule: resolve.induct) (auto simp: devices_def)

lemma mount_step_devices:
  assumes "mount_step dev q ok t t'"
  shows "devices t' \<subseteq> devices t \<union> {d. \<exists>v. volume_of q = Some v \<and> dev v d}"
proof -
  have drop: "devices (drop_mount p t) \<subseteq> devices t" for p
    using set_drop [of p t] by (auto simp: devices_def)
  have bind: "devices ((p, resolve t xs) # t) \<subseteq> devices t" for p xs
    using resolve_device [of t xs] by (auto simp: devices_def)
  show ?thesis
  proof (cases q)
    case (NodePublishVolumeReq r)
    then have "t' = t \<or> (\<exists>src. t' = (comps (np_TargetPath r), resolve t (comps src)) # t)"
      using assms unfolding mount_step_def publish_step_def by auto
    then have "devices t' \<subseteq> devices t" using bind by (elim disjE exE) simp_all
    then show ?thesis by blast
  next
    case (NodeUnpublishVolumeReq v p)
    then have "t' = t \<or> t' = drop_mount (comps p) t" using assms by (auto simp: mount_step_def unpublish_step_def)
    then show ?thesis using drop [of "comps p"] by blast
  next
    case (NodeUnstageVolumeReq v p)
    then have "t' = t \<or> t' = drop_mount (comps p) t" using assms by (auto simp: mount_step_def unstage_step_def)
    then show ?thesis using drop [of "comps p"] by blast
  qed (use assms in \<open>auto simp: mount_step_def stage_step_def devices_def\<close>)
qed

lemma mount_runs_elsewhere:
  "mount_runs dev t tr t' \<Longrightarrow> \<forall>(q, ok)\<in>set tr. map_option comps (path_of q) \<noteq> Some p \<Longrightarrow> at_path p t' = at_path p t"
  by (induction rule: mount_runs.induct) (auto dest: mount_step_elsewhere)

lemma mount_runs_devices:
  assumes "mount_runs dev t tr t'"
  shows "devices t' \<subseteq> devices t \<union> {d. \<exists>(q, ok)\<in>set tr. \<exists>v. volume_of q = Some v \<and> dev v d}"
  using assms
proof (induction rule: mount_runs.induct)
  case (request tr t1 q ok t2)
  have "{d. \<exists>v. volume_of q = Some v \<and> dev v d} \<subseteq> {d. \<exists>(r, ok)\<in>set (tr @ [(q, ok)]). \<exists>v. volume_of r = Some v \<and> dev v d}"
    "{d. \<exists>(r, ok)\<in>set tr. \<exists>v. volume_of r = Some v \<and> dev v d} \<subseteq>
      {d. \<exists>(r, ok)\<in>set (tr @ [(q, ok)]). \<exists>v. volume_of r = Some v \<and> dev v d}" by auto
  with request.IH mount_step_devices [OF request.hyps(2)] show ?case by blast
qed simp

text \<open>
  The life of a volume on a node: staged and published, its device is what is seen at the
  target; unpublished and unstaged, the table is what it was.
\<close>

lemma mount_runs_one: "mount_runs dev t [(q, ok)] t' \<longleftrightarrow> mount_step dev q ok t t'"
proof
  assume "mount_runs dev t [(q, ok)] t'"
  then show "mount_step dev q ok t t'"
    by (cases rule: mount_runs.cases) (auto elim: mount_runs.cases)
next
  assume "mount_step dev q ok t t'"
  then show "mount_runs dev t [(q, ok)] t'" using mount_runs.request [OF mount_runs.nothing] by fastforce
qed

lemma mount_runs_two:
  "mount_runs dev t [(q, ok), (r, ok')] t' \<longleftrightarrow> (\<exists>t1. mount_step dev q ok t t1 \<and> mount_step dev r ok' t1 t')"
  using mount_runs_snocE [of dev t "[(q, ok)]" r ok' t'] mount_runs.request [of dev t "[(q, ok)]" _ r ok' t']
  by (auto simp: mount_runs_one)

lemma stage_publish:
  assumes "mount_runs dev t [(NodeStageVolumeReq st, True), (NodePublishVolumeReq pu, True)] t2"
    and "\<not> is_block_request (st_VolumeCapability st)" "\<not> is_block_request (np_VolumeCapability pu)"
    and "np_StagingTargetPath pu = st_StagingTargetPath st" "comps (np_TargetPath pu) \<noteq> comps (st_StagingTargetPath st)"
    and "\<not> mounted t (st_StagingTargetPath st)" "\<not> mounted t (np_TargetPath pu)"
  shows "\<exists>d. dev (st_VolumeId st) d \<and> t2 = (comps (np_TargetPath pu), d, []) # (comps (st_StagingTargetPath st), d, []) # t"
proof -
  from assms(1) obtain t1 where s: "stage_step dev st True t t1" and p: "publish_step dev pu True t1 t2"
    by (auto simp: mount_runs_two mount_step_def)
  from s assms(2,6) obtain d where d: "dev (st_VolumeId st) d" and t1: "t1 = (comps (st_StagingTargetPath st), d, []) # t"
    by (auto simp: stage_step_def dest: mountedI)
  then have "\<not> mounted t1 (np_TargetPath pu)" using assms(5,7) by (auto simp: mounted_def)
  with p assms(3,4) have "t2 = (comps (np_TargetPath pu), resolve t1 (comps (st_StagingTargetPath st))) # t1"
    by (auto simp: publish_step_def)
  with d t1 show ?thesis by auto
qed

lemma unpublish_unstage:
  assumes "mount_runs dev ((comps tgt, a) # (comps stg, b) # t)
      [(NodeUnpublishVolumeReq v tgt, True), (NodeUnstageVolumeReq v' stg, True)] t'"
    and "comps tgt \<noteq> comps stg" "\<not> mounted t tgt"
  shows "t' = t"
proof -
  from assms(1) obtain t3 where "unpublish_step tgt True ((comps tgt, a) # (comps stg, b) # t) t3" and u: "unstage_step stg True t3 t'"
    by (auto simp: mount_runs_two mount_step_def)
  then have "t3 = (comps stg, b) # t" by (auto simp: unpublish_step_def mounted_def)
  with u show ?thesis by (auto simp: unstage_step_def mounted_def)
qed

section \<open>The mount library\<close>

text \<open>
  A mount puts its source on top of the table. A bind mount with options is two commands, the
  second of which may fail and leave the first; unmounting takes the newest mount of the path
  away. \<open>CleanupMountPoint\<close> unmounts once, and fails if something is still mounted then.
\<close>

definition binds_mounts :: "'x os host \<Rightarrow> bool" where
  "binds_mounts h \<longleftrightarrow> (\<forall>src tgt ty opts m. ''bind'' \<in> set opts \<longrightarrow>
     (let (err, m') = mnt_Mount h src tgt ty opts m
      in mtab m' = (comps tgt, resolve (mtab m) (comps src)) # mtab m \<or> err \<noteq> None \<and> mtab m' = mtab m))"

definition formats_mounts :: "'x os host \<Rightarrow> bool" where
  "formats_mounts h \<longleftrightarrow> (\<forall>dev tgt ty opts m.
     (let (err, m') = mnt_FormatAndMount h dev tgt ty opts m
      in mtab m' = (if err = None then (comps tgt, dev, []) # mtab m else mtab m)))"

definition drops_mounts :: "'x os host \<Rightarrow> bool" where
  "drops_mounts h \<longleftrightarrow> (\<forall>p m.
     (let (err, m') = mnt_Unmount h p m
      in if err = None then mounted (mtab m) p \<and> mtab m' = drop_mount (comps p) (mtab m) else mtab m' = mtab m) \<and>
     (let (err, m') = mnt_CleanupMountPoint h p True m
      in mtab m' \<in> {mtab m, drop_mount (comps p) (mtab m)} \<and> (err = None \<longrightarrow> \<not> mounted (mtab m') p)))"

text \<open>\<open>IsLikelyNotMountPoint\<close> may miss bind mounts; it does not see one where there is none.\<close>

definition knows_mounts :: "'x os host \<Rightarrow> bool" where
  "knows_mounts h \<longleftrightarrow> (\<forall>p m.
     (let ((b, err), m') = mnt_IsNotMountPoint h p m
      in mtab m' = mtab m \<and> (err = None \<or> err = Some NotExist \<longrightarrow> b = (\<not> mounted (mtab m) p))) \<and>
     (let ((b, err), m') = mnt_IsLikelyNotMountPoint h p m
      in mtab m' = mtab m \<and> (err = None \<and> \<not> b \<longrightarrow> mounted (mtab m) p)) \<and>
     (let ((d, err), m') = mnt_GetDeviceNameFromMount h p m
      in mtab m' = mtab m \<and> (err = None \<and> d \<noteq> [] \<longrightarrow> (\<exists>x. (comps p, d, x) \<in> set (mtab m)))))"

definition leaves_mounts :: "'x os host \<Rightarrow> bool" where
  "leaves_mounts h \<longleftrightarrow> (\<forall>args dev p m. mtab (snd (exec_output h args m)) = mtab m \<and>
     mtab (snd (resize_NeedResize h dev p m)) = mtab m \<and> mtab (snd (resize_Resize h dev p m)) = mtab m \<and>
     mtab (snd (mnt_PathExists h p m)) = mtab m)"

definition mount_host :: "'x os host \<Rightarrow> bool" where
  "mount_host h \<longleftrightarrow> binds_mounts h \<and> formats_mounts h \<and> drops_mounts h \<and> knows_mounts h \<and> leaves_mounts h"

text \<open>The same as rules of the calculus.\<close>

lemma wp_Mount:
  assumes host: "mount_host h" and opts: "''bind'' \<in> set opts"
    and "\<And>e w'. mtab w' = (comps tgt, resolve (mtab w) (comps src)) # mtab w \<or> mtab w' = mtab w \<Longrightarrow> P (Some e) w'"
    and "\<And>w'. mtab w' = (comps tgt, resolve (mtab w) (comps src)) # mtab w \<Longrightarrow> P None w'"
  shows "wp (call (mnt_Mount h src tgt ty opts)) P w"
  using assms by (cases "fst (mnt_Mount h src tgt ty opts w)") (fastforce simp: mount_host_def binds_mounts_def wp_call split_beta)+

lemma wp_FormatAndMount:
  assumes host: "mount_host h" and "\<And>e w'. mtab w' = mtab w \<Longrightarrow> P (Some e) w'"
    and "\<And>w'. mtab w' = (comps tgt, dev, []) # mtab w \<Longrightarrow> P None w'"
  shows "wp (call (mnt_FormatAndMount h dev tgt ty opts)) P w"
  using assms by (cases "fst (mnt_FormatAndMount h dev tgt ty opts w)") (simp_all add: mount_host_def formats_mounts_def wp_call split_beta)

lemma wp_Unmount:
  assumes host: "mount_host h" and "\<And>e w'. mtab w' = mtab w \<Longrightarrow> P (Some e) w'"
    and "\<And>w'. mounted (mtab w) p \<Longrightarrow> mtab w' = drop_mount (comps p) (mtab w) \<Longrightarrow> P None w'"
  shows "wp (call (mnt_Unmount h p)) P w"
  using assms by (cases "fst (mnt_Unmount h p w)") (simp_all add: mount_host_def drops_mounts_def wp_call split_beta)

lemma wp_CleanupMountPoint:
  assumes host: "mount_host h" and "\<And>e w'. mtab w' \<in> {mtab w, drop_mount (comps p) (mtab w)} \<Longrightarrow> P (Some e) w'"
    and "\<And>w'. mtab w' \<in> {mtab w, drop_mount (comps p) (mtab w)} \<Longrightarrow> \<not> mounted (mtab w') p \<Longrightarrow> P None w'"
  shows "wp (call (mnt_CleanupMountPoint h p True)) P w"
  using assms by (cases "fst (mnt_CleanupMountPoint h p True w)") (simp_all add: mount_host_def drops_mounts_def wp_call split_beta)

lemma wp_IsNotMountPoint:
  assumes host: "mount_host h" and "\<And>b e w'. mtab w' = mtab w \<Longrightarrow> P (b, Some (OtherErr e)) w'"
    and "\<And>w'. mtab w' = mtab w \<Longrightarrow> P (\<not> mounted (mtab w) p, Some NotExist) w'"
    and "\<And>w'. mtab w' = mtab w \<Longrightarrow> P (\<not> mounted (mtab w) p, None) w'"
  shows "wp (call (mnt_IsNotMountPoint h p)) P w"
proof -
  obtain b err w' where run: "mnt_IsNotMountPoint h p w = ((b, err), w')" by (metis prod.collapse)
  have told: "let ((b, err), m') = mnt_IsNotMountPoint h p w
      in mtab m' = mtab w \<and> (err = None \<or> err = Some NotExist \<longrightarrow> b = (\<not> mounted (mtab w) p))"
    using host by (simp only: mount_host_def knows_mounts_def)
  consider "err = None" | "err = Some NotExist" | e where "err = Some (OtherErr e)"
    by (metis not_None_eq os_error.exhaust)
  then show ?thesis using run told assms(2-4) by cases (simp_all add: wp_call)
qed

lemma wp_IsLikelyNotMountPoint:
  assumes host: "mount_host h" and "\<And>b e w'. mtab w' = mtab w \<Longrightarrow> P (b, Some e) w'"
    and "\<And>w'. mtab w' = mtab w \<Longrightarrow> P (True, None) w'"
    and "\<And>w'. mtab w' = mtab w \<Longrightarrow> mounted (mtab w) p \<Longrightarrow> P (False, None) w'"
  shows "wp (call (mnt_IsLikelyNotMountPoint h p)) P w"
proof -
  obtain b err w' where "mnt_IsLikelyNotMountPoint h p w = ((b, err), w')" by (metis prod.collapse)
  moreover have "let ((b, err), m') = mnt_IsLikelyNotMountPoint h p w
      in mtab m' = mtab w \<and> (err = None \<and> \<not> b \<longrightarrow> mounted (mtab w) p)"
    using host by (simp only: mount_host_def knows_mounts_def)
  ultimately show ?thesis using assms(2-4) by (cases err; cases b; simp add: wp_call)
qed

lemma wp_GetDeviceNameFromMount:
  assumes host: "mount_host h" and "\<And>d e w'. mtab w' = mtab w \<Longrightarrow> P (d, Some e) w'"
    and "\<And>w'. mtab w' = mtab w \<Longrightarrow> P ([], None) w'"
    and "\<And>d x w'. mtab w' = mtab w \<Longrightarrow> (comps p, d, x) \<in> set (mtab w) \<Longrightarrow> P (d, None) w'"
  shows "wp (call (mnt_GetDeviceNameFromMount h p)) P w"
proof -
  obtain d err w' where "mnt_GetDeviceNameFromMount h p w = ((d, err), w')" by (metis prod.collapse)
  moreover have "let ((d, err), m') = mnt_GetDeviceNameFromMount h p w
      in mtab m' = mtab w \<and> (err = None \<and> d \<noteq> [] \<longrightarrow> (\<exists>x. (comps p, d, x) \<in> set (mtab w)))"
    using host by (simp only: mount_host_def knows_mounts_def)
  ultimately show ?thesis using assms(2-4) by (cases err; cases "d = []"; auto simp: wp_call)
qed

lemma keeps_helpers:
  assumes host: "mount_host h"
  shows "keeps mtab (call (exec_output h args))" "keeps mtab (call (resize_NeedResize h dev p))"
  "keeps mtab (call (resize_Resize h dev p))" "keeps mtab (call (mnt_PathExists h p))"
  using host by (simp_all add: mount_host_def leaves_mounts_def keeps_def)

section \<open>What leaves the table alone\<close>

lemma mkdirs_mtab: "mtab (snd (mkdirs ds xs m)) = mtab m"
  by (induction ds xs m rule: mkdirs.induct) (auto simp: Let_def split: sum.split node.split os_error.split option.split)

lemma MkdirAll_keeps [intro]: "keeps mtab (MkdirAll p)"
  by (auto simp: keeps_def MkdirAll_def mkdirs_mtab)

lemma keeps_bnd_os [intro]: "keeps v c \<Longrightarrow> (\<And>x. keeps v (f x)) \<Longrightarrow> keeps v (bnd_os c h f)"
  unfolding bnd_os_def by (rule keeps_bnd) (auto split: sum.split)

lemma sys_keeps_mtab: "(\<And>m. mtab (snd (f m)) = mtab m) \<Longrightarrow> keeps mtab (sys f)"
  by (auto simp: keeps_def sys_def split: option.splits)

lemma files_keep [intro]: "keeps mtab (Remove p)" "keeps mtab (OpenCreate p)"
  unfolding Remove_def OpenCreate_def put_file_def drop_entry_def
  by (auto intro!: sys_keeps_mtab split: option.split sum.split node.split)

lemma createTargetMountPoint_keeps: "keeps mtab (createTargetMountPoint p b)"
  unfolding createTargetMountPoint_def CreateDest_def
  by (auto intro!: keeps_bnd keeps_bnd_os split: sum.split node.split os_error.split)

lemma CheckDeviceAvailable_keeps: "mount_host h \<Longrightarrow> keeps mtab (CheckDeviceAvailable h d)"
  unfolding CheckDeviceAvailable_def run_def
  by (auto intro!: keeps_bnd keeps_helpers split: sum.split prod.split option.split)

lemma metrics_keep: "keeps mtab (GetMetrics p)" "keeps mtab (getDiskCapacity h p)" "keeps mtab (isBlockDevice p)"
  unfolding GetMetrics_def getDiskCapacity_def isBlockDevice_def FsInfo_def
  by (auto intro!: keeps_bnd keeps_bnd_os split: sum.split prod.split option.split)

lemma resize_snapshot_keeps: "mount_host h \<Longrightarrow> keeps mtab (resize_snapshot h v dev p)"
  unfolding resize_snapshot_def by (auto intro!: keeps_bnd keeps_helpers split: prod.split option.split)

section \<open>The handlers refine the specification\<close>

text \<open>What the lookup of the cloud interface gave for a volume.\<close>

definition looked_up :: "'x os Cloud \<Rightarrow> string \<Rightarrow> string \<Rightarrow> bool" where
  "looked_up cl v d \<longleftrightarrow> d \<noteq> [] \<and> (\<exists>w w'. cloud_DevicePathByVolId cl v w = Some (Ret d, w'))"

definition lookup_keeps :: "'x os Cloud \<Rightarrow> bool" where
  "lookup_keeps cl \<longleftrightarrow> (\<forall>v. keeps mtab (cloud_DevicePathByVolId cl v))"

lemma wp_lookup:
  assumes "lookup_keeps cl" and "\<And>d w'. mtab w' = mtab w \<Longrightarrow> d \<noteq> [] \<longrightarrow> looked_up cl v d \<Longrightarrow> P d w'"
  shows "wp (cloud_DevicePathByVolId cl v) P w"
  unfolding wp_def
proof (intro allI impI)
  fix d w' assume "cloud_DevicePathByVolId cl v w = Some (Ret d, w')"
  with assms(1) show "P d w'" by (intro assms(2)) (auto simp: lookup_keeps_def keeps_def looked_up_def)
qed

lemma wp_bnd_err: "wp (bnd_err m g k) P w \<longleftrightarrow> wp (call m) (\<lambda>e w1. case e of Some x \<Rightarrow> P (Inl (g x)) w1 | None \<Rightarrow> wp k P w1) w"
  unfolding bnd_err_def wp_bnd by (auto simp: wp_def split: option.split)

lemmas node_rules = wp_lookup wp_FormatAndMount wp_Mount wp_Unmount wp_CleanupMountPoint wp_IsNotMountPoint
  wp_IsLikelyNotMountPoint wp_GetDeviceNameFromMount wp_keeps [OF createTargetMountPoint_keeps]
  wp_keeps [OF CheckDeviceAvailable_keeps] wp_keeps [OF resize_snapshot_keeps]

lemmas node_splits = option.split prod.split sum.split

lemma stage_refines:
  assumes "mount_host h" and "lookup_keeps cl"
  shows "wp (StageVolume_body d cl h r) (\<lambda>x w'. stage_step (looked_up cl) r (\<not> isl x) (mtab w) (mtab w')) w"
  unfolding StageVolume_body_def StageVolume_mount_def Let_def fs_type_def
  by (auto simp: wp_bnd_err stage_step_def is_block_request_def intro!: node_rules assms split: node_splits) blast+

lemma publish_refines:
  assumes "mount_host h" and "lookup_keeps cl"
  shows "wp (NodePublishVolume_body d cl h r) (\<lambda>x w'. publish_step (looked_up cl) r (\<not> isl x) (mtab w) (mtab w')) w"
  unfolding NodePublishVolume_body_def publish_mount_def Let_def fs_type_def
  by (auto simp: wp_bnd_err publish_step_def is_block_request_def intro!: node_rules assms split: node_splits) blast+

lemma unstage_refines:
  assumes "mount_host h"
  shows "wp (UnstageVolume_body h p) (\<lambda>x w'. unstage_step p (\<not> isl x) (mtab w) (mtab w')) w"
  unfolding UnstageVolume_body_def
  by (auto simp: wp_bnd_err unstage_step_def IsNotExist_def intro!: node_rules assms wp_keeps [OF files_keep(1)]
      split: node_splits os_error.split)

text \<open>With the guards; the postconditions have the tables before and after.\<close>

definition tables :: "(bool \<Rightarrow> mounts \<Rightarrow> mounts \<Rightarrow> bool) \<Rightarrow> 'x os service \<Rightarrow> error + 'b \<Rightarrow> 'x os service \<Rightarrow> bool" where
  "tables R s x s' \<longleftrightarrow> R (\<not> isl x) (mtab (world s)) (mtab (world s'))"

lemma guarded_tables:
  assumes "R False (mtab (world s)) (mtab (world s))"
    and "wp body (\<lambda>x w'. R (\<not> isl x) (mtab (world s)) (mtab w')) (world s)"
  shows "wp (guarded key busy body) (tables R s) s"
  using assms by (intro wp_guarded) (auto simp: tables_def elim: wp_mono)

lemma unguarded_tables:
  "wp body (\<lambda>x w'. R (\<not> isl x) (mtab (world s)) (mtab w')) (world s) \<Longrightarrow> wp (unguarded body) (tables R s) s"
  by (intro wp_unguarded) (auto simp: tables_def elim: wp_mono)

lemma tables_refused [simp]: "tables R s (Inl e) s \<longleftrightarrow> R False (mtab (world s)) (mtab (world s))"
  by (simp add: tables_def)

lemma NodeStageVolume_refines:
  assumes "mount_host h" and "lookup_keeps cl"
  shows "wp (NodeSvc_NodeStageVolume d cl h r) (tables (stage_step (looked_up cl) r) s) s"
  unfolding NodeSvc_NodeStageVolume_def
  by (auto intro!: guarded_tables stage_refines assms simp: stage_step_def)

lemma NodePublishVolume_refines:
  assumes "mount_host h" and "lookup_keeps cl"
  shows "wp (NodeSvc_NodePublishVolume d cl h r) (tables (publish_step (looked_up cl) r) s) s"
  unfolding NodeSvc_NodePublishVolume_def
  by (auto intro!: guarded_tables publish_refines assms simp: publish_step_def)

lemma NodeUnstageVolume_refines:
  "mount_host h \<Longrightarrow> wp (NodeSvc_NodeUnstageVolume h v p) (tables (unstage_step p) s) s"
  unfolding NodeSvc_NodeUnstageVolume_def
  by (auto intro!: guarded_tables unstage_refines simp: unstage_step_def)

lemma NodeUnpublishVolume_refines:
  "mount_host h \<Longrightarrow> wp (NodeSvc_NodeUnpublishVolume h v p) (tables (unpublish_step p) s) s"
  unfolding NodeSvc_NodeUnpublishVolume_def
  by (auto intro!: guarded_tables wp_CleanupMountPoint simp: unpublish_step_def wp_bnd_err)

lemma others_refine:
  assumes "mount_host h" and "lookup_keeps cl"
  shows "wp (NodeSvc_NodeGetVolumeStats h v p) (tables (\<lambda>ok t t'. t' = t) s) s"
    and "wp (NodeSvc_NodeExpandVolume cl h r) (tables (\<lambda>ok t t'. t' = t) s) s"
proof -
  have quiet: "wp (unguarded m) (tables (\<lambda>ok t t'. t' = t) s) s" if "keeps mtab m" for m :: "('a os, error + 'c) go"
    by (rule unguarded_tables, rule wp_keeps [OF that]) simp
  have lookup: "keeps mtab (cloud_DevicePathByVolId cl x)" for x using assms(2) by (simp add: lookup_keeps_def)
  show "wp (NodeSvc_NodeGetVolumeStats h v p) (tables (\<lambda>ok t t'. t' = t) s) s"
    unfolding NodeSvc_NodeGetVolumeStats_def
    by (auto intro!: quiet keeps_bnd keeps_helpers metrics_keep assms split: node_splits)
  show "wp (NodeSvc_NodeExpandVolume cl h r) (tables (\<lambda>ok t t'. t' = t) s) s"
    unfolding NodeSvc_NodeExpandVolume_def NodeExpandVolume_body_def Let_def
    by (auto intro!: quiet keeps_bnd keeps_bndE keeps_helpers metrics_keep lookup assms
        split: node_splits bool.split)
qed

lemma request_refines:
  assumes "mount_host h" and "lookup_keeps cl"
  shows "wp (ebs_node (NewNodeSvc d h cl) q) (\<lambda>x s'. mount_step (looked_up cl) q (\<not> isl x) (mtab (outside s)) (mtab (outside s'))) s"
proof -
  have handler: "wp (answer f (at_node m)) (\<lambda>x s'. R (\<not> isl x) (mtab (outside s)) (mtab (outside s'))) s"
    if "\<And>s. wp m (tables R s) s" for m :: "('a os service, error + 'c) go" and f R
    using that [of "\<lparr>flights = node_table s, world = outside s\<rparr>"]
    by (auto simp: wp_answer wp_at_node tables_def elim!: wp_mono split: sum.split)
  have known: "wp (answer f (ret x)) (\<lambda>x s'. mtab (outside s') = mtab (outside s)) s"
    for f and x :: "error + 'c"
    by (simp add: wp_answer)
  show ?thesis
    using handler [OF NodeStageVolume_refines [OF assms]] handler [OF NodePublishVolume_refines [OF assms]]
      handler [OF NodeUnstageVolume_refines [OF assms(1)]] handler [OF NodeUnpublishVolume_refines [OF assms(1)]]
      handler [OF others_refine(1) [OF assms]] handler [OF others_refine(2) [OF assms]]
    by (cases q) (simp_all add: ebs_node_def NewNodeSvc_def mount_step_def known not_mine_def)
qed

end
