(* ===== verification/Node_Life.thy ===== *)
theory Node_Life
  imports Node_Mounts
begin

text \<open>
  Runs of the node service: requests one after another, and what else happens to the machine
  in between. Its mounts are those of the specification of \<open>Node_Mounts\<close>.
\<close>

section \<open>Runs\<close>

inductive node_runs :: "'x os NodeSvc \<Rightarrow> 'x os plugin \<Rightarrow> (csi_request \<times> bool) list \<Rightarrow> 'x os plugin \<Rightarrow> bool" for ns s where
  nothing: "node_runs ns s [] s"
| request: "node_runs ns s tr s1 \<Longrightarrow> ebs_node ns q s1 = Some (Ret r, s2) \<Longrightarrow> node_runs ns s (tr @ [(q, \<not> isl r)]) s2"
| elsewhere: "node_runs ns s tr s1 \<Longrightarrow> mtab (outside s2) = mtab (outside s1) \<Longrightarrow> node_runs ns s tr s2"

lemma node_runs_mounts:
  assumes "node_runs (NewNodeSvc d h cl) s tr s'" and "mount_host h" and "lookup_keeps cl"
  shows "mount_runs (looked_up cl) (mtab (outside s)) tr (mtab (outside s'))"
  using assms(1)
proof (induction rule: node_runs.induct)
  case nothing
  show ?case by (rule mount_runs.nothing)
next
  case (request tr s1 q r s2)
  have "mount_step (looked_up cl) q (\<not> isl r) (mtab (outside s1)) (mtab (outside s2))"
    using request_refines [OF assms(2,3), of d q s1] request.hyps(2) by (simp add: wp_def)
  with request.IH show ?case by (rule mount_runs.request)
next
  case (elsewhere tr s1 s2)
  then show ?case by simp
qed

section \<open>Properties\<close>


text \<open>C27: The life of a file-system volume on a node. After NodeStageVolume and NodePublishVolume from
  the same staging path have succeeded, on paths where nothing was mounted, what the target
  shows is the root of a device that was looked up for the volume; and when then
  NodeUnpublishVolume of the target and NodeUnstageVolume of the staging path have succeeded,
  the mount table of the node is exactly what it was before.\<close>

theorem node_life_cycle:
  assumes "mount_host h" and "lookup_keeps cl"
    and "node_runs (NewNodeSvc d h cl) s [(NodeStageVolumeReq st, True), (NodePublishVolumeReq pu, True)] s1"
    and "node_runs (NewNodeSvc d h cl) s1
      [(NodeUnpublishVolumeReq v (np_TargetPath pu), True), (NodeUnstageVolumeReq v' (st_StagingTargetPath st), True)] s2"
    and "\<not> is_block_request (st_VolumeCapability st)" "\<not> is_block_request (np_VolumeCapability pu)"
    and "np_StagingTargetPath pu = st_StagingTargetPath st" "comps (np_TargetPath pu) \<noteq> comps (st_StagingTargetPath st)"
    and "\<not> mounted (mtab (outside s)) (st_StagingTargetPath st)" "\<not> mounted (mtab (outside s)) (np_TargetPath pu)"
  shows "(\<exists>dv. looked_up cl (st_VolumeId st) dv \<and> loc (outside s1) (comps (np_TargetPath pu)) = (dv, [])) \<and>
    mtab (outside s2) = mtab (outside s)"
proof -
  obtain dv where dv: "looked_up cl (st_VolumeId st) dv" and t1: "mtab (outside s1) =
      (comps (np_TargetPath pu), dv, []) # (comps (st_StagingTargetPath st), dv, []) # mtab (outside s)"
    using stage_publish [OF node_runs_mounts [OF assms(3,1,2)] assms(5-10)] by blast
  from unpublish_unstage [OF node_runs_mounts [OF assms(4,1,2), unfolded t1] assms(8,10)]
  have "mtab (outside s2) = mtab (outside s)" .
  with dv t1 show ?thesis by (auto simp: loc_def)
qed

section \<open>A run\<close>

text \<open>A mount library that works on the table alone, and the requests of a pod's volume.\<close>

definition table_host :: "machine host" where
  "table_host = quiet_host
     \<lparr>mnt_Mount := (\<lambda>src tgt ty opts m. (None, m\<lparr>mtab := (comps tgt, resolve (mtab m) (comps src)) # mtab m\<rparr>)),
      mnt_Unmount := (\<lambda>p m. if mounted (mtab m) p then (None, m\<lparr>mtab := drop_mount (comps p) (mtab m)\<rparr>)
        else (Some (PlainError ''not mounted''), m)),
      mnt_IsLikelyNotMountPoint := (\<lambda>p m. ((\<not> mounted (mtab m) p, None), m)),
      mnt_IsNotMountPoint := (\<lambda>p m. ((\<not> mounted (mtab m) p, None), m)),
      mnt_CleanupMountPoint := (\<lambda>p extensive m.
        (if mounted (drop_mount (comps p) (mtab m)) p then Some (PlainError ''Failed to unmount path'') else None,
         m\<lparr>mtab := drop_mount (comps p) (mtab m)\<rparr>)),
      mnt_GetDeviceNameFromMount := (\<lambda>p m. (((case map_of (mtab m) (comps p) of None \<Rightarrow> [] | Some l \<Rightarrow> fst l), None), m)),
      mnt_FormatAndMount := (\<lambda>dev tgt ty opts m. (None, m\<lparr>mtab := (comps tgt, dev, []) # mtab m\<rparr>))\<rparr>"

lemma table_host_ok: "mount_host table_host"
  by (auto simp: mount_host_def binds_mounts_def formats_mounts_def drops_mounts_def knows_mounts_def leaves_mounts_def
      table_host_def quiet_host_def split: option.splits dest!: map_of_SomeD)

lemma device_cloud_keeps: "lookup_keeps (device_cloud dev)"
  by (simp add: lookup_keeps_def device_cloud_def)

fun serve_all :: "'s handler \<Rightarrow> csi_request list \<Rightarrow> ('s, (error + csi_response) list) go" where
  "serve_all hd' [] = ret []"
| "serve_all hd' (q # qs) = bnd (hd' q) (\<lambda>r. bnd (serve_all hd' qs) (\<lambda>rs. ret (r # rs)))"

lemma node_runs_append:
  "node_runs ns s1 tr' s2 \<Longrightarrow> node_runs ns s tr s1 \<Longrightarrow> node_runs ns s (tr @ tr') s2"
  by (induction rule: node_runs.induct) (auto intro: node_runs.elsewhere simp flip: append_assoc intro!: node_runs.request)

lemma serve_all_runs:
  "serve_all (ebs_node ns) qs s = Some (Ret rs, s') \<Longrightarrow> node_runs ns s (zip qs (map (\<lambda>r. \<not> isl r) rs)) s'"
proof (induction qs arbitrary: s rs)
  case (Cons q qs)
  from Cons.prems obtain r rs' s1 where q: "ebs_node ns q s = Some (Ret r, s1)"
    and qs: "serve_all (ebs_node ns) qs s1 = Some (Ret rs', s')" and rs: "rs = r # rs'"
    by (auto simp: bnd_Ret_iff)
  have "node_runs ns s [(q, \<not> isl r)] s1"
    using node_runs.request [OF node_runs.nothing q] by simp
  from node_runs_append [OF Cons.IH [OF qs] this] show ?case by (simp add: rs)
qed (simp add: node_runs.nothing)

definition pod_machine :: "machine plugin" where
  "pod_machine = \<lparr>controller_table = NewInFlight, node_table = NewInFlight, outside = world idle_node\<rparr>"

definition pod_node :: "machine NodeSvc" where
  "pod_node = NewNodeSvc node_driver table_host (device_cloud ''/dev/vdb'')"

definition pod_up :: "csi_request list" where
  "pod_up = [NodeStageVolumeReq (stage_example ''vol-1'' ext4), NodePublishVolumeReq node_publish_example]"

definition pod_down :: "csi_request list" where
  "pod_down = [NodeUnpublishVolumeReq ''vol-1'' ''/target'', NodeUnstageVolumeReq ''vol-1'' ''/staging'']"

lemma pod_life:
  "map_option (\<lambda>(r, s'). (case r of Ret (up, down) \<Rightarrow> map isl up @ map isl down | Panic \<Rightarrow> []))
     (bnd (serve_all (ebs_node pod_node) pod_up) (\<lambda>up. bnd (serve_all (ebs_node pod_node) pod_down) (\<lambda>down. ret (up, down)))
       pod_machine) = Some [False, False, False, False]"
  by code_simp

lemma length_serve_all: "serve_all hd' qs s = Some (Ret rs, s') \<Longrightarrow> length rs = length qs"
  by (induction qs arbitrary: s rs) (auto simp: bnd_Ret_iff)

lemma pod_runs:
  "\<exists>s1 s2. node_runs pod_node pod_machine [(NodeStageVolumeReq (stage_example ''vol-1'' ext4), True),
       (NodePublishVolumeReq node_publish_example, True)] s1 \<and>
     node_runs pod_node s1 [(NodeUnpublishVolumeReq ''vol-1'' ''/target'', True), (NodeUnstageVolumeReq ''vol-1'' ''/staging'', True)] s2"
proof -
  obtain up down s1 s2 where up: "serve_all (ebs_node pod_node) pod_up pod_machine = Some (Ret up, s1)"
    and down: "serve_all (ebs_node pod_node) pod_down s1 = Some (Ret down, s2)"
    and ok: "map isl up @ map isl down = [False, False, False, False]"
  proof -
    obtain r s2 where run: "bnd (serve_all (ebs_node pod_node) pod_up) (\<lambda>up.
        bnd (serve_all (ebs_node pod_node) pod_down) (\<lambda>down. ret (up, down))) pod_machine = Some (r, s2)"
      and r: "(case r of Ret (up, down) \<Rightarrow> map isl up @ map isl down | Panic \<Rightarrow> []) = [False, False, False, False]"
      using pod_life unfolding map_option_case by (auto split: option.splits)
    then obtain up down where "r = Ret (up, down)" by (cases r) auto
    with run r that show thesis by (auto simp: bnd_Ret_iff)
  qed
  have len: "length up = 2" "length down = 2"
    using length_serve_all [OF up] length_serve_all [OF down] by (simp_all add: pod_up_def pod_down_def)
  with ok have "map isl up = [False, False] \<and> map isl down = [False, False]"
    by (cases up; cases "tl up"; auto simp: length_Suc_conv numeral_2_eq_2)
  then have "zip pod_up (map (\<lambda>r. \<not> isl r) up) = map (\<lambda>q. (q, True)) pod_up"
    "zip pod_down (map (\<lambda>r. \<not> isl r) down) = map (\<lambda>q. (q, True)) pod_down"
    using len by (auto simp: pod_up_def pod_down_def length_Suc_conv numeral_2_eq_2)
  with serve_all_runs [OF up] serve_all_runs [OF down] show ?thesis
    by (auto simp: pod_up_def pod_down_def)
qed

lemma pod_facts:
  "mtab (outside pod_machine) = []" "\<not> mounted [] p" "st_VolumeId (stage_example ''vol-1'' ext4) = ''vol-1''"
  "st_StagingTargetPath (stage_example ''vol-1'' ext4) = ''/staging''" "np_StagingTargetPath node_publish_example = ''/staging''"
  "np_TargetPath node_publish_example = ''/target''" "\<not> is_block_request (st_VolumeCapability (stage_example ''vol-1'' ext4))"
  "\<not> is_block_request (np_VolumeCapability node_publish_example)"
  by (simp_all add: pod_machine_def idle_node_def example_machine_def mounted_def stage_example_def node_publish_example_def
      is_block_request_def is_block_def ext4_def)

theorem node_life_cycle_witness:
  "\<exists>s1 s2 dv. node_runs pod_node pod_machine [(NodeStageVolumeReq (stage_example ''vol-1'' ext4), True),
       (NodePublishVolumeReq node_publish_example, True)] s1 \<and>
     looked_up (device_cloud ''/dev/vdb'' :: machine Cloud) ''vol-1'' dv \<and> loc (outside s1) (comps ''/target'') = (dv, []) \<and>
     node_runs pod_node s1 [(NodeUnpublishVolumeReq ''vol-1'' ''/target'', True), (NodeUnstageVolumeReq ''vol-1'' ''/staging'', True)] s2 \<and>
     mtab (outside s2) = []"
proof -
  obtain s1 s2 where up: "node_runs pod_node pod_machine [(NodeStageVolumeReq (stage_example ''vol-1'' ext4), True),
       (NodePublishVolumeReq node_publish_example, True)] s1"
    and down: "node_runs pod_node s1 [(NodeUnpublishVolumeReq ''vol-1'' (np_TargetPath node_publish_example), True),
       (NodeUnstageVolumeReq ''vol-1'' (st_StagingTargetPath (stage_example ''vol-1'' ext4)), True)] s2"
    using pod_runs unfolding pod_facts by blast
  have paths: "comps ''/target'' \<noteq> comps ''/staging''" by code_simp
  have "(\<exists>dv. looked_up (device_cloud ''/dev/vdb'' :: machine Cloud) (st_VolumeId (stage_example ''vol-1'' ext4)) dv \<and>
      loc (outside s1) (comps (np_TargetPath node_publish_example)) = (dv, [])) \<and> mtab (outside s2) = mtab (outside pod_machine)"
    by (rule node_life_cycle [OF table_host_ok device_cloud_keeps up [unfolded pod_node_def] down [unfolded pod_node_def]])
      (simp_all only: pod_facts paths not_False_eq_True)
  with up down show ?thesis unfolding pod_facts by blast
qed


end
