(* ===== verification/Sts.thy ===== *)
theory Sts
  imports Config_Load
begin

text \<open>
  \<open>pkg/sts\<close> and \<open>pkg/ebs/metrics\<close>: the clients of the cloud service, the role token they are
  built from and its periodic refresh, and the counters that the requests feed. Time is in
  seconds. The network, the decoding of the role server's answer, the making of an SDK
  session and the clock are parameters. The logger that the clients install is here too.
\<close>

section \<open>Credentials and clients\<close>

definition tokenRefreshPeriod :: int where "tokenRefreshPeriod = 5 * 60"
definition tokenExpiredWindow :: int where "tokenExpiredWindow = 30 * 60"

definition credentialServerAddress :: string where
  "credentialServerAddress = ''http://100.96.0.96/volcstack/latest/iam/security_credentials/''"

text \<open>The two package variables that \<open>NewServiceClients\<close> sets.\<close>

record sts_vars =
  assumeRoleName :: string
  openHostAddress :: string

definition initial_vars :: sts_vars where
  "initial_vars = \<lparr>assumeRoleName = ''KubernetesNodeRoleForECS'', openHostAddress = ''open.volcengineapi.com''\<rparr>"

record Credential =
  ExpiredTime :: int
  CurrentTime :: int
  cr_AccessKeyId :: string
  AccessKeySecret :: string
  SecurityToken :: string

record token =
  auth :: Credential
  active :: bool

text \<open>What an SDK configuration is made of; both clients of a session share it.\<close>

record sdk_config =
  sdk_Region :: string
  sdk_Keys :: "string \<times> string \<times> string"
  sdk_Endpoint :: string
  sdk_MaxRetries :: nat
  sdk_DisableSSL :: bool
  sdk_Interceptor :: bool

record ServiceClients =
  sc_config :: Config
  sc_token :: token
  UniversalClient :: "sdk_config option"
  EbsClient :: "sdk_config option"

record 'w sts_env =
  sts_net :: "'w net"
  decode_credential :: "string \<Rightarrow> error + Credential option"
    \<comment> \<open>\<open>json.Unmarshal\<close> into a \<open>*Credential\<close>; the text null makes the pointer nil\<close>
  new_session :: "sdk_config \<Rightarrow> 'w \<Rightarrow> error option \<times> 'w"
  time_now :: "'w \<Rightarrow> int"

definition getRoleToken :: "'w sts_env \<Rightarrow> string \<Rightarrow> ('w, error + Credential option) go" where
  "getRoleToken env url =
     bndE (HttpGet (sts_net env) url) (\<lambda>e. e) (\<lambda>data.
     ret (case decode_credential env data of
            Inl e \<Rightarrow> Inl (PlainError (''ausumeRole unmarshal err: '' @ error_text e @ '', raw: '' @ data))
          | Inr c \<Rightarrow> Inr c))"

definition role_config :: "sts_vars \<Rightarrow> Config \<Rightarrow> Credential \<Rightarrow> sdk_config" where
  "role_config vars config role =
     \<lparr>sdk_Region = Region config, sdk_Keys = (cr_AccessKeyId role, AccessKeySecret role, SecurityToken role),
      sdk_Endpoint = openHostAddress vars, sdk_MaxRetries = 0, sdk_DisableSSL = True, sdk_Interceptor = True\<rparr>"

definition user_config :: "sts_vars \<Rightarrow> Config \<Rightarrow> sdk_config" where
  "user_config vars config =
     \<lparr>sdk_Region = Region config, sdk_Keys = (AccessKeyId config, SecretAccessKey config, []),
      sdk_Endpoint = openHostAddress vars, sdk_MaxRetries = 0, sdk_DisableSSL = True, sdk_Interceptor = False\<rparr>"

text \<open>\<open>if err != nil { panic(err) }\<close>.\<close>

definition open_session :: "'w sts_env \<Rightarrow> sdk_config \<Rightarrow> ('w, unit) go" where
  "open_session env c = bnd (call (new_session env c)) (\<lambda>e. if e \<noteq> None then panic else ret ())"

definition NewServiceClients ::
  "'w sts_env \<Rightarrow> sts_vars \<Rightarrow> Config \<Rightarrow> ('w, error + sts_vars \<times> ServiceClients) go" where
  "NewServiceClients env vars config =
     (let vars1 = (if Host config \<noteq> [] then vars\<lparr>openHostAddress := Host config\<rparr> else vars)
      in if SecretAccessKey config \<noteq> [] \<and> AccessKeyId config \<noteq> [] then
           (let c = user_config vars1 config;
                t = \<lparr>auth = \<lparr>ExpiredTime = 0, CurrentTime = 0, cr_AccessKeyId = AccessKeyId config,
                  AccessKeySecret = SecretAccessKey config, SecurityToken = []\<rparr>, active = False\<rparr>
            in bnd (open_session env c) (\<lambda>_.
               ret (Inr (vars1, \<lparr>sc_config = config, sc_token = t, UniversalClient = Some c, EbsClient = Some c\<rparr>))))
         else
           (let vars2 = (if AssumeRoleName config \<noteq> [] then vars1\<lparr>assumeRoleName := AssumeRoleName config\<rparr> else vars1)
            in bndE (getRoleToken env (credentialServerAddress @ assumeRoleName vars2)) (\<lambda>e. e) (\<lambda>role.
               bnd (deref role) (\<lambda>r.
               let c = role_config vars2 config r
               in bnd (open_session env c) (\<lambda>_.
                  ret (Inr (vars2, \<lparr>sc_config = config, sc_token = \<lparr>auth = r, active = True\<rparr>,
                    UniversalClient = Some c, EbsClient = Some c\<rparr>)))))))"

definition expiredAt :: "token \<Rightarrow> int" where
  "expiredAt t = ExpiredTime (auth t) - tokenExpiredWindow"

definition isTokenExpired :: "token \<Rightarrow> int \<Rightarrow> bool" where
  "isTokenExpired t now \<longleftrightarrow> expiredAt t < now"

definition refreshToken :: "'w sts_env \<Rightarrow> sts_vars \<Rightarrow> ServiceClients \<Rightarrow> ('w, ServiceClients) go" where
  "refreshToken env vars sc =
     bnd (\<lambda>w. Some (Ret (time_now env w), w)) (\<lambda>now.
     if isTokenExpired (sc_token sc) now then
       bnd (getRoleToken env (credentialServerAddress @ assumeRoleName vars)) (\<lambda>r.
       case r of
         Inl e \<Rightarrow> ret sc
       | Inr role \<Rightarrow>
           bnd (deref role) (\<lambda>role.
           let c = role_config vars (sc_config sc) role
           in bnd (open_session env c) (\<lambda>_.
              ret (sc\<lparr>sc_token := (sc_token sc)\<lparr>auth := role\<rparr>, UniversalClient := Some c, EbsClient := Some c\<rparr>))))
     else ret sc)"

section \<open>The logger\<close>

text \<open>
  What the SDK logs through the \<open>Logger\<close> that the clients install. The entries are the SDK's: the
  fields as \<open>Println\<close> prints them, requests and responses to be encoded; \<open>marshal\<close> is
  \<open>json.Marshal\<close>, whose error is dropped, and \<open>stack\<close> what \<open>runtime.Stack\<close> writes. The result is
  the lines printed.
\<close>

record 'r LogStruct =
  ls_Type :: string
  ls_Level :: string
  ls_OperationName :: string
  ls_Request :: 'r
  ls_Response :: 'r
  ls_Context :: string

datatype 'r log_field = LogEntry "'r LogStruct" | OtherField

text \<open>\<open>strconv.ParseUint(s, 10, 64)\<close> without its error: 0 if there are no digits, the largest number if there are too many.\<close>

definition uint_or_zero :: "string \<Rightarrow> nat" where
  "uint_or_zero s = (case parse_digits s of None \<Rightarrow> 0 | Some n \<Rightarrow> min n (2 ^ 64 - 1))"

definition getGID :: "string \<Rightarrow> ('w, string) go" where
  "getGID stack =
     (let b = TrimPrefix (take 64 stack) ''goroutine ''; i = Index b '' ''
      in if i < 0 then panic else ret (''(t-'' @ format_nat (uint_or_zero (take (nat i) b)) @ '')''))"

definition Println :: "string list \<Rightarrow> string" where
  "Println parts = (case parts of [] \<Rightarrow> [] | f # fs \<Rightarrow> f @ concat (map (\<lambda>g. '' '' @ g) fs))"

definition Logger_Log :: "('r \<Rightarrow> error + string) \<Rightarrow> string \<Rightarrow> 'r log_field list \<Rightarrow> ('w, string list) go" where
  "Logger_Log marshal stack entries =
     (let encode = (\<lambda>r. case marshal r of Inl e \<Rightarrow> [] | Inr b \<Rightarrow> b);
          print = (\<lambda>l word body. bnd (getGID stack) (\<lambda>gid. ret [Println [ls_Level l, gid, ls_OperationName l, word, body, ls_Context l]]))
      in case entries of
        LogEntry l # _ \<Rightarrow>
          (if ls_Type l = ''Request'' then print l ''request'' (encode (ls_Request l))
           else if ls_Type l = ''Response'' then print l ''response'' (encode (ls_Response l))
           else ret [])
      | _ \<Rightarrow> ret [])"

text \<open>On a stack as the runtime writes it, the logger names the goroutine and does not panic.\<close>

lemma Index_after_digits: "Index (format_nat n @ CHR '' '' # s) '' '' = int (length (format_nat n))"
proof -
  have "Index (t @ CHR '' '' # s) '' '' = int (length t)" if "\<forall>c\<in>set t. digit_value c \<noteq> None" for t
    using that by (induction t) (auto simp: HasPrefix_def Let_def digit_value_def)
  moreover have "\<forall>c\<in>set t. digit_value c \<noteq> None" if "parse_nat a t \<noteq> None" for a t
    using that by (induction t arbitrary: a) (auto split: option.splits)
  ultimately show ?thesis using parse_nat_format [of n] by (metis option.distinct(1))
qed

lemma getGID_of_stack:
  assumes "take 64 stack = ''goroutine '' @ format_nat n @ '' '' @ rest" and "n < 2 ^ 64"
  shows "getGID stack w = Some (Ret (''(t-'' @ format_nat n @ '')''), w)"
proof -
  have "TrimPrefix (take 64 stack) ''goroutine '' = format_nat n @ '' '' @ rest"
    unfolding assms(1) TrimPrefix_def by (simp add: HasPrefix_def)
  moreover have "uint_or_zero (format_nat n) = n"
    using assms(2) by (simp add: uint_or_zero_def parse_digits_def parse_nat_format)
  ultimately show ?thesis by (simp add: getGID_def Let_def Index_after_digits)
qed

section \<open>Metrics\<close>

type_synonym labels = "string \<times> string \<times> string"  \<comment> \<open>action, method, version\<close>

record api_metrics =
  ebsAPIMetric :: "labels \<Rightarrow> int list"  \<comment> \<open>the durations observed\<close>
  ebsAPIErrorMetric :: "labels \<Rightarrow> nat"
  ebsAPIThrottlesMetric :: "labels \<Rightarrow> nat"

definition RecordEBSMetric :: "labels \<Rightarrow> int \<Rightarrow> error option \<Rightarrow> api_metrics \<Rightarrow> api_metrics" where
  "RecordEBSMetric l timeTaken err ms =
     (if err \<noteq> None then ms\<lparr>ebsAPIErrorMetric := (ebsAPIErrorMetric ms)(l := Suc (ebsAPIErrorMetric ms l))\<rparr>
      else ms\<lparr>ebsAPIMetric := (ebsAPIMetric ms)(l := ebsAPIMetric ms l @ [timeTaken])\<rparr>)"

definition RecordEBSThrottlesMetric :: "labels \<Rightarrow> api_metrics \<Rightarrow> api_metrics" where
  "RecordEBSThrottlesMetric l ms =
     ms\<lparr>ebsAPIThrottlesMetric := (ebsAPIThrottlesMetric ms)(l := Suc (ebsAPIThrottlesMetric ms l))\<rparr>"

record RequestInfo =
  ri_labels :: labels
  ri_Status :: "int option"  \<comment> \<open>the status code, of a response that may be nil\<close>
  ri_Error :: "error option"

text \<open>\<open>request.IsErrorThrottle\<close> of the SDK is a parameter.\<close>

definition IsErrorThrottle :: "(error option \<Rightarrow> bool) \<Rightarrow> RequestInfo \<Rightarrow> bool" where
  "IsErrorThrottle sdk r =
     (case ri_Status r of
        Some code \<Rightarrow> code \<in> {429, 502, 503, 504} \<or> sdk (ri_Error r)
      | None \<Rightarrow> sdk (ri_Error r))"

text \<open>The interceptor of the token clients, after a request that took \<open>d\<close>.\<close>

definition after_request :: "(error option \<Rightarrow> bool) \<Rightarrow> RequestInfo \<Rightarrow> int \<Rightarrow> api_metrics \<Rightarrow> api_metrics" where
  "after_request sdk r d ms =
     (let ms1 = RecordEBSMetric (ri_labels r) d (ri_Error r) ms
      in if IsErrorThrottle sdk r then RecordEBSThrottlesMetric (ri_labels r) ms1 else ms1)"

section \<open>The refresh loop\<close>

text \<open>
  The goroutine that calls \<open>refreshToken\<close> again and again, beside the thread that started it and
  every other one. A state has the clients, where the starting thread is (it starts the
  goroutine before it assigns the two clients), where the goroutine is in \<open>refreshToken\<close>, the
  credentials that the role server has given (the newest first), the times of the start's fetch
  and of the last call, and the number of calls in a row that found the token to be renewed and
  have not renewed the clients. A step is one statement of \<open>refreshToken\<close> or of the start, or
  anything that happens elsewhere, such as time that passes. The lock of the token is taken by
  the goroutine alone. A panic ends the process: no step follows it.
\<close>

datatype start_at = Universal_next sdk_config | Ebs_next sdk_config | Assigned

datatype loop_at =
    Between_calls
  | Fetching
  | Fetched Credential
  | Renewed Credential  \<comment> \<open>\<open>t.auth\<close> is replaced\<close>
  | Session_open sdk_config
  | Universal_renewed sdk_config

record refresher =
  rf_clients :: ServiceClients
  rf_start :: start_at
  rf_loop :: loop_at
  rf_given :: "Credential list"
  rf_born :: int
  rf_called :: int
  rf_pending :: nat

definition set_universal :: "sdk_config \<Rightarrow> refresher \<Rightarrow> refresher" where
  "set_universal c s = s\<lparr>rf_clients := (rf_clients s)\<lparr>UniversalClient := Some c\<rparr>\<rparr>"

definition set_ebs :: "sdk_config \<Rightarrow> refresher \<Rightarrow> refresher" where
  "set_ebs c s = s\<lparr>rf_clients := (rf_clients s)\<lparr>EbsClient := Some c\<rparr>\<rparr>"

definition set_auth :: "Credential \<Rightarrow> refresher \<Rightarrow> refresher" where
  "set_auth r s = s\<lparr>rf_clients := (rf_clients s)\<lparr>sc_token := (sc_token (rf_clients s))\<lparr>auth := r\<rparr>\<rparr>\<rparr>"

inductive refresher_step :: "'w sts_env \<Rightarrow> sts_vars \<Rightarrow> refresher \<Rightarrow> 'w \<Rightarrow> refresher \<Rightarrow> 'w \<Rightarrow> bool"
  for env vars where
  elsewhere: "refresher_step env vars s w s w'"
| start_universal: "rf_start s = Universal_next c \<Longrightarrow>
     refresher_step env vars s w (set_universal c s\<lparr>rf_start := Ebs_next c\<rparr>) w"
| start_ebs: "rf_start s = Ebs_next c \<Longrightarrow> refresher_step env vars s w (set_ebs c s\<lparr>rf_start := Assigned\<rparr>) w"
| call_fresh: "rf_loop s = Between_calls \<Longrightarrow> \<not> isTokenExpired (sc_token (rf_clients s)) (time_now env w) \<Longrightarrow>
     refresher_step env vars s w (s\<lparr>rf_called := time_now env w, rf_pending := 0\<rparr>) w"
| call_expired: "rf_loop s = Between_calls \<Longrightarrow> isTokenExpired (sc_token (rf_clients s)) (time_now env w) \<Longrightarrow>
     refresher_step env vars s w
       (s\<lparr>rf_loop := Fetching, rf_called := time_now env w, rf_pending := Suc (rf_pending s)\<rparr>) w"
| fetch_fails: "rf_loop s = Fetching \<Longrightarrow>
     getRoleToken env (credentialServerAddress @ assumeRoleName vars) w = Some (Ret (Inl e), w') \<Longrightarrow>
     refresher_step env vars s w (s\<lparr>rf_loop := Between_calls\<rparr>) w'"
| fetch_gives: "rf_loop s = Fetching \<Longrightarrow>
     getRoleToken env (credentialServerAddress @ assumeRoleName vars) w = Some (Ret (Inr (Some r)), w') \<Longrightarrow>
     refresher_step env vars s w (s\<lparr>rf_loop := Fetched r\<rparr>) w'"
| replace_auth: "rf_loop s = Fetched r \<Longrightarrow>
     refresher_step env vars s w (set_auth r s\<lparr>rf_loop := Renewed r, rf_given := r # rf_given s\<rparr>) w"
| session: "rf_loop s = Renewed r \<Longrightarrow> c = role_config vars (sc_config (rf_clients s)) r \<Longrightarrow>
     open_session env c w = Some (Ret (), w') \<Longrightarrow> refresher_step env vars s w (s\<lparr>rf_loop := Session_open c\<rparr>) w'"
| renew_universal: "rf_loop s = Session_open c \<Longrightarrow>
     refresher_step env vars s w (set_universal c s\<lparr>rf_loop := Universal_renewed c\<rparr>) w"
| renew_ebs: "rf_loop s = Universal_renewed c \<Longrightarrow>
     refresher_step env vars s w (set_ebs c s\<lparr>rf_loop := Between_calls, rf_pending := 0\<rparr>) w"

text \<open>
  The runs from a start with a role. The clock does not run back; the next call comes at most
  \<open>gap\<close> seconds after the last one (the period of five minutes and what a call takes), and the
  start assigns the clients within \<open>gap\<close> seconds of its fetch.
\<close>

definition on_time :: "'w sts_env \<Rightarrow> int \<Rightarrow> refresher \<Rightarrow> 'w \<Rightarrow> bool" where
  "on_time env gap s w \<longleftrightarrow>
     time_now env w \<le> rf_called s + gap \<and> (rf_start s = Assigned \<or> time_now env w \<le> rf_born s + gap)"

text \<open>What the start has made when it starts the goroutine: the two clients are not yet in the fields.\<close>

definition at_start :: "ServiceClients \<Rightarrow> sdk_config \<Rightarrow> int \<Rightarrow> refresher" where
  "at_start sc c t = \<lparr>rf_clients = sc\<lparr>UniversalClient := None, EbsClient := None\<rparr>, rf_start = Universal_next c,
     rf_loop = Between_calls, rf_given = [auth (sc_token sc)], rf_born = t, rf_called = t, rf_pending = 0\<rparr>"

inductive refreshing :: "'w sts_env \<Rightarrow> sts_vars \<Rightarrow> Config \<Rightarrow> int \<Rightarrow> sts_vars \<Rightarrow> refresher \<Rightarrow> 'w \<Rightarrow> bool"
  for env vars0 config gap where
  started: "NewServiceClients env vars0 config w0 = Some (Ret (Inr (vars, sc)), w) \<Longrightarrow> active (sc_token sc) \<Longrightarrow>
     UniversalClient sc = Some c \<Longrightarrow> time_now env w0 \<le> time_now env w \<Longrightarrow> time_now env w \<le> time_now env w0 + gap \<Longrightarrow>
     refreshing env vars0 config gap vars (at_start sc c (time_now env w0)) w"
| stepped: "refreshing env vars0 config gap vars s w \<Longrightarrow> refresher_step env vars s w s' w' \<Longrightarrow>
     time_now env w \<le> time_now env w' \<Longrightarrow> on_time env gap s' w' \<Longrightarrow> refreshing env vars0 config gap vars s' w'"

subsection \<open>An undisturbed call is \<open>refreshToken\<close>\<close>

definition refresher_moves :: "'w sts_env \<Rightarrow> sts_vars \<Rightarrow> refresher \<times> 'w \<Rightarrow> refresher \<times> 'w \<Rightarrow> bool" where
  "refresher_moves env vars = (\<lambda>(s, w) (s', w'). refresher_step env vars s w s' w')\<^sup>*\<^sup>*"

lemma refresher_moves_refl [simp]: "refresher_moves env vars x x"
  by (simp add: refresher_moves_def)

lemma refresher_moves_step:
  "refresher_step env vars s w s1 w1 \<Longrightarrow> refresher_moves env vars (s1, w1) x \<Longrightarrow> refresher_moves env vars (s, w) x"
  unfolding refresher_moves_def by (rule converse_rtranclp_into_rtranclp) auto

lemma refreshToken_moves:
  assumes "refreshToken env vars (rf_clients s) w = Some (Ret sc, w')" and "rf_loop s = Between_calls"
  shows "\<exists>s'. refresher_moves env vars (s, w) (s', w') \<and> rf_clients s' = sc \<and> rf_loop s' = Between_calls"
proof (cases "isTokenExpired (sc_token (rf_clients s)) (time_now env w)")
  case False
  then have "sc = rf_clients s" "w' = w" using assms(1) by (auto simp: refreshToken_def bnd_def)
  then show ?thesis
    using refresher_moves_step [OF refresher_step.call_fresh [OF assms(2) False] refresher_moves_refl] assms(2) by fastforce
next
  case True
  let ?s1 = "s\<lparr>rf_loop := Fetching, rf_called := time_now env w, rf_pending := Suc (rf_pending s)\<rparr>"
  have call: "refresher_step env vars s w ?s1 w" by (rule refresher_step.call_expired [OF assms(2) True])
  obtain r w1 where fetch: "getRoleToken env (credentialServerAddress @ assumeRoleName vars) w = Some (Ret r, w1)"
    using assms(1) True by (auto simp: refreshToken_def bnd_def split: option.splits outcome.splits)
  show ?thesis
  proof (cases r)
    case (Inl e)
    then have "sc = rf_clients s" "w' = w1" using assms(1) True fetch by (auto simp: refreshToken_def bnd_def)
    moreover have "refresher_step env vars ?s1 w (?s1\<lparr>rf_loop := Between_calls\<rparr>) w1"
      by (rule refresher_step.fetch_fails [OF _ fetch [unfolded Inl]]) simp
    ultimately show ?thesis
      by (intro exI [of _ "?s1\<lparr>rf_loop := Between_calls\<rparr>"] conjI)
        (simp_all add: refresher_moves_step [OF call refresher_moves_step])
  next
    case (Inr o')
    then obtain role where role: "o' = Some role"
      using assms(1) True fetch by (cases o') (auto simp: refreshToken_def bnd_def)
    let ?c = "role_config vars (sc_config (rf_clients s)) role"
    have session: "open_session env ?c w1 = Some (Ret (), w')"
      and sc: "sc = (rf_clients s)\<lparr>sc_token := (sc_token (rf_clients s))\<lparr>auth := role\<rparr>, UniversalClient := Some ?c, EbsClient := Some ?c\<rparr>"
      using assms(1) True fetch Inr role by (auto simp: refreshToken_def bnd_def Let_def split: option.splits outcome.splits)
    let ?s2 = "?s1\<lparr>rf_loop := Fetched role\<rparr>"
    let ?s3 = "set_auth role ?s2\<lparr>rf_loop := Renewed role, rf_given := role # rf_given ?s2\<rparr>"
    let ?s4 = "?s3\<lparr>rf_loop := Session_open ?c\<rparr>"
    let ?s5 = "set_universal ?c ?s4\<lparr>rf_loop := Universal_renewed ?c\<rparr>"
    let ?s6 = "set_ebs ?c ?s5\<lparr>rf_loop := Between_calls, rf_pending := 0\<rparr>"
    have t1: "refresher_step env vars ?s1 w ?s2 w1" using fetch Inr role by (intro refresher_step.fetch_gives) auto
    have t2: "refresher_step env vars ?s2 w1 ?s3 w1" by (rule refresher_step.replace_auth) simp
    have t3: "refresher_step env vars ?s3 w1 ?s4 w'"
      by (rule refresher_step.session [OF _ _ session]) (simp_all add: set_auth_def)
    have t4: "refresher_step env vars ?s4 w' ?s5 w'" by (rule refresher_step.renew_universal) simp
    have t5: "refresher_step env vars ?s5 w' ?s6 w'" by (rule refresher_step.renew_ebs) simp
    have "refresher_moves env vars (s, w) (?s6, w')"
      by (rule refresher_moves_step [OF call], rule refresher_moves_step [OF t1], rule refresher_moves_step [OF t2],
          rule refresher_moves_step [OF t3], rule refresher_moves_step [OF t4], rule refresher_moves_step [OF t5], rule refresher_moves_refl)
    moreover have "rf_clients ?s6 = sc" by (simp add: sc set_auth_def set_universal_def set_ebs_def)
    moreover have "rf_loop ?s6 = Between_calls" by simp
    ultimately show ?thesis by blast
  qed
qed

subsection \<open>What the clients are built from\<close>

text \<open>
  The credentials of the two clients. The role server gives credentials that live for the
  window and one gap more.
\<close>

definition built :: "sts_vars \<Rightarrow> ServiceClients \<Rightarrow> Credential \<Rightarrow> Credential \<Rightarrow> bool" where
  "built vars sc cu ce \<longleftrightarrow> UniversalClient sc = Some (role_config vars (sc_config sc) cu) \<and>
     EbsClient sc = Some (role_config vars (sc_config sc) ce)"

definition long_lived :: "'w sts_env \<Rightarrow> int \<Rightarrow> bool" where
  "long_lived env gap \<longleftrightarrow>
     (\<forall>url w c w'. getRoleToken env url w = Some (Ret (Inr (Some c)), w') \<longrightarrow>
        time_now env w + tokenExpiredWindow + gap \<le> ExpiredTime c)"

text \<open>What a credential still has, as long as renewals are pending, and what a new one has.\<close>

definition lives :: "int \<Rightarrow> refresher \<Rightarrow> Credential \<Rightarrow> bool" where
  "lives gap s c \<longleftrightarrow> rf_called s + tokenExpiredWindow \<le> ExpiredTime c + int (rf_pending s) * gap"

definition lives_anew :: "refresher \<Rightarrow> Credential \<Rightarrow> bool" where
  "lives_anew s c \<longleftrightarrow> rf_called s + tokenExpiredWindow \<le> ExpiredTime c"

text \<open>The invariant, by where the two threads are.\<close>

definition starting_ok :: "int \<Rightarrow> sts_vars \<Rightarrow> refresher \<Rightarrow> Credential \<Rightarrow> sdk_config \<Rightarrow> bool" where
  "starting_ok gap vars s a c \<longleftrightarrow> rf_loop s = Between_calls \<and> rf_pending s = 0 \<and>
     c = role_config vars (sc_config (rf_clients s)) a \<and> rf_born s + gap + tokenExpiredWindow \<le> ExpiredTime a"

definition renewing_ok :: "int \<Rightarrow> sts_vars \<Rightarrow> refresher \<Rightarrow> Credential \<Rightarrow> bool" where
  "renewing_ok gap vars s a \<longleftrightarrow> lives_anew s a \<and>
     (\<exists>old. take 2 (rf_given s) = [a, old] \<and> lives gap s old \<and> EbsClient (rf_clients s) = Some (role_config vars (sc_config (rf_clients s)) old) \<and>
       (case rf_loop s of
          Universal_renewed c \<Rightarrow> built vars (rf_clients s) a old
        | _ \<Rightarrow> built vars (rf_clients s) old old))"

definition refresher_ok :: "int \<Rightarrow> sts_vars \<Rightarrow> refresher \<Rightarrow> bool" where
  "refresher_ok gap vars s \<longleftrightarrow>
     (let a = auth (sc_token (rf_clients s)); cfg = role_config vars (sc_config (rf_clients s))
      in take 1 (rf_given s) = [a] \<and>
        (case rf_start s of
           Universal_next c \<Rightarrow> starting_ok gap vars s a c
         | Ebs_next c \<Rightarrow> starting_ok gap vars s a c \<and> UniversalClient (rf_clients s) = Some c
         | Assigned \<Rightarrow>
             (case rf_loop s of
                Fetched r \<Rightarrow> built vars (rf_clients s) a a \<and> lives gap s a \<and> lives_anew s r
              | Renewed r \<Rightarrow> r = a \<and> renewing_ok gap vars s a
              | Session_open c \<Rightarrow> c = cfg a \<and> renewing_ok gap vars s a
              | Universal_renewed c \<Rightarrow> c = cfg a \<and> renewing_ok gap vars s a
              | _ \<Rightarrow> built vars (rf_clients s) a a \<and> lives gap s a)))"

lemmas refresher_ok_defs = refresher_ok_def renewing_ok_def starting_ok_def built_def lives_def lives_anew_def Let_def
  set_universal_def set_ebs_def set_auth_def isTokenExpired_def expiredAt_def

lemma refresher_ok_step:
  assumes "refresher_step env vars s w s' w'" and "refresher_ok gap vars s" and "long_lived env gap" and "0 \<le> gap"
    and "rf_called s \<le> time_now env w" and "on_time env gap s w" and "on_time env gap s' w'"
  shows "refresher_ok gap vars s'"
  using assms(1)
proof cases
  case elsewhere
  then show ?thesis using assms(2) by simp
next
  case (start_universal c)
  then show ?thesis using assms(2) by (simp add: refresher_ok_defs)
next
  case (start_ebs c)
  then show ?thesis using assms(2,5,6) by (simp add: refresher_ok_defs on_time_def)
next
  case call_fresh
  then show ?thesis using assms(2) by (auto simp: refresher_ok_defs split: start_at.splits)
next
  case call_expired
  then show ?thesis using assms(2,6)
    by (auto simp: refresher_ok_defs on_time_def algebra_simps split: start_at.splits)
next
  case (fetch_fails e)
  then show ?thesis using assms(2) by (auto simp: refresher_ok_defs split: start_at.splits)
next
  case (fetch_gives r)
  have "time_now env w + tokenExpiredWindow + gap \<le> ExpiredTime r"
    using fetch_gives(3) assms(3) unfolding long_lived_def by blast
  then show ?thesis using assms(2,4,5) fetch_gives(1,2) by (auto simp: refresher_ok_defs split: start_at.splits)
next
  case (replace_auth r)
  then show ?thesis using assms(2) by (cases "rf_given s") (auto simp: refresher_ok_defs split: start_at.splits)
next
  case (session r c)
  then show ?thesis using assms(2) by (auto simp: refresher_ok_defs split: start_at.splits)
next
  case (renew_universal c)
  then show ?thesis using assms(2) by (auto simp: refresher_ok_defs split: start_at.splits)
next
  case (renew_ebs c)
  then show ?thesis using assms(2) by (auto simp: refresher_ok_defs split: start_at.splits)
qed

lemma refresher_step_called:
  "refresher_step env vars s w s' w' \<Longrightarrow> rf_called s' = rf_called s \<or> rf_called s' = time_now env w"
  by (erule refresher_step.cases) (auto simp: set_universal_def set_ebs_def set_auth_def)

lemma NewServiceClients_role:
  assumes "NewServiceClients env vars0 config w0 = Some (Ret (Inr (vars, sc)), w)" and "active (sc_token sc)"
  obtains url w1 where "getRoleToken env url w0 = Some (Ret (Inr (Some (auth (sc_token sc)))), w1)"
    and "built vars sc (auth (sc_token sc)) (auth (sc_token sc))"
  using assms
  by (cases "SecretAccessKey config \<noteq> [] \<and> AccessKeyId config \<noteq> []")
    (auto simp: NewServiceClients_def Let_def bnd_Ret_iff bndE_Inr_iff deref_Ret_iff built_def)

lemma refreshing_ok:
  assumes "refreshing env vars0 config gap vars s w" and "long_lived env gap" and "0 \<le> gap"
  shows "refresher_ok gap vars s \<and> rf_called s \<le> time_now env w \<and> on_time env gap s w"
  using assms(1)
proof induction
  case (started w0 vars sc w c)
  from NewServiceClients_role [OF started(1,2)] obtain url w1
    where fetch: "getRoleToken env url w0 = Some (Ret (Inr (Some (auth (sc_token sc)))), w1)"
      and built: "built vars sc (auth (sc_token sc)) (auth (sc_token sc))" by blast
  have "time_now env w0 + tokenExpiredWindow + gap \<le> ExpiredTime (auth (sc_token sc))"
    using fetch assms(2) unfolding long_lived_def by blast
  with built started(3-5) show ?case by (simp add: at_start_def refresher_ok_defs on_time_def)
next
  case (stepped vars s w s' w')
  then show ?case
    using refresher_ok_step [OF stepped.hyps(2) _ assms(2,3)] refresher_step_called [OF stepped.hyps(2)] by auto
qed

lemma in_take_2: "take 1 xs = [a] \<Longrightarrow> a \<in> set (take 2 xs)"
  by (cases xs) auto

text \<open>C39: The role token does not run out in use. The refresh is followed statement by statement, beside
  the start, which assigns the clients while the refreshing goroutine already runs. If the credentials
  that the role server gives out have the window of thirty minutes and one longest gap between
  two calls to live, then at every moment at which the start has assigned them, each of the two
  clients is built from the newest credential that the token has held or from the one before,
  and that credential has not expired; and unless a call is between the replacement of the
  token's credential and that of the second client, both are built from the token's
  credential. That holds as long as the calls in a row that found the token to be renewed and have not
  renewed it, the current one included, and one more, times the longest gap, make no more than
  the window: with a gap of six minutes, up to four such calls.\<close>

theorem sts_token_valid:
  assumes "refreshing env vars0 config gap vars s w" and "long_lived env gap" and "0 \<le> gap"
    and "rf_start s = Assigned" and "int (Suc (rf_pending s)) * gap \<le> tokenExpiredWindow"
  shows "auth (sc_token (rf_clients s)) = hd (rf_given s) \<and>
    (\<exists>cu ce. {cu, ce} \<subseteq> set (take 2 (rf_given s)) \<and> built vars (rf_clients s) cu ce \<and>
       time_now env w \<le> ExpiredTime cu \<and> time_now env w \<le> ExpiredTime ce \<and>
       (rf_loop s \<in> {Between_calls, Fetching} \<union> range Fetched \<longrightarrow>
          cu = auth (sc_token (rf_clients s)) \<and> ce = auth (sc_token (rf_clients s))))"
proof -
  let ?a = "auth (sc_token (rf_clients s))"
  have ok: "refresher_ok gap vars s" and time: "time_now env w \<le> rf_called s + gap"
    using refreshing_ok [OF assms(1-3)] by (auto simp: on_time_def)
  have lives: "time_now env w \<le> ExpiredTime c" if "lives gap s c" for c
    using that time assms(5) by (simp add: lives_def algebra_simps)
  have anew: "lives gap s c" if "lives_anew s c" for c
    using that assms(3) by (simp add: lives_def lives_anew_def) (smt (verit) mult_nonneg_nonneg of_nat_0_le_iff)
  have head: "take 1 (rf_given s) = [?a]" using ok by (simp add: refresher_ok_def Let_def)
  then have "?a = hd (rf_given s)" by (cases "rf_given s") auto
  moreover have "\<exists>cu ce. {cu, ce} \<subseteq> set (take 2 (rf_given s)) \<and> built vars (rf_clients s) cu ce \<and>
      lives gap s cu \<and> lives gap s ce \<and>
      (rf_loop s \<in> {Between_calls, Fetching} \<union> range Fetched \<longrightarrow> cu = ?a \<and> ce = ?a)"
  proof (cases "rf_loop s \<in> {Between_calls, Fetching} \<union> range Fetched")
    case True
    then have "built vars (rf_clients s) ?a ?a" "lives gap s ?a" using ok assms(4) by (auto simp: refresher_ok_def Let_def)
    with in_take_2 [OF head] show ?thesis by blast
  next
    case False
    then have "renewing_ok gap vars s ?a" using ok assms(4) by (auto simp: refresher_ok_def Let_def split: loop_at.splits)
    then show ?thesis unfolding renewing_ok_def using anew False by (fastforce split: loop_at.splits)
  qed
  ultimately show ?thesis using lives by blast
qed

text \<open>A role server whose answer tells the time; the world is the time, and \<open>life\<close> says how long the credential given at a time lives.\<close>

definition clock_env :: "(nat \<Rightarrow> int) \<Rightarrow> nat sts_env" where
  "clock_env life = \<lparr>sts_net = \<lparr>http_Get = (\<lambda>url w. (Inr (Inr (replicate w (CHR ''x''))), w)),
       dial_host = (\<lambda>_ w. (None, w)), url_host = (\<lambda>_. Inr [])\<rparr>,
     decode_credential = (\<lambda>s. Inr (Some \<lparr>ExpiredTime = int (length s) + life (length s), CurrentTime = int (length s),
       cr_AccessKeyId = ''ak'', AccessKeySecret = ''sk'', SecurityToken = ''st''\<rparr>)),
     new_session = (\<lambda>_ w. (None, w)), time_now = int\<rparr>"

definition role_at :: "(nat \<Rightarrow> int) \<Rightarrow> nat \<Rightarrow> Credential" where
  "role_at life w = \<lparr>ExpiredTime = int w + life w, CurrentTime = int w,
     cr_AccessKeyId = ''ak'', AccessKeySecret = ''sk'', SecurityToken = ''st''\<rparr>"

definition clients_at :: "(nat \<Rightarrow> int) \<Rightarrow> nat \<Rightarrow> nat \<Rightarrow> ServiceClients" where
  "clients_at life t c = \<lparr>sc_config = zero_Config, sc_token = \<lparr>auth = role_at life t, active = True\<rparr>,
     UniversalClient = Some (role_config initial_vars zero_Config (role_at life c)),
     EbsClient = Some (role_config initial_vars zero_Config (role_at life c))\<rparr>"

definition clock_state :: "(nat \<Rightarrow> int) \<Rightarrow> nat \<Rightarrow> nat \<Rightarrow> nat list \<Rightarrow> nat \<Rightarrow> refresher" where
  "clock_state life t c given called = \<lparr>rf_clients = clients_at life t c, rf_start = Assigned, rf_loop = Between_calls,
     rf_given = map (role_at life) given, rf_born = 0, rf_called = int called, rf_pending = 0\<rparr>"

lemma clock_now [simp]: "time_now (clock_env life) = int"
  by (simp add: clock_env_def)

lemma clock_role: "getRoleToken (clock_env life) url w = Some (Ret (Inr (Some (role_at life w))), w)"
  by (simp add: getRoleToken_def HttpGet_def clock_env_def role_at_def bndE_def bnd_def)

lemma clock_session: "open_session (clock_env life) c w = Some (Ret (), w)"
  by (simp add: open_session_def clock_env_def bnd_def)

lemma clock_start:
  assumes "0 \<le> gap"
  shows "refreshing (clock_env life) initial_vars zero_Config gap initial_vars
    (at_start (clients_at life 0 0) (role_config initial_vars zero_Config (role_at life 0)) 0) 0"
proof -
  have "NewServiceClients (clock_env life) initial_vars zero_Config 0 = Some (Ret (Inr (initial_vars, clients_at life 0 0)), 0)"
    by (simp add: NewServiceClients_def zero_Config_def Let_def clock_role bndE_Inr bnd_Ret clock_session clients_at_def)
  from refreshing.started [OF this, of "role_config initial_vars zero_Config (role_at life 0)" gap] show ?thesis
    using assms by (simp add: clients_at_def)
qed

text \<open>A call that finds the token fresh, \<open>d\<close> seconds after the last one.\<close>

lemma clock_fresh:
  assumes "refreshing (clock_env life) initial_vars zero_Config gap initial_vars (clock_state life t c g now) now"
    and "int d \<le> gap" and "int (now + d) + 1800 \<le> int t + life t"
  shows "refreshing (clock_env life) initial_vars zero_Config gap initial_vars (clock_state life t c g (now + d)) (now + d)"
proof -
  have "refreshing (clock_env life) initial_vars zero_Config gap initial_vars (clock_state life t c g now) (now + d)"
    by (rule refreshing.stepped [OF assms(1) refresher_step.elsewhere]) (use assms(2) in \<open>simp_all add: on_time_def clock_state_def\<close>)
  from refreshing.stepped [OF this refresher_step.call_fresh] show ?thesis
    using assms(2,3)
    by (simp add: on_time_def clock_state_def isTokenExpired_def expiredAt_def tokenExpiredWindow_def clients_at_def role_at_def)
qed

theorem sts_token_valid_witness:
  "refreshing (clock_env (\<lambda>_. 3600)) initial_vars zero_Config 360 initial_vars (clock_state (\<lambda>_. 3600) 0 0 [0] 300) 300 \<and>
   (\<exists>cu ce. built initial_vars (clients_at (\<lambda>_. 3600) 0 0) cu ce \<and> 300 \<le> ExpiredTime cu \<and> 300 \<le> ExpiredTime ce \<and>
      cu = role_at (\<lambda>_. 3600) 0 \<and> ce = cu)"
proof -
  let ?life = "(\<lambda>_. 3600) :: nat \<Rightarrow> int"
  let ?run = "refreshing (clock_env ?life) initial_vars zero_Config 360 initial_vars"
  let ?s = "at_start (clients_at ?life 0 0) (role_config initial_vars zero_Config (role_at ?life 0)) 0"
  let ?s1 = "set_universal (role_config initial_vars zero_Config (role_at ?life 0)) ?s
    \<lparr>rf_start := Ebs_next (role_config initial_vars zero_Config (role_at ?life 0))\<rparr>"
  have "?run ?s 0" by (rule clock_start) simp
  then have "?run ?s1 0"
    by (rule refreshing.stepped [OF _ refresher_step.start_universal]) (simp_all add: at_start_def on_time_def set_universal_def)
  from refreshing.stepped [OF this refresher_step.start_ebs]
  have "?run (clock_state ?life 0 0 [0] 0) 0"
    by (simp add: at_start_def on_time_def set_universal_def set_ebs_def clock_state_def clients_at_def)
  from clock_fresh [OF this, of 300] have run: "?run (clock_state ?life 0 0 [0] 300) 300" by simp
  have "long_lived (clock_env ?life) 360"
    by (auto simp: long_lived_def clock_role role_at_def tokenExpiredWindow_def)
  from sts_token_valid [OF run this] show ?thesis
    using run by (simp add: clock_state_def clients_at_def tokenExpiredWindow_def)
qed

subsection \<open>The start and the goroutine race\<close>

text \<open>
  Credentials that live for the window alone are not enough. A role server that gives out one with thirty
  minutes to live and then ones with an hour: the first call renews the token and the
  clients while the start still has to assign its own, which then replace the new ones. The token is
  good, so no call renews it; after half an hour every call has succeeded or had nothing to do, and the clients use an
  expired credential.
\<close>

definition aging :: "nat \<Rightarrow> int" where "aging t = (if t = 0 then 1800 else 3600)"

lemma clients_stay_old:
  "\<exists>s old. refreshing (clock_env aging) initial_vars zero_Config 360 initial_vars s (1801 :: nat) \<and>
     rf_start s = Assigned \<and> rf_loop s = Between_calls \<and> rf_pending s = 0 \<and>
     built initial_vars (rf_clients s) old old \<and> ExpiredTime old < 1801 \<and>
     \<not> isTokenExpired (sc_token (rf_clients s)) 1801"
proof -
  let ?run = "refreshing (clock_env aging) initial_vars zero_Config 360 initial_vars"
  let ?c = "\<lambda>t. role_config initial_vars zero_Config (role_at aging t)"
  let ?s = "at_start (clients_at aging 0 0) (?c 0) 0"
  let ?s1 = "?s\<lparr>rf_loop := Fetching, rf_called := 1, rf_pending := 1\<rparr>"
  let ?s2 = "?s1\<lparr>rf_loop := Fetched (role_at aging 1)\<rparr>"
  let ?s3 = "set_auth (role_at aging 1) ?s2\<lparr>rf_loop := Renewed (role_at aging 1), rf_given := role_at aging 1 # rf_given ?s2\<rparr>"
  let ?s4 = "?s3\<lparr>rf_loop := Session_open (?c 1)\<rparr>"
  let ?s5 = "set_universal (?c 1) ?s4\<lparr>rf_loop := Universal_renewed (?c 1)\<rparr>"
  let ?s6 = "set_ebs (?c 1) ?s5\<lparr>rf_loop := Between_calls, rf_pending := 0\<rparr>"
  let ?s7 = "set_universal (?c 0) ?s6\<lparr>rf_start := Ebs_next (?c 0)\<rparr>"
  note defs = at_start_def on_time_def set_universal_def set_ebs_def set_auth_def clients_at_def
  have "?run ?s 0" by (rule clock_start) simp
  then have "?run ?s 1" by (rule refreshing.stepped [OF _ refresher_step.elsewhere]) (simp_all add: defs)
  from refreshing.stepped [OF this refresher_step.call_expired] have "?run ?s1 1"
    by (simp add: defs isTokenExpired_def expiredAt_def tokenExpiredWindow_def role_at_def aging_def)
  from refreshing.stepped [OF this refresher_step.fetch_gives [OF _ clock_role]] have "?run ?s2 1" by (simp add: defs)
  from refreshing.stepped [OF this refresher_step.replace_auth] have "?run ?s3 1" by (simp add: defs)
  from refreshing.stepped [OF this refresher_step.session [OF _ _ clock_session]] have "?run ?s4 1" by (simp add: defs)
  from refreshing.stepped [OF this refresher_step.renew_universal] have "?run ?s5 1" by (simp add: defs)
  from refreshing.stepped [OF this refresher_step.renew_ebs] have "?run ?s6 1" by (simp add: defs)
  from refreshing.stepped [OF this refresher_step.start_universal] have "?run ?s7 1" by (simp add: defs)
  from refreshing.stepped [OF this refresher_step.start_ebs] have start: "?run (clock_state aging 1 0 [1, 0] 1) 1"
    by (simp add: defs clock_state_def)
  have life: "aging (Suc 0) = 3600" by (simp add: aging_def)
  have "?run (clock_state aging 1 0 [1, 0] (1 + 300 * n)) (1 + 300 * n)" if "n \<le> 6" for n
    using that
  proof (induction n)
    case 0 show ?case using start by simp
  next
    case (Suc n)
    then have "?run (clock_state aging 1 0 [1, 0] (1 + 300 * n)) (1 + 300 * n)" by simp
    from clock_fresh [OF this, of 300] show ?case using Suc.prems by (simp add: life algebra_simps)
  qed
  from this [of 6] have "?run (clock_state aging 1 0 [1, 0] 1801) 1801" by simp
  moreover have "built initial_vars (clients_at aging 1 0) (role_at aging 0) (role_at aging 0)"
    by (simp add: built_def clients_at_def)
  moreover have "ExpiredTime (role_at aging 0) < 1801" "\<not> isTokenExpired (sc_token (clients_at aging 1 0)) 1801"
    by (simp_all add: role_at_def aging_def clients_at_def isTokenExpired_def expiredAt_def tokenExpiredWindow_def)
  ultimately show ?thesis by (intro exI [of _ "clock_state aging 1 0 [1, 0] 1801"] exI [of _ "role_at aging 0"]) (simp add: clock_state_def)
qed

end
