(* ===== verification/Startup.thy ===== *)
theory Startup
  imports Node_Life Sts
begin

text \<open>
  The \<open>run\<close> functions of \<open>cmd/ebsplugin\<close>, \<open>cmd/nasplugin\<close> and \<open>cmd/tosplugin\<close>: from the flags to
  the driver that the gRPC server is started with (\<open>Plugins\<close> goes on to the services).
\<close>

section \<open>Flags\<close>

record flags =
  fl_name :: string
  fl_nodeId :: string
  fl_configFile :: string  \<comment> \<open>\<open>openApiCfgFile\<close>, \<open>ConfigFilePath\<close>\<close>
  fl_metadataURL :: string
  fl_showVersion :: bool
  fl_reserve :: "int \<times> nat"  \<comment> \<open>\<open>reserveVolumesFactor\<close>, the float \<open>m / 2^k\<close>\<close>

definition ebs_flags :: flags where
  "ebs_flags = \<lparr>fl_name = ''ebs.csi.volcengine.com'', fl_nodeId = [], fl_configFile = ''/etc/csi/config/volc.yaml'',
     fl_metadataURL = ''http://100.96.0.96/volcstack/latest'', fl_showVersion = False,
     fl_reserve = (5404319552844595, 54)\<rparr>"

definition nas_flags :: flags where
  "nas_flags = ebs_flags\<lparr>fl_name := nas_DefaultDriverName, fl_configFile := ''/etc/csi/config.yaml'', fl_reserve := (0, 0)\<rparr>"

definition tos_flags :: flags where
  "tos_flags = ebs_flags\<lparr>fl_name := tos_DefaultDriverName, fl_configFile := [], fl_reserve := (0, 0)\<rparr>"

text \<open>\<open>run\<close> exits with a code, or returns before the driver exists, or runs the driver.\<close>

datatype 'd started = Exits nat | Stops | Runs 'd

definition find_node_id :: "'w MetadataService \<Rightarrow> string \<Rightarrow> ('w, string) go" where
  "find_node_id md nodeId = (if nodeId = [] then md_NodeId md else ret nodeId)"

section \<open>The EBS plugin\<close>

definition defaultMaxVolumesPerNode :: int64 where
  "defaultMaxVolumesPerNode = 15"

text \<open>The pointers of \<open>int64(*instanceType.Volume.MaximumCount)\<close> are read without a check.\<close>

definition max_volumes :: "'w MetadataService \<Rightarrow> 'w VolcEngin \<Rightarrow> ('w, int64) go" where
  "max_volumes md volc =
     bnd (md_InstanceType md) (\<lambda>instanceTypeName.
     if instanceTypeName \<noteq> [] then
       bnd (VolcEngin_DescribeInstanceTypes volc instanceTypeName) (\<lambda>r.
       case r of
         Inl e \<Rightarrow> ret defaultMaxVolumesPerNode
       | Inr p \<Rightarrow>
           bnd (deref p) (\<lambda>instanceType.
           bnd (deref (InstanceTypeForDescribeInstanceTypesOutput_Volume instanceType)) (\<lambda>v.
           bnd (deref (VolumeForDescribeInstanceTypesOutput_MaximumCount v)) (\<lambda>c. ret (scast c)))))
     else ret defaultMaxVolumesPerNode)"

text \<open>
  \<open>int64(math.Floor(float64(max) * factor))\<close>: \<open>fl\<close> rounds to a float. (Go leaves the conversion
  of a float that does not fit an int64 to the implementation; here it wraps.)
\<close>

definition reserve_volumes :: "int \<times> nat \<Rightarrow> int64 \<Rightarrow> int64" where
  "reserve_volumes factor maxVols = word_of_int (fl (fl (sint maxVols) * fst factor) div 2 ^ snd factor)"

text \<open>
  The SDK behind a pair of clients is the parameter \<open>connect\<close>; the lookup of devices that the client
  uses is the code's own.
\<close>

definition ebs_run ::
  "(Config \<Rightarrow> Config option \<Rightarrow> Config outcome) \<Rightarrow> (string \<Rightarrow> string) \<Rightarrow> (string \<Rightarrow> Config \<times> error option)
     \<Rightarrow> ('x os) sts_env \<Rightarrow> (ServiceClients \<Rightarrow> ('x os) sdk) \<Rightarrow> topology_keys \<Rightarrow> string \<Rightarrow> flags
     \<Rightarrow> ('x os, (Driver \<times> ('x os) Cloud) started) go" where
  "ebs_run merge getenv unmarshal env connect tk version f =
     (if fl_showVersion f then ret (Exits 0)
      else let md = NewECSMetadataService (sts_net env) (fl_metadataURL f)
      in bnd (find_node_id md (fl_nodeId f)) (\<lambda>nodeId.
         if nodeId = [] then ret Stops
         else
           bnd (loadOpenapiConfig merge getenv unmarshal (fl_configFile f) md) (\<lambda>config.
           bnd (NewServiceClients env initial_vars config) (\<lambda>r.
           case r of
             Inl e \<Rightarrow> ret Stops
           | Inr (vars, clients) \<Rightarrow>
               (let volc = NewVolcEngin ((connect clients)\<lparr>device_by_volume_id := GetDeviceByVolumeID\<rparr>) (Region config) (Zone config)
                in bnd (max_volumes md volc) (\<lambda>maxVols.
                   ret (Runs (ebs_NewDriver (fl_name f) version nodeId maxVols (reserve_volumes (fl_reserve f) maxVols),
                     VolcEngin_Cloud tk volc))))))))"

section \<open>The NAS and the TOS plugin\<close>

definition nas_run ::
  "(Config \<Rightarrow> Config option \<Rightarrow> Config outcome) \<Rightarrow> (string \<Rightarrow> string) \<Rightarrow> (string \<Rightarrow> Config \<times> error option)
     \<Rightarrow> ('x os) net \<Rightarrow> string \<Rightarrow> flags \<Rightarrow> ('x os, nas_Driver started) go" where
  "nas_run merge getenv unmarshal n version f =
     (if fl_showVersion f then ret (Exits 0)
      else let md = NewECSMetadataService n (fl_metadataURL f)
      in bnd (find_node_id md (fl_nodeId f)) (\<lambda>nodeId.
         if nodeId = [] then ret Stops
         else
           bnd (loadOpenapiConfig merge getenv unmarshal (fl_configFile f) md) (\<lambda>config.
           ret (Runs (nas_NewDriver (fl_name f) version nodeId (Some config))))))"

definition tos_run :: "'w net \<Rightarrow> string \<Rightarrow> flags \<Rightarrow> ('w, CSIDriver started) go" where
  "tos_run n version f =
     (if fl_showVersion f then ret (Exits 0)
      else let md = NewECSMetadataService n (fl_metadataURL f)
      in bnd (find_node_id md (fl_nodeId f)) (\<lambda>nodeId.
         if nodeId = [] then ret Stops
         else ret (Runs (tos_NewDriver (fl_name f) version nodeId))))"

section \<open>The limits a node announces\<close>

text \<open>Rounding does not cross a number that a float can hold.\<close>

lemma round53_le:
  assumes "x \<le> y * 2 ^ k" and "y < 2 ^ 53"
  shows "round53 x \<le> y * 2 ^ k"
proof (cases "bit_len x \<le> 53")
  case True
  then show ?thesis using assms(1) by (simp add: round53_def)
next
  case False
  define s where "s = bit_len x - 53"
  define q r where "q = x div 2 ^ s" and "r = x mod 2 ^ s"
  have len: "bit_len x = s + 53" "0 < s" using False by (simp_all add: s_def)
  have x: "x = q * 2 ^ s + r" by (simp only: q_def r_def div_mult_mod_eq)
  have R: "round53 x = (if r > 2 ^ (s - 1) \<or> r = 2 ^ (s - 1) \<and> odd q then q + 1 else q) * 2 ^ s"
    using False len by (simp add: round53_def Let_def q_def r_def)
  have "0 < x" using False by (cases x) (simp_all add: bit_len.simps)
  then have "2 ^ (s + 52) \<le> x" using bit_len_bounds [of x] len by (simp add: add.commute)
  also have "\<dots> < 2 ^ (53 + k)" using assms by (simp add: power_add order_le_less_trans)
  finally have "s + 52 < 53 + k" by (rule power_less_imp_less_exp [rotated]) simp
  then have "y * 2 ^ k = y * 2 ^ (k - s) * 2 ^ s" by (simp add: mult.assoc flip: power_add)
  then obtain z where z: "y * 2 ^ k = z * 2 ^ s" by blast
  show ?thesis
  proof (cases "r = 0")
    case True
    then show ?thesis using R x assms(1) by simp
  next
    case False
    have "q * 2 ^ s < z * 2 ^ s" using False assms(1) x z by linarith
    then have "Suc q \<le> z" by simp
    then have "Suc q * 2 ^ s \<le> y * 2 ^ k" unfolding z by (rule mult_right_mono) simp
    then show ?thesis using R by auto
  qed
qed

lemma fl_le:
  assumes "0 \<le> i" and "i \<le> y * 2 ^ k" and "y < 2 ^ 53"
  shows "fl i \<le> y * 2 ^ k"
proof -
  have "0 \<le> y * 2 ^ k" using assms(1,2) by linarith
  then have "0 \<le> y" by (simp add: zero_le_mult_iff)
  then have "nat i \<le> nat y * 2 ^ k" "nat y < 2 ^ 53"
    using assms(2,3) by (simp_all add: nat_le_eq_zle nat_mult_distrib nat_power_eq nat_le_iff nat_less_iff)
  from round53_le [OF this] have "int (round53 (nat i)) \<le> int (nat y * 2 ^ k)" by (rule iffD2 [OF of_nat_le_iff])
  then show ?thesis using assms(1) \<open>0 \<le> y\<close> by (simp add: fl_def)
qed

lemma fl_small:
  assumes "0 \<le> i" and "i < 2 ^ 53"
  shows "fl i = i"
proof (cases "nat i = 0")
  case False
  then have "2 ^ (bit_len (nat i) - 1) \<le> nat i" using bit_len_bounds [of "nat i"] by simp
  also have "\<dots> < 2 ^ 53" using assms by (simp add: nat_less_iff)
  finally have "bit_len (nat i) - 1 < 53" by (rule power_less_imp_less_exp [rotated]) simp
  then have "bit_len (nat i) \<le> 53" by linarith
  then show ?thesis using assms(1) by (simp add: fl_def round53_def)
qed (use assms in \<open>simp add: fl_def round53_def bit_len.simps\<close>)

lemma sint_scast_32: "sint (scast (c :: 32 word) :: int64) = sint c"
  by (rule sint_up_scast) (simp add: is_up)

text \<open>
  What a volume limit comes from: the default, when the metadata server names no instance type or
  the service does not answer with just one type, or else the maximal count of that type.
\<close>

definition limit_given :: "'w MetadataService \<Rightarrow> 'w VolcEngin \<Rightarrow> 'w \<Rightarrow> int64 \<Rightarrow> bool" where
  "limit_given md volc w n \<longleftrightarrow>
     (\<exists>ty w1. md_InstanceType md w = Some (Ret ty, w1) \<and>
       (if ty = [] then n = defaultMaxVolumesPerNode
        else
          (let ((err, resp), w2) = sdk_DescribeInstanceTypes (svcClients volc)
             (zero_DescribeInstanceTypesInput\<lparr>DescribeInstanceTypesInput_InstanceTypes := [Some ty]\<rparr>) w1
           in if err = None \<and> length (DescribeInstanceTypesOutput_InstanceTypes resp) = 1 then
                (\<exists>t v c. DescribeInstanceTypesOutput_InstanceTypes resp = [Some t] \<and>
                   InstanceTypeForDescribeInstanceTypesOutput_Volume t = Some v \<and>
                   VolumeForDescribeInstanceTypesOutput_MaximumCount v = Some c \<and> n = scast c)
              else n = defaultMaxVolumesPerNode)))"

lemma DescribeInstanceTypes_run:
  assumes "VolcEngin_DescribeInstanceTypes volc ty w = Some (Ret r, w2)"
    and "sdk_DescribeInstanceTypes (svcClients volc)
      (zero_DescribeInstanceTypesInput\<lparr>DescribeInstanceTypesInput_InstanceTypes := [Some ty]\<rparr>) w = ((err, resp), w')"
  shows "if err = None \<and> length (DescribeInstanceTypesOutput_InstanceTypes resp) = 1
    then DescribeInstanceTypesOutput_InstanceTypes resp = [projr r] \<and> r = Inr (projr r) else isl r"
  using assms
  by (auto simp: VolcEngin_DescribeInstanceTypes_def bnd_def length_Suc_conv split: option.splits list.splits)

lemma max_volumes_given:
  assumes "max_volumes md volc w = Some (Ret maxVols, w')"
  shows "limit_given md volc w maxVols"
proof -
  from assms obtain ty w1 where name: "md_InstanceType md w = Some (Ret ty, w1)" and ty: "(if ty \<noteq> [] then bnd (VolcEngin_DescribeInstanceTypes volc ty) (\<lambda>r.
       case r of
         Inl e \<Rightarrow> ret defaultMaxVolumesPerNode
       | Inr p \<Rightarrow>
           bnd (deref p) (\<lambda>instanceType.
           bnd (deref (InstanceTypeForDescribeInstanceTypesOutput_Volume instanceType)) (\<lambda>v.
           bnd (deref (VolumeForDescribeInstanceTypesOutput_MaximumCount v)) (\<lambda>c. ret (scast c)))))
     else ret defaultMaxVolumesPerNode) w1 = Some (Ret maxVols, w')"
    unfolding max_volumes_def by (auto simp: bnd_Ret_iff)
  show ?thesis
  proof (cases "ty = []")
    case False
    with ty obtain r :: "error + InstanceTypeForDescribeInstanceTypesOutput option" and w2
      where run: "VolcEngin_DescribeInstanceTypes volc ty w1 = Some (Ret r, w2)"
      and r: "(case r of Inl e \<Rightarrow> ret defaultMaxVolumesPerNode
       | Inr p \<Rightarrow>
           bnd (deref p) (\<lambda>instanceType.
           bnd (deref (InstanceTypeForDescribeInstanceTypesOutput_Volume instanceType)) (\<lambda>v.
           bnd (deref (VolumeForDescribeInstanceTypesOutput_MaximumCount v)) (\<lambda>c. ret (scast c))))) w2 = Some (Ret maxVols, w')"
      unfolding if_P [OF False] bnd_Ret_iff by blast
    obtain err resp w3 where sdk: "sdk_DescribeInstanceTypes (svcClients volc)
        (zero_DescribeInstanceTypesInput\<lparr>DescribeInstanceTypesInput_InstanceTypes := [Some ty]\<rparr>) w1 = ((err, resp), w3)"
      by (metis surj_pair)
    from DescribeInstanceTypes_run [OF run sdk] r show ?thesis
      using False by (cases r) (auto simp: limit_given_def name sdk bnd_Ret_iff deref_Ret_iff split: if_splits)
  qed (use ty name in \<open>simp add: limit_given_def\<close>)
qed

lemma limit_given_range:
  "limit_given md volc w n \<Longrightarrow> n = defaultMaxVolumesPerNode \<or> (\<exists>c :: 32 word. n = scast c)"
  by (auto simp: limit_given_def Let_def split: if_splits prod.splits)

lemma reserve_volumes_bounds:
  assumes "0 \<le> sint n" and "sint n < 2 ^ 31" and "0 \<le> m" and "m \<le> 2 ^ k"
  shows "sint (reserve_volumes (m, k) n) = fl (sint n * m) div 2 ^ k"
    and "0 \<le> fl (sint n * m) div 2 ^ k" and "fl (sint n * m) div 2 ^ k \<le> sint n"
proof -
  have pos: "0 \<le> sint n * m" using assms(1,3) by simp
  have "sint n * m \<le> sint n * 2 ^ k" using assms(1,4) by (simp add: mult_left_mono)
  then have "fl (sint n * m) \<le> sint n * 2 ^ k" using assms(2) by (intro fl_le [OF pos]) simp_all
  then have "fl (sint n * m) div 2 ^ k \<le> sint n * 2 ^ k div 2 ^ k" by (rule zdiv_mono1) simp
  then show le: "fl (sint n * m) div 2 ^ k \<le> sint n" by simp
  show ge: "0 \<le> fl (sint n * m) div 2 ^ k" using fl_bounds(3) [OF pos] by (simp add: pos_imp_zdiv_nonneg_iff)
  have n: "fl (sint n) = sint n" using assms(1,2) by (intro fl_small) simp_all
  show "sint (reserve_volumes (m, k) n) = fl (sint n * m) div 2 ^ k"
    unfolding reserve_volumes_def n fst_conv snd_conv using le ge assms(2) by (intro sint_of_int_i64) simp_all
qed

lemma ebs_run_Runs:
  assumes "ebs_run merge getenv unmarshal env connect tk version f w = Some (Ret (Runs (d, cl)), w')"
  obtains nodeId maxVols volc w1 where "nodeId \<noteq> []"
    and "max_volumes (NewECSMetadataService (sts_net env) (fl_metadataURL f)) volc w1 = Some (Ret maxVols, w')"
    and "d = ebs_NewDriver (fl_name f) version nodeId maxVols (reserve_volumes (fl_reserve f) maxVols)"
    and "cl = VolcEngin_Cloud tk volc" and "device_by_volume_id (svcClients volc) = GetDeviceByVolumeID"
proof -
  let ?md = "NewECSMetadataService (sts_net env) (fl_metadataURL f)"
  from assms have "\<not> fl_showVersion f" by (cases "fl_showVersion f") (simp_all add: ebs_run_def)
  with assms obtain nodeId config r w2 w3 where node: "nodeId \<noteq> []"
    and r: "NewServiceClients env initial_vars config w2 = Some (Ret r, w3)"
    and rest: "(case r of Inl e \<Rightarrow> ret Stops
       | Inr (vars, clients) \<Rightarrow>
           (let volc = NewVolcEngin ((connect clients)\<lparr>device_by_volume_id := GetDeviceByVolumeID\<rparr>) (Region config) (Zone config)
            in bnd (max_volumes ?md volc) (\<lambda>maxVols.
               ret (Runs (ebs_NewDriver (fl_name f) version nodeId maxVols (reserve_volumes (fl_reserve f) maxVols),
                 VolcEngin_Cloud tk volc))))) w3 = Some (Ret (Runs (d, cl)), w')"
    unfolding ebs_run_def Let_def by (auto simp: bnd_Ret_iff simp del: NewVolcEngin_def split: if_split_asm)
  obtain vars clients where "r = Inr (vars, clients)"
    using rest by (cases r) auto
  with rest that [OF node] show thesis by (auto simp: Let_def bnd_Ret_iff)
qed

text \<open>
  The node service of a plugin that has started finds devices with \<open>GetDeviceByVolumeID\<close>, so what
  \<open>Node_Life\<close> shows of mounts holds of it, with devices that are the volume's (\<open>device_of_volume\<close>).
\<close>

lemma keeps_mtab_device: "keeps mtab (GetDeviceByVolumeID v)"
proof -
  have glob: "keeps mtab (glob_serial ns)" for ns
    by (induction ns) (auto intro!: keeps_bnd)
  have find: "keeps mtab (find_serial x ns)" for x ns
    by (induction ns) (auto intro!: keeps_bnd split: sum.split)
  show ?thesis
    unfolding GetDeviceByVolumeID_def getDeviceSerial_def resolve_link_def Let_def
    by (auto intro!: keeps_bnd keeps_bnd_os reads_keep glob find split: sum.split node.split os_error.split option.split)
qed

lemma started_lookup:
  assumes "ebs_run merge getenv unmarshal env connect tk version f (w :: 'x os) = Some (Ret (Runs (d, cl)), w')"
  shows "lookup_keeps cl" and "looked_up cl v dv \<Longrightarrow> \<exists>(m :: 'x os) m'. GetDeviceByVolumeID v m = Some (Ret (Inr dv), m')"
proof -
  obtain volc where cl: "cl = VolcEngin_Cloud tk volc" "device_by_volume_id (svcClients volc) = GetDeviceByVolumeID"
    using ebs_run_Runs [OF assms] by metis
  show "lookup_keeps cl"
    using keeps_mtab_device
    by (auto simp: lookup_keeps_def cl VolcEngin_Cloud_def VolcEngin_DevicePathByVolId_def intro!: keeps_bnd split: sum.split)
  show "\<exists>(m :: 'x os) m'. GetDeviceByVolumeID v m = Some (Ret (Inr dv), m')" if found: "looked_up cl v dv"
  proof -
    obtain m m' :: "'x os" where dv: "dv \<noteq> []" and "VolcEngin_DevicePathByVolId volc v m = Some (Ret dv, m')"
      using found by (auto simp: looked_up_def cl VolcEngin_Cloud_def)
    then obtain x w1 where run: "GetDeviceByVolumeID v m = Some (Ret x, w1)"
      and x: "(case x of Inl e \<Rightarrow> ret [] | Inr devicePath \<Rightarrow> ret devicePath) w1 = Some (Ret dv, m')"
      unfolding VolcEngin_DevicePathByVolId_def cl bnd_Ret_iff by blast
    then have "x = Inr dv" using dv by (cases x) simp_all
    with run show ?thesis by blast
  qed
qed

lemma div_between: "0 < (K :: int) \<Longrightarrow> x div K * K \<le> x \<and> x < (x div K + 1) * K"
proof -
  assume "0 < K"
  then have "0 \<le> x mod K" "x mod K < K" by simp_all
  moreover have "(x div K + 1) * K = x div K * K + K" by (simp only: distrib_right mult_1)
  ultimately show ?thesis using div_mult_mod_eq [of x K] by linarith
qed

lemma scaled_between:
  fixes a :: int
  assumes "a \<le> x \<and> x < b" and "x * c \<le> u" and "v \<le> x * c" and "0 < c"
  shows "a * c \<le> u" and "v < b * c"
  using assms mult_right_mono [of a x c] mult_strict_right_mono [of x b c] by linarith+

text \<open>C40: The limits a node announces are sound. If the EBS plugin starts, it has a node id, and its volume
  limit is the maximal count that the service answered for the instance type that the metadata server
  named, or the default 15 when no type was named or the service did not answer with just one type. If
  moreover that limit is not negative and the reserve factor is between 0 and 1, the volumes held back are
  the factor's share of the limit rounded down (up to the rounding of \<open>float64\<close>), never more
  than the limit, so that NodeGetInfo announces the difference, between 0 and the limit,
  without a wrap-around.\<close>

theorem startup_limits:
  assumes "ebs_run merge getenv unmarshal env connect tk version f w = Some (Ret (Runs (d, cl)), w')"
  shows "NodeID (csi_driver d) \<noteq> [] \<and>
    (\<exists>volc w1. cl = VolcEngin_Cloud tk volc \<and>
      limit_given (NewECSMetadataService (sts_net env) (fl_metadataURL f)) volc w1 (maxVolumesPerNode d)) \<and>
    (\<forall>m k. fl_reserve f = (m, k) \<and> 0 \<le> m \<and> m \<le> 2 ^ k \<and> 0 \<le> sint (maxVolumesPerNode d) \<longrightarrow>
      sint (reserveVolumesPerNode d) * 2 ^ k * 2 ^ 53 \<le> sint (maxVolumesPerNode d) * m * (2 ^ 53 + 1) \<and>
      sint (maxVolumesPerNode d) * m * (2 ^ 53 - 1) < (sint (reserveVolumesPerNode d) + 1) * 2 ^ k * 2 ^ 53 \<and>
      (\<exists>info. NodeSvc_NodeGetInfo d cl = Inr info \<and>
        sint (ni_MaxVolumesPerNode info) = sint (maxVolumesPerNode d) - sint (reserveVolumesPerNode d) \<and>
        0 \<le> sint (ni_MaxVolumesPerNode info) \<and> sint (ni_MaxVolumesPerNode info) \<le> sint (maxVolumesPerNode d)))"
proof -
  let ?md = "NewECSMetadataService (sts_net env) (fl_metadataURL f)"
  obtain nodeId maxVols volc w1 where node: "nodeId \<noteq> []" and max: "max_volumes ?md volc w1 = Some (Ret maxVols, w')"
    and d: "d = ebs_NewDriver (fl_name f) version nodeId maxVols (reserve_volumes (fl_reserve f) maxVols)"
    and cl: "cl = VolcEngin_Cloud tk volc"
    using ebs_run_Runs [OF assms] by metis
  note given = max_volumes_given [OF max]
  have reserve: "sint (reserveVolumesPerNode d) * 2 ^ k * 2 ^ 53 \<le> sint (maxVolumesPerNode d) * m * (2 ^ 53 + 1) \<and>
      sint (maxVolumesPerNode d) * m * (2 ^ 53 - 1) < (sint (reserveVolumesPerNode d) + 1) * 2 ^ k * 2 ^ 53 \<and>
      (\<exists>info. NodeSvc_NodeGetInfo d cl = Inr info \<and>
        sint (ni_MaxVolumesPerNode info) = sint (maxVolumesPerNode d) - sint (reserveVolumesPerNode d) \<and>
        0 \<le> sint (ni_MaxVolumesPerNode info) \<and> sint (ni_MaxVolumesPerNode info) \<le> sint (maxVolumesPerNode d))"
    if f: "fl_reserve f = (m, k)" "0 \<le> m" "m \<le> 2 ^ k" "0 \<le> sint (maxVolumesPerNode d)" for m k
  proof -
    let ?n = "sint maxVols" and ?r = "sint (reserve_volumes (m, k) maxVols)"
    have "\<And>c :: 32 word. sint c < 2 ^ 31" using sint_lt [where 'a = 32] by simp
    then have n: "0 \<le> ?n" "?n < 2 ^ 31"
      using limit_given_range [OF given] f(4) d by (auto simp: defaultMaxVolumesPerNode_def sint_scast_32)
    note r = reserve_volumes_bounds [OF n f(2,3)]
    have pos: "0 \<le> ?n * m" using n f(2) by simp
    have "?r * 2 ^ k \<le> fl (?n * m) \<and> fl (?n * m) < (?r + 1) * 2 ^ k"
      unfolding r(1) by (rule div_between) simp
    then have "?r * 2 ^ k * 2 ^ 53 \<le> ?n * m * (2 ^ 53 + 1)" "?n * m * (2 ^ 53 - 1) < (?r + 1) * 2 ^ k * 2 ^ 53"
      by (rule scaled_between [OF _ fl_bounds(1,2) [OF pos]]; simp)+
    moreover have "sint (maxVols - reserve_volumes (m, k) maxVols) = ?n - ?r"
      using n r by (intro sint_diff_i64) simp_all
    ultimately show ?thesis using r by (simp add: d f(1) NodeSvc_NodeGetInfo_def)
  qed
  have "maxVolumesPerNode d = maxVols" "NodeID (csi_driver d) = nodeId" by (simp_all add: d)
  then show ?thesis using node given cl reserve by auto
qed

text \<open>A node whose metadata server does not answer, started with its id and keys in the
  environment: 15 volumes, of which 4 are held back.\<close>

definition lone_env :: "('x os) sts_env" where
  "lone_env = \<lparr>sts_net = \<lparr>http_Get = (\<lambda>url w. (Inl (PlainError ''refused''), w)),
       dial_host = (\<lambda>_ w. (Some (PlainError ''refused''), w)), url_host = (\<lambda>_. Inr [])\<rparr>,
     decode_credential = (\<lambda>_. Inr None), new_session = (\<lambda>_ w. (None, w)), time_now = (\<lambda>_. 0)\<rparr>"

lemma lone_config:
  "\<exists>w. loadOpenapiConfig (\<lambda>c d. Ret (case d of None \<Rightarrow> c | Some e \<Rightarrow> fill c e)) (\<lambda>v. v) (\<lambda>_. (zero_Config, None))
     (fl_configFile ebs_flags) (NewECSMetadataService (sts_net lone_env) (fl_metadataURL ebs_flags)) (example_machine []) =
     Some (Ret \<lparr>AccessKeyId = ''VOLC_ACCESSKEYID'', SecretAccessKey = ''VOLC_SECRETACCESSKEY'', SessionToken = [],
       AssumeRoleName = ''VOLC_ASSUMEROLENAME'', Region = ''VOLC_REGION'', Zone = ''VOLC_ZONE'', Host = ''VOLC_HOST''\<rparr>, w)"
  (is "\<exists>w. ?load = Some (Ret ?c, w)")
proof -
  have "map_option fst ?load = Some (Ret ?c)" by code_simp
  then show ?thesis by (auto simp: map_option_case split: option.splits)
qed

lemma reserve_15: "reserve_volumes (5404319552844595, 54) 15 = 4"
proof -
  have "bit_len 81064793292668925 = Suc 56" by (rule bit_len_eq) simp_all
  moreover have "bit_len 15 = Suc 3" by (rule bit_len_eq) simp_all
  ultimately show ?thesis by (simp add: reserve_volumes_def fl_def round53_def Let_def)
qed

lemma lone_starts:
  "\<exists>d cl w'. ebs_run (\<lambda>c d. Ret (case d of None \<Rightarrow> c | Some e \<Rightarrow> fill c e)) (\<lambda>v. v) (\<lambda>_. (zero_Config, None))
     lone_env connect tk ''v1'' (ebs_flags\<lparr>fl_nodeId := ''i-1''\<rparr>) (example_machine []) = Some (Ret (Runs (d, cl)), w') \<and>
     maxVolumesPerNode d = 15 \<and> reserveVolumesPerNode d = 4"
proof -
  obtain w where load: "loadOpenapiConfig (\<lambda>c d. Ret (case d of None \<Rightarrow> c | Some e \<Rightarrow> fill c e)) (\<lambda>v. v) (\<lambda>_. (zero_Config, None))
     (fl_configFile ebs_flags) (NewECSMetadataService (sts_net lone_env) (fl_metadataURL ebs_flags)) (example_machine []) =
     Some (Ret \<lparr>AccessKeyId = ''VOLC_ACCESSKEYID'', SecretAccessKey = ''VOLC_SECRETACCESSKEY'', SessionToken = [],
       AssumeRoleName = ''VOLC_ASSUMEROLENAME'', Region = ''VOLC_REGION'', Zone = ''VOLC_ZONE'', Host = ''VOLC_HOST''\<rparr>, w)"
    using lone_config by blast
  have runs: "\<not> fl_showVersion ebs_flags" by (simp add: ebs_flags_def)
  have max: "max_volumes (NewECSMetadataService (sts_net lone_env) u) volc w = Some (Ret 15, w)" for u volc
    by (simp add: max_volumes_def NewECSMetadataService_def ecs_get_def HttpGet_def lone_env_def bnd_def defaultMaxVolumesPerNode_def)
  have factor: "fl_reserve ebs_flags = (5404319552844595, 54)" by (simp add: ebs_flags_def)
  have session: "new_session lone_env c w = (None, w)" for c by (simp add: lone_env_def)
  show ?thesis
    by (simp add: ebs_run_def Let_def runs find_node_id_def bnd_def load factor)
      (simp add: NewServiceClients_def Let_def open_session_def session max bnd_def reserve_15)
qed

theorem startup_limits_witness:
  "\<forall>connect tk. \<exists>d cl w'. ebs_run (\<lambda>c d. Ret (case d of None \<Rightarrow> c | Some e \<Rightarrow> fill c e)) (\<lambda>v. v) (\<lambda>_. (zero_Config, None))
      lone_env connect tk ''v1'' (ebs_flags\<lparr>fl_nodeId := ''i-1''\<rparr>) (example_machine []) = Some (Ret (Runs (d, cl)), w') \<and>
    sint (maxVolumesPerNode d) = 15 \<and> sint (reserveVolumesPerNode d) = 4 \<and>
    sint (reserveVolumesPerNode d) * 2 ^ 54 * 2 ^ 53 \<le> sint (maxVolumesPerNode d) * 5404319552844595 * (2 ^ 53 + 1)"
proof (intro allI)
  fix connect :: "ServiceClients \<Rightarrow> machine sdk" and tk
  let ?f = "ebs_flags\<lparr>fl_nodeId := ''i-1''\<rparr>"
  let ?run = "ebs_run (\<lambda>c d. Ret (case d of None \<Rightarrow> c | Some e \<Rightarrow> fill c e)) (\<lambda>v. v) (\<lambda>_. (zero_Config, None))
    lone_env connect tk ''v1'' ?f (example_machine [])"
  obtain d cl w' where run: "?run = Some (Ret (Runs (d, cl)), w')" and d: "maxVolumesPerNode d = 15" "reserveVolumesPerNode d = 4"
    using lone_starts by blast
  have f: "fl_reserve ?f = (5404319552844595, 54)" by (simp add: ebs_flags_def)
  have "sint (reserveVolumesPerNode d) * 2 ^ 54 * 2 ^ 53 \<le> sint (maxVolumesPerNode d) * 5404319552844595 * (2 ^ 53 + 1)"
    using startup_limits [OF run] f d by simp
  with run d show "\<exists>d cl w'. ?run = Some (Ret (Runs (d, cl)), w') \<and> sint (maxVolumesPerNode d) = 15 \<and>
      sint (reserveVolumesPerNode d) = 4 \<and>
      sint (reserveVolumesPerNode d) * 2 ^ 54 * 2 ^ 53 \<le> sint (maxVolumesPerNode d) * 5404319552844595 * (2 ^ 53 + 1)"
    by (intro exI [of _ d] exI [of _ cl] exI [of _ w']) simp
qed

end
