(* ===== verification/Plugins.thy ===== *)
theory Plugins
  imports Startup Services Launcher
begin

text \<open>
  The \<open>main\<close> functions: from the command line to a server with its services, or to the exit
  status of the process. The parser of the command line (\<open>cobra\<close>) is a parameter: given the
  flags with their defaults and the arguments, it refuses them, prints its help, or has the
  flags set. Also the registration of the metrics with their listener, and the launcher's
  \<open>main\<close>.
\<close>

section \<open>The command lines\<close>

record command_line =
  cl_flags :: flags
  cl_endpoint :: string
  cl_httpEndpoint :: string
  cl_topology :: topology_keys

definition ebs_command :: command_line where
  "ebs_command = \<lparr>cl_flags = ebs_flags, cl_endpoint = ''unix:///tmp/csi.sock'', cl_httpEndpoint = [],
     cl_topology = default_topology_keys\<rparr>"

definition nas_command :: command_line where
  "nas_command = ebs_command\<lparr>cl_flags := nas_flags\<rparr>"

definition tos_command :: command_line where
  "tos_command = ebs_command\<lparr>cl_flags := tos_flags\<rparr>"

type_synonym parser = "command_line \<Rightarrow> string list \<Rightarrow> error + command_line option"

text \<open>A process ends with a status, or serves for ever.\<close>

datatype 's process = Ended nat | Serves 's

definition execute :: "parser \<Rightarrow> command_line \<Rightarrow> (command_line \<Rightarrow> ('w, 's process) go) \<Rightarrow> string list \<Rightarrow> ('w, 's process) go" where
  "execute parse defaults command args =
     (case parse defaults args of
        Inl e \<Rightarrow> ret (Ended 1)
      | Inr None \<Rightarrow> ret (Ended 0)
      | Inr (Some c) \<Rightarrow> command c)"

text \<open>A \<open>run\<close> that returns lets \<open>main\<close> return too, with status 0; \<open>klog.Fatal\<close> gives 255.\<close>

definition served_by :: "('d \<Rightarrow> 'w \<Rightarrow> 's option) \<Rightarrow> 'd started \<Rightarrow> ('w, 's process) go" where
  "served_by Run r w =
     (case r of
        Exits n \<Rightarrow> Some (Ret (Ended n), w)
      | Stops \<Rightarrow> Some (Ret (Ended 0), w)
      | Runs d \<Rightarrow> Some (Ret (case Run d w of None \<Rightarrow> Ended 255 | Some s \<Rightarrow> Serves s), w))"

section \<open>The three plugins\<close>

definition ebs_main ::
  "parser \<Rightarrow> (Config \<Rightarrow> Config option \<Rightarrow> Config outcome) \<Rightarrow> (string \<Rightarrow> string) \<Rightarrow> (string \<Rightarrow> Config \<times> error option)
     \<Rightarrow> ('x os) sts_env \<Rightarrow> (ServiceClients \<Rightarrow> ('x os) sdk) \<Rightarrow> 'x os host \<Rightarrow> string \<Rightarrow> string list
     \<Rightarrow> ('x os, ('x os plugin services \<times> start_args \<times> 'x os plugin) process) go" where
  "ebs_main parse merge getenv unmarshal env connect nodeMounter version args =
     execute parse ebs_command (\<lambda>c.
       bnd (ebs_run merge getenv unmarshal env connect (cl_topology c) version (cl_flags c))
         (served_by (\<lambda>(d, cloud) w. Some (ebs_Run (cl_topology c) nodeMounter d (cl_endpoint c) cloud w)))) args"

definition nas_main ::
  "parser \<Rightarrow> (Config \<Rightarrow> Config option \<Rightarrow> Config outcome) \<Rightarrow> (string \<Rightarrow> string) \<Rightarrow> (string \<Rightarrow> Config \<times> error option)
     \<Rightarrow> ('x os) net \<Rightarrow> 'x os host \<Rightarrow> error option \<Rightarrow> error + ('x os) nas_env \<Rightarrow> string \<Rightarrow> string list
     \<Rightarrow> ('x os, ('x os services \<times> start_args) process) go" where
  "nas_main parse merge getenv unmarshal n h inClusterConfig newForConfig version args =
     execute parse nas_command (\<lambda>c.
       bnd (nas_run merge getenv unmarshal n version (cl_flags c))
         (served_by (\<lambda>d w. nas_Run h inClusterConfig newForConfig d (cl_endpoint c)))) args"

definition tos_main ::
  "parser \<Rightarrow> ('x os) net \<Rightarrow> 'x os host \<Rightarrow> ('x os) tos_env \<Rightarrow> (attributes \<Rightarrow> (string \<times> string) list) \<Rightarrow> string \<Rightarrow> string list
     \<Rightarrow> ('x os, ('x os services \<times> start_args) process) go" where
  "tos_main parse n h env order version args =
     execute parse tos_command (\<lambda>c.
       bnd (tos_run n version (cl_flags c)) (served_by (\<lambda>d w. Some (tos_Run h env order d (cl_endpoint c))))) args"

section \<open>The metrics\<close>

text \<open>The registry of the library, and \<open>registerOnce\<close>. \<open>MustRegister\<close> panics on a name it has.\<close>

record metrics_registry =
  registered :: "string list"
  registerOnce :: bool

definition MustRegister :: "string \<Rightarrow> metrics_registry \<Rightarrow> metrics_registry outcome" where
  "MustRegister n r = (if n \<in> set (registered r) then Panic else Ret (r\<lparr>registered := registered r @ [n]\<rparr>))"

definition RegisterMetrics :: "metrics_registry \<Rightarrow> metrics_registry outcome" where
  "RegisterMetrics r =
     (if registerOnce r then Ret r
      else case MustRegister ''volc_api_request_duration_seconds'' (r\<lparr>registerOnce := True\<rparr>) of
        Panic \<Rightarrow> Panic
      | Ret r1 \<Rightarrow> (case MustRegister ''volc_api_request_errors'' r1 of
          Panic \<Rightarrow> Panic
        | Ret r2 \<Rightarrow> MustRegister ''volc_api_throttled_requests_total'' r2))"

text \<open>The goroutine of the listener ends the process when it cannot listen or serve.\<close>

definition serve_metrics :: "(string \<Rightarrow> error option) \<Rightarrow> string \<Rightarrow> nat option" where
  "serve_metrics listenAndServe httpEndpoint =
     (if httpEndpoint = [] then None
      else case listenAndServe httpEndpoint of None \<Rightarrow> None | Some e \<Rightarrow> Some 1)"

lemma RegisterMetrics_twice: "RegisterMetrics r = Ret r' \<Longrightarrow> RegisterMetrics r' = Ret r'"
  by (auto simp: RegisterMetrics_def MustRegister_def split: if_splits)

section \<open>The launcher\<close>

text \<open>The router answers 404 to another path and 405 to another method.\<close>

definition launcher_route :: "'w host \<Rightarrow> string \<Rightarrow> string \<Rightarrow> error + string \<Rightarrow> ('w, http_response) go" where
  "launcher_route h httpMethod path request =
     (if path \<noteq> ''/launcher'' then ret \<lparr>StatusCode = 404, RespBody = ''404 page not found''\<rparr>
      else if httpMethod \<noteq> ''POST'' then ret \<lparr>StatusCode = 405, RespBody = []\<rparr>
      else launcherHandler h request)"

definition launcher_main :: "(string \<Rightarrow> string \<Rightarrow> 'x os \<Rightarrow> error option \<times> 'x os) \<Rightarrow> ('x os, unit process) go" where
  "launcher_main listen =
     bnd prepareSocketDir (\<lambda>_.
     bnd (call (listen ''unix'' SocketPath)) (\<lambda>err.
     ret (case err of Some e \<Rightarrow> Ended 0 | None \<Rightarrow> Serves ())))"

section \<open>From the command line to an answer\<close>

lemma execute_Serves:
  "execute parse defaults command args w = Some (Ret (Serves s), w') \<longleftrightarrow>
     (\<exists>c. parse defaults args = Inr (Some c) \<and> command c w = Some (Ret (Serves s), w'))"
  by (auto simp: execute_def split: sum.split option.split)

lemma served_by_Serves:
  "served_by Run r w = Some (Ret (Serves s), w') \<longleftrightarrow> (\<exists>d. r = Runs d \<and> Run d w = Some s \<and> w' = w)"
  by (auto simp: served_by_def split: started.split option.split)

text \<open>
  An EBS plugin that serves registers all three services at the endpoint of its command line, with
  nothing in flight, and answers NodeGetInfo with a node id and the topology of its
  configuration under the keys of the command line.
\<close>

theorem ebs_main_serves:
  assumes "ebs_main parse merge getenv unmarshal env connect h version args w = Some (Ret (Serves (sv, a, s)), w')"
  shows "\<exists>c. parse ebs_command args = Inr (Some c) \<and> sa_endpoint a = cl_endpoint c \<and>
    sa_ids a \<and> sa_cs a \<and> sa_ns a \<and> \<not> sa_testMode a \<and> outside s = w' \<and>
    controller_table s = NewInFlight \<and> node_table s = NewInFlight \<and>
    (\<exists>info region zone. \<forall>t. the (handler_of sv Node) NodeGetInfoReq t = Some (Ret (Inr (NodeInfoResp info)), t) \<and>
      ni_NodeId info \<noteq> [] \<and>
      ni_Segments info = [TopologyRegionKey (cl_topology c) \<mapsto> region, TopologyZoneKey (cl_topology c) \<mapsto> zone])"
proof -
  obtain c d cl where c: "parse ebs_command args = Inr (Some c)"
    and run: "ebs_run merge getenv unmarshal env connect (cl_topology c) version (cl_flags c) w = Some (Ret (Runs (d, cl)), w')"
    and Run: "ebs_Run (cl_topology c) h d (cl_endpoint c) cl w' = (sv, a, s)"
    using assms by (auto simp: ebs_main_def execute_Serves bnd_Ret_iff served_by_Serves)
  obtain nodeId volc maxVols where d: "nodeId \<noteq> []" "cl = VolcEngin_Cloud (cl_topology c) volc"
    "d = ebs_NewDriver (fl_name (cl_flags c)) version nodeId maxVols (reserve_volumes (fl_reserve (cl_flags c)) maxVols)"
    using ebs_run_Runs [OF run] by metis
  let ?info = "\<lparr>ni_NodeId = NodeID (csi_driver d), ni_MaxVolumesPerNode = maxVolumesPerNode d - reserveVolumesPerNode d,
    ni_Segments = cloud_Topology cl\<rparr>"
  have answers: "the (handler_of sv Node) NodeGetInfoReq t = Some (Ret (Inr (NodeInfoResp ?info)), t)" for t
    using Run by (auto simp: ebs_Run_def Let_def handler_of_def ebs_node_def NewNodeSvc_def answer_def bndE_def bnd_def
        NodeSvc_NodeGetInfo_def)
  have "ni_NodeId ?info \<noteq> []" "ni_Segments ?info =
      [TopologyRegionKey (cl_topology c) \<mapsto> VolcEngin.region volc, TopologyZoneKey (cl_topology c) \<mapsto> VolcEngin.zone volc]"
    by (simp_all add: d VolcEngin_Cloud_def VolcEngin_Topology_def)
  with answers have "\<exists>info region zone. \<forall>t. the (handler_of sv Node) NodeGetInfoReq t = Some (Ret (Inr (NodeInfoResp info)), t) \<and>
      ni_NodeId info \<noteq> [] \<and>
      ni_Segments info = [TopologyRegionKey (cl_topology c) \<mapsto> region, TopologyZoneKey (cl_topology c) \<mapsto> zone]"
    by blast
  with c Run show ?thesis
    by (auto simp: ebs_Run_def Let_def start_args_of_def NewControllerSvc_def NewNodeSvc_def)
qed

end
