(* ===== verification/Spec2Isabelle.thy ===== *)
theory Spec2Isabelle
  imports EBS_Guarantees Fake_Store Attach_Limit Responses Nas_Publish Tos_Facts Plugins
begin

text \<open>
  A model of the Volcengine CSI driver: the three plugins \<open>ebsplugin\<close>, \<open>nasplugin\<close> and
  \<open>tosplugin\<close>, which let Kubernetes make, attach and mount block volumes (EBS), NFS directories
  (NAS) and object-storage buckets (TOS), and the launcher that runs the TOS mounts.

  \<^bold>\<open>The parts and how they interact.\<close> A plugin is a gRPC server with an identity, a controller
  and a node service. At start it finds its node id, loads its configuration and makes the
  SDK clients, whose role token a goroutine renews. The EBS controller works on volumes
  through the interface \<open>Cloud\<close>, which \<open>VolcEngin\<close> implements by SDK requests and polling; a
  table of requests in flight keeps two handlers from working under the same key. The EBS
  node service finds the disk of a volume in \<open>/sys\<close>, formats, mounts, resizes and measures it
  through \<open>k8s.io/mount-utils\<close>. The NAS services make, archive and remove directories of an NFS
  server that they mount temporarily. The TOS node service posts an \<open>s3fs\<close> command to the
  launcher and waits for the mount to appear.

  \<^bold>\<open>How code is modelled.\<close> A function with effects is a value of type \<open>('w, 'a) go\<close>
  (\<open>Prelude\<close>): a function on the state of everything it can reach that may not return, may
  return or may panic (nil pointers, slices out of range). A Go result \<open>(T, error)\<close> is a sum,
  error left. Integers have their width (\<open>int64\<close> is \<open>64 word\<close>, with Go's division), floats of
  the two places that use them are integers over a power of two, rounded to 53 bits (\<open>fl\<close>).
  Strings are lists of characters, taken as bytes. Structures are records with the field
  names of the source, maps are partial functions or association lists where the order of a
  \<open>range\<close> loop matters. Definitions have the names of the functions they model, prefixed by
  the service where names repeat (\<open>ControllerSvc_\<close>, \<open>NodeSvc_\<close>, \<open>VolcEngin_\<close>, \<open>fake_\<close>, \<open>nas_\<close>,
  \<open>tos_\<close>); the part of a handler after its guard is named \<open>_body\<close>.

  \<^bold>\<open>Theories\<close> (paths under \<open>src/\<close>):
    \<^item> \<open>Prelude\<close>, \<open>Go_Strings\<close>, \<open>Go_Path\<close>, \<open>Go_JSON\<close>, \<open>Go_OS\<close>: the Go library as far as it is used: effects,
      \<open>strings\<close> and \<open>strconv\<close>, \<open>path/filepath\<close>, \<open>encoding/json\<close>, and \<open>os\<close> on a machine with file
      trees, symbolic links, a mount table, and system calls that may fail at any point.
    \<^item> \<open>CSI_Types\<close>: the messages of the CSI protocol. \<open>CSI_Common\<close>, \<open>Server\<close>: \<open>pkg/csi-common\<close>, the
      second its gRPC server with its goroutines as a step relation, and the logging interceptor.
    \<^item> \<open>Services\<close>: the \<open>Run\<close> of the three drivers: the services they register, as functions from
      requests to answers, through the interceptor (\<open>rpc\<close>).
    \<^item> \<open>InFlight\<close>: \<open>pkg/util/inflight\<close>, handlers one at a time and concurrently.
    \<^item> \<open>EBS_API\<close>, \<open>EBS_Types\<close>: \<open>pkg/ebs/types\<close>, \<open>pkg/ebs/consts\<close>. \<open>EBS_Cloud\<close>: \<open>pkg/ebs/cloud.go\<close> and
      \<open>cloud_interface.go\<close>. \<open>EBS_Driver\<close>: \<open>ebs.go\<close>, \<open>identitysvc.go\<close>. \<open>EBS_Controller\<close>: \<open>controllersvc.go\<close>.
      \<open>EBS_Node\<close>: \<open>nodesvc.go\<close>, \<open>utils.go\<close>. \<open>Fake_Cloud\<close>: the cloud of \<open>sanity_test.go\<close>.
    \<^item> \<open>Util\<close>: \<open>pkg/util/util.go\<close> and \<open>mounter.go\<close>. \<open>Config_Load\<close>: \<open>pkg/util/http.go\<close>, \<open>pkg/metadata\<close>,
      \<open>pkg/openapi\<close>. \<open>Sts\<close>: \<open>pkg/sts\<close>, \<open>pkg/ebs/metrics\<close>. \<open>Startup\<close>, \<open>Plugins\<close>:
      \<open>cmd/*/main.go\<close>, the second their \<open>main\<close> from the command line to the services.
    \<^item> \<open>Nas\<close>: \<open>pkg/nas\<close>. \<open>Tos\<close>: \<open>pkg/tos\<close>. \<open>Launcher\<close>: \<open>build/tosplugin/launcher.go\<close>.
    \<^item> \<open>Go_WP\<close> (weakest preconditions of \<open>go\<close>), \<open>EBS_Wait\<close>, \<open>EBS_Controller_Facts\<close>, \<open>EBS_Guarantees\<close>,
      \<open>EBS_Node_Facts\<close>, \<open>Nas_Paths\<close>, \<open>Nas_Facts\<close>, \<open>Nas_Delete\<close>, \<open>Nas_Publish\<close>, \<open>Tos_Facts\<close>, \<open>Services_Facts\<close>,
      \<open>Responses\<close>: lemmas and properties.
    \<^item> \<open>Node_Mounts\<close>: the table of mounts that the node service refines, and what the mount library
      documents (\<open>mount_host\<close>). \<open>Node_Life\<close>: runs of the node service and their mounts.
    \<^item> \<open>Volume_Spec\<close>: the abstract store of volumes, which the controller refines over a cloud that keeps
      the contract \<open>volume_cloud\<close>. \<open>Fake_Store\<close> shows the contract for the test cloud, \<open>Client_Store\<close> for
      the real client over a service that keeps \<open>service_keeps\<close>, \<open>Client_Refines\<close> draws the conclusion.
      \<open>Sim_SDK\<close> is a small service behind the SDK: it shows that the hypotheses can hold, and it is
      the service that the race of two publishes (\<open>Attach_Limit\<close>) is run on.
    \<^item> \<open>EBS_Threads\<close>: the handlers of \<open>controllersvc.go\<close> that change volumes once more, as threads that
      stop before every call of the cloud, and any number of them interleaved (\<open>crowd_run\<close>); run
      without interruption they are the handlers of \<open>EBS_Controller\<close> (\<open>on_its_own_handlers\<close>).
      \<open>Create_Race\<close>: names stay unique in every interleaving, by a rely/guarantee argument over
      the table of requests in flight. \<open>Attach_Limit\<close>: the limit of volumes on a node.

  \<^bold>\<open>What is shown.\<close>
    \<^item> The table: mutual exclusion under any interleaving; no handler leaks a key, whether it
      returns or panics (locale \<open>running_set\<close>).
    \<^item> The cloud client: its polls return before the deadline (\<open>has_deadline\<close>, \<open>runs_down\<close> bound
      the number of rounds), and what it reports was observed (locale \<open>observed_cloud\<close>): a
      created volume available, a published one attached, an expanded one large enough, a
      deleted one gone.
    \<^item> The controller: idempotent creation (locale \<open>lookup_cloud\<close>), refusals, zones; and
      the refinement of an abstract store of volumes with at most one holder by the handlers
      (locale \<open>volume_cloud\<close>), so names stay unique and volumes stay with their node; both over
      the test cloud, whose operations are one step each, and over the real client with its
      requests, polls and rounded sizes.
    \<^item> Concurrent requests: CreateVolume looks up and creates in two calls, and still no
      interleaving gives two volumes one name (locale \<open>racing_cloud\<close>). ControllerPublishVolume
      counts and attaches in two calls without a key: the attach limit holds one request after
      another (locale \<open>counting_cloud\<close>), not for two at once. A call of the cloud with its polls is one
      step, and no other thread runs during its waits: the
      request in it takes effect at one moment, the polls around it only read.
    \<^item> The node service: the disk found is the volume's, the system disk is never formatted, a
      successful publish has mounted, a successful expansion was measured. Runs of it refine a
      table of mounts; staging, publishing, unpublishing and unstaging leave it as it was.
    \<^item> NAS: creation makes the directory on the server (locale \<open>step_order\<close> orders the steps of a
      call), deletion stays inside the volume's directory and undoes creation, archiving
      keeps the data; option and path parsing. TOS: options, success and failure of a
      publish, the launcher runs exactly the command of the plugin.
    \<^item> The server and the services: every interleaving registers the services before it serves;
      each plugin answers Unimplemented to exactly the requests of a list (\<open>ebs_gap\<close>, \<open>nas_gap\<close>,
      \<open>tos_gap\<close>), and two gaps are announced and on the list: ListSnapshots without an id of the EBS
      driver and ControllerExpandVolume of the NAS driver; every answer of the EBS
      plugin is well formed for its request.
    \<^item> Start-up: precedence of the configuration sources, each read in the state in which its loader
      runs (\<open>file_source\<close>, \<open>server_source\<close>); the announced volume limits, from the count that the
      service gave (\<open>limit_given\<close>).
    \<^item> The refresh of the role token, statement by statement beside the start that assigns the clients
      (\<open>refresher_step\<close>; an undisturbed call is \<open>refreshToken\<close>, lemma \<open>refreshToken_moves\<close>): the
      credentials of the clients do not expire in use if they live for the window and one gap when
      given out; with the window alone the start can put old clients over the renewed ones (lemma
      \<open>clients_stay_old\<close>).
    \<^item> Places where the code fails are theorems too: panics; a path of two slashes that removes
      everything that the export holds; a repeated publish that takes away the mount in use when the
      launcher cannot be reached.

  \<^bold>\<open>Bounds and fuel.\<close> Links are followed 255 times at most, as the library does. The JSON
  parser has the length of the text as fuel, which every level of nesting uses up slower
  (\<open>Unmarshal_Marshal\<close> shows that it suffices for what the program writes). The wait for a
  TOS mount has the twenty tries of the code. Polls without a bound of their own are partial
  functions; the deadline of the request context is what ends them. The ids of the test
  cloud are random numbers; the refinement assumes as many different ones as requests.

  \<^bold>\<open>Parameters.\<close> Not under \<open>src/\<close>, hence arguments: the SDK and the service behind it (\<open>sdk\<close>), mount
  and resize helpers and programs that are run (\<open>host\<close>), HTTP, YAML and \<open>mergo.Merge\<close>, SHA-256,
  the clock, the Kubernetes client (\<open>nas_env\<close>).

  \<^bold>\<open>Not modelled.\<close> The gRPC library (a list of the calls made on it), the parser of the command
  line (a parameter): library code. The fields of request and
  response that no code reads. Readers of an SDK client at the moment
  at which the token refresh replaces it (a data race; the refresh itself is modelled). The test mounter and the unit tests; charts,
  manifests and scripts.
\<close>

end
